(* ===== verification/Prelude.thy ===== *)
theory Prelude
  imports Main "HOL-Library.Product_Lexorder" "HOL-Library.Multiset"
begin

text \<open>
  Shared vocabulary of the development: the collections of facts the component
  theories feed their automation with, the Python built-ins the sources call
  (\<open>range\<close> with a step) and generic lemmas on lists that several components use
  (snoc on \<^const>\<open>sorted_wrt\<close>, \<^const>\<open>find\<close> over a list with distinct keys,
  \<^const>\<open>remove1\<close> on a distinct list).  Python integers are unbounded and are
  modelled as \<^typ>\<open>int\<close> throughout; every identifier of the database is such an
  integer.
\<close>

named_theorems plan_simps "evaluation rules of the timetable planner"
named_theorems oturma_simps "evaluation rules of the seat layout and seat engines"
named_theorems kayit_simps "evaluation rules of the persistence layer"

type_synonym kimlik = int \<comment> \<open>a database row id (Python \<open>int\<close>)\<close>
type_synonym dakika = int \<comment> \<open>a point in time, in minutes since 0001-01-01 00:00\<close>
type_synonym aralik = "dakika \<times> dakika" \<comment> \<open>a half-open interval \<open>[start, end)\<close>\<close>

subsection \<open>Python's \<open>range(start, stop, step)\<close> for a positive step\<close>

function py_range :: "int \<Rightarrow> int \<Rightarrow> int \<Rightarrow> int list" where
  "py_range a b s = (if 0 < s \<and> a < b then a # py_range (a + s) b s else [])"
  by pat_completeness auto
termination
  by (relation "measure (\<lambda>(a, b, s). nat (b - a))") auto

declare py_range.simps [simp del]

lemma dvd_shift_int: "(s::int) dvd (c - (a + s)) \<longleftrightarrow> s dvd (c - a)"
proof -
  have "c - a = (c - (a + s)) + s" by simp
  then show ?thesis by (metis dvd_add_left_iff dvd_refl)
qed

lemma dvd_step_int:
  assumes "0 < (s::int)"
  shows "(a \<le> c \<and> s dvd (c - a)) \<longleftrightarrow> (c = a \<or> (a + s \<le> c \<and> s dvd (c - (a + s))))"
proof
  assume h: "a \<le> c \<and> s dvd (c - a)"
  show "c = a \<or> (a + s \<le> c \<and> s dvd (c - (a + s)))"
  proof (cases "c = a")
    case False
    with h have "0 < c - a" by simp
    with h have "s \<le> c - a" by (simp add: zdvd_imp_le)
    with h show ?thesis by (simp add: dvd_shift_int)
  qed simp
next
  assume "c = a \<or> (a + s \<le> c \<and> s dvd (c - (a + s)))"
  with assms show "a \<le> c \<and> s dvd (c - a)" by (auto simp: dvd_shift_int)
qed

lemma set_py_range:
  assumes "0 < s"
  shows "set (py_range a b s) = {c. a \<le> c \<and> c < b \<and> s dvd (c - a)}"
  using assms
proof (induction a b s rule: py_range.induct)
  case (1 a b s)
  show ?case
  proof (cases "a < b")
    case True
    then have "set (py_range a b s) = insert a (set (py_range (a + s) b s))"
      using "1.prems" by (subst py_range.simps) simp
    also have "\<dots> = {c. a \<le> c \<and> c < b \<and> s dvd (c - a)}"
      using "1.IH" "1.prems" True dvd_step_int [OF "1.prems"] by auto
    finally show ?thesis .
  next
    case False
    then show ?thesis by (subst py_range.simps) auto
  qed
qed

lemma py_range_step_one [simp]: "py_range a b 1 = [a..b - 1]"
proof (induction a b "1::int" rule: py_range.induct)
  case (1 a b)
  then show ?case
    by (subst py_range.simps) (simp add: upto_rec1)
qed

lemma sorted_py_range: "sorted_wrt (<) (py_range a b s)"
proof (induction a b s rule: py_range.induct)
  case (1 a b s)
  show ?case
  proof (cases "0 < s \<and> a < b")
    case True
    then have "\<forall>c \<in> set (py_range (a + s) b s). a < c"
      using set_py_range [of s "a + s" b] by auto
    with True "1.IH" show ?thesis by (subst py_range.simps) auto
  next
    case False
    then show ?thesis by (subst py_range.simps) auto
  qed
qed

lemma distinct_py_range [simp]: "distinct (py_range a b s)"
  using sorted_py_range strict_sorted_iff by blast

subsection \<open>Generic list lemmas\<close>

lemma sorted_wrt_snoc [simp]:
  "sorted_wrt P (xs @ [x]) \<longleftrightarrow> sorted_wrt P xs \<and> (\<forall>y \<in> set xs. P y x)"
  by (simp add: sorted_wrt_append)

lemma find_distinct_key:
  assumes "distinct (map f xs)" and "x \<in> set xs"
  shows "find (\<lambda>y. f y = f x) xs = Some x"
  using assms by (induction xs) (auto simp: image_iff)

lemma distinct_map_remove1:
  "distinct (map f xs) \<Longrightarrow> distinct (map f (remove1 x xs))"
  by (induction xs) (auto dest: set_remove1_subset [THEN subsetD])

lemma distinct_map_sort_key: "distinct (map f (sort_key g xs)) = distinct (map f xs)"
  by (rule mset_eq_imp_distinct_iff) simp

lemma sum_list_map_sort_key:
  "sum_list (map (g :: 'a \<Rightarrow> 'b :: comm_monoid_add) (sort_key f xs)) = sum_list (map g xs)"
proof -
  have "sum_mset (mset (map g (sort_key f xs))) = sum_mset (mset (map g xs))" by simp
  then show ?thesis by (simp only: sum_mset_sum_list)
qed

lemma set_remove1_distinct_key:
  assumes "distinct (map f xs)"
  shows "set (remove1 x xs) = set xs - {x}"
  using assms by (simp add: distinct_map)


lemma length_takeWhile_kucuk: "x \<in> set xs \<Longrightarrow> \<not> P x \<Longrightarrow> length (takeWhile P xs) < length xs"
  by (induction xs) auto

text \<open>A property every step of a \<^const>\<open>fold\<close> keeps holds after the whole loop.\<close>

lemma fold_korur: "(\<And>x y. P y \<Longrightarrow> P (f x y)) \<Longrightarrow> P y \<Longrightarrow> P (fold f xs y)"
  by (induction xs arbitrary: y) simp_all

end
