(* ===== verification/Veri_Modeli.thy ===== *)
theory Veri_Modeli
  imports Prelude
begin

text \<open>
  The records the core exchanges with the persistence layer.  A course is the dictionary
  \<open>plan_kaynagini_hazirla\<close> and \<open>dersler_ogrsay_ve_alanlar_detayli\<close> build in
  \<open>src/veri_deposu.py\<close> (its \<open>id\<close>, \<open>kod\<close>, inferred \<open>sinif\<close>, \<open>ogr_say\<close> and
  \<open>ogr_ids\<close>); a room is a row of the \<open>derslikler\<close> table of
  \<open>src/veritabani.py\<close>; a placement is the dictionary the planner of
  \<open>src/planner.py\<close> appends to \<open>yerlestirmeler\<close>.  The set \<open>ogr_ids\<close> is a list
  here: the planner only iterates over it, and the result does not depend on the order.
\<close>

record ders =
  ders_id :: kimlik
  kod :: string
  sinif :: "int option"
  ogr_say :: int
  ogr_ids :: "kimlik list"

record derslik =
  derslik_id :: kimlik
  kapasite :: int
  enine :: int
  boyuna :: int
  sira_yapisi :: int

record yerlestirme =
  y_ders_id :: kimlik
  baslangic :: dakika
  bitis :: dakika
  derslik_ids :: "kimlik list"

end
