(* ===== verification/Zaman.thy ===== *)
theory Zaman
  imports Prelude
begin

text \<open>
  The time and interval utility of \<open>src/planner.py\<close> (\<open>_overlaps\<close>) and its copy in
  \<open>src/veri_deposu.py\<close> (\<open>_zaman_cakisiyor_mu\<close>), and the calendar arithmetic of
  Python's \<open>datetime\<close> that the planner relies on.  A date is its proleptic
  Gregorian ordinal (\<open>date.toordinal()\<close>, 0001-01-01 is 1 and a Monday), a time of day
  is its minute (\<open>time(h, m)\<close> is \<open>60 * h + m < 1440\<close>), and a \<open>datetime\<close> is the
  number of minutes since 0001-01-01 00:00.
\<close>

definition overlaps :: "dakika \<Rightarrow> dakika \<Rightarrow> dakika \<Rightarrow> dakika \<Rightarrow> bool" where
  "overlaps a_start a_end b_start b_end \<longleftrightarrow> \<not> (a_end \<le> b_start \<or> b_end \<le> a_start)"

definition zaman_cakisiyor_mu :: "dakika \<Rightarrow> dakika \<Rightarrow> dakika \<Rightarrow> dakika \<Rightarrow> bool" where
  "zaman_cakisiyor_mu bas1 bit1 bas2 bit2 \<longleftrightarrow> \<not> (bit1 \<le> bas2 \<or> bit2 \<le> bas1)"

text \<open>\<open>date.weekday()\<close> is \<open>(toordinal() + 6) % 7\<close>, Monday being 0.\<close>

definition weekday :: "int \<Rightarrow> int" where
  "weekday gun = (gun + 6) mod 7"

text \<open>\<open>datetime.combine(gun, slot)\<close>: the first minute of the day plus the slot's minute.\<close>

definition combine :: "int \<Rightarrow> nat \<Rightarrow> dakika" where
  "combine gun slot = gun * 1440 + int slot"

subsection \<open>Lemmas\<close>

lemma overlaps_sym: "overlaps a b c d \<longleftrightarrow> overlaps c d a b"
  by (auto simp: overlaps_def)

lemma weekday_range: "0 \<le> weekday g \<and> weekday g < 7"
  by (simp add: weekday_def)

lemma combine_div_mod:
  assumes "slot < 1440"
  shows "combine g slot div 1440 = g \<and> combine g slot mod 1440 = int slot"
  using assms by (simp add: combine_def)

end
