(* ===== verification/Koltuk.thy ===== *)
theory Koltuk
  imports Prelude
begin

text \<open>
  The seat layout generator \<open>_koltuk_listesi(enine, boyuna, sira_yapisi)\<close> of
  \<open>src/oturma_atayici.py\<close> (an identical copy is in \<open>src/koltuk_atama.py\<close>).  It
  lists the seats of a room of \<open>boyuna\<close> rows and \<open>enine\<close> columns, row by row, and
  inside a row visits the columns so that consecutive students sit at different desks:
  with 2-seat desks first the odd then the even columns, with 3-seat desks the columns
  \<open>1, 4, 7, \<dots>\<close>, then \<open>2, 5, \<dots>\<close>, then \<open>3, 6, \<dots>\<close>.  Any desk size other than 3
  is treated as 2 (\<open>sira_grubu\<close>).

  The lemmas show that the generator lists every cell of the grid exactly once in row-major
  order, and that the first seats of each row, up to the number of desks in it, are at
  pairwise different desks.
\<close>

subsection \<open>Definitions\<close>

definition sutun_sirasi :: "int \<Rightarrow> int \<Rightarrow> int list" where
  "sutun_sirasi enine sira_yapisi =
     (if sira_yapisi = 2
      then [c \<leftarrow> py_range 1 (enine + 1) 1. c mod 2 = 1] @ [c \<leftarrow> py_range 1 (enine + 1) 1. c mod 2 = 0]
      else py_range 1 (enine + 1) 3 @ py_range 2 (enine + 1) 3 @ py_range 3 (enine + 1) 3)"

definition sira_grubu :: "int \<Rightarrow> int" where
  "sira_grubu sira_yapisi = (if sira_yapisi = 3 then 3 else 2)"

definition koltuk_listesi :: "int \<Rightarrow> int \<Rightarrow> int \<Rightarrow> (int \<times> int) list" where
  "koltuk_listesi enine boyuna sira_yapisi =
     (if enine \<le> 0 \<or> boyuna \<le> 0 then []
      else let siralama = sutun_sirasi enine (sira_grubu sira_yapisi)
           in concat (map (\<lambda>sira. map (\<lambda>sut. (sira, sut)) siralama) (py_range 1 (boyuna + 1) 1)))"

subsection \<open>Column order and grid\<close>

lemma sutun_sirasi_2:
  "sutun_sirasi w 2 = [c \<leftarrow> [1..w]. c mod 2 = 1] @ [c \<leftarrow> [1..w]. c mod 2 = 0]"
  by (simp add: sutun_sirasi_def)

lemma py_range_mod3:
  assumes "r \<in> {1, 2, 3}"
  shows "py_range r (w + 1) 3 = [c \<leftarrow> [1..w]. c mod 3 = r mod 3]"
proof (rule sorted_distinct_set_unique)
  show "sorted (py_range r (w + 1) 3)"
    using sorted_py_range by (simp add: strict_sorted_iff)
  show "sorted [c \<leftarrow> [1..w]. c mod 3 = r mod 3]" by (rule sorted_wrt_filter) simp
  show "distinct (py_range r (w + 1) 3)" by simp
  show "distinct [c \<leftarrow> [1..w]. c mod 3 = r mod 3]" by simp
  show "set (py_range r (w + 1) 3) = set [c \<leftarrow> [1..w]. c mod 3 = r mod 3]"
    using assms by (auto simp: set_py_range mod_eq_dvd_iff) presburger+
qed

lemma sutun_sirasi_3:
  "sutun_sirasi w 3 =
     [c \<leftarrow> [1..w]. c mod 3 = 1] @ [c \<leftarrow> [1..w]. c mod 3 = 2] @ [c \<leftarrow> [1..w]. c mod 3 = 0]"
  using py_range_mod3 [of 1 w] py_range_mod3 [of 2 w] py_range_mod3 [of 3 w]
  by (simp add: sutun_sirasi_def)

lemma set_sutun_sirasi:
  assumes "g \<in> {2, 3}"
  shows "set (sutun_sirasi w g) = {1..w}"
  using assms by (auto simp: sutun_sirasi_2 sutun_sirasi_3)

lemma distinct_sutun_sirasi:
  assumes "g \<in> {2, 3}"
  shows "distinct (sutun_sirasi w g)"
  using assms by (auto simp: sutun_sirasi_2 sutun_sirasi_3)

lemma length_sutun_sirasi:
  assumes "g \<in> {2, 3}"
  shows "length (sutun_sirasi w g) = nat w"
proof -
  have "length (sutun_sirasi w g) = card {1..w}"
    using distinct_card [OF distinct_sutun_sirasi [OF assms]] set_sutun_sirasi [OF assms]
    by simp
  then show ?thesis by simp
qed

lemma sira_grubu_cases: "sira_grubu g \<in> {2, 3}"
  by (simp add: sira_grubu_def)

lemma concat_map_single_row:
  assumes "distinct xs" and "r \<in> set xs"
  shows "concat (map (\<lambda>s. if s = r then ys else []) xs) = ys"
  using assms by (induction xs) auto

lemma koltuk_listesi_rows:
  "koltuk_listesi w d g =
     concat (map (\<lambda>s. map (Pair s) (sutun_sirasi w (sira_grubu g))) [1..d])"
proof (cases "w \<le> 0")
  case True
  then have "sutun_sirasi w (sira_grubu g) = []"
    using set_sutun_sirasi [OF sira_grubu_cases, of w g] by simp
  with True show ?thesis by (simp add: koltuk_listesi_def)
qed (auto simp: koltuk_listesi_def)

lemma koltuk_listesi_row:
  assumes "1 \<le> r" and "r \<le> d"
  shows "[x \<leftarrow> koltuk_listesi w d g. fst x = r] = map (Pair r) (sutun_sirasi w (sira_grubu g))"
proof -
  have row: "[x \<leftarrow> map (Pair s) L. fst x = r] = (if s = r then map (Pair r) L else [])" for s L
    by (induction L) auto
  have "[x \<leftarrow> koltuk_listesi w d g. fst x = r]
      = concat (map (\<lambda>s. if s = r then map (Pair r) (sutun_sirasi w (sira_grubu g)) else []) [1..d])"
    by (simp add: koltuk_listesi_rows filter_concat comp_def row)
  also have "\<dots> = map (Pair r) (sutun_sirasi w (sira_grubu g))"
    using assms by (intro concat_map_single_row) auto
  finally show ?thesis .
qed

lemma set_koltuk_listesi: "set (koltuk_listesi w d g) = {1..d} \<times> {1..w}"
  using set_sutun_sirasi [OF sira_grubu_cases, of w g]
  by (auto simp: koltuk_listesi_rows)

lemma concat_map_Nil: "concat (map (\<lambda>_. []) xs) = []"
  by (induction xs) auto

lemma distinct_koltuk_listesi: "distinct (koltuk_listesi w d g)"
proof (cases "sutun_sirasi w (sira_grubu g) = []")
  case False
  define L where "L = sutun_sirasi w (sira_grubu g)"
  have L: "distinct L" "L \<noteq> []"
    using distinct_sutun_sirasi [OF sira_grubu_cases, of w g] False by (simp_all add: L_def)
  have "distinct (concat (map (\<lambda>s. map (Pair s) L) [1..d]))"
  proof (rule distinct_concat)
    show "distinct (map (\<lambda>s. map (Pair s) L) [1..d])"
      using L(2) by (auto simp: distinct_map inj_on_def neq_Nil_conv)
    show "distinct ys" if "ys \<in> set (map (\<lambda>s. map (Pair s) L) [1..d])" for ys
      using that L(1) by (auto simp: distinct_map inj_on_def)
    show "set ys \<inter> set zs = {}"
      if "ys \<in> set (map (\<lambda>s. map (Pair s) L) [1..d])" "zs \<in> set (map (\<lambda>s. map (Pair s) L) [1..d])"
        "ys \<noteq> zs" for ys zs
      using that by auto
  qed
  then show ?thesis by (simp add: koltuk_listesi_rows L_def)
qed (simp add: koltuk_listesi_rows concat_map_Nil)

lemma length_koltuk_listesi: "length (koltuk_listesi w d g) = nat w * nat d"
proof -
  have "length (koltuk_listesi w d g) = card ({1..d} \<times> {1..w})"
    using distinct_card [OF distinct_koltuk_listesi, of w d g] by (simp add: set_koltuk_listesi)
  then show ?thesis by (simp add: card_cartesian_product)
qed

lemma sorted_concat_replicate: "sorted xs \<Longrightarrow> sorted (concat (map (\<lambda>s. replicate n s) xs))"
  by (induction xs) (auto simp: sorted_append)

lemma sorted_rows_koltuk_listesi: "sorted (map fst (koltuk_listesi w d g))"
  by (simp add: koltuk_listesi_rows map_concat comp_def map_replicate_const sorted_concat_replicate)

lemma count_odd_upto: "length [c \<leftarrow> [1..int n]. c mod 2 = 1] = (n + 1) div 2"
proof (induction n)
  case (Suc n)
  have "[1..int (Suc n)] = [1..int n] @ [int n + 1]"
    using upto_rec2 [of 1 "int n + 1"] by (simp add: add.commute)
  with Suc show ?case by simp presburger
qed simp

lemma count_mod3_upto: "length [c \<leftarrow> [1..int n]. c mod 3 = 1] = (n + 2) div 3"
proof (induction n)
  case (Suc n)
  have "[1..int (Suc n)] = [1..int n] @ [int n + 1]"
    using upto_rec2 [of 1 "int n + 1"] by (simp add: add.commute)
  with Suc show ?case by simp presburger
qed simp


subsection \<open>Helper lemmas on the column order\<close>
lemma sutun_sirasi_ilk_blok:
  assumes "G \<in> {2, 3}"
  shows "take (length [c \<leftarrow> [1..w]. c mod G = 1]) (sutun_sirasi w G) = [c \<leftarrow> [1..w]. c mod G = 1]"
  using assms by (auto simp: sutun_sirasi_2 sutun_sirasi_3)

lemma length_ilk_blok:
  assumes "G \<in> {2, 3}"
  shows "length [c \<leftarrow> [1..w]. c mod G = 1] = nat ((w + G - 1) div G)"
proof (cases "0 \<le> w")
  case True
  then obtain n where "w = int n" by (metis nonneg_eq_int)
  with assms count_odd_upto [of n] count_mod3_upto [of n] show ?thesis
    by auto
next
  case False
  with assms show ?thesis by auto
qed

lemma take_ilk_blok_subset:
  assumes "G \<in> {2, 3}" and "k \<le> nat ((w + G - 1) div G)"
  shows "set (take k (sutun_sirasi w G)) \<subseteq> {c. 1 \<le> c \<and> c \<le> w \<and> c mod G = 1}"
proof -
  let ?B = "[c \<leftarrow> [1..w]. c mod G = 1]"
  have "take k (sutun_sirasi w G) = take k (take (length ?B) (sutun_sirasi w G))"
    using assms length_ilk_blok [OF assms(1), of w] by (simp add: min_absorb1)
  also have "\<dots> = take k ?B"
    using sutun_sirasi_ilk_blok [OF assms(1)] by simp
  finally show ?thesis
    by (auto dest: in_set_takeD)
qed

lemma mod_one_div_inj:
  assumes "0 < (G::int)" and "a mod G = 1" and "b mod G = 1" and "(a - 1) div G = (b - 1) div G"
  shows "a = b"
proof -
  have "a - 1 = G * (a div G)" and "b - 1 = G * (b div G)"
    using minus_mod_eq_mult_div [of a G] minus_mod_eq_mult_div [of b G] assms(2,3) by simp_all
  then have "a - 1 = G * ((a - 1) div G)" and "b - 1 = G * ((b - 1) div G)"
    using assms(1) by simp_all
  with assms(4) show ?thesis by simp
qed

subsection \<open>Properties of the layout\<close>

text \<open>C9: The layout of a room lists every seat of its grid exactly once, in row-major
  order: the seats are pairwise distinct, they are exactly the cells of rows
  \<open>1..boyuna\<close> and columns \<open>1..enine\<close> (none when a dimension is not positive), there are
  \<open>enine * boyuna\<close> of them, and their rows never decrease along the list.\<close>

theorem koltuk_listesi_her_hucre_bir_kez:
  "distinct (koltuk_listesi w d g) \<and> set (koltuk_listesi w d g) = {1..d} \<times> {1..w}
   \<and> length (koltuk_listesi w d g) = nat w * nat d \<and> sorted (map fst (koltuk_listesi w d g))"
  by (simp add: distinct_koltuk_listesi set_koltuk_listesi length_koltuk_listesi
      sorted_rows_koltuk_listesi)

theorem koltuk_listesi_her_hucre_bir_kez_witness:
  "distinct (koltuk_listesi 8 5 2) \<and> set (koltuk_listesi 8 5 2) = {1..5} \<times> {1..8}
   \<and> length (koltuk_listesi 8 5 2) = nat 8 * nat 5 \<and> sorted (map fst (koltuk_listesi 8 5 2))"
  by (rule koltuk_listesi_her_hucre_bir_kez)

text \<open>With 2-seat desks, the first \<open>ceil(enine / 2)\<close> seats the generator lists in
  any row are all in odd columns.\<close>

theorem koltuk_listesi_ilk_yari_tek:
  assumes "1 \<le> r" and "r \<le> d"
  shows "\<forall>(s, c) \<in> set (take (nat ((w + 1) div 2)) [x \<leftarrow> koltuk_listesi w d 2. fst x = r]). c mod 2 = 1"
proof -
  have "set (take (nat ((w + 1) div 2)) (sutun_sirasi w 2)) \<subseteq> {c. 1 \<le> c \<and> c \<le> w \<and> c mod 2 = 1}"
    using take_ilk_blok_subset [of 2 "nat ((w + 1) div 2)" w] by simp
  then show ?thesis
    using assms by (auto simp: koltuk_listesi_row sira_grubu_def take_map)
qed

theorem koltuk_listesi_ilk_yari_tek_witness:
  "1 \<le> (1::int) \<and> (1::int) \<le> 5 \<and>
   list_all (\<lambda>(s, c). c mod 2 = 1) (take (nat ((8 + 1) div 2)) [x \<leftarrow> koltuk_listesi 8 5 2. fst x = 1])"
  using koltuk_listesi_ilk_yari_tek [of 1 5 8] by (simp add: list_all_iff)

text \<open>Within any row, the first \<open>k\<close> seats the generator lists, for \<open>k\<close> up to the
  number of desks of the row (\<open>ceil(enine / G)\<close> with \<open>G\<close> the desk size), are at pairwise
  different desks: the desk of column \<open>c\<close> is \<open>(c - 1) div G\<close>.\<close>

theorem koltuk_listesi_masa_basina_bir:
  assumes "1 \<le> r" and "r \<le> d" and "k \<le> nat ((w + sira_grubu g - 1) div sira_grubu g)"
  shows "inj_on (\<lambda>(s, c). (c - 1) div sira_grubu g) (set (take k [x \<leftarrow> koltuk_listesi w d g. fst x = r]))"
proof -
  let ?G = "sira_grubu g"
  have sub: "set (take k (sutun_sirasi w ?G)) \<subseteq> {c. 1 \<le> c \<and> c \<le> w \<and> c mod ?G = 1}"
    using take_ilk_blok_subset [OF sira_grubu_cases assms(3)] .
  have G: "0 < ?G" by (simp add: sira_grubu_def)
  show ?thesis
    using sub mod_one_div_inj [OF G] assms(1,2)
    by (auto simp: koltuk_listesi_row take_map inj_on_def)
qed

theorem koltuk_listesi_masa_basina_bir_witness:
  "1 \<le> (2::int) \<and> (2::int) \<le> 4 \<and> (3::nat) \<le> nat ((9 + sira_grubu 3 - 1) div sira_grubu 3) \<and>
   inj_on (\<lambda>(s, c). (c - 1) div sira_grubu 3) (set (take 3 [x \<leftarrow> koltuk_listesi 9 4 3. fst x = 2]))"
proof -
  have g: "sira_grubu 3 = 3" by (simp add: sira_grubu_def)
  have "(3::nat) \<le> nat ((9 + sira_grubu 3 - 1) div sira_grubu 3)" by (simp add: g)
  with koltuk_listesi_masa_basina_bir [of 2 4 3 9 3] show ?thesis by simp
qed

end
