(* ===== verification/Oturma.thy ===== *)
theory Oturma
  imports Veri_Modeli Koltuk
begin

text \<open>
  The sequential seat assignment engine \<open>atama_yap(ogrenciler, derslikler)\<close> of
  \<open>src/oturma_atayici.py\<close>.  It builds the seat list of every room with
  \<open>_koltuk_listesi\<close> (theory \<open>Koltuk\<close>) into a dictionary keyed by room id, adds the seat
  counts into \<open>toplam_kapasite\<close>, warns when the students outnumber the seats, returns a
  single warning when there is no student, and otherwise walks the rooms by decreasing
  declared \<open>kapasite\<close> (a stable sort), giving each room's seats in order to the next
  students of the roster until the roster is exhausted, and warns about the students left.

  Students are their ids (the engine only reads \<open>og["id"]\<close>), warnings are a datatype
  with the numbers the messages print.  The inner \<open>for\<close> loop over the seats of a room is
  \<open>koltuk_doldur\<close>, the outer loop over the rooms \<open>derslik_doldur\<close>; the index
  \<open>ogr_idx\<close> is implicit in the list of students not yet seated.

  The lemmas show that the two loops compute the roster zipped with the concatenated seat
  sequence of the capacity-sorted rooms (\<open>atama_yap_zip\<close>), and from this: with distinct room
  ids no seat is given twice, every assignment names an input room and a seat inside its
  grid, the seated students are the first \<open>toplam_kapasite\<close> of the roster in order, and the
  warnings are exactly the capacity shortage and the number of students left.
\<close>

subsection \<open>Definitions\<close>

datatype oturma_uyari =
    KapasiteYetersiz nat nat \<comment> \<open>\<open>Kapasite yetersiz: n ogrenci icin t koltuk var.\<close>\<close>
  | OgrenciYok \<comment> \<open>\<open>Bu sinav icin ogrenci bulunamadi.\<close>\<close>
  | Yerlesemedi nat \<comment> \<open>\<open>k ogrenci yerlesemedi (kapasite dolu).\<close>\<close>

type_synonym atama = "kimlik \<times> kimlik \<times> int \<times> int" \<comment> \<open>\<open>(ogr_id, derslik_id, sira_no, sutun_no)\<close>\<close>

definition derslik_koltuklari_of :: "derslik \<Rightarrow> (int \<times> int) list" where
  "derslik_koltuklari_of dl =
     koltuk_listesi (enine dl) (boyuna dl) (if sira_yapisi dl = 0 then 2 else sira_yapisi dl)"

definition derslik_koltuk_haritasi :: "derslik list \<Rightarrow> kimlik \<rightharpoonup> (int \<times> int) list" where
  "derslik_koltuk_haritasi derslikler =
     fold (\<lambda>dl m. m(derslik_id dl \<mapsto> derslik_koltuklari_of dl)) derslikler Map.empty"

definition toplam_kapasite :: "derslik list \<Rightarrow> nat" where
  "toplam_kapasite derslikler = sum_list (map (\<lambda>dl. length (derslik_koltuklari_of dl)) derslikler)"

fun koltuk_doldur :: "kimlik \<Rightarrow> (int \<times> int) list \<Rightarrow> kimlik list \<Rightarrow> atama list \<times> kimlik list" where
  "koltuk_doldur dl_id [] ogr = ([], ogr)"
| "koltuk_doldur dl_id (k # ks) [] = ([], [])"
| "koltuk_doldur dl_id ((sira, sut) # ks) (og # ogs) =
     (let (as, kalan) = koltuk_doldur dl_id ks ogs in ((og, dl_id, sira, sut) # as, kalan))"

definition koltuklar_bul :: "(kimlik \<rightharpoonup> (int \<times> int) list) \<Rightarrow> derslik \<Rightarrow> (int \<times> int) list" where
  "koltuklar_bul m dl = (case m (derslik_id dl) of Some ks \<Rightarrow> ks | None \<Rightarrow> [])"

fun derslik_doldur :: "(kimlik \<rightharpoonup> (int \<times> int) list) \<Rightarrow> derslik list \<Rightarrow> kimlik list \<Rightarrow> atama list \<times> kimlik list" where
  "derslik_doldur m [] ogr = ([], ogr)"
| "derslik_doldur m (dl # dls) ogr =
     (let koltuklar = koltuklar_bul m dl;
          (as, kalan) = koltuk_doldur (derslik_id dl) koltuklar ogr
      in if kalan = [] then (as, [])
         else let (as', kalan') = derslik_doldur m dls kalan in (as @ as', kalan'))"

definition atama_yap :: "kimlik list \<Rightarrow> derslik list \<Rightarrow> atama list \<times> oturma_uyari list" where
  "atama_yap ogrenciler derslikler =
     (let m = derslik_koltuk_haritasi derslikler;
          toplam = toplam_kapasite derslikler;
          uyarilar = (if toplam < length ogrenciler then [KapasiteYetersiz (length ogrenciler) toplam] else [])
      in if ogrenciler = [] then ([], [OgrenciYok])
         else let derslikler_sirali = sort_key (\<lambda>dl. - kapasite dl) derslikler;
                  (atamalar, kalan) = derslik_doldur m derslikler_sirali ogrenciler
              in (atamalar, uyarilar @ (if kalan \<noteq> [] then [Yerlesemedi (length kalan)] else [])))"

text \<open>The seat sequence the two loops walk: the seats of the rooms, in the order given,
  each tagged with its room id.\<close>

definition koltuk_dizisi :: "(kimlik \<rightharpoonup> (int \<times> int) list) \<Rightarrow> derslik list \<Rightarrow> (kimlik \<times> int \<times> int) list" where
  "koltuk_dizisi m dls = concat (map (\<lambda>dl. map (\<lambda>(s, c). (derslik_id dl, s, c)) (koltuklar_bul m dl)) dls)"

text \<open>Rooms of the examples: a 6 x 5 room of 30 seats, the 8 x 5 room of 40 seats of the
  specification, and a 2 x 2 room.\<close>

definition ornek_oda_30 :: derslik where
  "ornek_oda_30 = \<lparr>derslik_id = 1, kapasite = 30, enine = 6, boyuna = 5, sira_yapisi = 2\<rparr>"

definition ornek_oda_40 :: derslik where
  "ornek_oda_40 = \<lparr>derslik_id = 2, kapasite = 40, enine = 8, boyuna = 5, sira_yapisi = 2\<rparr>"

definition ornek_oda_4 :: derslik where
  "ornek_oda_4 = \<lparr>derslik_id = 3, kapasite = 4, enine = 2, boyuna = 2, sira_yapisi = 3\<rparr>"

declare derslik_koltuklari_of_def [oturma_simps] toplam_kapasite_def [oturma_simps]
  ornek_oda_30_def [oturma_simps] ornek_oda_40_def [oturma_simps] ornek_oda_4_def [oturma_simps]
  length_koltuk_listesi [oturma_simps]

subsection \<open>The two loops compute a zip\<close>

lemma koltuk_doldur_zip:
  "koltuk_doldur r ks ogr = (map (\<lambda>(og, s, c). (og, r, s, c)) (zip ogr ks), drop (length ks) ogr)"
  by (induction r ks ogr rule: koltuk_doldur.induct) auto

lemma zip_take_length: "zip (take (length ys) xs) ys = zip xs ys"
proof -
  have "zip (take (length ys) xs) ys = zip (take (length ys) xs) (take (length ys) ys)" by simp
  also have "\<dots> = take (length ys) (zip xs ys)" by (simp add: take_zip)
  also have "\<dots> = zip xs ys" by simp
  finally show ?thesis .
qed

lemma zip_take_length_map: "zip (take (length ys) xs) (map f ys) = zip xs (map f ys)"
  using zip_take_length [of "map f ys" xs] by simp

lemma derslik_doldur_zip:
  "derslik_doldur m dls ogr = (zip ogr (koltuk_dizisi m dls), drop (length (koltuk_dizisi m dls)) ogr)"
proof (induction dls arbitrary: ogr)
  case Nil
  then show ?case by (simp add: koltuk_dizisi_def)
next
  case (Cons dl dls)
  let ?ks = "koltuklar_bul m dl"
  let ?S = "koltuk_dizisi m dls"
  have S: "koltuk_dizisi m (dl # dls) = map (\<lambda>(s, c). (derslik_id dl, s, c)) ?ks @ ?S"
    by (simp add: koltuk_dizisi_def)
  have zipk: "map (\<lambda>(og, s, c). (og, derslik_id dl, s, c)) (zip ogr ?ks)
      = zip ogr (map (\<lambda>(s, c). (derslik_id dl, s, c)) ?ks)"
    by (simp add: zip_map2 split_def)
  show ?case
  proof (cases "drop (length ?ks) ogr = []")
    case True
    then have "length ogr \<le> length ?ks" by simp
    then show ?thesis
      using True by (simp add: koltuk_doldur_zip S zipk zip_append2)
  next
    case False
    from False show ?thesis
      by (simp add: koltuk_doldur_zip S zipk Cons.IH zip_append2 zip_take_length_map add.commute Let_def)
  qed
qed

subsection \<open>The seat dictionary\<close>

lemma fold_map_upd_Some:
  "fold (\<lambda>x m. m(f x \<mapsto> g x)) xs m0 i = Some v \<Longrightarrow>
     (\<exists>x \<in> set xs. f x = i \<and> g x = v) \<or> m0 i = Some v"
proof (induction xs arbitrary: m0)
  case (Cons a xs)
  have "fold (\<lambda>x m. m(f x \<mapsto> g x)) xs (m0(f a \<mapsto> g a)) i = Some v"
    using Cons.prems by (simp only: fold.simps comp_apply)
  from Cons.IH [OF this] show ?case by (auto split: if_splits)
qed simp

lemma fold_map_upd_distinct:
  "distinct (map f xs) \<Longrightarrow> x \<in> set xs \<Longrightarrow> fold (\<lambda>x m. m(f x \<mapsto> g x)) xs m0 (f x) = Some (g x)"
proof (induction xs arbitrary: m0)
  case (Cons y ys)
  show ?case
  proof (cases "x = y")
    case True
    have "f x \<notin> f ` set ys" using Cons.prems True by simp
    moreover have "fold (\<lambda>x m. m(f x \<mapsto> g x)) ys m' i = m' i" if "i \<notin> f ` set ys" for m' i
      using that by (induction ys arbitrary: m') auto
    ultimately have "fold (\<lambda>x m. m(f x \<mapsto> g x)) ys (m0(f y \<mapsto> g y)) (f x) = Some (g x)"
      using True by simp
    then show ?thesis using True by (simp only: fold.simps comp_apply)
  next
    case False
    with Cons show ?thesis by simp
  qed
qed simp

lemma koltuklar_bul_haritasi:
  assumes "distinct (map derslik_id ds)" and "dl \<in> set ds"
  shows "koltuklar_bul (derslik_koltuk_haritasi ds) dl = derslik_koltuklari_of dl"
  using fold_map_upd_distinct [OF assms, of derslik_koltuklari_of Map.empty]
  by (simp add: koltuklar_bul_def derslik_koltuk_haritasi_def)

lemma koltuklar_bul_haritasi_gecerli:
  assumes "(s, c) \<in> set (koltuklar_bul (derslik_koltuk_haritasi ds) dl)"
  shows "\<exists>dl' \<in> set ds. derslik_id dl' = derslik_id dl \<and> (s, c) \<in> set (derslik_koltuklari_of dl')"
proof (cases "derslik_koltuk_haritasi ds (derslik_id dl)")
  case (Some ks)
  then show ?thesis
    using assms fold_map_upd_Some [of derslik_id derslik_koltuklari_of ds Map.empty "derslik_id dl" ks]
    by (auto simp: koltuklar_bul_def derslik_koltuk_haritasi_def)
qed (use assms in \<open>simp add: koltuklar_bul_def\<close>)

subsection \<open>The seat sequence of the sorted rooms\<close>

lemma set_koltuk_dizisi:
  "(r, s, c) \<in> set (koltuk_dizisi m dls) \<Longrightarrow>
     \<exists>dl \<in> set dls. derslik_id dl = r \<and> (s, c) \<in> set (koltuklar_bul m dl)"
  by (auto simp: koltuk_dizisi_def)

lemma length_koltuk_dizisi:
  assumes "distinct (map derslik_id ds)" and "set dls \<subseteq> set ds"
  shows "length (koltuk_dizisi (derslik_koltuk_haritasi ds) dls) = toplam_kapasite dls"
  using assms(2)
  by (induction dls) (auto simp: koltuk_dizisi_def toplam_kapasite_def koltuklar_bul_haritasi [OF assms(1)])

lemma distinct_koltuk_dizisi:
  assumes "distinct (map derslik_id ds)" and "set dls \<subseteq> set ds" and "distinct (map derslik_id dls)"
  shows "distinct (koltuk_dizisi (derslik_koltuk_haritasi ds) dls)"
  using assms(2,3)
proof (induction dls)
  case (Cons dl dls)
  let ?m = "derslik_koltuk_haritasi ds"
  let ?A = "map (\<lambda>(s, c). (derslik_id dl, s, c)) (koltuklar_bul ?m dl)"
  have ks: "koltuklar_bul ?m dl = derslik_koltuklari_of dl"
    using Cons.prems by (simp add: koltuklar_bul_haritasi [OF assms(1)])
  have d1: "distinct ?A"
    by (simp add: ks distinct_map derslik_koltuklari_of_def distinct_koltuk_listesi inj_on_def)
  have n: "derslik_id dl \<notin> derslik_id ` set dls" using Cons.prems by simp
  have f1: "\<forall>x \<in> set ?A. fst x = derslik_id dl" by auto
  have f2: "\<forall>x \<in> set (koltuk_dizisi ?m dls). fst x \<in> derslik_id ` set dls"
    by (auto simp: koltuk_dizisi_def)
  have d2: "set ?A \<inter> set (koltuk_dizisi ?m dls) = {}"
  proof (rule equals0I)
    fix x
    assume "x \<in> set ?A \<inter> set (koltuk_dizisi ?m dls)"
    with f1 f2 have "fst x = derslik_id dl" and "fst x \<in> derslik_id ` set dls" by auto
    with n show False by simp
  qed
  have "koltuk_dizisi ?m (dl # dls) = ?A @ koltuk_dizisi ?m dls"
    by (simp add: koltuk_dizisi_def)
  with d1 d2 Cons show ?case by simp
qed (simp add: koltuk_dizisi_def)

lemma toplam_kapasite_sort_key: "toplam_kapasite (sort_key f ds) = toplam_kapasite ds"
  by (simp add: toplam_kapasite_def sum_list_map_sort_key)

lemma koltuk_dizisi_sirali:
  assumes "distinct (map derslik_id ds)"
  shows "length (koltuk_dizisi (derslik_koltuk_haritasi ds) (sort_key f ds)) = toplam_kapasite ds"
    and "distinct (koltuk_dizisi (derslik_koltuk_haritasi ds) (sort_key f ds))"
  using length_koltuk_dizisi [OF assms, of "sort_key f ds"]
    distinct_koltuk_dizisi [OF assms, of "sort_key f ds"] assms
  by (simp_all add: toplam_kapasite_sort_key distinct_map_sort_key)

lemma atama_yap_snd:
  "snd (atama_yap ogrenciler derslikler) =
     (if ogrenciler = [] then [OgrenciYok]
      else (if toplam_kapasite derslikler < length ogrenciler
            then [KapasiteYetersiz (length ogrenciler) (toplam_kapasite derslikler)] else []) @
           (let K = koltuk_dizisi (derslik_koltuk_haritasi derslikler) (sort_key (\<lambda>dl. - kapasite dl) derslikler)
            in if length K < length ogrenciler then [Yerlesemedi (length ogrenciler - length K)] else []))"
  by (simp add: atama_yap_def derslik_doldur_zip Let_def split: prod.splits)

lemma atama_koltugu_gecerli:
  assumes "(og, r, s, c) \<in> set (fst (atama_yap ogrenciler derslikler))"
  shows "\<exists>dl \<in> set derslikler. derslik_id dl = r \<and> (s, c) \<in> set (derslik_koltuklari_of dl)"
proof -
  let ?m = "derslik_koltuk_haritasi derslikler"
  have "(r, s, c) \<in> set (koltuk_dizisi ?m (sort_key (\<lambda>dl. - kapasite dl) derslikler))"
    using assms
    by (auto simp: atama_yap_def derslik_doldur_zip Let_def split: if_splits prod.splits dest: set_zip_rightD)
  then obtain dl where "dl \<in> set derslikler" "derslik_id dl = r" "(s, c) \<in> set (koltuklar_bul ?m dl)"
    by (auto dest: set_koltuk_dizisi)
  with koltuklar_bul_haritasi_gecerli show ?thesis by fastforce
qed

lemma atama_yap_ogrenci_onek:
  "map fst (fst (atama_yap ogrenciler derslikler)) = take (length (fst (atama_yap ogrenciler derslikler))) ogrenciler"
  by (simp add: atama_yap_def derslik_doldur_zip Let_def map_fst_zip_take split: prod.splits)

subsection \<open>Correctness of the sequential engine\<close>

text \<open>The engine refines a zip: its assignments are the roster zipped with the seat
  sequence of the rooms sorted by decreasing declared capacity, each room contributing the
  seats of its layout, and nothing when there is no student.\<close>

theorem atama_yap_zip:
  "fst (atama_yap ogrenciler derslikler) =
     (if ogrenciler = [] then []
      else zip ogrenciler (koltuk_dizisi (derslik_koltuk_haritasi derslikler)
                             (sort_key (\<lambda>dl. - kapasite dl) derslikler)))"
  by (simp add: atama_yap_def derslik_doldur_zip Let_def split: prod.splits)

text \<open>C5: With distinct room ids (the primary key of the \<open>derslikler\<close> table), no seat
  (room, row, column) is given to two students.\<close>

theorem atama_yap_koltuk_tekil:
  assumes "distinct (map derslik_id derslikler)"
  shows "distinct (map snd (fst (atama_yap ogrenciler derslikler)))"
  using koltuk_dizisi_sirali(2) [OF assms, of "\<lambda>dl. - kapasite dl"]
  by (simp add: atama_yap_def derslik_doldur_zip Let_def map_snd_zip_take split: prod.splits)

theorem atama_yap_koltuk_tekil_witness:
  "distinct (map derslik_id [ornek_oda_30, ornek_oda_4]) \<and>
   distinct (map snd (fst (atama_yap [1..35] [ornek_oda_30, ornek_oda_4])))"
  using atama_yap_koltuk_tekil [of "[ornek_oda_30, ornek_oda_4]" "[1..35]"]
  by (simp add: oturma_simps)

text \<open>C6: Every assignment names an input room and a seat inside that room's grid:
  row between 1 and \<open>boyuna\<close>, column between 1 and \<open>enine\<close>.\<close>

theorem atama_yap_koltuk_gecerli:
  "\<forall>(og, r, s, c) \<in> set (fst (atama_yap ogrenciler derslikler)).
     \<exists>dl \<in> set derslikler. derslik_id dl = r \<and> 1 \<le> s \<and> s \<le> boyuna dl \<and> 1 \<le> c \<and> c \<le> enine dl"
proof (clarify)
  fix og r s c
  assume "(og, r, s, c) \<in> set (fst (atama_yap ogrenciler derslikler))"
  from atama_koltugu_gecerli [OF this]
  show "\<exists>dl \<in> set derslikler. derslik_id dl = r \<and> 1 \<le> s \<and> s \<le> boyuna dl \<and> 1 \<le> c \<and> c \<le> enine dl"
    by (auto simp: derslik_koltuklari_of_def set_koltuk_listesi)
qed

theorem atama_yap_koltuk_gecerli_witness:
  "list_all (\<lambda>(og, r, s, c). \<exists>dl \<in> set [ornek_oda_40]. derslik_id dl = r \<and> 1 \<le> s \<and> s \<le> boyuna dl \<and> 1 \<le> c \<and> c \<le> enine dl)
     (fst (atama_yap [1..3] [ornek_oda_40]))"
  using atama_yap_koltuk_gecerli [of "[1..3]" "[ornek_oda_40]"]
  by (simp add: list_all_iff)

text \<open>C7: With distinct room ids the warnings are exactly: the no-student warning for an
  empty roster; otherwise, when the seats of all rooms (\<open>toplam_kapasite\<close>) are fewer than the
  students, the capacity warning followed by the number of students left unseated; and
  nothing else.\<close>

theorem atama_yap_uyarilar:
  assumes "distinct (map derslik_id derslikler)"
  shows "snd (atama_yap ogrenciler derslikler) =
     (if ogrenciler = [] then [OgrenciYok]
      else if toplam_kapasite derslikler < length ogrenciler
      then [KapasiteYetersiz (length ogrenciler) (toplam_kapasite derslikler),
            Yerlesemedi (length ogrenciler - toplam_kapasite derslikler)]
      else [])"
  using koltuk_dizisi_sirali(1) [OF assms, of "\<lambda>dl. - kapasite dl"]
  by (simp add: atama_yap_snd Let_def)

theorem atama_yap_uyarilar_witness:
  "distinct (map derslik_id [ornek_oda_30]) \<and>
   snd (atama_yap [1..50] [ornek_oda_30]) = [KapasiteYetersiz 50 30, Yerlesemedi 20]"
  using atama_yap_uyarilar [of "[ornek_oda_30]" "[1..50]"]
  by (simp add: oturma_simps)

text \<open>C8: With distinct room ids the seated students are the first \<open>toplam_kapasite\<close>
  students of the roster, in roster order, each seated once.\<close>

theorem atama_yap_sira:
  assumes "distinct (map derslik_id derslikler)"
  shows "map fst (fst (atama_yap ogrenciler derslikler)) = take (toplam_kapasite derslikler) ogrenciler"
  using koltuk_dizisi_sirali(1) [OF assms, of "\<lambda>dl. - kapasite dl"]
  by (simp add: atama_yap_def derslik_doldur_zip Let_def map_fst_zip_take min_def split: prod.splits)

theorem atama_yap_sira_witness:
  "distinct (map derslik_id [ornek_oda_40]) \<and>
   map fst (fst (atama_yap [1..40] [ornek_oda_40])) = [1..40]"
  using atama_yap_sira [of "[ornek_oda_40]" "[1..40]"]
  by (simp add: oturma_simps)

end
