(* ===== verification/Planlayici.thy ===== *)
theory Planlayici
  imports Veri_Modeli Zaman
begin

text \<open>
  The exam timetable planner \<open>planla\<close> of \<open>src/planner.py\<close>, after its constraint
  object has been read into local variables.  The state of the planner's loops
  (\<open>plan_durum\<close>) holds the per-room and per-student lists of occupied intervals
  (\<open>derslik_zaman\<close>, \<open>ogr_zaman\<close>), the room usage counters (\<open>kullanim_say\<close>), the
  courses not yet placed (\<open>dersler_sirali\<close>), and the placements and warnings emitted.
  One attempt to place a course in a slot is \<open>ders_dene\<close> (lines 343--404 of the source),
  the loop over the courses of one slot is \<open>slot_dongusu\<close>, the loop over the slots of a
  day \<open>slotlar_dongusu\<close>, and the loop over the calendar days \<open>gun_dongusu\<close>, a
  \<^theory_text>\<open>function\<close> whose termination is proved with the number of days left.

  The lemmas show that every loop keeps any property that a single attempt keeps
  (\<open>slot_dongusu_korur\<close>, \<open>gun_dongusu_korur\<close>, \<open>planla_korur\<close>), and four such
  invariants: the room schedule (\<open>oda_inv\<close>), the student schedule (\<open>ogr_inv\<close>), the
  once-only placement of a course (\<open>bir_inv\<close>), and the shape of each placement
  (\<open>gecerli_inv\<close>).
\<close>

subsection \<open>Definitions\<close>
text \<open>The only warning the planner emits, \<open>"Ders {kod} icin {gun} {slot} saatinde
  uygun/kapasiteli derslik bulunamadi."\<close>, carries the course code, the day and the slot.\<close>

datatype plan_uyari = DerslikBulunamadi string int nat

text \<open>\<open>PlanKisit\<close> after \<open>__post_init__\<close>: the fields \<open>planla\<close> copies into its
  dictionary \<open>k\<close> (lines 224--235); slots are already times of day.\<close>

record plan_kisit =
  k_tarih_bas :: int
  k_tarih_bit :: int
  k_slotlar :: "nat list"
  k_varsayilan_sure_dk :: int
  k_bekleme_dk :: int
  k_sinav_turu :: string
  k_tek_seans :: bool
  k_dahil_ders_ids :: "kimlik list option"
  k_gun_disi :: "int list"
  k_ders_sure_map :: "kimlik \<rightharpoonup> int"

text \<open>The local variables \<open>planla\<close> reads from \<open>k\<close> (lines 276--290).\<close>

record plan_ayar =
  slot_saatleri :: "nat list"
  tarih_bas :: int
  tarih_bit :: int
  default_sure_dk :: int
  bekleme_dk :: int
  tek_seans :: bool
  dahil_ders_ids :: "kimlik list"
  gun_disi :: "int list"
  ders_sure_map :: "kimlik \<rightharpoonup> int"

text \<open>The state of the planning loops (lines 298--320 initialise it).\<close>

record plan_durum =
  derslik_zaman :: "kimlik \<Rightarrow> aralik list"
  ogr_zaman :: "kimlik \<Rightarrow> aralik list"
  kullanim_say :: "kimlik \<Rightarrow> nat"
  dersler_sirali :: "ders list"
  yerlestirmeler :: "yerlestirme list"
  uyarilar :: "plan_uyari list"

definition normalize_gun_disi :: "int list \<Rightarrow> int list" where
  "normalize_gun_disi v = [it \<leftarrow> v. 0 \<le> it \<and> it \<le> 6]"

definition plan_ayari :: "plan_kisit \<Rightarrow> plan_ayar" where
  "plan_ayari k =
     \<lparr>slot_saatleri = k_slotlar k,
      tarih_bas = k_tarih_bas k,
      tarih_bit = k_tarih_bit k,
      default_sure_dk = (if k_varsayilan_sure_dk k = 0 then 75 else k_varsayilan_sure_dk k),
      bekleme_dk = k_bekleme_dk k,
      tek_seans = k_tek_seans k,
      dahil_ders_ids = (case k_dahil_ders_ids k of None \<Rightarrow> [] | Some ids \<Rightarrow> ids),
      gun_disi = normalize_gun_disi (k_gun_disi k),
      ders_sure_map = k_ders_sure_map k\<rparr>"

definition derslik_musait :: "(kimlik \<Rightarrow> aralik list) \<Rightarrow> kimlik \<Rightarrow> dakika \<Rightarrow> dakika \<Rightarrow> bool" where
  "derslik_musait dz dl bas bit' = list_all (\<lambda>(b0, b1). \<not> overlaps bas bit' b0 b1) (dz dl)"

definition ogrenciler_musait :: "(kimlik \<Rightarrow> aralik list) \<Rightarrow> kimlik list \<Rightarrow> dakika \<Rightarrow> dakika \<Rightarrow> bool" where
  "ogrenciler_musait oz ogr bas bit' =
     list_all (\<lambda>oid. list_all (\<lambda>(b0, b1). \<not> overlaps bas bit' b0 b1) (oz oid)) ogr"

definition ders_suresi :: "plan_ayar \<Rightarrow> kimlik \<Rightarrow> int" where
  "ders_suresi a did = (case ders_sure_map a did of Some s \<Rightarrow> s | None \<Rightarrow> default_sure_dk a)"

definition derslik_sec ::
  "(kimlik \<Rightarrow> nat) \<Rightarrow> (kimlik \<Rightarrow> aralik list) \<Rightarrow> derslik list \<Rightarrow> int \<Rightarrow> dakika \<Rightarrow> dakika \<Rightarrow> kimlik option" where
  "derslik_sec ks dz rs ogr bas bit' =
     (case sort_key (\<lambda>dl. (ks (derslik_id dl), kapasite dl))
             [dl \<leftarrow> rs. ogr \<le> kapasite dl \<and> derslik_musait dz (derslik_id dl) bas bit'] of
        [] \<Rightarrow> None
      | dl # _ \<Rightarrow> Some (derslik_id dl))"

definition yerlestir :: "ders \<Rightarrow> dakika \<Rightarrow> dakika \<Rightarrow> kimlik \<Rightarrow> plan_durum \<Rightarrow> plan_durum" where
  "yerlestir d bas bit' dl st =
     st\<lparr>yerlestirmeler := yerlestirmeler st @
          [\<lparr>y_ders_id = ders_id d, baslangic = bas, bitis = bit', derslik_ids = [dl]\<rparr>],
        derslik_zaman := (derslik_zaman st)(dl := derslik_zaman st dl @ [(bas, bit')]),
        ogr_zaman := fold (\<lambda>oid oz. oz(oid := oz oid @ [(bas, bit')])) (ogr_ids d) (ogr_zaman st),
        kullanim_say := (kullanim_say st)(dl := Suc (kullanim_say st dl)),
        dersler_sirali := remove1 d (dersler_sirali st)\<rparr>"

definition ders_dene :: "plan_ayar \<Rightarrow> derslik list \<Rightarrow> int \<Rightarrow> nat \<Rightarrow> ders \<Rightarrow> plan_durum \<Rightarrow> plan_durum \<times> bool" where
  "ders_dene a rs gun slot d st =
     (let bas = combine gun slot;
          bit' = bas + ders_suresi a (ders_id d)
      in if \<not> ogrenciler_musait (ogr_zaman st) (ogr_ids d) bas bit' then (st, False)
         else case derslik_sec (kullanim_say st) (derslik_zaman st) rs (ogr_say d) bas bit' of
           None \<Rightarrow> (st\<lparr>uyarilar := uyarilar st @ [DerslikBulunamadi (kod d) gun slot]\<rparr>, False)
         | Some dl \<Rightarrow> (yerlestir d bas bit' dl st, True))"

fun slot_dongusu ::
  "plan_ayar \<Rightarrow> derslik list \<Rightarrow> int \<Rightarrow> nat \<Rightarrow> nat \<Rightarrow> nat \<Rightarrow> ders list \<Rightarrow> plan_durum \<Rightarrow> plan_durum" where
  "slot_dongusu a rs gun slot mx ekl [] st = st"
| "slot_dongusu a rs gun slot mx ekl (d # ds) st =
     (if mx \<le> ekl then st
      else let (st', yerlesti) = ders_dene a rs gun slot d st in
        if \<not> yerlesti then slot_dongusu a rs gun slot mx ekl ds st'
        else if tek_seans a then st'
        else slot_dongusu a rs gun slot mx (Suc ekl) ds st')"

fun slotlar_dongusu :: "plan_ayar \<Rightarrow> derslik list \<Rightarrow> int \<Rightarrow> nat list \<Rightarrow> plan_durum \<Rightarrow> plan_durum" where
  "slotlar_dongusu a rs gun [] st = st"
| "slotlar_dongusu a rs gun (slot # slots) st =
     (if dersler_sirali st = [] then st
      else slotlar_dongusu a rs gun slots
             (slot_dongusu a rs gun slot (if tek_seans a then 1 else length (dersler_sirali st)) 0
                (dersler_sirali st) st))"

function gun_dongusu :: "plan_ayar \<Rightarrow> derslik list \<Rightarrow> int \<Rightarrow> plan_durum \<Rightarrow> plan_durum" where
  "gun_dongusu a rs gun st =
     (if gun \<le> tarih_bit a then
        (if weekday gun \<in> set (gun_disi a) then gun_dongusu a rs (gun + 1) st
         else gun_dongusu a rs (gun + 1) (slotlar_dongusu a rs gun (slot_saatleri a) st))
      else st)"
  by pat_completeness auto
termination
  by (relation "measure (\<lambda>(a, rs, gun, st). nat (tarih_bit a - gun + 1))") auto

declare gun_dongusu.simps [simp del]

definition bos_durum :: "ders list \<Rightarrow> plan_durum" where
  "bos_durum ds = \<lparr>derslik_zaman = (\<lambda>_. []), ogr_zaman = (\<lambda>_. []), kullanim_say = (\<lambda>_. 0),
                   dersler_sirali = ds, yerlestirmeler = [], uyarilar = []\<rparr>"

text \<open>Properties of placements and the invariants of the loops.\<close>

definition oda_cakismaz :: "yerlestirme \<Rightarrow> yerlestirme \<Rightarrow> bool" where
  "oda_cakismaz p q \<longleftrightarrow>
     set (derslik_ids p) \<inter> set (derslik_ids q) = {} \<or> \<not> overlaps (baslangic p) (bitis p) (baslangic q) (bitis q)"

definition ders_ogrencileri :: "ders list \<Rightarrow> kimlik \<Rightarrow> kimlik list" where
  "ders_ogrencileri ds i = (case find (\<lambda>d. ders_id d = i) ds of Some d \<Rightarrow> ogr_ids d | None \<Rightarrow> [])"

definition ogrenci_cakismaz :: "ders list \<Rightarrow> yerlestirme \<Rightarrow> yerlestirme \<Rightarrow> bool" where
  "ogrenci_cakismaz ds p q \<longleftrightarrow>
     set (ders_ogrencileri ds (y_ders_id p)) \<inter> set (ders_ogrencileri ds (y_ders_id q)) = {}
     \<or> \<not> overlaps (baslangic p) (bitis p) (baslangic q) (bitis q)"

definition dahil_filtre :: "plan_ayar \<Rightarrow> ders list \<Rightarrow> ders list" where
  "dahil_filtre a dersler =
     (if dahil_ders_ids a = [] then dersler else [d \<leftarrow> dersler. ders_id d \<in> set (dahil_ders_ids a)])"

definition planla_ayar :: "plan_ayar \<Rightarrow> ders list \<Rightarrow> derslik list \<Rightarrow> plan_durum" where
  "planla_ayar a dersler derslikler =
     (let dersler_sirali = sort_key (\<lambda>d. - ogr_say d) (dahil_filtre a dersler);
          derslikler_sirali = sort_key (\<lambda>dl. - kapasite dl) derslikler
      in gun_dongusu a derslikler_sirali (tarih_bas a) (bos_durum dersler_sirali))"

definition planla_durum :: "plan_kisit \<Rightarrow> ders list \<Rightarrow> derslik list \<Rightarrow> plan_durum" where
  "planla_durum k dersler derslikler = planla_ayar (plan_ayari k) dersler derslikler"

definition planla :: "plan_kisit \<Rightarrow> ders list \<Rightarrow> derslik list \<Rightarrow> yerlestirme list \<times> plan_uyari list \<times> bool" where
  "planla k dersler derslikler =
     (let st = planla_durum k dersler derslikler in (yerlestirmeler st, uyarilar st, False))"

definition yerlestirme_gecerli :: "plan_ayar \<Rightarrow> ders list \<Rightarrow> derslik list \<Rightarrow> yerlestirme \<Rightarrow> bool" where
  "yerlestirme_gecerli a dersler derslikler p \<longleftrightarrow>
     (\<exists>d \<in> set dersler. \<exists>r \<in> set derslikler. \<exists>gun slot.
        y_ders_id p = ders_id d \<and> derslik_ids p = [derslik_id r] \<and> ogr_say d \<le> kapasite r \<and>
        (dahil_ders_ids a = [] \<or> ders_id d \<in> set (dahil_ders_ids a)) \<and>
        tarih_bas a \<le> gun \<and> gun \<le> tarih_bit a \<and> weekday gun \<notin> set (gun_disi a) \<and>
        slot \<in> set (slot_saatleri a) \<and> baslangic p = combine gun slot \<and>
        bitis p = combine gun slot + ders_suresi a (ders_id d))"


definition oda_inv :: "plan_durum \<Rightarrow> bool" where
  "oda_inv st \<longleftrightarrow> sorted_wrt oda_cakismaz (yerlestirmeler st) \<and>
     (\<forall>p \<in> set (yerlestirmeler st). \<forall>r \<in> set (derslik_ids p). (baslangic p, bitis p) \<in> set (derslik_zaman st r))"

definition ogr_inv :: "ders list \<Rightarrow> plan_durum \<Rightarrow> bool" where
  "ogr_inv ds st \<longleftrightarrow> set (dersler_sirali st) \<subseteq> set ds \<and>
     sorted_wrt (ogrenci_cakismaz ds) (yerlestirmeler st) \<and>
     (\<forall>p \<in> set (yerlestirmeler st). \<forall>i \<in> set (ders_ogrencileri ds (y_ders_id p)).
        (baslangic p, bitis p) \<in> set (ogr_zaman st i))"

definition bir_inv :: "plan_durum \<Rightarrow> bool" where
  "bir_inv st \<longleftrightarrow> distinct (map ders_id (dersler_sirali st)) \<and> distinct (map y_ders_id (yerlestirmeler st)) \<and>
     (\<forall>p \<in> set (yerlestirmeler st). y_ders_id p \<notin> ders_id ` set (dersler_sirali st))"

definition gecerli_inv :: "plan_ayar \<Rightarrow> ders list \<Rightarrow> derslik list \<Rightarrow> plan_durum \<Rightarrow> bool" where
  "gecerli_inv a ds R st \<longleftrightarrow>
     (\<forall>d \<in> set (dersler_sirali st). d \<in> set ds \<and> (dahil_ders_ids a = [] \<or> ders_id d \<in> set (dahil_ders_ids a))) \<and>
     (\<forall>p \<in> set (yerlestirmeler st). yerlestirme_gecerli a ds R p)"

text \<open>Example inputs used by the witnesses: Monday 2025-01-06 (ordinal 739257), one slot at
  10:00, two courses sharing student 11, one room of 40 seats.\<close>

definition ornek_kisit :: plan_kisit where
  "ornek_kisit =
     \<lparr>k_tarih_bas = 739257, k_tarih_bit = 739257, k_slotlar = [600], k_varsayilan_sure_dk = 75,
      k_bekleme_dk = 15, k_sinav_turu = ''vize'', k_tek_seans = False, k_dahil_ders_ids = None,
      k_gun_disi = [5, 6], k_ders_sure_map = Map.empty\<rparr>"

definition ornek_ders1 :: ders where
  "ornek_ders1 = \<lparr>ders_id = 1, kod = ''CSE101'', sinif = None, ogr_say = 2, ogr_ids = [10, 11]\<rparr>"

definition ornek_ders2 :: ders where
  "ornek_ders2 = \<lparr>ders_id = 2, kod = ''CSE102'', sinif = None, ogr_say = 2, ogr_ids = [11, 12]\<rparr>"

definition ornek_derslik :: derslik where
  "ornek_derslik = \<lparr>derslik_id = 7, kapasite = 40, enine = 8, boyuna = 5, sira_yapisi = 2\<rparr>"

subsection \<open>Evaluation rules\<close>

declare planla_def [plan_simps] planla_durum_def [plan_simps] planla_ayar_def [plan_simps] plan_ayari_def [plan_simps]
  bos_durum_def [plan_simps] gun_dongusu.simps [plan_simps] ders_dene_def [plan_simps]
  yerlestir_def [plan_simps] derslik_sec_def [plan_simps] derslik_musait_def [plan_simps]
  ogrenciler_musait_def [plan_simps] ders_suresi_def [plan_simps] normalize_gun_disi_def [plan_simps]
  dahil_filtre_def [plan_simps] weekday_def [plan_simps] combine_def [plan_simps] overlaps_def [plan_simps]

subsection \<open>A single attempt, the placement update and the loops\<close>

lemma derslik_sec_Some:
  assumes "derslik_sec ks dz rs ogr bas bit' = Some dl"
  shows "\<exists>r \<in> set rs. derslik_id r = dl \<and> ogr \<le> kapasite r \<and> derslik_musait dz dl bas bit'"
proof -
  define us where "us = [dl \<leftarrow> rs. ogr \<le> kapasite dl \<and> derslik_musait dz (derslik_id dl) bas bit']"
  define f where "f = (\<lambda>dl::derslik. (ks (derslik_id dl), kapasite dl))"
  have e: "derslik_sec ks dz rs ogr bas bit' = (case sort_key f us of [] \<Rightarrow> None | r # _ \<Rightarrow> Some (derslik_id r))"
    by (simp only: derslik_sec_def us_def f_def)
  show ?thesis
  proof (cases "sort_key f us")
    case Nil
    with assms e show ?thesis by simp
  next
    case (Cons r rest)
    then have "r \<in> set (sort_key f us)" by simp
    then have "r \<in> set us" by (simp only: set_sort)
    moreover have "dl = derslik_id r" using assms e Cons by simp
    ultimately show ?thesis by (auto simp: us_def)
  qed
qed

lemma ders_dene_sonuc:
  "(\<exists>u. ders_dene a rs gun slot d st = (st\<lparr>uyarilar := u\<rparr>, False)) \<or>
   (\<exists>dl. ders_dene a rs gun slot d st =
          (yerlestir d (combine gun slot) (combine gun slot + ders_suresi a (ders_id d)) dl st, True) \<and>
        ogrenciler_musait (ogr_zaman st) (ogr_ids d) (combine gun slot) (combine gun slot + ders_suresi a (ders_id d)) \<and>
        derslik_sec (kullanim_say st) (derslik_zaman st) rs (ogr_say d) (combine gun slot)
          (combine gun slot + ders_suresi a (ders_id d)) = Some dl)"
proof (cases "ogrenciler_musait (ogr_zaman st) (ogr_ids d) (combine gun slot) (combine gun slot + ders_suresi a (ders_id d))")
  case True
  then show ?thesis
  proof (cases "derslik_sec (kullanim_say st) (derslik_zaman st) rs (ogr_say d) (combine gun slot)
                  (combine gun slot + ders_suresi a (ders_id d))")
    case None
    with True have "ders_dene a rs gun slot d st =
        (st\<lparr>uyarilar := uyarilar st @ [DerslikBulunamadi (kod d) gun slot]\<rparr>, False)"
      by (simp add: ders_dene_def Let_def)
    then show ?thesis by blast
  next
    case (Some dl)
    with True show ?thesis by (simp add: ders_dene_def Let_def)
  qed
next
  case False
  then have "ders_dene a rs gun slot d st = (st\<lparr>uyarilar := uyarilar st\<rparr>, False)"
    by (simp add: ders_dene_def Let_def)
  then show ?thesis by blast
qed

lemma set_fold_ekle:
  "set (fold (\<lambda>oid oz. oz(oid := oz oid @ [x])) os oz i) = set (oz i) \<union> (if i \<in> set os then {x} else {})"
  by (induction os arbitrary: oz) auto

lemma yerlestir_alanlar:
  "yerlestirmeler (yerlestir d bas bit' dl st) =
     yerlestirmeler st @ [\<lparr>y_ders_id = ders_id d, baslangic = bas, bitis = bit', derslik_ids = [dl]\<rparr>]"
  "set (derslik_zaman (yerlestir d bas bit' dl st) r) =
     set (derslik_zaman st r) \<union> (if r = dl then {(bas, bit')} else {})"
  "set (ogr_zaman (yerlestir d bas bit' dl st) i) =
     set (ogr_zaman st i) \<union> (if i \<in> set (ogr_ids d) then {(bas, bit')} else {})"
  "dersler_sirali (yerlestir d bas bit' dl st) = remove1 d (dersler_sirali st)"
  by (auto simp: yerlestir_def set_fold_ekle)

lemma ders_dene_kalan:
  "dersler_sirali (fst (ders_dene a rs gun slot d st)) =
     (if snd (ders_dene a rs gun slot d st) then remove1 d (dersler_sirali st) else dersler_sirali st)"
  using ders_dene_sonuc [of a rs gun slot d st] by (auto simp: yerlestir_alanlar)

lemma slot_dongusu_korur:
  assumes step: "\<And>st d. P st \<Longrightarrow> d \<in> set (dersler_sirali st) \<Longrightarrow> P (fst (ders_dene a rs gun slot d st))"
    and "P st" and "mset ds \<subseteq># mset (dersler_sirali st)"
  shows "P (slot_dongusu a rs gun slot mx ekl ds st)"
  using assms(2,3)
proof (induction ds arbitrary: st ekl)
  case Nil
  then show ?case by simp
next
  case (Cons d ds)
  obtain st' b where e: "ders_dene a rs gun slot d st = (st', b)" by fastforce
  have "d \<in># mset (dersler_sirali st)"
    using Cons.prems(2) by (rule mset_subset_eqD) simp
  then have d: "d \<in> set (dersler_sirali st)" by simp
  have P': "P st'" using step [OF Cons.prems(1) d] e by simp
  have sub: "mset ds \<subseteq># mset (dersler_sirali st')"
  proof (cases b)
    case True
    then have "dersler_sirali st' = remove1 d (dersler_sirali st)"
      using ders_dene_kalan [of a rs gun slot d st] e by simp
    with Cons.prems(2) show ?thesis
      by (simp add: insert_subset_eq_iff)
  next
    case False
    then have "dersler_sirali st' = dersler_sirali st"
      using ders_dene_kalan [of a rs gun slot d st] e by simp
    moreover have "mset ds \<subseteq># mset (d # ds)" by simp
    ultimately show ?thesis
      using Cons.prems(2) by (metis subset_mset.order_trans)
  qed
  have IH: "P (slot_dongusu a rs gun slot mx ekl' ds st')" for ekl'
    using Cons.IH [OF P' sub] .
  show ?case
    using Cons.prems(1) P' IH e by (simp add: Let_def)
qed


lemma slotlar_dongusu_korur:
  assumes step: "\<And>st d slot. P st \<Longrightarrow> d \<in> set (dersler_sirali st) \<Longrightarrow> slot \<in> set slots \<Longrightarrow>
                   P (fst (ders_dene a rs gun slot d st))"
    and "P st"
  shows "P (slotlar_dongusu a rs gun slots st)"
  using assms
proof (induction slots arbitrary: st)
  case Nil
  then show ?case by simp
next
  case (Cons slot slots)
  have "P (slot_dongusu a rs gun slot (if tek_seans a then 1 else length (dersler_sirali st)) 0
             (dersler_sirali st) st)"
    by (rule slot_dongusu_korur) (use Cons.prems in auto)
  with Cons.IH [of "slot_dongusu a rs gun slot (if tek_seans a then 1 else length (dersler_sirali st)) 0
                      (dersler_sirali st) st"] Cons.prems
  show ?case by simp
qed

lemma gun_dongusu_korur:
  assumes step: "\<And>st d gun slot. P st \<Longrightarrow> d \<in> set (dersler_sirali st) \<Longrightarrow> g0 \<le> gun \<Longrightarrow>
                   gun \<le> tarih_bit a \<Longrightarrow> weekday gun \<notin> set (gun_disi a) \<Longrightarrow>
                   slot \<in> set (slot_saatleri a) \<Longrightarrow> P (fst (ders_dene a rs gun slot d st))"
    and "P st" and "g0 \<le> g"
  shows "P (gun_dongusu a rs g st)"
  using assms(2,3)
proof (induction "nat (tarih_bit a - g + 1)" arbitrary: g st rule: less_induct)
  case less
  show ?case
  proof (cases "g \<le> tarih_bit a")
    case True
    have IH: "P (gun_dongusu a rs (g + 1) st')" if "P st'" for st'
      using less.hyps [of "g + 1" st'] True that less.prems(2) by simp
    show ?thesis
    proof (cases "weekday g \<in> set (gun_disi a)")
      case True
      with \<open>g \<le> tarih_bit a\<close> IH less.prems(1) show ?thesis
        by (simp add: gun_dongusu.simps [of a rs g st])
    next
      case False
      have "P (slotlar_dongusu a rs g (slot_saatleri a) st)"
      proof (rule slotlar_dongusu_korur)
        show "P st" by (rule less.prems(1))
        show "P (fst (ders_dene a rs g slot d st'))"
          if "P st'" "d \<in> set (dersler_sirali st')" "slot \<in> set (slot_saatleri a)" for st' d slot
          using step [OF that(1,2) less.prems(2) \<open>g \<le> tarih_bit a\<close> False that(3)] .
      qed
      with \<open>g \<le> tarih_bit a\<close> False IH show ?thesis
        by (simp add: gun_dongusu.simps [of a rs g st])
    qed
  next
    case False
    with less.prems(1) show ?thesis by (simp add: gun_dongusu.simps [of a rs g st])
  qed
qed


lemma derslik_musait_ayrik:
  "derslik_musait dz dl bas bit' \<Longrightarrow> (b0, b1) \<in> set (dz dl) \<Longrightarrow> \<not> overlaps b0 b1 bas bit'"
  by (auto simp: derslik_musait_def list_all_iff overlaps_sym)

lemma ogrenciler_musait_ayrik:
  "ogrenciler_musait oz ogr bas bit' \<Longrightarrow> i \<in> set ogr \<Longrightarrow> (b0, b1) \<in> set (oz i) \<Longrightarrow>
     \<not> overlaps b0 b1 bas bit'"
  by (auto simp: ogrenciler_musait_def list_all_iff overlaps_sym)

lemma yerlestir_oda_inv:
  assumes inv: "oda_inv st" and musait: "derslik_musait (derslik_zaman st) dl bas bit'"
  shows "oda_inv (yerlestir d bas bit' dl st)"
proof -
  let ?p = "\<lparr>y_ders_id = ders_id d, baslangic = bas, bitis = bit', derslik_ids = [dl]\<rparr>"
  have "oda_cakismaz q ?p" if "q \<in> set (yerlestirmeler st)" for q
  proof (cases "dl \<in> set (derslik_ids q)")
    case True
    with inv that have "(baslangic q, bitis q) \<in> set (derslik_zaman st dl)"
      by (auto simp: oda_inv_def)
    with musait show ?thesis
      by (simp add: oda_cakismaz_def derslik_musait_ayrik)
  qed (simp add: oda_cakismaz_def)
  with inv show ?thesis
    by (auto simp: oda_inv_def yerlestir_alanlar)
qed


lemma inv_uyarilar [simp]:
  "oda_inv (st\<lparr>uyarilar := u\<rparr>) = oda_inv st"
  "ogr_inv ds (st\<lparr>uyarilar := u\<rparr>) = ogr_inv ds st"
  "bir_inv (st\<lparr>uyarilar := u\<rparr>) = bir_inv st"
  by (simp_all add: oda_inv_def ogr_inv_def bir_inv_def)

lemma ders_dene_korur:
  assumes warn: "\<And>u. Q st \<Longrightarrow> Q (st\<lparr>uyarilar := u\<rparr>)"
    and place: "\<And>dl. Q st \<Longrightarrow>
        ogrenciler_musait (ogr_zaman st) (ogr_ids d) (combine gun slot) (combine gun slot + ders_suresi a (ders_id d)) \<Longrightarrow>
        derslik_musait (derslik_zaman st) dl (combine gun slot) (combine gun slot + ders_suresi a (ders_id d)) \<Longrightarrow>
        (\<exists>r \<in> set rs. derslik_id r = dl \<and> ogr_say d \<le> kapasite r) \<Longrightarrow>
        Q (yerlestir d (combine gun slot) (combine gun slot + ders_suresi a (ders_id d)) dl st)"
    and "Q st"
  shows "Q (fst (ders_dene a rs gun slot d st))"
  using ders_dene_sonuc [of a rs gun slot d st]
proof (elim disjE exE conjE)
  fix u
  assume "ders_dene a rs gun slot d st = (st\<lparr>uyarilar := u\<rparr>, False)"
  with warn \<open>Q st\<close> show ?thesis by simp
next
  fix dl
  assume e: "ders_dene a rs gun slot d st =
      (yerlestir d (combine gun slot) (combine gun slot + ders_suresi a (ders_id d)) dl st, True)"
    and m: "ogrenciler_musait (ogr_zaman st) (ogr_ids d) (combine gun slot) (combine gun slot + ders_suresi a (ders_id d))"
    and s: "derslik_sec (kullanim_say st) (derslik_zaman st) rs (ogr_say d) (combine gun slot)
      (combine gun slot + ders_suresi a (ders_id d)) = Some dl"
  from derslik_sec_Some [OF s] obtain r where
    "r \<in> set rs" "derslik_id r = dl" "ogr_say d \<le> kapasite r"
    "derslik_musait (derslik_zaman st) dl (combine gun slot) (combine gun slot + ders_suresi a (ders_id d))"
    by blast
  with place [OF \<open>Q st\<close> m] e show ?thesis by auto
qed

lemma ders_dene_oda_inv:
  assumes "oda_inv st"
  shows "oda_inv (fst (ders_dene a rs gun slot d st))"
proof (rule ders_dene_korur)
  show "oda_inv (yerlestir d (combine gun slot) (combine gun slot + ders_suresi a (ders_id d)) dl st)"
    if "oda_inv st"
      and "derslik_musait (derslik_zaman st) dl (combine gun slot) (combine gun slot + ders_suresi a (ders_id d))"
    for dl
    using that by (rule yerlestir_oda_inv)
qed (simp_all add: assms)

lemma yerlestir_ogr_inv:
  assumes dist: "distinct (map ders_id ds)" and inv: "ogr_inv ds st"
    and d: "d \<in> set (dersler_sirali st)" and musait: "ogrenciler_musait (ogr_zaman st) (ogr_ids d) bas bit'"
  shows "ogr_inv ds (yerlestir d bas bit' dl st)"
proof -
  let ?p = "\<lparr>y_ders_id = ders_id d, baslangic = bas, bitis = bit', derslik_ids = [dl]\<rparr>"
  have dD: "d \<in> set ds" using inv d by (auto simp: ogr_inv_def)
  have ogr: "ders_ogrencileri ds (ders_id d) = ogr_ids d"
    using find_distinct_key [OF dist dD] by (simp add: ders_ogrencileri_def)
  have "ogrenci_cakismaz ds q ?p" if q: "q \<in> set (yerlestirmeler st)" for q
  proof (cases "set (ders_ogrencileri ds (y_ders_id q)) \<inter> set (ogr_ids d) = {}")
    case False
    then obtain i where i: "i \<in> set (ders_ogrencileri ds (y_ders_id q))" "i \<in> set (ogr_ids d)" by blast
    with inv q have "(baslangic q, bitis q) \<in> set (ogr_zaman st i)" by (auto simp: ogr_inv_def)
    with musait i(2) show ?thesis
      by (simp add: ogrenci_cakismaz_def ogrenciler_musait_ayrik)
  qed (simp add: ogrenci_cakismaz_def ogr)
  moreover have "set (remove1 d (dersler_sirali st)) \<subseteq> set ds"
    using inv set_remove1_subset by (fastforce simp: ogr_inv_def)
  ultimately show ?thesis
    using inv by (auto simp: ogr_inv_def yerlestir_alanlar ogr)
qed

lemma ders_dene_ogr_inv:
  assumes "distinct (map ders_id ds)" and "ogr_inv ds st" and "d \<in> set (dersler_sirali st)"
  shows "ogr_inv ds (fst (ders_dene a rs gun slot d st))"
  by (rule ders_dene_korur) (simp_all add: assms yerlestir_ogr_inv)

lemma yerlestir_bir_inv:
  assumes inv: "bir_inv st" and d: "d \<in> set (dersler_sirali st)"
  shows "bir_inv (yerlestir d bas bit' dl st)"
proof -
  let ?K = "dersler_sirali st"
  have dK: "distinct (map ders_id ?K)" using inv by (simp add: bir_inv_def)
  have K': "set (remove1 d ?K) = set ?K - {d}" by (rule set_remove1_distinct_key [OF dK])
  have gone: "ders_id d \<notin> ders_id ` set (remove1 d ?K)"
    using dK d by (auto simp: K' distinct_map inj_on_def)
  have fresh: "ders_id d \<notin> set (map y_ders_id (yerlestirmeler st))"
    using inv d by (fastforce simp: bir_inv_def image_iff)
  show ?thesis
    using inv gone fresh dK K'
    by (auto simp: bir_inv_def yerlestir_alanlar distinct_map_remove1)
qed

lemma ders_dene_bir_inv:
  assumes "bir_inv st" and "d \<in> set (dersler_sirali st)"
  shows "bir_inv (fst (ders_dene a rs gun slot d st))"
  by (rule ders_dene_korur) (simp_all add: assms yerlestir_bir_inv)


lemma gecerli_inv_uyarilar [simp]: "gecerli_inv a ds R (st\<lparr>uyarilar := u\<rparr>) = gecerli_inv a ds R st"
  by (simp add: gecerli_inv_def)

lemma yerlestir_gecerli_inv:
  assumes inv: "gecerli_inv a ds R st" and d: "d \<in> set (dersler_sirali st)"
    and r: "r \<in> set R" "ogr_say d \<le> kapasite r"
    and gun: "tarih_bas a \<le> gun" "gun \<le> tarih_bit a" "weekday gun \<notin> set (gun_disi a)"
    and slot: "slot \<in> set (slot_saatleri a)"
  shows "gecerli_inv a ds R
           (yerlestir d (combine gun slot) (combine gun slot + ders_suresi a (ders_id d)) (derslik_id r) st)"
proof -
  have "d \<in> set ds" "dahil_ders_ids a = [] \<or> ders_id d \<in> set (dahil_ders_ids a)"
    using inv d by (auto simp: gecerli_inv_def)
  then have "yerlestirme_gecerli a ds R
      \<lparr>y_ders_id = ders_id d, baslangic = combine gun slot,
       bitis = combine gun slot + ders_suresi a (ders_id d), derslik_ids = [derslik_id r]\<rparr>"
    using r gun slot unfolding yerlestirme_gecerli_def by fastforce
  moreover have "set (remove1 d (dersler_sirali st)) \<subseteq> set (dersler_sirali st)"
    by (rule set_remove1_subset)
  ultimately show ?thesis
    using inv by (auto simp: gecerli_inv_def yerlestir_alanlar)
qed

lemma ders_dene_gecerli_inv:
  assumes "gecerli_inv a ds R st" and "d \<in> set (dersler_sirali st)" and "set rs = set R"
    and "tarih_bas a \<le> gun" "gun \<le> tarih_bit a" "weekday gun \<notin> set (gun_disi a)"
    and "slot \<in> set (slot_saatleri a)"
  shows "gecerli_inv a ds R (fst (ders_dene a rs gun slot d st))"
  by (rule ders_dene_korur) (use assms in \<open>auto intro: yerlestir_gecerli_inv\<close>)

lemma planla_korur:
  assumes init: "P (bos_durum (sort_key (\<lambda>d. - ogr_say d) (dahil_filtre a dersler)))"
    and step: "\<And>st d gun slot. P st \<Longrightarrow> d \<in> set (dersler_sirali st) \<Longrightarrow>
          tarih_bas a \<le> gun \<Longrightarrow> gun \<le> tarih_bit a \<Longrightarrow>
          weekday gun \<notin> set (gun_disi a) \<Longrightarrow> slot \<in> set (slot_saatleri a) \<Longrightarrow>
          P (fst (ders_dene a (sort_key (\<lambda>dl. - kapasite dl) derslikler) gun slot d st))"
  shows "P (planla_ayar a dersler derslikler)"
  unfolding planla_ayar_def Let_def
  by (rule gun_dongusu_korur [where g0 = "tarih_bas a"]) (use init step in auto)

lemma planla_fst: "fst (planla k dersler derslikler) = yerlestirmeler (planla_durum k dersler derslikler)"
  by (simp add: planla_def Let_def)

lemma set_dahil_filtre: "set (dahil_filtre a dersler) \<subseteq> set dersler"
  by (auto simp: dahil_filtre_def)

lemma distinct_dahil_filtre: "distinct (map f dersler) \<Longrightarrow> distinct (map f (dahil_filtre a dersler))"
  by (simp add: dahil_filtre_def distinct_map_filter)


subsection \<open>The invariants hold after planning\<close>

lemma ayar_oda_inv: "oda_inv (planla_ayar a dersler derslikler)"
proof (rule planla_korur)
  show "oda_inv (bos_durum (sort_key (\<lambda>d. - ogr_say d) (dahil_filtre a dersler)))"
    by (simp add: oda_inv_def bos_durum_def)
qed (rule ders_dene_oda_inv)

lemma ayar_ogr_inv:
  assumes "distinct (map ders_id dersler)"
  shows "ogr_inv dersler (planla_ayar a dersler derslikler)"
proof (rule planla_korur)
  show "ogr_inv dersler (bos_durum (sort_key (\<lambda>d. - ogr_say d) (dahil_filtre a dersler)))"
    using set_dahil_filtre by (auto simp: ogr_inv_def bos_durum_def)
qed (rule ders_dene_ogr_inv [OF assms])

lemma ayar_gecerli_inv: "gecerli_inv a dersler derslikler (planla_ayar a dersler derslikler)"
proof (rule planla_korur)
  show "gecerli_inv a dersler derslikler
          (bos_durum (sort_key (\<lambda>d. - ogr_say d) (dahil_filtre a dersler)))"
    by (auto simp: gecerli_inv_def bos_durum_def dahil_filtre_def)
qed (rule ders_dene_gecerli_inv, simp_all)

lemma ayar_bir_inv:
  assumes "distinct (map ders_id dersler)"
  shows "bir_inv (planla_ayar a dersler derslikler)"
proof (rule planla_korur)
  show "bir_inv (bos_durum (sort_key (\<lambda>d. - ogr_say d) (dahil_filtre a dersler)))"
    using assms by (simp add: bir_inv_def bos_durum_def distinct_map_sort_key distinct_dahil_filtre)
qed (rule ders_dene_bir_inv)

lemma planla_oda_inv: "oda_inv (planla_durum k dersler derslikler)"
  unfolding planla_durum_def by (rule ayar_oda_inv)

lemma planla_ogr_inv: "distinct (map ders_id dersler) \<Longrightarrow> ogr_inv dersler (planla_durum k dersler derslikler)"
  unfolding planla_durum_def by (rule ayar_ogr_inv)

lemma planla_gecerli_inv: "gecerli_inv (plan_ayari k) dersler derslikler (planla_durum k dersler derslikler)"
  unfolding planla_durum_def by (rule ayar_gecerli_inv)

lemma planla_bir_inv: "distinct (map ders_id dersler) \<Longrightarrow> bir_inv (planla_durum k dersler derslikler)"
  unfolding planla_durum_def by (rule ayar_bir_inv)

subsection \<open>Correctness of the planner\<close>

text \<open>C1: No two placements the planner emits that share a room have overlapping
  half-open time intervals.\<close>

theorem planla_oda_cakismasiz: "sorted_wrt oda_cakismaz (fst (planla k dersler derslikler))"
  using planla_oda_inv [of k dersler derslikler] by (simp add: planla_fst oda_inv_def)

theorem planla_oda_cakismasiz_witness:
  "sorted_wrt oda_cakismaz (fst (planla ornek_kisit [ornek_ders1, ornek_ders2] [ornek_derslik]))"
  by (rule planla_oda_cakismasiz)

text \<open>C2: When course ids are distinct, no student is enrolled in two courses whose
  placements overlap in time.\<close>

theorem planla_ogrenci_cakismasiz:
  assumes "distinct (map ders_id dersler)"
  shows "sorted_wrt (ogrenci_cakismaz dersler) (fst (planla k dersler derslikler))"
  using planla_ogr_inv [OF assms, of k derslikler] by (simp add: planla_fst ogr_inv_def)

theorem planla_ogrenci_cakismasiz_witness:
  "distinct (map ders_id [ornek_ders1, ornek_ders2]) \<and>
   sorted_wrt (ogrenci_cakismaz [ornek_ders1, ornek_ders2])
     (fst (planla ornek_kisit [ornek_ders1, ornek_ders2] [ornek_derslik]))"
proof -
  have h: "distinct (map ders_id [ornek_ders1, ornek_ders2])"
    by (simp add: ornek_ders1_def ornek_ders2_def)
  show ?thesis using h planla_ogrenci_cakismasiz [OF h] by simp
qed

text \<open>C3: Every placement comes from an input course that passed the allow-list, sits in
  one input room whose capacity is at least the course's enrollment count, starts at an
  allowed slot of a day of the planning range that is not excluded, and lasts the course's
  duration (its override, else the default).\<close>

theorem planla_yerlestirme_gecerli:
  "\<forall>p \<in> set (fst (planla k dersler derslikler)). yerlestirme_gecerli (plan_ayari k) dersler derslikler p"
  using planla_gecerli_inv [of k dersler derslikler] by (simp add: planla_fst gecerli_inv_def)

theorem planla_yerlestirme_gecerli_witness:
  "list_all (yerlestirme_gecerli (plan_ayari ornek_kisit) [ornek_ders1, ornek_ders2] [ornek_derslik])
     (fst (planla ornek_kisit [ornek_ders1, ornek_ders2] [ornek_derslik]))"
  using planla_yerlestirme_gecerli [of ornek_kisit "[ornek_ders1, ornek_ders2]" "[ornek_derslik]"]
  by (simp add: list_all_iff)

text \<open>C4: When course ids are distinct, the planner places every course at most once.\<close>

theorem planla_ders_bir_kez:
  assumes "distinct (map ders_id dersler)"
  shows "distinct (map y_ders_id (fst (planla k dersler derslikler)))"
  using planla_bir_inv [OF assms, of k derslikler] by (simp add: planla_fst bir_inv_def)

theorem planla_ders_bir_kez_witness:
  "distinct (map ders_id [ornek_ders1, ornek_ders2]) \<and>
   distinct (map y_ders_id (fst (planla ornek_kisit [ornek_ders1, ornek_ders2] [ornek_derslik])))"
proof -
  have h: "distinct (map ders_id [ornek_ders1, ornek_ders2])"
    by (simp add: ornek_ders1_def ornek_ders2_def)
  show ?thesis using h planla_ders_bir_kez [OF h] by simp
qed

end
