(* ===== verification/Senaryolar.thy ===== *)
theory Senaryolar
  imports Planlayici Oturma
begin

text \<open>
  The scenarios of the specification's testable properties and the behaviours of
  \<open>planla\<close> (\<open>src/planner.py\<close>) that differ from what its docstring, the user
  interface or the specification promise, each proved on concrete inputs by evaluation, and
  one general fact: the result of the planner does not depend on the buffer
  \<open>bekleme_dk\<close>, which the docstring of \<open>PlanKisit\<close> describes as the minimum gap
  between a student's consecutive exams (line 127) and \<open>planla\<close> reads only "for
  information" (line 286).

  Days are ordinals (739257 is Monday 2025-01-06), slots minutes of the day (600 is 10:00;
  1005 and 1065 are 16:45 and 17:45, two consecutive default slots of the exam schedule
  screen \<open>src/arayuz/sinav_programi_penceresi.py\<close>, line 50).
\<close>

subsection \<open>Example inputs\<close>

definition ders_a :: ders where
  "ders_a = \<lparr>ders_id = 21, kod = ''MAT201'', sinif = None, ogr_say = 3, ogr_ids = [31, 32, 33]\<rparr>"

definition ders_b :: ders where
  "ders_b = \<lparr>ders_id = 22, kod = ''FIZ201'', sinif = None, ogr_say = 2, ogr_ids = [34, 35]\<rparr>"

definition ders_c :: ders where
  "ders_c = \<lparr>ders_id = 23, kod = ''KIM201'', sinif = None, ogr_say = 1, ogr_ids = [36]\<rparr>"

definition ornek_derslik_2 :: derslik where
  "ornek_derslik_2 = \<lparr>derslik_id = 8, kapasite = 40, enine = 8, boyuna = 5, sira_yapisi = 2\<rparr>"

definition kisit_tek_seans_3gun :: plan_kisit where
  "kisit_tek_seans_3gun = ornek_kisit\<lparr>k_tarih_bit := 739259, k_tek_seans := True\<rparr>"

definition kisit_tek_seans_ui :: plan_kisit where
  "kisit_tek_seans_ui = ornek_kisit\<lparr>k_slotlar := [1005, 1065], k_tek_seans := True\<rparr>"

definition kisit_ardisik :: plan_kisit where
  "kisit_ardisik = ornek_kisit\<lparr>k_slotlar := [600, 675]\<rparr>"

text \<open>Facts for evaluating the planner on the examples.\<close>

text \<open>The state of the planner while no warning has been emitted: every course is placed or
  still waiting, waiting courses are input courses, and each placement has put one interval in
  the timetable of one of the rooms.\<close>

definition uyarisiz_inv :: "nat \<Rightarrow> ders set \<Rightarrow> derslik list \<Rightarrow> plan_durum \<Rightarrow> bool" where
  "uyarisiz_inv n D rs st \<longleftrightarrow>
     uyarilar st = [] \<and> length (yerlestirmeler st) + length (dersler_sirali st) = n \<and>
     set (dersler_sirali st) \<subseteq> D \<and> (\<forall>dl. dl \<notin> derslik_id ` set rs \<longrightarrow> derslik_zaman st dl = []) \<and>
     sum_list (map (\<lambda>r. length (derslik_zaman st (derslik_id r))) rs) = length (yerlestirmeler st)"

lemmas senaryo_simps = ders_a_def ders_b_def ders_c_def ornek_derslik_2_def kisit_tek_seans_3gun_def
  kisit_tek_seans_ui_def kisit_ardisik_def ornek_kisit_def ornek_ders1_def ornek_ders2_def ornek_derslik_def

subsection \<open>The buffer is never read\<close>

lemma ders_suresi_bekleme [simp]: "ders_suresi (a\<lparr>bekleme_dk := b\<rparr>) = ders_suresi a"
  by (simp add: ders_suresi_def fun_eq_iff split: option.splits)

lemma ders_dene_bekleme [simp]: "ders_dene (a\<lparr>bekleme_dk := b\<rparr>) = ders_dene a"
  by (simp add: ders_dene_def fun_eq_iff)

lemma slot_dongusu_bekleme [simp]:
  "slot_dongusu (a\<lparr>bekleme_dk := b\<rparr>) rs gun slot mx ekl ds st = slot_dongusu a rs gun slot mx ekl ds st"
  by (induction a rs gun slot mx ekl ds st rule: slot_dongusu.induct) (simp_all split: prod.splits)

lemma slotlar_dongusu_bekleme [simp]:
  "slotlar_dongusu (a\<lparr>bekleme_dk := b\<rparr>) rs gun slots st = slotlar_dongusu a rs gun slots st"
  by (induction a rs gun slots st rule: slotlar_dongusu.induct) simp_all

lemma gun_dongusu_bekleme:
  "gun_dongusu (a\<lparr>bekleme_dk := b\<rparr>) rs gun st = gun_dongusu a rs gun st"
proof (induction a rs gun st rule: gun_dongusu.induct)
  case (1 a rs gun st)
  show ?case
    using 1 by (simp add: gun_dongusu.simps [of a rs gun st] gun_dongusu.simps [of "a\<lparr>bekleme_dk := b\<rparr>" rs gun st])
qed

text \<open>C10: The result of the planner, placements and warnings, is the same for every
  value of the buffer \<open>bekleme_dk\<close>: the minimum gap between a student's exams is not
  enforced.\<close>

theorem planla_bekleme_etkisiz:
  "planla (k\<lparr>k_bekleme_dk := b\<rparr>) dersler derslikler = planla k dersler derslikler"
proof -
  have "plan_ayari (k\<lparr>k_bekleme_dk := b\<rparr>) = (plan_ayari k)\<lparr>bekleme_dk := b\<rparr>"
    by (simp add: plan_ayari_def)
  then show ?thesis
    by (simp add: planla_def planla_durum_def planla_ayar_def Let_def gun_dongusu_bekleme dahil_filtre_def)
qed

text \<open>With a 15-minute buffer and slots 10:00 and 11:15, a student of two courses
  gets two exams back to back, the second starting when the first ends.\<close>

theorem planla_bekleme_ardisik:
  "planla kisit_ardisik [ornek_ders1, ornek_ders2] [ornek_derslik] =
     ([\<lparr>y_ders_id = 1, baslangic = combine 739257 600, bitis = combine 739257 675, derslik_ids = [7]\<rparr>,
       \<lparr>y_ders_id = 2, baslangic = combine 739257 675, bitis = combine 739257 750, derslik_ids = [7]\<rparr>],
      [], False)"
  by (simp add: plan_simps senaryo_simps)

subsection \<open>The no-parallel flag\<close>

text \<open>With the no-parallel flag (\<open>tek_seans\<close>, "only one exam at a time") and the
  default slots 16:45 and 17:45 of 75-minute exams, two courses are placed in two rooms at
  overlapping times: the flag limits the courses per slot, not the exams running at once.\<close>

theorem planla_tek_seans_paralel:
  "planla kisit_tek_seans_ui [ders_a, ders_b] [ornek_derslik, ornek_derslik_2] =
     ([\<lparr>y_ders_id = 21, baslangic = combine 739257 1005, bitis = combine 739257 1080, derslik_ids = [7]\<rparr>,
       \<lparr>y_ders_id = 22, baslangic = combine 739257 1065, bitis = combine 739257 1140, derslik_ids = [8]\<rparr>],
      [], False) \<and>
   overlaps (combine 739257 1005) (combine 739257 1080) (combine 739257 1065) (combine 739257 1140)"
  by (simp add: plan_simps senaryo_simps)

subsection \<open>Scenarios of the specification\<close>

text \<open>Two courses sharing one student, one day, one slot, parallel exams allowed: only
  the first course is placed, and the planner emits no warning for the other (the
  specification says a warning names it).\<close>

theorem planla_senaryo_cakisma_uyarisiz:
  "planla ornek_kisit [ornek_ders1, ornek_ders2] [ornek_derslik] =
     ([\<lparr>y_ders_id = 1, baslangic = combine 739257 600, bitis = combine 739257 675, derslik_ids = [7]\<rparr>],
      [], False)"
  by (simp add: plan_simps senaryo_simps)

text \<open>With the no-parallel flag, three courses, one slot a day and three days, the
  planner places exactly one course a day, the largest course first.\<close>

theorem planla_senaryo_tek_seans_3gun:
  "planla kisit_tek_seans_3gun [ders_c, ders_a, ders_b] [ornek_derslik] =
     ([\<lparr>y_ders_id = 21, baslangic = combine 739257 600, bitis = combine 739257 675, derslik_ids = [7]\<rparr>,
       \<lparr>y_ders_id = 22, baslangic = combine 739258 600, bitis = combine 739258 675, derslik_ids = [7]\<rparr>,
       \<lparr>y_ders_id = 23, baslangic = combine 739259 600, bitis = combine 739259 675, derslik_ids = [7]\<rparr>],
      [], False)"
  by (simp add: plan_simps senaryo_simps)

subsection \<open>Warnings\<close>

text \<open>The only warning of \<open>planla\<close> is the missing room: when every room is large enough
  for every course and there are at least as many rooms as courses, a room whose timetable is
  still empty is free at every time, so no attempt ever warns, whatever the planner leaves
  unplaced.  A course left out because its students are busy is never named (the
  specification's second scenario asks for a warning).\<close>

lemma bos_oda_var:
  "sum_list (map (\<lambda>r. length (Z (derslik_id r))) rs) < length rs \<Longrightarrow> \<exists>r \<in> set rs. Z (derslik_id r) = []"
proof (induction rs)
  case (Cons r rs)
  then show ?case by (cases "Z (derslik_id r)") auto
qed simp

lemma derslik_sec_None:
  assumes n: "derslik_sec ks dz rs ogr bas bit' = None" and r: "r \<in> set rs" "ogr \<le> kapasite r"
  shows "\<not> derslik_musait dz (derslik_id r) bas bit'"
proof
  assume m: "derslik_musait dz (derslik_id r) bas bit'"
  define us where "us = [dl \<leftarrow> rs. ogr \<le> kapasite dl \<and> derslik_musait dz (derslik_id dl) bas bit']"
  define f where "f = (\<lambda>dl::derslik. (ks (derslik_id dl), kapasite dl))"
  have e: "derslik_sec ks dz rs ogr bas bit' = (case sort_key f us of [] \<Rightarrow> None | r # _ \<Rightarrow> Some (derslik_id r))"
    by (simp only: derslik_sec_def us_def f_def)
  have "sort_key f us = []" using n e by (cases "sort_key f us") simp_all
  moreover have "length (sort_key f us) = length us" by (rule length_sort)
  ultimately have "us = []" by simp
  moreover have "r \<in> set us" using r m by (simp add: us_def)
  ultimately show False by simp
qed

lemma toplam_bir_artar:
  "distinct (map f rs) \<Longrightarrow> dl \<in> f ` set rs \<Longrightarrow>
     sum_list (map (\<lambda>r. g (f r) + (if f r = dl then 1 else 0)) rs) = sum_list (map (\<lambda>r. g (f r)) rs) + (1::nat)"
proof (induction rs)
  case (Cons r rs)
  show ?case
  proof (cases "f r = dl")
    case True
    then have "dl \<notin> f ` set rs" using Cons.prems(1) by auto
    then have "sum_list (map (\<lambda>r. g (f r) + (if f r = dl then 1 else 0)) rs) = sum_list (map (\<lambda>r. g (f r)) rs)"
      by (induction rs) auto
    with True show ?thesis by simp
  next
    case False
    with Cons show ?thesis by simp
  qed
qed simp

lemma yerlestir_zaman_uzunluk:
  "length (derslik_zaman (yerlestir d bas bit' dl st) x) = length (derslik_zaman st x) + (if x = dl then 1 else 0)"
  by (simp add: yerlestir_def)

lemma uyarisiz_adim:
  assumes q: "uyarisiz_inv n D rs st" and d: "d \<in> set (dersler_sirali st)"
    and kap: "\<forall>d \<in> D. \<forall>r \<in> set rs. ogr_say d \<le> kapasite r"
    and ids: "distinct (map derslik_id rs)" and nr: "n \<le> length rs"
  shows "uyarisiz_inv n D rs (fst (ders_dene a rs gun slot d st))"
proof -
  let ?bas = "combine gun slot"
  let ?bit = "combine gun slot + ders_suresi a (ders_id d)"
  show ?thesis
  proof (cases "ogrenciler_musait (ogr_zaman st) (ogr_ids d) ?bas ?bit")
    case False
    then show ?thesis using q by (simp add: ders_dene_def Let_def)
  next
    case True
    show ?thesis
    proof (cases "derslik_sec (kullanim_say st) (derslik_zaman st) rs (ogr_say d) ?bas ?bit")
      case None
      have "0 < length (dersler_sirali st)" using d by (auto simp: length_pos_if_in_set)
      moreover have "length (yerlestirmeler st) + length (dersler_sirali st) = n"
        and t: "sum_list (map (\<lambda>r. length (derslik_zaman st (derslik_id r))) rs) = length (yerlestirmeler st)"
        using q by (simp_all add: uyarisiz_inv_def)
      ultimately have "sum_list (map (\<lambda>r. length (derslik_zaman st (derslik_id r))) rs) < length rs"
        using nr t by linarith
      then obtain r where r: "r \<in> set rs" "derslik_zaman st (derslik_id r) = []" using bos_oda_var by blast
      have "d \<in> D" using q d by (auto simp: uyarisiz_inv_def)
      then have "ogr_say d \<le> kapasite r" using kap r(1) by blast
      from derslik_sec_None [OF None r(1) this] r(2) show ?thesis by (simp add: derslik_musait_def)
    next
      case (Some dl)
      from derslik_sec_Some [OF Some] obtain r where r: "r \<in> set rs" "derslik_id r = dl" by blast
      have e: "fst (ders_dene a rs gun slot d st) = yerlestir d ?bas ?bit dl st"
        using True Some by (simp add: ders_dene_def Let_def)
      have dl: "dl \<in> derslik_id ` set rs" using r by blast
      have s: "sum_list (map (\<lambda>r. length (derslik_zaman (yerlestir d ?bas ?bit dl st) (derslik_id r))) rs) =
               sum_list (map (\<lambda>r. length (derslik_zaman st (derslik_id r))) rs) + 1"
        unfolding yerlestir_zaman_uzunluk by (rule toplam_bir_artar [OF ids dl])
      have l: "length (remove1 d (dersler_sirali st)) + 1 = length (dersler_sirali st)"
        using d length_pos_if_in_set [OF d] by (simp add: length_remove1)
      have y: "length (yerlestirmeler (yerlestir d ?bas ?bit dl st)) = Suc (length (yerlestirmeler st))"
        by (simp add: yerlestir_alanlar)
      have ds: "dersler_sirali (yerlestir d ?bas ?bit dl st) = remove1 d (dersler_sirali st)"
        by (simp add: yerlestir_alanlar)
      have z: "derslik_zaman (yerlestir d ?bas ?bit dl st) x = derslik_zaman st x" if "x \<noteq> dl" for x
        using that by (simp add: yerlestir_def)
      have u: "uyarilar (yerlestir d ?bas ?bit dl st) = uyarilar st" by (simp add: yerlestir_def)
      show ?thesis unfolding e uyarisiz_inv_def
      proof (intro conjI allI impI)
        show "uyarilar (yerlestir d ?bas ?bit dl st) = []" using q u by (simp add: uyarisiz_inv_def)
        show "length (yerlestirmeler (yerlestir d ?bas ?bit dl st)) + length (dersler_sirali (yerlestir d ?bas ?bit dl st)) = n"
          using q y ds l by (simp add: uyarisiz_inv_def)
        show "set (dersler_sirali (yerlestir d ?bas ?bit dl st)) \<subseteq> D"
        proof -
          have "set (dersler_sirali st) \<subseteq> D" using q by (simp add: uyarisiz_inv_def)
          with set_remove1_subset [of d "dersler_sirali st"] show ?thesis unfolding ds by (rule order_trans)
        qed
        show "sum_list (map (\<lambda>r. length (derslik_zaman (yerlestir d ?bas ?bit dl st) (derslik_id r))) rs) =
                length (yerlestirmeler (yerlestir d ?bas ?bit dl st))"
          using q s y by (simp add: uyarisiz_inv_def)
      next
        fix x
        assume "x \<notin> derslik_id ` set rs"
        moreover have "x \<noteq> dl" using calculation dl by blast
        ultimately show "derslik_zaman (yerlestir d ?bas ?bit dl st) x = []"
          using q z [of x] by (simp add: uyarisiz_inv_def)
      qed
    qed
  qed
qed

theorem planla_oda_yeterken_uyarisiz:
  assumes kap: "\<forall>d \<in> set dersler. \<forall>r \<in> set derslikler. ogr_say d \<le> kapasite r"
    and ids: "distinct (map derslik_id derslikler)" and n: "length dersler \<le> length derslikler"
  shows "fst (snd (planla k dersler derslikler)) = []"
proof -
  let ?a = "plan_ayari k"
  let ?rs = "sort_key (\<lambda>dl. - kapasite dl) derslikler"
  let ?n = "length (dahil_filtre ?a dersler)"
  have kap': "\<forall>d \<in> set dersler. \<forall>r \<in> set ?rs. ogr_say d \<le> kapasite r" using kap by simp
  have ids': "distinct (map derslik_id ?rs)" using ids by (simp add: distinct_map_sort_key)
  have nr': "?n \<le> length ?rs" using n by (simp add: dahil_filtre_def) (meson le_trans length_filter_le)
  have "uyarisiz_inv ?n (set dersler) ?rs (planla_ayar ?a dersler derslikler)"
  proof (rule planla_korur [where P = "uyarisiz_inv ?n (set dersler) ?rs"])
    show "uyarisiz_inv ?n (set dersler) ?rs (bos_durum (sort_key (\<lambda>d. - ogr_say d) (dahil_filtre ?a dersler)))"
      using set_dahil_filtre [of ?a dersler] by (simp add: uyarisiz_inv_def bos_durum_def)
  next
    fix st d gun slot
    assume i: "uyarisiz_inv ?n (set dersler) ?rs st" and d: "d \<in> set (dersler_sirali st)"
      and "tarih_bas ?a \<le> gun" "gun \<le> tarih_bit ?a" "weekday gun \<notin> set (gun_disi ?a)" "slot \<in> set (slot_saatleri ?a)"
    show "uyarisiz_inv ?n (set dersler) ?rs (fst (ders_dene ?a ?rs gun slot d st))"
      by (rule uyarisiz_adim [OF i d kap' ids' nr'])
  qed
  then show ?thesis by (simp add: planla_def planla_durum_def uyarisiz_inv_def Let_def)
qed

theorem planla_oda_yeterken_uyarisiz_witness:
  "list_all (\<lambda>d. list_all (\<lambda>r. ogr_say d \<le> kapasite r) [ornek_derslik, ornek_derslik_2]) [ornek_ders1, ornek_ders2] \<and>
   distinct (map derslik_id [ornek_derslik, ornek_derslik_2]) \<and>
   length [ornek_ders1, ornek_ders2] \<le> length [ornek_derslik, ornek_derslik_2] \<and>
   fst (snd (planla ornek_kisit [ornek_ders1, ornek_ders2] [ornek_derslik, ornek_derslik_2])) = [] \<and>
   map y_ders_id (fst (planla ornek_kisit [ornek_ders1, ornek_ders2] [ornek_derslik, ornek_derslik_2])) = [1]"
proof -
  have k: "\<forall>d \<in> set [ornek_ders1, ornek_ders2]. \<forall>r \<in> set [ornek_derslik, ornek_derslik_2]. ogr_say d \<le> kapasite r"
    by (simp add: plan_simps senaryo_simps)
  have i: "distinct (map derslik_id [ornek_derslik, ornek_derslik_2])" by (simp add: plan_simps senaryo_simps)
  have p: "map y_ders_id (fst (planla ornek_kisit [ornek_ders1, ornek_ders2] [ornek_derslik, ornek_derslik_2])) = [1]"
    by (simp add: plan_simps senaryo_simps)
  show ?thesis
    using planla_oda_yeterken_uyarisiz [OF k i, of ornek_kisit] k i p by (simp add: list_all_iff)
qed

end
