(* ===== verification/Kayit.thy ===== *)
theory Kayit
  imports Planlayici Oturma
begin

text \<open>
  The persistence of exam schedules and seat plans in \<open>src/veri_deposu.py\<close> over the
  tables \<open>sinav_programi\<close>, \<open>sinav_programi_derslik\<close> and \<open>oturma_plani\<close> of
  \<open>src/veritabani.py\<close>.  A table is a list of rows; the \<open>AUTOINCREMENT\<close> counter of
  \<open>sinav_programi\<close> is \<open>sp_sayac\<close>, the last id handed out.  Times are minutes
  (the code stores \<open>isoformat(timespec="minutes")\<close> strings of one fixed width, whose
  string order is the time order).  An exception is a value \<open>Inl\<close> of
  \<open>kayit_hata\<close>: the room-conflict \<open>ValueError\<close> of \<open>_program_satiri_yaz\<close> and the
  \<open>sqlite3.IntegrityError\<close> of a unique index or primary key.  Every public function runs
  in one \<open>with baglanti() as vt\<close> block, which commits on return and rolls back on an
  exception, so an \<open>Inl\<close> result leaves the database as it was: the result type carries
  no state on the error side.  Foreign keys are not enforced by the code's connections
  (\<open>PRAGMA foreign_keys\<close> is set only by the schema script), and the model checks none.

  The invariant \<open>kayit_inv\<close> says that row ids are distinct and handed out by the
  counter, that every room link names an id handed out, that the unique index
  \<open>(bolum_id, ders_id, sinav_turu)\<close> holds, and that two exams of one department and
  exam type sharing a room do not overlap.  The lemmas show that writing a row, saving a
  list of placements and clearing an exam type keep it, and that saving the planner's output
  into a cleared exam type always succeeds.
\<close>

subsection \<open>Definitions\<close>

text \<open>The exceptions the writers raise: \<open>ValueError("Derslik cakismasi: ...")\<close> and
  \<open>sqlite3.IntegrityError\<close> with the violated index or table.\<close>

datatype kayit_hata =
    DerslikCakismasi kimlik
  | IntegrityError string

record sp_satir =
  sp_id :: kimlik
  sp_bolum_id :: kimlik
  sp_ders_id :: kimlik
  sp_sinav_turu :: string
  sp_baslangic :: dakika
  sp_bitis :: dakika
  sp_sure_dk :: int
  sp_bekleme_dk :: int

record op_satir =
  op_sinav_id :: kimlik
  op_ogrenci_id :: kimlik
  op_derslik_id :: kimlik
  op_sira_no :: int
  op_sutun_no :: int

record vt =
  sinav_programi :: "sp_satir list"
  sinav_programi_derslik :: "(kimlik \<times> kimlik) list"
  oturma_plani :: "op_satir list"
  sp_sayac :: kimlik

text \<open>\<open>_derslikte_cakisiyor_mu\<close>: the query for an exam of the same department and exam type
  linked to the room whose interval overlaps \<open>[bas, bit)\<close>.\<close>

definition derslikte_cakisiyor_mu :: "vt \<Rightarrow> kimlik \<Rightarrow> string \<Rightarrow> kimlik \<Rightarrow> dakika \<Rightarrow> dakika \<Rightarrow> bool" where
  "derslikte_cakisiyor_mu v bolum_id sinav_turu dl bas bit' =
     list_ex (\<lambda>sp. sp_bolum_id sp = bolum_id \<and> sp_sinav_turu sp = sinav_turu \<and>
                  (sp_id sp, dl) \<in> set (sinav_programi_derslik v) \<and>
                  \<not> (sp_bitis sp \<le> bas \<or> bit' \<le> sp_baslangic sp))
       (sinav_programi v)"

text \<open>The \<open>INSERT INTO sinav_programi_derslik\<close> loop; the primary key is \<open>(sinav_id, derslik_id)\<close>.\<close>

fun baglar_ekle :: "kimlik \<Rightarrow> kimlik list \<Rightarrow> vt \<Rightarrow> kayit_hata + vt" where
  "baglar_ekle sid [] v = Inr v"
| "baglar_ekle sid (dl # dls) v =
     (if (sid, dl) \<in> set (sinav_programi_derslik v) then Inl (IntegrityError ''sinav_programi_derslik'')
      else baglar_ekle sid dls (v\<lparr>sinav_programi_derslik := sinav_programi_derslik v @ [(sid, dl)]\<rparr>))"

text \<open>\<open>_program_satiri_yaz\<close>: the conflict check of every room, the row insert under the unique
  index \<open>ux_sp_bolum_ders_tur\<close> (with \<open>sure_dk = max 1 (minutes of bit - bas)\<close>), then the room
  links.  It returns the new id and the state.\<close>

definition program_satiri_yaz ::
  "vt \<Rightarrow> kimlik \<Rightarrow> kimlik \<Rightarrow> string \<Rightarrow> dakika \<Rightarrow> dakika \<Rightarrow> int \<Rightarrow> kimlik list \<Rightarrow> kayit_hata + (kimlik \<times> vt)" where
  "program_satiri_yaz v bolum_id d_id sinav_turu bas bit' bekleme dl_ids =
     (case find (\<lambda>dl. derslikte_cakisiyor_mu v bolum_id sinav_turu dl bas bit') dl_ids of
        Some dl \<Rightarrow> Inl (DerslikCakismasi dl)
      | None \<Rightarrow>
          if list_ex (\<lambda>sp. sp_bolum_id sp = bolum_id \<and> sp_ders_id sp = d_id \<and> sp_sinav_turu sp = sinav_turu)
               (sinav_programi v)
          then Inl (IntegrityError ''ux_sp_bolum_ders_tur'')
          else
            let sid = sp_sayac v + 1;
                satir = \<lparr>sp_id = sid, sp_bolum_id = bolum_id, sp_ders_id = d_id, sp_sinav_turu = sinav_turu,
                         sp_baslangic = bas, sp_bitis = bit', sp_sure_dk = max 1 (bit' - bas),
                         sp_bekleme_dk = bekleme\<rparr>;
                v1 = v\<lparr>sinav_programi := sinav_programi v @ [satir], sp_sayac := sid\<rparr>
            in (case baglar_ekle sid dl_ids v1 of
                  Inl e \<Rightarrow> Inl e
                | Inr v2 \<Rightarrow> Inr (sid, v2)))"

text \<open>\<open>sinav_programi_kaydet\<close>: one row per placement, in one transaction.\<close>

fun kaydet_dongusu :: "kimlik \<Rightarrow> string \<Rightarrow> int \<Rightarrow> yerlestirme list \<Rightarrow> vt \<Rightarrow> kayit_hata + vt" where
  "kaydet_dongusu bolum_id sinav_turu bekleme [] v = Inr v"
| "kaydet_dongusu bolum_id sinav_turu bekleme (y # ys) v =
     (case program_satiri_yaz v bolum_id (y_ders_id y) sinav_turu (baslangic y) (bitis y) bekleme (derslik_ids y) of
        Inl e \<Rightarrow> Inl e
      | Inr (_, v') \<Rightarrow> kaydet_dongusu bolum_id sinav_turu bekleme ys v')"

definition sinav_programi_kaydet :: "vt \<Rightarrow> kimlik \<Rightarrow> string \<Rightarrow> yerlestirme list \<Rightarrow> int \<Rightarrow> kayit_hata + vt" where
  "sinav_programi_kaydet v bolum_id sinav_turu ys bekleme =
     kaydet_dongusu bolum_id sinav_turu bekleme ys v"

text \<open>\<open>sinav_programini_temizle\<close>: the ids of the department's exams of that type, then their
  seat rows, their room links and the rows themselves.\<close>

definition sinav_programini_temizle :: "vt \<Rightarrow> kimlik \<Rightarrow> string \<Rightarrow> vt" where
  "sinav_programini_temizle v bolum_id sinav_turu =
     (let ids = [sp_id sp. sp \<leftarrow> sinav_programi v, sp_bolum_id sp = bolum_id \<and> sp_sinav_turu sp = sinav_turu]
      in if ids = [] then v
         else v\<lparr>oturma_plani := [op \<leftarrow> oturma_plani v. op_sinav_id op \<notin> set ids],
                sinav_programi_derslik := [b \<leftarrow> sinav_programi_derslik v. fst b \<notin> set ids],
                sinav_programi := [sp \<leftarrow> sinav_programi v. \<not> (sp_bolum_id sp = bolum_id \<and> sp_sinav_turu sp = sinav_turu)]\<rparr>)"

definition oturma_plani_temizle :: "vt \<Rightarrow> kimlik \<Rightarrow> vt" where
  "oturma_plani_temizle v sinav_id = v\<lparr>oturma_plani := [op \<leftarrow> oturma_plani v. op_sinav_id op \<noteq> sinav_id]\<rparr>"

text \<open>\<open>oturma_plani_kaydet\<close>: one seat row per assignment; the primary key is
  \<open>(sinav_id, ogrenci_id)\<close>.\<close>

fun oturma_ekle :: "kimlik \<Rightarrow> atama list \<Rightarrow> vt \<Rightarrow> kayit_hata + vt" where
  "oturma_ekle sinav_id [] v = Inr v"
| "oturma_ekle sinav_id ((ogr_id, dl, sira, sut) # as) v =
     (if list_ex (\<lambda>op. op_sinav_id op = sinav_id \<and> op_ogrenci_id op = ogr_id) (oturma_plani v)
      then Inl (IntegrityError ''oturma_plani'')
      else oturma_ekle sinav_id as
             (v\<lparr>oturma_plani := oturma_plani v @
                 [\<lparr>op_sinav_id = sinav_id, op_ogrenci_id = ogr_id, op_derslik_id = dl,
                   op_sira_no = sira, op_sutun_no = sut\<rparr>]\<rparr>))"

definition oturma_plani_kaydet :: "vt \<Rightarrow> kimlik \<Rightarrow> atama list \<Rightarrow> kayit_hata + vt" where
  "oturma_plani_kaydet v sinav_id atamalar = oturma_ekle sinav_id atamalar v"

text \<open>The database invariant.\<close>

definition sp_oda_ayrik :: "vt \<Rightarrow> sp_satir \<Rightarrow> sp_satir \<Rightarrow> bool" where
  "sp_oda_ayrik v p q \<longleftrightarrow>
     (sp_bolum_id p = sp_bolum_id q \<and> sp_sinav_turu p = sp_sinav_turu q \<and>
      (\<exists>dl. (sp_id p, dl) \<in> set (sinav_programi_derslik v) \<and> (sp_id q, dl) \<in> set (sinav_programi_derslik v)))
     \<longrightarrow> \<not> zaman_cakisiyor_mu (sp_baslangic p) (sp_bitis p) (sp_baslangic q) (sp_bitis q)"

definition kayit_inv :: "vt \<Rightarrow> bool" where
  "kayit_inv v \<longleftrightarrow>
     distinct (map sp_id (sinav_programi v)) \<and>
     (\<forall>sp \<in> set (sinav_programi v). sp_id sp \<le> sp_sayac v) \<and>
     (\<forall>b \<in> set (sinav_programi_derslik v). fst b \<le> sp_sayac v) \<and>
     distinct (map (\<lambda>sp. (sp_bolum_id sp, sp_ders_id sp, sp_sinav_turu sp)) (sinav_programi v)) \<and>
     sorted_wrt (sp_oda_ayrik v) (sinav_programi v)"

text \<open>An empty database, and one holding a midterm of course 1 of department 1 on Monday
  2025-01-06 10:00--11:15 in room 7.\<close>

definition vt_bos :: vt where
  "vt_bos = \<lparr>sinav_programi = [], sinav_programi_derslik = [], oturma_plani = [], sp_sayac = 0\<rparr>"

definition vt_ornek :: vt where
  "vt_ornek =
     \<lparr>sinav_programi = [\<lparr>sp_id = 1, sp_bolum_id = 1, sp_ders_id = 1, sp_sinav_turu = ''vize'',
                          sp_baslangic = combine 739257 600, sp_bitis = combine 739257 675, sp_sure_dk = 75,
                          sp_bekleme_dk = 15\<rparr>],
      sinav_programi_derslik = [(1, 7)], oturma_plani = [], sp_sayac = 1\<rparr>"

text \<open>The row \<open>_program_satiri_yaz\<close> inserts, and the correspondence between the rows of one
  department and exam type and the placements saved so far.\<close>

definition yeni_satir :: "vt \<Rightarrow> kimlik \<Rightarrow> kimlik \<Rightarrow> string \<Rightarrow> dakika \<Rightarrow> dakika \<Rightarrow> int \<Rightarrow> sp_satir" where
  "yeni_satir v bolum_id d_id sinav_turu bas bit' bekleme =
     \<lparr>sp_id = sp_sayac v + 1, sp_bolum_id = bolum_id, sp_ders_id = d_id, sp_sinav_turu = sinav_turu,
      sp_baslangic = bas, sp_bitis = bit', sp_sure_dk = max 1 (bit' - bas), sp_bekleme_dk = bekleme\<rparr>"

definition satir_uyar :: "vt \<Rightarrow> sp_satir \<Rightarrow> yerlestirme \<Rightarrow> bool" where
  "satir_uyar v sp p \<longleftrightarrow> sp_ders_id sp = y_ders_id p \<and> sp_baslangic sp = baslangic p \<and> sp_bitis sp = bitis p \<and>
     (\<forall>dl. (sp_id sp, dl) \<in> set (sinav_programi_derslik v) \<longrightarrow> dl \<in> set (derslik_ids p))"

definition kayit_karsilik :: "kimlik \<Rightarrow> string \<Rightarrow> yerlestirme list \<Rightarrow> vt \<Rightarrow> bool" where
  "kayit_karsilik b t ps v \<longleftrightarrow>
     (\<forall>sp \<in> set (sinav_programi v). sp_bolum_id sp = b \<and> sp_sinav_turu sp = t \<longrightarrow> (\<exists>p \<in> set ps. satir_uyar v sp p))"

subsection \<open>Closed forms of the writers\<close>

lemma baglar_ekle_sonuc:
  "baglar_ekle sid dls v =
     (if distinct dls \<and> (\<forall>dl \<in> set dls. (sid, dl) \<notin> set (sinav_programi_derslik v))
      then Inr (v\<lparr>sinav_programi_derslik := sinav_programi_derslik v @ map (Pair sid) dls\<rparr>)
      else Inl (IntegrityError ''sinav_programi_derslik''))"
  by (induction dls arbitrary: v) auto

lemma program_satiri_yaz_sonuc:
  "program_satiri_yaz v bolum_id d_id sinav_turu bas bit' bekleme dl_ids =
     (case find (\<lambda>dl. derslikte_cakisiyor_mu v bolum_id sinav_turu dl bas bit') dl_ids of
        Some dl \<Rightarrow> Inl (DerslikCakismasi dl)
      | None \<Rightarrow>
          if list_ex (\<lambda>sp. sp_bolum_id sp = bolum_id \<and> sp_ders_id sp = d_id \<and> sp_sinav_turu sp = sinav_turu)
               (sinav_programi v)
          then Inl (IntegrityError ''ux_sp_bolum_ders_tur'')
          else if distinct dl_ids \<and> (\<forall>dl \<in> set dl_ids. (sp_sayac v + 1, dl) \<notin> set (sinav_programi_derslik v))
          then Inr (sp_sayac v + 1,
                    v\<lparr>sinav_programi := sinav_programi v @ [yeni_satir v bolum_id d_id sinav_turu bas bit' bekleme],
                      sinav_programi_derslik := sinav_programi_derslik v @ map (Pair (sp_sayac v + 1)) dl_ids,
                      sp_sayac := sp_sayac v + 1\<rparr>)
          else Inl (IntegrityError ''sinav_programi_derslik''))"
  by (simp add: program_satiri_yaz_def baglar_ekle_sonuc yeni_satir_def Let_def split: option.splits)

subsection \<open>The invariant is kept\<close>

lemma sp_oda_ayrik_baglar:
  assumes "sp_id p \<noteq> sid" and "sp_id q \<noteq> sid"
  shows "sp_oda_ayrik (v\<lparr>sinav_programi := S, sinav_programi_derslik := sinav_programi_derslik v @ map (Pair sid) dls,
                        sp_sayac := n\<rparr>) p q = sp_oda_ayrik v p q"
  using assms by (auto simp: sp_oda_ayrik_def)

lemma program_satiri_yaz_korur:
  assumes inv: "kayit_inv v"
    and ok: "program_satiri_yaz v bolum_id d_id sinav_turu bas bit' bekleme dl_ids = Inr (sid, v')"
  shows "kayit_inv v'"
proof -
  let ?sid = "sp_sayac v + 1"
  let ?r = "yeni_satir v bolum_id d_id sinav_turu bas bit' bekleme"
  have bos: "find (\<lambda>dl. derslikte_cakisiyor_mu v bolum_id sinav_turu dl bas bit') dl_ids = None"
    and tek: "\<not> list_ex (\<lambda>sp. sp_bolum_id sp = bolum_id \<and> sp_ders_id sp = d_id \<and> sp_sinav_turu sp = sinav_turu) (sinav_programi v)"
    and v': "v' = v\<lparr>sinav_programi := sinav_programi v @ [?r],
                    sinav_programi_derslik := sinav_programi_derslik v @ map (Pair ?sid) dl_ids,
                    sp_sayac := ?sid\<rparr>"
    using ok by (auto simp: program_satiri_yaz_sonuc split: option.splits if_splits)
  have ids: "\<forall>sp \<in> set (sinav_programi v). sp_id sp \<noteq> ?sid"
    using inv by (auto simp: kayit_inv_def)
  have eski: "sp_oda_ayrik v' p q = sp_oda_ayrik v p q" if "p \<in> set (sinav_programi v)" "q \<in> set (sinav_programi v)" for p q
    using that ids by (simp add: v' sp_oda_ayrik_baglar)
  have yeni: "sp_oda_ayrik v' p ?r" if p: "p \<in> set (sinav_programi v)" for p
    unfolding sp_oda_ayrik_def
  proof (intro impI)
    assume h: "sp_bolum_id p = sp_bolum_id ?r \<and> sp_sinav_turu p = sp_sinav_turu ?r \<and>
      (\<exists>dl. (sp_id p, dl) \<in> set (sinav_programi_derslik v') \<and> (sp_id ?r, dl) \<in> set (sinav_programi_derslik v'))"
    then obtain dl where d1: "(sp_id p, dl) \<in> set (sinav_programi_derslik v')"
      and d2: "(?sid, dl) \<in> set (sinav_programi_derslik v')"
      by (auto simp: yeni_satir_def)
    have "\<forall>b \<in> set (sinav_programi_derslik v). fst b \<le> sp_sayac v"
      using inv by (simp add: kayit_inv_def)
    with d2 have "dl \<in> set dl_ids" by (auto simp: v')
    then have nc: "\<not> derslikte_cakisiyor_mu v bolum_id sinav_turu dl bas bit'"
      using bos by (simp add: find_None_iff)
    have "(sp_id p, dl) \<in> set (sinav_programi_derslik v)"
      using d1 ids p by (auto simp: v')
    with nc p h have "sp_bitis p \<le> bas \<or> bit' \<le> sp_baslangic p"
      by (auto simp: derslikte_cakisiyor_mu_def list_ex_iff yeni_satir_def)
    then show "\<not> zaman_cakisiyor_mu (sp_baslangic p) (sp_bitis p) (sp_baslangic ?r) (sp_bitis ?r)"
      by (auto simp: zaman_cakisiyor_mu_def yeni_satir_def)
  qed
  have s: "sorted_wrt (sp_oda_ayrik v') (sinav_programi v)"
    using inv sorted_wrt_mono_rel [of "sinav_programi v" "sp_oda_ayrik v" "sp_oda_ayrik v'"] eski
    by (simp add: kayit_inv_def)
  have k1: "distinct (map sp_id (sinav_programi v'))"
    using inv ids by (auto simp: kayit_inv_def v' yeni_satir_def)
  have k2: "\<forall>sp \<in> set (sinav_programi v'). sp_id sp \<le> sp_sayac v'"
    using inv by (auto simp: kayit_inv_def v' yeni_satir_def)
  have k3: "\<forall>b \<in> set (sinav_programi_derslik v'). fst b \<le> sp_sayac v'"
    using inv by (auto simp: kayit_inv_def v')
  have k4: "distinct (map (\<lambda>sp. (sp_bolum_id sp, sp_ders_id sp, sp_sinav_turu sp)) (sinav_programi v'))"
    using inv tek by (auto simp: kayit_inv_def v' yeni_satir_def list_ex_iff)
  have k5: "sorted_wrt (sp_oda_ayrik v') (sinav_programi v')"
    using s yeni by (simp add: v')
  from k1 k2 k3 k4 k5 show ?thesis by (simp add: kayit_inv_def)
qed

lemma kaydet_dongusu_korur:
  "kayit_inv v \<Longrightarrow> kaydet_dongusu bolum_id sinav_turu bekleme ys v = Inr v' \<Longrightarrow> kayit_inv v'"
proof (induction ys arbitrary: v)
  case (Cons y ys)
  then obtain sid v1 where e: "program_satiri_yaz v bolum_id (y_ders_id y) sinav_turu (baslangic y) (bitis y) bekleme (derslik_ids y) = Inr (sid, v1)"
    and r: "kaydet_dongusu bolum_id sinav_turu bekleme ys v1 = Inr v'"
    by (auto split: sum.splits)
  show ?case by (rule Cons.IH [OF program_satiri_yaz_korur [OF Cons.prems(1) e] r])
qed simp

lemma sp_oda_ayrik_filtre:
  "sp_oda_ayrik v p q \<Longrightarrow> set B \<subseteq> set (sinav_programi_derslik v) \<Longrightarrow>
     sp_oda_ayrik (v\<lparr>oturma_plani := os, sinav_programi_derslik := B, sinav_programi := S\<rparr>) p q"
  by (auto simp: sp_oda_ayrik_def)

lemma temizle_korur:
  assumes "kayit_inv v"
  shows "kayit_inv (sinav_programini_temizle v bolum_id sinav_turu)"
proof -
  let ?P = "\<lambda>sp. \<not> (sp_bolum_id sp = bolum_id \<and> sp_sinav_turu sp = sinav_turu)"
  let ?ids = "[sp_id sp. sp \<leftarrow> sinav_programi v, sp_bolum_id sp = bolum_id \<and> sp_sinav_turu sp = sinav_turu]"
  let ?B = "[b \<leftarrow> sinav_programi_derslik v. fst b \<notin> set ?ids]"
  let ?O = "[op \<leftarrow> oturma_plani v. op_sinav_id op \<notin> set ?ids]"
  let ?v = "v\<lparr>oturma_plani := ?O, sinav_programi_derslik := ?B, sinav_programi := filter ?P (sinav_programi v)\<rparr>"
  have "sorted_wrt (sp_oda_ayrik ?v) (filter ?P (sinav_programi v))"
  proof (rule sorted_wrt_filter)
    show "sorted_wrt (sp_oda_ayrik ?v) (sinav_programi v)"
      using assms sorted_wrt_mono_rel [of "sinav_programi v" "sp_oda_ayrik v" "sp_oda_ayrik ?v"]
      by (simp add: kayit_inv_def sp_oda_ayrik_filtre)
  qed
  then have inv: "kayit_inv ?v"
    using assms by (auto simp: kayit_inv_def distinct_map_filter)
  show ?thesis
  proof (cases "?ids = []")
    case True
    then show ?thesis using assms by (simp add: sinav_programini_temizle_def)
  next
    case False
    show ?thesis
      unfolding sinav_programini_temizle_def Let_def if_not_P [OF False] by (rule inv)
  qed
qed

subsection \<open>Saving a conflict-free list of placements succeeds\<close>

lemma karsilik_uyan:
  "kayit_karsilik b t ps v \<Longrightarrow> sp \<in> set (sinav_programi v) \<Longrightarrow> sp_bolum_id sp = b \<Longrightarrow> sp_sinav_turu sp = t \<Longrightarrow>
     \<exists>p \<in> set ps. satir_uyar v sp p"
  unfolding kayit_karsilik_def by blast

lemma cakisma_obtain:
  assumes "derslikte_cakisiyor_mu v b t dl bas bit'"
  obtains sp where "sp \<in> set (sinav_programi v)" "sp_bolum_id sp = b" "sp_sinav_turu sp = t"
      "(sp_id sp, dl) \<in> set (sinav_programi_derslik v)" "\<not> (sp_bitis sp \<le> bas \<or> bit' \<le> sp_baslangic sp)"
  using assms unfolding derslikte_cakisiyor_mu_def list_ex_iff by blast

lemma uyar_cakisma:
  assumes "satir_uyar v sp p" "oda_cakismaz p y" "(sp_id sp, dl) \<in> set (sinav_programi_derslik v)"
    "dl \<in> set (derslik_ids y)" "\<not> (sp_bitis sp \<le> baslangic y \<or> bitis y \<le> sp_baslangic sp)"
  shows False
  using assms by (auto simp: satir_uyar_def oda_cakismaz_def overlaps_def)

lemma taze_bag:
  "kayit_inv v \<Longrightarrow> (sp_sayac v + 1, dl) \<notin> set (sinav_programi_derslik v)"
  unfolding kayit_inv_def by fastforce

lemma tekil_yok:
  assumes "kayit_karsilik b t ps v" "y_ders_id y \<notin> y_ders_id ` set ps"
  shows "\<not> list_ex (\<lambda>sp. sp_bolum_id sp = b \<and> sp_ders_id sp = y_ders_id y \<and> sp_sinav_turu sp = t) (sinav_programi v)"
proof
  assume "list_ex (\<lambda>sp. sp_bolum_id sp = b \<and> sp_ders_id sp = y_ders_id y \<and> sp_sinav_turu sp = t) (sinav_programi v)"
  then obtain sp where sp: "sp \<in> set (sinav_programi v)" "sp_bolum_id sp = b" "sp_ders_id sp = y_ders_id y"
    "sp_sinav_turu sp = t"
    unfolding list_ex_iff by blast
  from assms(1) sp(1,2,4) obtain p where p: "p \<in> set ps" "satir_uyar v sp p"
    unfolding kayit_karsilik_def by blast
  then have "y_ders_id y = y_ders_id p" using sp(3) by (simp add: satir_uyar_def)
  with p(1) assms(2) show False by blast
qed

lemma eski_uyar:
  assumes "kayit_inv v" "sp \<in> set (sinav_programi v)" "satir_uyar v sp p"
  shows "satir_uyar (v\<lparr>sinav_programi := S, sinav_programi_derslik := sinav_programi_derslik v @ map (Pair (sp_sayac v + 1)) dls,
                      sp_sayac := n\<rparr>) sp p"
proof -
  have "sp_id sp \<le> sp_sayac v" using assms(1,2) by (simp add: kayit_inv_def)
  with assms(3) show ?thesis by (auto simp: satir_uyar_def)
qed

lemma yeni_uyar:
  assumes "kayit_inv v"
  shows "satir_uyar (v\<lparr>sinav_programi := S, sinav_programi_derslik := sinav_programi_derslik v @ map (Pair (sp_sayac v + 1)) (derslik_ids y),
                      sp_sayac := n\<rparr>) (yeni_satir v b (y_ders_id y) t (baslangic y) (bitis y) bek) y"
proof -
  have "fst bg \<le> sp_sayac v" if "bg \<in> set (sinav_programi_derslik v)" for bg
    using assms that by (simp add: kayit_inv_def)
  then have "(sp_sayac v + 1, dl) \<notin> set (sinav_programi_derslik v)" for dl by fastforce
  then show ?thesis by (auto simp: satir_uyar_def yeni_satir_def)
qed

lemma satir_basarili:
  assumes inv: "kayit_inv v" and kk: "kayit_karsilik b t ps v"
    and oda: "\<forall>p \<in> set ps. oda_cakismaz p y" and yeni: "y_ders_id y \<notin> y_ders_id ` set ps"
    and dd: "distinct (derslik_ids y)"
  shows "\<exists>sid v1. program_satiri_yaz v b (y_ders_id y) t (baslangic y) (bitis y) bek (derslik_ids y) = Inr (sid, v1) \<and>
           kayit_karsilik b t (ps @ [y]) v1"
proof -
  have nc: "\<forall>dl \<in> set (derslik_ids y). \<not> derslikte_cakisiyor_mu v b t dl (baslangic y) (bitis y)"
  proof (intro ballI notI)
    fix dl
    assume dl: "dl \<in> set (derslik_ids y)" and c: "derslikte_cakisiyor_mu v b t dl (baslangic y) (bitis y)"
    from c obtain sp where sp: "sp \<in> set (sinav_programi v)" "sp_bolum_id sp = b" "sp_sinav_turu sp = t"
      "(sp_id sp, dl) \<in> set (sinav_programi_derslik v)" "\<not> (sp_bitis sp \<le> baslangic y \<or> bitis y \<le> sp_baslangic sp)"
      by (rule cakisma_obtain)
    from karsilik_uyan [OF kk sp(1-3)] obtain p where p: "p \<in> set ps" "satir_uyar v sp p" by blast
    from oda p(1) have "oda_cakismaz p y" by blast
    show False by (rule uyar_cakisma [OF p(2) \<open>oda_cakismaz p y\<close> sp(4) dl sp(5)])
  qed
  then have f: "find (\<lambda>dl. derslikte_cakisiyor_mu v b t dl (baslangic y) (bitis y)) (derslik_ids y) = None"
    by (simp add: find_None_iff)
  have fr: "\<forall>dl \<in> set (derslik_ids y). (sp_sayac v + 1, dl) \<notin> set (sinav_programi_derslik v)"
    using taze_bag [OF inv] by blast
  let ?r = "yeni_satir v b (y_ders_id y) t (baslangic y) (bitis y) bek"
  let ?v1 = "v\<lparr>sinav_programi := sinav_programi v @ [?r],
               sinav_programi_derslik := sinav_programi_derslik v @ map (Pair (sp_sayac v + 1)) (derslik_ids y),
               sp_sayac := sp_sayac v + 1\<rparr>"
  have e: "program_satiri_yaz v b (y_ders_id y) t (baslangic y) (bitis y) bek (derslik_ids y) = Inr (sp_sayac v + 1, ?v1)"
    using f tekil_yok [OF kk yeni] fr dd by (simp add: program_satiri_yaz_sonuc)
  have "kayit_karsilik b t (ps @ [y]) ?v1"
    unfolding kayit_karsilik_def
  proof (intro ballI impI)
    fix sp
    assume sp: "sp \<in> set (sinav_programi ?v1)" and bt: "sp_bolum_id sp = b \<and> sp_sinav_turu sp = t"
    show "\<exists>p \<in> set (ps @ [y]). satir_uyar ?v1 sp p"
    proof (cases "sp \<in> set (sinav_programi v)")
      case True
      from bt karsilik_uyan [OF kk True] obtain p where p: "p \<in> set ps" "satir_uyar v sp p" by blast
      have "satir_uyar ?v1 sp p" by (rule eski_uyar [OF inv True p(2)])
      with p(1) show ?thesis by auto
    next
      case False
      with sp have "sp = ?r" by simp
      moreover have "satir_uyar ?v1 ?r y" by (rule yeni_uyar [OF inv])
      ultimately show ?thesis by auto
    qed
  qed
  with e show ?thesis by blast
qed

lemma kaydet_basarili:
  assumes "kayit_inv v" "kayit_karsilik b t ps v"
    and "sorted_wrt oda_cakismaz (ps @ ys)" "distinct (map y_ders_id (ps @ ys))"
    and "\<forall>p \<in> set ys. distinct (derslik_ids p)"
  shows "\<exists>v'. kaydet_dongusu b t bek ys v = Inr v' \<and> kayit_inv v'"
  using assms
proof (induction ys arbitrary: v ps)
  case Nil
  then show ?case by simp
next
  case (Cons y ys)
  have oda: "\<forall>p \<in> set ps. oda_cakismaz p y" using Cons.prems(3) by (simp add: sorted_wrt_append)
  have yeni: "y_ders_id y \<notin> y_ders_id ` set ps" using Cons.prems(4) by simp
  have dd: "distinct (derslik_ids y)" using Cons.prems(5) by simp
  from satir_basarili [OF Cons.prems(1,2) oda yeni dd, of bek]
  obtain sid v1 where e: "program_satiri_yaz v b (y_ders_id y) t (baslangic y) (bitis y) bek (derslik_ids y) = Inr (sid, v1)"
    and kk: "kayit_karsilik b t (ps @ [y]) v1"
    by blast
  have "\<exists>v'. kaydet_dongusu b t bek ys v1 = Inr v' \<and> kayit_inv v'"
  proof (rule Cons.IH)
    show "kayit_inv v1" by (rule program_satiri_yaz_korur [OF Cons.prems(1) e])
    show "kayit_karsilik b t (ps @ [y]) v1" by (rule kk)
    show "sorted_wrt oda_cakismaz ((ps @ [y]) @ ys)" using Cons.prems(3) by simp
    show "distinct (map y_ders_id ((ps @ [y]) @ ys))" using Cons.prems(4) by simp
    show "\<forall>p \<in> set ys. distinct (derslik_ids p)" using Cons.prems(5) by simp
  qed
  with e show ?case by simp
qed

lemma temizle_bos:
  "sp \<in> set (sinav_programi (sinav_programini_temizle v b t)) \<Longrightarrow> \<not> (sp_bolum_id sp = b \<and> sp_sinav_turu sp = t)"
  by (auto simp: sinav_programini_temizle_def Let_def filter_empty_conv split: if_splits)

subsection \<open>Seat plans\<close>

lemma oturma_ekle_sonuc:
  "oturma_ekle sinav_id as v =
     (if distinct (map fst as) \<and>
         (\<forall>a \<in> set as. \<not> list_ex (\<lambda>op. op_sinav_id op = sinav_id \<and> op_ogrenci_id op = fst a) (oturma_plani v))
      then Inr (v\<lparr>oturma_plani := oturma_plani v @
                  map (\<lambda>(og, dl, s, c). \<lparr>op_sinav_id = sinav_id, op_ogrenci_id = og, op_derslik_id = dl,
                                          op_sira_no = s, op_sutun_no = c\<rparr>) as\<rparr>)
      else Inl (IntegrityError ''oturma_plani''))"
  by (induction sinav_id as v rule: oturma_ekle.induct) (auto simp: list_ex_iff)


subsection \<open>Properties of the persistence layer\<close>

text \<open>C11: Saving a list of placements keeps the database invariant: distinct ids from the
  counter, the unique index, and no two overlapping exams of one department and exam type in
  a room.\<close>

theorem sinav_programi_kaydet_korur:
  assumes "kayit_inv v" and "sinav_programi_kaydet v bolum_id sinav_turu ys bek = Inr v'"
  shows "kayit_inv v'"
  using kaydet_dongusu_korur [OF assms(1) assms(2) [unfolded sinav_programi_kaydet_def]] .

theorem sinav_programi_kaydet_korur_witness:
  "kayit_inv vt_ornek \<and>
   sinav_programi_kaydet vt_ornek 1 ''vize''
     [\<lparr>y_ders_id = 2, baslangic = combine 739257 675, bitis = combine 739257 750, derslik_ids = [7]\<rparr>] 15 =
     Inr (vt_ornek\<lparr>sinav_programi := sinav_programi vt_ornek @
            [\<lparr>sp_id = 2, sp_bolum_id = 1, sp_ders_id = 2, sp_sinav_turu = ''vize'',
              sp_baslangic = combine 739257 675, sp_bitis = combine 739257 750, sp_sure_dk = 75,
              sp_bekleme_dk = 15\<rparr>],
          sinav_programi_derslik := [(1, 7), (2, 7)], sp_sayac := 2\<rparr>) \<and>
   kayit_inv (vt_ornek\<lparr>sinav_programi := sinav_programi vt_ornek @
            [\<lparr>sp_id = 2, sp_bolum_id = 1, sp_ders_id = 2, sp_sinav_turu = ''vize'',
              sp_baslangic = combine 739257 675, sp_bitis = combine 739257 750, sp_sure_dk = 75,
              sp_bekleme_dk = 15\<rparr>],
          sinav_programi_derslik := [(1, 7), (2, 7)], sp_sayac := 2\<rparr>)"
proof -
  have i: "kayit_inv vt_ornek"
    by (simp add: kayit_inv_def vt_ornek_def sp_oda_ayrik_def)
  have e: "sinav_programi_kaydet vt_ornek 1 ''vize''
     [\<lparr>y_ders_id = 2, baslangic = combine 739257 675, bitis = combine 739257 750, derslik_ids = [7]\<rparr>] 15 =
     Inr (vt_ornek\<lparr>sinav_programi := sinav_programi vt_ornek @
            [\<lparr>sp_id = 2, sp_bolum_id = 1, sp_ders_id = 2, sp_sinav_turu = ''vize'',
              sp_baslangic = combine 739257 675, sp_bitis = combine 739257 750, sp_sure_dk = 75,
              sp_bekleme_dk = 15\<rparr>],
          sinav_programi_derslik := [(1, 7), (2, 7)], sp_sayac := 2\<rparr>)"
    by (simp add: sinav_programi_kaydet_def program_satiri_yaz_sonuc vt_ornek_def derslikte_cakisiyor_mu_def
        yeni_satir_def combine_def)
  show ?thesis using i e sinav_programi_kaydet_korur [OF i e] by simp
qed

text \<open>C12: The room-conflict guard of \<open>_program_satiri_yaz\<close>: when one of the requested rooms
  already holds an overlapping exam of the same department and exam type, the write fails with
  a room-conflict error naming a requested room, and nothing is written.\<close>

theorem program_satiri_yaz_cakisma:
  assumes "dl \<in> set dl_ids" and "derslikte_cakisiyor_mu v bolum_id sinav_turu dl bas bit'"
  shows "\<exists>dl' \<in> set dl_ids. program_satiri_yaz v bolum_id d_id sinav_turu bas bit' bek dl_ids = Inl (DerslikCakismasi dl')"
proof (cases "find (\<lambda>dl. derslikte_cakisiyor_mu v bolum_id sinav_turu dl bas bit') dl_ids")
  case None
  with assms show ?thesis by (simp add: find_None_iff)
next
  case (Some dl')
  then have "dl' \<in> set dl_ids" by (auto simp: find_Some_iff)
  with Some show ?thesis by (auto simp: program_satiri_yaz_def)
qed

theorem program_satiri_yaz_cakisma_witness:
  "7 \<in> set [7::int] \<and> derslikte_cakisiyor_mu vt_ornek 1 ''vize'' 7 (combine 739257 650) (combine 739257 725) \<and>
   (\<exists>dl' \<in> set [7]. program_satiri_yaz vt_ornek 1 2 ''vize'' (combine 739257 650) (combine 739257 725) 15 [7] =
      Inl (DerslikCakismasi dl'))"
proof -
  have c: "derslikte_cakisiyor_mu vt_ornek 1 ''vize'' 7 (combine 739257 650) (combine 739257 725)"
    by (simp add: derslikte_cakisiyor_mu_def vt_ornek_def combine_def)
  show ?thesis using c program_satiri_yaz_cakisma [of 7 "[7]", OF _ c] by simp
qed

text \<open>Clearing an exam type of a department removes exactly its rows, their room links
  and their seat rows, and nothing else.\<close>

theorem sinav_programini_temizle_kaskad:
  "sinav_programi (sinav_programini_temizle v b t) =
     [sp \<leftarrow> sinav_programi v. \<not> (sp_bolum_id sp = b \<and> sp_sinav_turu sp = t)] \<and>
   sinav_programi_derslik (sinav_programini_temizle v b t) =
     [bg \<leftarrow> sinav_programi_derslik v. fst bg \<notin> sp_id ` {sp \<in> set (sinav_programi v). sp_bolum_id sp = b \<and> sp_sinav_turu sp = t}] \<and>
   oturma_plani (sinav_programini_temizle v b t) =
     [op \<leftarrow> oturma_plani v. op_sinav_id op \<notin> sp_id ` {sp \<in> set (sinav_programi v). sp_bolum_id sp = b \<and> sp_sinav_turu sp = t}]"
proof (cases "\<exists>sp \<in> set (sinav_programi v). sp_bolum_id sp = b \<and> sp_sinav_turu sp = t")
  case True
  let ?ids = "[sp_id sp. sp \<leftarrow> sinav_programi v, sp_bolum_id sp = b \<and> sp_sinav_turu sp = t]"
  let ?I = "sp_id ` {sp \<in> set (sinav_programi v). sp_bolum_id sp = b \<and> sp_sinav_turu sp = t}"
  have ne: "?ids \<noteq> []" using True by (auto simp: filter_empty_conv)
  have s: "set ?ids = ?I" by auto
  have "sinav_programini_temizle v b t =
          v\<lparr>oturma_plani := [op \<leftarrow> oturma_plani v. op_sinav_id op \<notin> ?I],
            sinav_programi_derslik := [bg \<leftarrow> sinav_programi_derslik v. fst bg \<notin> ?I],
            sinav_programi := [sp \<leftarrow> sinav_programi v. \<not> (sp_bolum_id sp = b \<and> sp_sinav_turu sp = t)]\<rparr>"
    by (simp only: sinav_programini_temizle_def Let_def if_not_P [OF ne] s)
  then show ?thesis by simp
next
  case False
  let ?I = "sp_id ` {sp \<in> set (sinav_programi v). sp_bolum_id sp = b \<and> sp_sinav_turu sp = t}"
  have e: "?I = {}" using False by auto
  have "[sp_id sp. sp \<leftarrow> sinav_programi v, sp_bolum_id sp = b \<and> sp_sinav_turu sp = t] = []"
    using False by (auto simp: filter_empty_conv)
  then have t: "sinav_programini_temizle v b t = v"
    by (simp add: sinav_programini_temizle_def Let_def)
  have f: "[sp \<leftarrow> sinav_programi v. \<not> (sp_bolum_id sp = b \<and> sp_sinav_turu sp = t)] = sinav_programi v"
    using False by (simp add: filter_id_conv)
  show ?thesis by (simp only: t e f) simp
qed

text \<open>C13: The seat-plan writer fails exactly when the assignments name a student twice or a
  student already seated in the exam; no check involves the room or the seat, so two students
  of an exam can be stored on one seat, or in a room the exam is not linked to.\<close>

theorem oturma_plani_ayni_koltuk:
  "(\<exists>v'. oturma_plani_kaydet v sinav_id as = Inr v') \<longleftrightarrow>
     distinct (map fst as) \<and>
     (\<forall>a \<in> set as. \<not> list_ex (\<lambda>op. op_sinav_id op = sinav_id \<and> op_ogrenci_id op = fst a) (oturma_plani v))"
  by (simp add: oturma_plani_kaydet_def oturma_ekle_sonuc)

theorem oturma_plani_ayni_koltuk_witness:
  "distinct (map fst [(10::kimlik, 7::kimlik, 1::int, 1::int), (11, 7, 1, 1)]) \<and>
   list_all (\<lambda>a. \<not> list_ex (\<lambda>op. op_sinav_id op = 1 \<and> op_ogrenci_id op = fst a) (oturma_plani vt_bos))
     [(10, 7, 1, 1), (11, 7, 1, 1)] \<and>
   (\<exists>v'. oturma_plani_kaydet vt_bos 1 [(10, 7, 1, 1), (11, 7, 1, 1)] = Inr v') \<and>
   sinav_programi_derslik vt_bos = []"
  using oturma_plani_ayni_koltuk [of vt_bos 1 "[(10, 7, 1, 1), (11, 7, 1, 1)]"]
  by (simp add: vt_bos_def)

end
