(* ===== verification/KoltukAtama.thy ===== *)
theory KoltukAtama
  imports Oturma
begin

text \<open>
  The round-robin seat assignment engine \<open>atama_yap\<close> of \<open>src/koltuk_atama.py\<close>.  It
  warns when the declared capacities (\<open>max(0, kapasite)\<close>) add up to fewer than the
  students, sorts the rooms by declared capacity, builds each room's seat list with its own
  copy of \<open>_koltuk_listesi\<close>, and then deals the students out one at a time, turning round
  the rooms and dropping a room from the turn once its seats are used up.  The \<open>while\<close>
  loop is the \<^theory_text>\<open>function\<close> \<open>rr_dongu\<close>; its termination measure is the number of
  students left plus the number of rooms left in the turn.

  The lemmas show a loop invariant (\<open>rr_inv\<close>: the seats given in room \<open>r\<close> are the
  first \<open>doluluk r\<close> seats of its list, the seated students are a prefix of the roster) and,
  with distinct room ids, a second one (\<open>rr_tam\<close>: the rooms dropped are full, and the
  student index is the sum of the counters), both carried by the generic
  \<open>rr_dongu_korur\<close>.  From them: no seat is given twice (whatever the room ids), every seat
  is in an input room's grid, the seated students are a prefix of the roster, exactly
  \<open>min(students, generated seats)\<close> students are seated, the warnings are exactly the
  declared-capacity shortage and the number left unseated, and on one room the engine gives
  the same assignments as the sequential engine of \<open>oturma_atayici.py\<close>.
\<close>

subsection \<open>Definitions\<close>

text \<open>\<open>_koltuk_listesi\<close> of \<open>koltuk_atama.py\<close>, a copy of the generator of
  \<open>oturma_atayici.py\<close> (theory \<open>Koltuk\<close>) written with its own local names.\<close>

definition koltuk_listesi_ka :: "int \<Rightarrow> int \<Rightarrow> int \<Rightarrow> (int \<times> int) list" where
  "koltuk_listesi_ka w d g =
     (if w \<le> 0 \<or> d \<le> 0 then []
      else let sy = (if g = 3 then 3 else 2 :: int);
               sutunlar = (if sy = 2
                 then [c \<leftarrow> py_range 1 (w + 1) 1. c mod 2 = 1] @ [c \<leftarrow> py_range 1 (w + 1) 1. c mod 2 = 0]
                 else py_range 1 (w + 1) 3 @ py_range 2 (w + 1) 3 @ py_range 3 (w + 1) 3)
           in concat (map (\<lambda>sira. map (\<lambda>sut. (sira, sut)) sutunlar) (py_range 1 (d + 1) 1)))"

text \<open>The locals of the \<open>while\<close> loop: the student and room indices, the list of rooms not yet
  full (\<open>derslikler\<close>, from which full rooms are popped), the fill counters \<open>doluluk\<close> keyed by
  room id, and the assignments so far.\<close>

record rr_durum =
  rr_ogrenci_index :: nat
  rr_derslik_index :: nat
  rr_derslikler :: "derslik list"
  rr_doluluk :: "kimlik \<Rightarrow> nat"
  rr_atamalar :: "atama list"

definition rr_koltuklar :: "(kimlik \<rightharpoonup> (int \<times> int) list) \<Rightarrow> kimlik \<Rightarrow> (int \<times> int) list" where
  "rr_koltuklar m dl_id = (case m dl_id of Some ks \<Rightarrow> ks | None \<Rightarrow> [])"

text \<open>One turn of the loop: the room at \<open>derslik_index mod len(derslikler)\<close>; if it has a free
  seat the next student takes it and both indices advance (\<open>rr_ata\<close>), otherwise the room is
  popped and the index stays (\<open>rr_cikar\<close>).  The loop ends when the students or the rooms
  run out; every turn seats a student or pops a room, which is the termination measure.\<close>

definition rr_secili :: "rr_durum \<Rightarrow> derslik" where
  "rr_secili st = rr_derslikler st ! (rr_derslik_index st mod length (rr_derslikler st))"

definition rr_ata :: "(kimlik \<rightharpoonup> (int \<times> int) list) \<Rightarrow> kimlik list \<Rightarrow> derslik \<Rightarrow> rr_durum \<Rightarrow> rr_durum" where
  "rr_ata m ogrenciler dl st =
     (let dl_id = derslik_id dl;
          koltuklar = rr_koltuklar m dl_id;
          dolu = rr_doluluk st dl_id
      in st\<lparr>rr_atamalar := rr_atamalar st @ [(ogrenciler ! rr_ogrenci_index st, dl_id, fst (koltuklar ! dolu), snd (koltuklar ! dolu))],
            rr_doluluk := (rr_doluluk st)(dl_id := Suc dolu),
            rr_ogrenci_index := Suc (rr_ogrenci_index st),
            rr_derslik_index := Suc (rr_derslik_index st)\<rparr>)"

definition rr_cikar :: "rr_durum \<Rightarrow> rr_durum" where
  "rr_cikar st =
     (let L = rr_derslikler st; k = rr_derslik_index st mod length L
      in st\<lparr>rr_derslikler := take k L @ drop (Suc k) L\<rparr>)"

function rr_dongu :: "(kimlik \<rightharpoonup> (int \<times> int) list) \<Rightarrow> kimlik list \<Rightarrow> rr_durum \<Rightarrow> rr_durum" where
  "rr_dongu m ogrenciler st =
     (if rr_ogrenci_index st < length ogrenciler \<and> rr_derslikler st \<noteq> [] then
        let dl = rr_secili st
        in if rr_doluluk st (derslik_id dl) < length (rr_koltuklar m (derslik_id dl))
           then rr_dongu m ogrenciler (rr_ata m ogrenciler dl st)
           else rr_dongu m ogrenciler (rr_cikar st)
      else st)"
  by pat_completeness auto
termination
  by (relation "measure (\<lambda>(m, ogrenciler, st). (length ogrenciler - rr_ogrenci_index st) + length (rr_derslikler st))")
    (auto simp: rr_ata_def rr_cikar_def Let_def min_def, metis length_greater_0_conv mod_less_divisor not_le)

declare rr_dongu.simps [simp del]

text \<open>The same \<open>while\<close> loop read literally, as a partial function: a run that never
  leaves the loop is the value \<open>None\<close>.\<close>

partial_function (option) rr_dongu_p ::
  "(kimlik \<rightharpoonup> (int \<times> int) list) \<Rightarrow> kimlik list \<Rightarrow> rr_durum \<Rightarrow> rr_durum option" where
  "rr_dongu_p m ogrenciler st =
     (if rr_ogrenci_index st < length ogrenciler \<and> rr_derslikler st \<noteq> [] then
        let dl = rr_secili st
        in if rr_doluluk st (derslik_id dl) < length (rr_koltuklar m (derslik_id dl))
           then rr_dongu_p m ogrenciler (rr_ata m ogrenciler dl st)
           else rr_dongu_p m ogrenciler (rr_cikar st)
      else Some st)"

text \<open>The seat lists by room id and the initial loop state (lines 57--75).\<close>

definition koltuk_haritasi_rr :: "derslik list \<Rightarrow> kimlik \<rightharpoonup> (int \<times> int) list" where
  "koltuk_haritasi_rr derslikler =
     fold (\<lambda>dl m. m(derslik_id dl \<mapsto>
       koltuk_listesi_ka (enine dl) (boyuna dl) (if sira_yapisi dl = 0 then 2 else sira_yapisi dl))) derslikler Map.empty"

definition rr_baslangic :: "derslik list \<Rightarrow> rr_durum" where
  "rr_baslangic derslikler =
     \<lparr>rr_ogrenci_index = 0, rr_derslik_index = 0, rr_derslikler = derslikler,
      rr_doluluk = (\<lambda>_. 0), rr_atamalar = []\<rparr>"

definition atama_yap_rr :: "kimlik list \<Rightarrow> derslik list \<Rightarrow> atama list \<times> oturma_uyari list" where
  "atama_yap_rr ogrenciler derslikler =
     (let toplam = sum_list (map (\<lambda>dl. max 0 (kapasite dl)) derslikler);
          uyarilar = (if toplam < int (length ogrenciler) then [KapasiteYetersiz (length ogrenciler) (nat toplam)] else []);
          sirali = sort_key (\<lambda>dl. - kapasite dl) derslikler;
          m = koltuk_haritasi_rr sirali
      in if length ogrenciler = 0 then ([], [OgrenciYok])
         else let st = rr_dongu m ogrenciler (rr_baslangic sirali)
              in (rr_atamalar st, uyarilar @
                    (if rr_ogrenci_index st < length ogrenciler
                     then [Yerlesemedi (length ogrenciler - rr_ogrenci_index st)] else [])))"

text \<open>The seats given in one room, and the two loop invariants.\<close>

definition atanan :: "atama list \<Rightarrow> kimlik \<Rightarrow> (int \<times> int) list" where
  "atanan as r = map (\<lambda>(og, d, s, c). (s, c)) (filter (\<lambda>(og, d, s, c). d = r) as)"

definition rr_inv :: "(kimlik \<rightharpoonup> (int \<times> int) list) \<Rightarrow> kimlik list \<Rightarrow> derslik list \<Rightarrow> rr_durum \<Rightarrow> bool" where
  "rr_inv m ogrenciler R st \<longleftrightarrow>
     (\<forall>r. atanan (rr_atamalar st) r = take (rr_doluluk st r) (rr_koltuklar m r) \<and>
          rr_doluluk st r \<le> length (rr_koltuklar m r)) \<and>
     map fst (rr_atamalar st) = take (rr_ogrenci_index st) ogrenciler \<and>
     rr_ogrenci_index st \<le> length ogrenciler \<and>
     set (rr_derslikler st) \<subseteq> set R \<and>
     (\<forall>a \<in> set (rr_atamalar st). fst (snd a) \<in> derslik_id ` set R)"

definition rr_tam :: "(kimlik \<rightharpoonup> (int \<times> int) list) \<Rightarrow> derslik list \<Rightarrow> rr_durum \<Rightarrow> bool" where
  "rr_tam m R st \<longleftrightarrow>
     distinct (map derslik_id (rr_derslikler st)) \<and>
     (\<forall>dl \<in> set R. dl \<notin> set (rr_derslikler st) \<longrightarrow> rr_doluluk st (derslik_id dl) = length (rr_koltuklar m (derslik_id dl))) \<and>
     rr_ogrenci_index st = sum_list (map (\<lambda>dl. rr_doluluk st (derslik_id dl)) R)"

text \<open>Rooms of the examples: a 2 x 2 room, a 2 x 1 room, and a 2 x 2 room whose declared
  capacity is 40.\<close>

definition ornek_rr_oda_4 :: derslik where
  "ornek_rr_oda_4 = \<lparr>derslik_id = 11, kapasite = 4, enine = 2, boyuna = 2, sira_yapisi = 2\<rparr>"

definition ornek_rr_oda_2 :: derslik where
  "ornek_rr_oda_2 = \<lparr>derslik_id = 12, kapasite = 2, enine = 2, boyuna = 1, sira_yapisi = 2\<rparr>"

definition ornek_rr_oda_beyan :: derslik where
  "ornek_rr_oda_beyan = \<lparr>derslik_id = 13, kapasite = 40, enine = 2, boyuna = 2, sira_yapisi = 2\<rparr>"

declare ornek_rr_oda_4_def [oturma_simps] ornek_rr_oda_2_def [oturma_simps] ornek_rr_oda_beyan_def [oturma_simps]

subsection \<open>The generator copy and the loop\<close>

lemma koltuk_listesi_ka_esit: "koltuk_listesi_ka w d g = koltuk_listesi w d g"
  by (simp add: koltuk_listesi_ka_def koltuk_listesi_def sutun_sirasi_def sira_grubu_def Let_def)

lemma atanan_snoc:
  "atanan (as @ [a]) r = (if fst (snd a) = r then atanan as r @ [snd (snd a)] else atanan as r)"
  by (cases a) (simp add: atanan_def)

lemma set_del_at: "set (take k L @ drop (Suc k) L) \<subseteq> set L"
  by (auto dest: in_set_takeD in_set_dropD)

lemma mod_length_less: "L \<noteq> [] \<Longrightarrow> j mod length L < length L"
  by simp

lemma rr_ata_olcu:
  "rr_ogrenci_index st < length ogrenciler \<Longrightarrow>
     length ogrenciler - rr_ogrenci_index (rr_ata m ogrenciler dl st) + length (rr_derslikler (rr_ata m ogrenciler dl st))
       < length ogrenciler - rr_ogrenci_index st + length (rr_derslikler st)"
  by (simp add: rr_ata_def Let_def)

lemma rr_cikar_olcu:
  assumes "rr_derslikler st \<noteq> []"
  shows "length ogrenciler - rr_ogrenci_index (rr_cikar st) + length (rr_derslikler (rr_cikar st))
           < length ogrenciler - rr_ogrenci_index st + length (rr_derslikler st)"
proof -
  have k: "rr_derslik_index st mod length (rr_derslikler st) < length (rr_derslikler st)"
    by (rule mod_length_less [OF assms])
  have "length (rr_derslikler (rr_cikar st)) < length (rr_derslikler st)"
    using k unfolding rr_cikar_def Let_def by simp
  moreover have "rr_ogrenci_index (rr_cikar st) = rr_ogrenci_index st"
    by (simp add: rr_cikar_def Let_def)
  ultimately show ?thesis by simp
qed

lemma rr_dongu_korur:
  assumes ata: "\<And>st. P st \<Longrightarrow> rr_ogrenci_index st < length ogrenciler \<Longrightarrow> rr_derslikler st \<noteq> [] \<Longrightarrow>
                  rr_doluluk st (derslik_id (rr_secili st)) < length (rr_koltuklar m (derslik_id (rr_secili st))) \<Longrightarrow>
                  P (rr_ata m ogrenciler (rr_secili st) st)"
    and cikar: "\<And>st. P st \<Longrightarrow> rr_ogrenci_index st < length ogrenciler \<Longrightarrow> rr_derslikler st \<noteq> [] \<Longrightarrow>
                  \<not> rr_doluluk st (derslik_id (rr_secili st)) < length (rr_koltuklar m (derslik_id (rr_secili st))) \<Longrightarrow>
                  P (rr_cikar st)"
    and "P st"
  shows "P (rr_dongu m ogrenciler st)"
  using assms(3)
proof (induction "length ogrenciler - rr_ogrenci_index st + length (rr_derslikler st)" arbitrary: st rule: less_induct)
  case less
  show ?case
  proof (cases "rr_ogrenci_index st < length ogrenciler \<and> rr_derslikler st \<noteq> []")
    case g: True
    show ?thesis
    proof (cases "rr_doluluk st (derslik_id (rr_secili st)) < length (rr_koltuklar m (derslik_id (rr_secili st)))")
      case True
      have e: "rr_dongu m ogrenciler st = rr_dongu m ogrenciler (rr_ata m ogrenciler (rr_secili st) st)"
        using g True by (subst rr_dongu.simps) (simp add: Let_def)
      have "P (rr_dongu m ogrenciler (rr_ata m ogrenciler (rr_secili st) st))"
        using less.hyps [OF rr_ata_olcu] ata [OF less.prems] g True by blast
      with e show ?thesis by simp
    next
      case False
      have e: "rr_dongu m ogrenciler st = rr_dongu m ogrenciler (rr_cikar st)"
        using g False by (subst rr_dongu.simps) (simp add: Let_def)
      have "P (rr_dongu m ogrenciler (rr_cikar st))"
        using less.hyps [OF rr_cikar_olcu] cikar [OF less.prems] g False by blast
      with e show ?thesis by simp
    qed
  next
    case False
    have "rr_dongu m ogrenciler st = st"
      by (subst rr_dongu.simps) (simp only: if_not_P [OF False])
    then show ?thesis using less.prems by simp
  qed
qed

lemma rr_dongu_son:
  "\<not> (rr_ogrenci_index (rr_dongu m ogrenciler st) < length ogrenciler \<and> rr_derslikler (rr_dongu m ogrenciler st) \<noteq> [])"
proof (induction m ogrenciler st rule: rr_dongu.induct)
  case (1 m ogrenciler st)
  then show ?case
    by (subst (1 2) rr_dongu.simps) (auto simp: Let_def simp del: rr_dongu.simps)
qed

lemma rr_secili_in: "rr_derslikler st \<noteq> [] \<Longrightarrow> rr_secili st \<in> set (rr_derslikler st)"
  by (simp add: rr_secili_def)

lemma rr_ata_inv:
  assumes inv: "rr_inv m ogrenciler R st" and i: "rr_ogrenci_index st < length ogrenciler"
    and dl: "dl \<in> set R" and lt: "rr_doluluk st (derslik_id dl) < length (rr_koltuklar m (derslik_id dl))"
  shows "rr_inv m ogrenciler R (rr_ata m ogrenciler dl st)"
proof -
  let ?r = "derslik_id dl"
  have a: "atanan (rr_atamalar st @ [(ogrenciler ! rr_ogrenci_index st, ?r, rr_koltuklar m ?r ! rr_doluluk st ?r)]) r =
           take (((rr_doluluk st)(?r := Suc (rr_doluluk st ?r))) r) (rr_koltuklar m r)" for r
    using inv lt by (auto simp: rr_inv_def atanan_snoc take_Suc_conv_app_nth)
  have b: "((rr_doluluk st)(?r := Suc (rr_doluluk st ?r))) r \<le> length (rr_koltuklar m r)" for r
    using inv lt by (auto simp: rr_inv_def)
  have c: "map fst (rr_atamalar st @ [(ogrenciler ! rr_ogrenci_index st, ?r, rr_koltuklar m ?r ! rr_doluluk st ?r)]) =
           take (Suc (rr_ogrenci_index st)) ogrenciler"
    using inv i by (simp add: rr_inv_def take_Suc_conv_app_nth)
  show ?thesis
    using a b c inv i dl by (simp add: rr_inv_def rr_ata_def Let_def)
qed

lemma rr_ata_secili_inv:
  assumes "rr_inv m ogrenciler R st" "rr_ogrenci_index st < length ogrenciler" "rr_derslikler st \<noteq> []"
    "rr_doluluk st (derslik_id (rr_secili st)) < length (rr_koltuklar m (derslik_id (rr_secili st)))"
  shows "rr_inv m ogrenciler R (rr_ata m ogrenciler (rr_secili st) st)"
proof (rule rr_ata_inv [OF assms(1,2) _ assms(4)])
  show "rr_secili st \<in> set R" using assms(1,3) rr_secili_in [of st] by (auto simp: rr_inv_def)
qed

lemma rr_cikar_inv: "rr_inv m ogrenciler R st \<Longrightarrow> rr_inv m ogrenciler R (rr_cikar st)"
  using set_del_at [of "rr_derslik_index st mod length (rr_derslikler st)" "rr_derslikler st"]
  by (auto simp: rr_inv_def rr_cikar_def Let_def)

lemma rr_dongu_inv:
  "rr_inv m ogrenciler R st \<Longrightarrow> rr_inv m ogrenciler R (rr_dongu m ogrenciler st)"
  by (rule rr_dongu_korur) (auto intro: rr_ata_secili_inv rr_cikar_inv)

lemma atanan_set:
  "(og, r, s, c) \<in> set as \<Longrightarrow> (s, c) \<in> set (atanan as r)"
  by (force simp: atanan_def)

lemma distinct_atanan:
  "(\<forall>r. distinct (atanan as r)) \<Longrightarrow> distinct (map snd as)"
proof (induction as)
  case (Cons a as)
  have h: "atanan (a # as) r = (if fst (snd a) = r then snd (snd a) # atanan as r else atanan as r)" for r
    by (cases a) (simp add: atanan_def)
  have "distinct (atanan as r)" for r
    using Cons.prems [rule_format, of r] by (simp add: h split: if_splits)
  then have d: "distinct (map snd as)" by (rule Cons.IH [rule_format])
  have "snd a \<notin> set (map snd as)"
  proof
    assume "snd a \<in> set (map snd as)"
    then obtain b where bs: "b \<in> set as" and sb: "snd b = snd a" by auto
    obtain og r s c where b: "b = (og, r, s, c)" by (cases b) auto
    with sb have "snd a = (r, s, c)" by simp
    with atanan_set [of og r s c as] b bs have "snd (snd a) \<in> set (atanan as (fst (snd a)))" by simp
    with Cons.prems [rule_format, of "fst (snd a)"] show False by (simp add: h)
  qed
  with d show ?case by simp
qed simp

lemma rr_koltuklar_haritasi:
  assumes "(s, c) \<in> set (rr_koltuklar (koltuk_haritasi_rr R) r)"
  shows "\<exists>dl \<in> set R. derslik_id dl = r \<and>
           (s, c) \<in> set (koltuk_listesi (enine dl) (boyuna dl) (if sira_yapisi dl = 0 then 2 else sira_yapisi dl))"
proof (cases "koltuk_haritasi_rr R r")
  case (Some ks)
  then show ?thesis
    using assms fold_map_upd_Some [of derslik_id
        "\<lambda>dl. koltuk_listesi_ka (enine dl) (boyuna dl) (if sira_yapisi dl = 0 then 2 else sira_yapisi dl)" R Map.empty r ks]
    by (auto simp: rr_koltuklar_def koltuk_haritasi_rr_def koltuk_listesi_ka_esit)
qed (use assms in \<open>simp add: rr_koltuklar_def\<close>)

lemma distinct_rr_koltuklar: "distinct (rr_koltuklar (koltuk_haritasi_rr R) r)"
proof (cases "koltuk_haritasi_rr R r")
  case (Some ks)
  then have "\<exists>dl \<in> set R. derslik_id dl = r \<and>
      koltuk_listesi_ka (enine dl) (boyuna dl) (if sira_yapisi dl = 0 then 2 else sira_yapisi dl) = ks"
    using fold_map_upd_Some [of derslik_id
        "\<lambda>dl. koltuk_listesi_ka (enine dl) (boyuna dl) (if sira_yapisi dl = 0 then 2 else sira_yapisi dl)" R Map.empty r ks]
    by (simp add: koltuk_haritasi_rr_def)
  then obtain dl :: derslik where "koltuk_listesi_ka (enine dl) (boyuna dl) (if sira_yapisi dl = 0 then 2 else sira_yapisi dl) = ks"
    by blast
  with Some show ?thesis by (auto simp: rr_koltuklar_def koltuk_listesi_ka_esit distinct_koltuk_listesi)
qed (simp add: rr_koltuklar_def)

lemma atama_yap_rr_inv:
  assumes "ogrenciler \<noteq> []"
  shows "fst (atama_yap_rr ogrenciler derslikler) =
           rr_atamalar (rr_dongu (koltuk_haritasi_rr (sort_key (\<lambda>dl. - kapasite dl) derslikler)) ogrenciler
                          (rr_baslangic (sort_key (\<lambda>dl. - kapasite dl) derslikler)))"
    and "rr_inv (koltuk_haritasi_rr (sort_key (\<lambda>dl. - kapasite dl) derslikler)) ogrenciler derslikler
           (rr_dongu (koltuk_haritasi_rr (sort_key (\<lambda>dl. - kapasite dl) derslikler)) ogrenciler
              (rr_baslangic (sort_key (\<lambda>dl. - kapasite dl) derslikler)))"
proof -
  show "fst (atama_yap_rr ogrenciler derslikler) =
           rr_atamalar (rr_dongu (koltuk_haritasi_rr (sort_key (\<lambda>dl. - kapasite dl) derslikler)) ogrenciler
                          (rr_baslangic (sort_key (\<lambda>dl. - kapasite dl) derslikler)))"
    using assms by (simp add: atama_yap_rr_def Let_def)
  show "rr_inv (koltuk_haritasi_rr (sort_key (\<lambda>dl. - kapasite dl) derslikler)) ogrenciler derslikler
           (rr_dongu (koltuk_haritasi_rr (sort_key (\<lambda>dl. - kapasite dl) derslikler)) ogrenciler
              (rr_baslangic (sort_key (\<lambda>dl. - kapasite dl) derslikler)))"
    by (rule rr_dongu_inv) (auto simp: rr_inv_def rr_baslangic_def atanan_def)
qed

lemma sum_list_artir:
  assumes "distinct (map f R)" and "x \<in> set R"
  shows "sum_list (map (\<lambda>y. (g(f x := Suc (g (f x)))) (f y)) R) = Suc (sum_list (map (\<lambda>y. g (f y)) R))"
  using assms
proof (induction R)
  case (Cons y R)
  show ?case
  proof (cases "y = x")
    case True
    from Cons.prems True have "f x \<notin> f ` set R" by simp
    have "\<forall>z \<in> set R. f z \<noteq> f x"
    proof (intro ballI notI)
      fix z
      assume "z \<in> set R" "f z = f x"
      then have "f x \<in> f ` set R" by (metis imageI)
      with \<open>f x \<notin> f ` set R\<close> show False by contradiction
    qed
    then have eq: "map (\<lambda>y. (g(f x := Suc (g (f x)))) (f y)) R = map (\<lambda>y. g (f y)) R"
      by (intro map_cong) auto
    have "sum_list (map (\<lambda>y. (g(f x := Suc (g (f x)))) (f y)) (y # R)) =
          Suc (g (f x)) + sum_list (map (\<lambda>y. (g(f x := Suc (g (f x)))) (f y)) R)"
      using True by simp
    also have "\<dots> = Suc (g (f x)) + sum_list (map (\<lambda>y. g (f y)) R)" by (simp only: eq)
    finally show ?thesis using True by simp
  next
    case False
    with Cons.prems have "f y \<noteq> f x" by (auto simp: inj_on_def)
    with False Cons show ?thesis by simp
  qed
qed simp

lemma distinct_map_del_at:
  "distinct (map f L) \<Longrightarrow> distinct (map f (take k L @ drop (Suc k) L))"
proof -
  assume d: "distinct (map f L)"
  have "map f (take k L @ drop (Suc k) L) = take k (map f L) @ drop (Suc k) (map f L)"
    by (simp add: take_map drop_map)
  moreover have "distinct (take k (map f L) @ drop (Suc k) (map f L))"
    using d by (simp add: set_take_disj_set_drop_if_distinct)
  ultimately show ?thesis by simp
qed

lemma del_at_nth:
  assumes "distinct L" "k < length L" "x \<in> set L"
  shows "x \<notin> set (take k L @ drop (Suc k) L) \<longleftrightarrow> x = L ! k"
proof -
  define A where "A = take k L"
  define B where "B = drop (Suc k) L"
  have L: "L = A @ L ! k # B" using assms(2) by (simp add: A_def B_def id_take_nth_drop)
  then have "distinct (A @ L ! k # B)" using assms(1) by simp
  then have "L ! k \<notin> set A" "L ! k \<notin> set B" by auto
  moreover have "x \<in> set A \<or> x = L ! k \<or> x \<in> set B" using assms(3) L by (metis Un_iff set_ConsD set_append)
  ultimately show ?thesis by (auto simp: A_def [symmetric] B_def [symmetric])
qed

lemma rr_tam_ata:
  assumes d: "distinct (map derslik_id R)" and inv: "rr_inv m ogrenciler R st" and tam: "rr_tam m R st"
    and ne: "rr_derslikler st \<noteq> []"
  shows "rr_tam m R (rr_ata m ogrenciler (rr_secili st) st)"
proof -
  let ?s = "rr_secili st"
  have sL: "?s \<in> set (rr_derslikler st)" using ne by (rule rr_secili_in)
  then have sR: "?s \<in> set R" using inv by (auto simp: rr_inv_def)
  have diff: "derslik_id dl \<noteq> derslik_id ?s" if "dl \<in> set R" "dl \<notin> set (rr_derslikler st)" for dl
  proof
    assume "derslik_id dl = derslik_id ?s"
    with d that(1) sR have "dl = ?s" by (auto simp: distinct_map inj_on_def)
    with that(2) sL show False by simp
  qed
  have "rr_ogrenci_index (rr_ata m ogrenciler ?s st) =
        sum_list (map (\<lambda>dl. rr_doluluk (rr_ata m ogrenciler ?s st) (derslik_id dl)) R)"
    using tam sum_list_artir [OF d sR, of "rr_doluluk st"] by (simp add: rr_tam_def rr_ata_def Let_def)
  with tam diff show ?thesis by (simp add: rr_tam_def rr_ata_def Let_def)
qed

lemma rr_tam_cikar:
  assumes d: "distinct (map derslik_id R)" and inv: "rr_inv m ogrenciler R st" and tam: "rr_tam m R st"
    and ne: "rr_derslikler st \<noteq> []"
    and dolu: "\<not> rr_doluluk st (derslik_id (rr_secili st)) < length (rr_koltuklar m (derslik_id (rr_secili st)))"
  shows "rr_tam m R (rr_cikar st)"
proof -
  let ?L = "rr_derslikler st"
  let ?k = "rr_derslik_index st mod length ?L"
  have k: "?k < length ?L" using ne by (rule mod_length_less)
  have dL: "distinct (map derslik_id ?L)" using tam by (simp add: rr_tam_def)
  then have dist: "distinct ?L" by (simp add: distinct_map)
  have full: "rr_doluluk st (derslik_id (?L ! ?k)) = length (rr_koltuklar m (derslik_id (?L ! ?k)))"
    using dolu inv by (simp add: rr_secili_def rr_inv_def le_antisym not_less)
  have "\<forall>dl \<in> set R. dl \<notin> set (take ?k ?L @ drop (Suc ?k) ?L) \<longrightarrow>
          rr_doluluk st (derslik_id dl) = length (rr_koltuklar m (derslik_id dl))"
  proof (intro ballI impI)
    fix dl
    assume dl: "dl \<in> set R" "dl \<notin> set (take ?k ?L @ drop (Suc ?k) ?L)"
    show "rr_doluluk st (derslik_id dl) = length (rr_koltuklar m (derslik_id dl))"
    proof (cases "dl \<in> set ?L")
      case True
      with dl(2) del_at_nth [OF dist k True] have "dl = ?L ! ?k" by simp
      with full show ?thesis by simp
    next
      case False
      with tam dl(1) show ?thesis by (simp add: rr_tam_def)
    qed
  qed
  moreover have "distinct (map derslik_id (take ?k ?L @ drop (Suc ?k) ?L))"
    using dL by (rule distinct_map_del_at)
  ultimately show ?thesis using tam by (simp add: rr_tam_def rr_cikar_def Let_def)
qed

lemma rr_koltuklar_esit:
  assumes "distinct (map derslik_id R)" and "dl \<in> set R"
  shows "rr_koltuklar (koltuk_haritasi_rr (sort_key f R)) (derslik_id dl) = derslik_koltuklari_of dl"
proof -
  have "distinct (map derslik_id (sort_key f R))" using assms(1) by (simp add: distinct_map_sort_key)
  moreover have "dl \<in> set (sort_key f R)" using assms(2) by simp
  ultimately show ?thesis
    using fold_map_upd_distinct [of derslik_id "sort_key f R" dl
        "\<lambda>dl. koltuk_listesi_ka (enine dl) (boyuna dl) (if sira_yapisi dl = 0 then 2 else sira_yapisi dl)" Map.empty]
    by (simp add: rr_koltuklar_def koltuk_haritasi_rr_def derslik_koltuklari_of_def koltuk_listesi_ka_esit)
qed

lemma rr_son_inv:
  assumes d: "distinct (map derslik_id derslikler)"
  shows "rr_inv (koltuk_haritasi_rr (sort_key (\<lambda>dl. - kapasite dl) derslikler)) ogrenciler derslikler
           (rr_dongu (koltuk_haritasi_rr (sort_key (\<lambda>dl. - kapasite dl) derslikler)) ogrenciler
              (rr_baslangic (sort_key (\<lambda>dl. - kapasite dl) derslikler))) \<and>
         rr_tam (koltuk_haritasi_rr (sort_key (\<lambda>dl. - kapasite dl) derslikler)) derslikler
           (rr_dongu (koltuk_haritasi_rr (sort_key (\<lambda>dl. - kapasite dl) derslikler)) ogrenciler
              (rr_baslangic (sort_key (\<lambda>dl. - kapasite dl) derslikler)))"
proof -
  let ?S = "sort_key (\<lambda>dl. - kapasite dl) derslikler"
  let ?m = "koltuk_haritasi_rr ?S"
  let ?st = "rr_dongu ?m ogrenciler (rr_baslangic ?S)"
  show ?thesis
  proof (rule rr_dongu_korur)
    show "rr_inv ?m ogrenciler derslikler (rr_baslangic ?S) \<and> rr_tam ?m derslikler (rr_baslangic ?S)"
      using d by (auto simp: rr_inv_def rr_tam_def rr_baslangic_def atanan_def distinct_map_sort_key)
  next
    fix st
    assume "rr_inv ?m ogrenciler derslikler st \<and> rr_tam ?m derslikler st" "rr_ogrenci_index st < length ogrenciler"
      "rr_derslikler st \<noteq> []" "rr_doluluk st (derslik_id (rr_secili st)) < length (rr_koltuklar ?m (derslik_id (rr_secili st)))"
    then show "rr_inv ?m ogrenciler derslikler (rr_ata ?m ogrenciler (rr_secili st) st) \<and>
               rr_tam ?m derslikler (rr_ata ?m ogrenciler (rr_secili st) st)"
      using rr_ata_secili_inv rr_tam_ata [OF d] by blast
  next
    fix st
    assume "rr_inv ?m ogrenciler derslikler st \<and> rr_tam ?m derslikler st"
      "rr_ogrenci_index st < length ogrenciler" "rr_derslikler st \<noteq> []"
      "\<not> rr_doluluk st (derslik_id (rr_secili st)) < length (rr_koltuklar ?m (derslik_id (rr_secili st)))"
    then show "rr_inv ?m ogrenciler derslikler (rr_cikar st) \<and> rr_tam ?m derslikler (rr_cikar st)"
      using rr_cikar_inv rr_tam_cikar [OF d] by blast
  qed
qed

lemma rr_son_index:
  assumes d: "distinct (map derslik_id derslikler)" and False: "ogrenciler \<noteq> []"
  shows "rr_ogrenci_index (rr_dongu (koltuk_haritasi_rr (sort_key (\<lambda>dl. - kapasite dl) derslikler)) ogrenciler
            (rr_baslangic (sort_key (\<lambda>dl. - kapasite dl) derslikler))) = min (length ogrenciler) (toplam_kapasite derslikler)"
    and "length (fst (atama_yap_rr ogrenciler derslikler)) =
           rr_ogrenci_index (rr_dongu (koltuk_haritasi_rr (sort_key (\<lambda>dl. - kapasite dl) derslikler)) ogrenciler
            (rr_baslangic (sort_key (\<lambda>dl. - kapasite dl) derslikler)))"
proof -
  let ?S = "sort_key (\<lambda>dl. - kapasite dl) derslikler"
  let ?m = "koltuk_haritasi_rr ?S"
  let ?st = "rr_dongu ?m ogrenciler (rr_baslangic ?S)"
  have q: "rr_inv ?m ogrenciler derslikler ?st \<and> rr_tam ?m derslikler ?st"
    by (rule rr_son_inv [OF d])
  let ?T = "sum_list (map (\<lambda>dl. length (rr_koltuklar ?m (derslik_id dl))) derslikler)"
  have T: "?T = toplam_kapasite derslikler"
    unfolding toplam_kapasite_def using rr_koltuklar_esit [OF d, where f = "\<lambda>dl. - kapasite dl"]
    by (intro arg_cong [where f = sum_list] map_cong) auto
  have i: "rr_ogrenci_index ?st = sum_list (map (\<lambda>dl. rr_doluluk ?st (derslik_id dl)) derslikler)"
    using q by (simp add: rr_tam_def)
  have le: "rr_ogrenci_index ?st \<le> ?T"
    unfolding i using q by (intro sum_list_mono) (simp add: rr_inv_def)
  have n: "rr_ogrenci_index ?st \<le> length ogrenciler" using q by (simp add: rr_inv_def)
  show len: "length (fst (atama_yap_rr ogrenciler derslikler)) = rr_ogrenci_index ?st"
  proof -
    have "map fst (rr_atamalar ?st) = take (rr_ogrenci_index ?st) ogrenciler" using q by (simp add: rr_inv_def)
    then have "length (map fst (rr_atamalar ?st)) = rr_ogrenci_index ?st" using n by simp
    then show ?thesis using atama_yap_rr_inv(1) [OF False] by simp
  qed
  show "rr_ogrenci_index ?st = min (length ogrenciler) (toplam_kapasite derslikler)"
  proof (cases "rr_derslikler ?st = []")
    case True
    then have "sum_list (map (\<lambda>dl. rr_doluluk ?st (derslik_id dl)) derslikler) = ?T"
      using q by (intro arg_cong [where f = sum_list] map_cong) (auto simp: rr_tam_def)
    with i le n T show ?thesis by simp
  next
    case False
    with rr_dongu_son [of ?m ogrenciler "rr_baslangic ?S"] n have "rr_ogrenci_index ?st = length ogrenciler" by simp
    with le T show ?thesis by simp
  qed
qed

lemma tek_oda_zip:
  "\<forall>a \<in> set as. fst (snd a) = r \<Longrightarrow> as = map (\<lambda>(og, s, c). (og, r, s, c)) (zip (map fst as) (atanan as r))"
  by (induction as) (auto simp: atanan_def)

lemma rr_dongu_ata:
  "rr_ogrenci_index st < length ogrenciler \<Longrightarrow> rr_derslikler st \<noteq> [] \<Longrightarrow>
   rr_doluluk st (derslik_id (rr_secili st)) < length (rr_koltuklar m (derslik_id (rr_secili st))) \<Longrightarrow>
   rr_dongu m ogrenciler st = rr_dongu m ogrenciler (rr_ata m ogrenciler (rr_secili st) st)"
  by (subst rr_dongu.simps) (simp add: Let_def)

lemma rr_dongu_cikar:
  "rr_ogrenci_index st < length ogrenciler \<Longrightarrow> rr_derslikler st \<noteq> [] \<Longrightarrow>
   \<not> rr_doluluk st (derslik_id (rr_secili st)) < length (rr_koltuklar m (derslik_id (rr_secili st))) \<Longrightarrow>
   rr_dongu m ogrenciler st = rr_dongu m ogrenciler (rr_cikar st)"
  by (subst rr_dongu.simps) (simp add: Let_def)

lemma rr_dongu_bitti:
  "\<not> (rr_ogrenci_index st < length ogrenciler \<and> rr_derslikler st \<noteq> []) \<Longrightarrow> rr_dongu m ogrenciler st = st"
  by (subst rr_dongu.simps) (simp only: if_False)

subsection \<open>Correctness of the round-robin engine\<close>

text \<open>C22: The round-robin engine never gives one seat (room, row, column) to two students,
  whatever the room ids: the fill counters and seat lists are keyed by room id.\<close>

theorem atama_yap_rr_koltuk_tekil: "distinct (map snd (fst (atama_yap_rr ogrenciler derslikler)))"
proof (cases "ogrenciler = []")
  case False
  let ?m = "koltuk_haritasi_rr (sort_key (\<lambda>dl. - kapasite dl) derslikler)"
  note i = atama_yap_rr_inv [OF False]
  have "distinct (atanan (fst (atama_yap_rr ogrenciler derslikler)) r)" for r
    using i(2) distinct_rr_koltuklar [of _ r] by (simp add: i(1) rr_inv_def)
  then show ?thesis by (simp add: distinct_atanan)
qed (simp add: atama_yap_rr_def)

text \<open>Every assignment of the round-robin engine names an input room and a seat inside
  that room's grid.\<close>

theorem atama_yap_rr_koltuk_gecerli:
  "\<forall>(og, r, s, c) \<in> set (fst (atama_yap_rr ogrenciler derslikler)).
     \<exists>dl \<in> set derslikler. derslik_id dl = r \<and> 1 \<le> s \<and> s \<le> boyuna dl \<and> 1 \<le> c \<and> c \<le> enine dl"
proof (cases "ogrenciler = []")
  case False
  note i = atama_yap_rr_inv [OF False]
  show ?thesis
  proof (clarify)
    fix og r s c
    assume a: "(og, r, s, c) \<in> set (fst (atama_yap_rr ogrenciler derslikler))"
    let ?m = "koltuk_haritasi_rr (sort_key (\<lambda>dl. - kapasite dl) derslikler)"
    have "(s, c) \<in> set (atanan (fst (atama_yap_rr ogrenciler derslikler)) r)" by (rule atanan_set [OF a])
    then have "(s, c) \<in> set (rr_koltuklar ?m r)"
      using i(2) by (auto simp: i(1) rr_inv_def dest: in_set_takeD)
    then obtain dl where "dl \<in> set derslikler" "derslik_id dl = r"
      "(s, c) \<in> set (koltuk_listesi (enine dl) (boyuna dl) (if sira_yapisi dl = 0 then 2 else sira_yapisi dl))"
      using rr_koltuklar_haritasi by fastforce
    then show "\<exists>dl \<in> set derslikler. derslik_id dl = r \<and> 1 \<le> s \<and> s \<le> boyuna dl \<and> 1 \<le> c \<and> c \<le> enine dl"
      by (auto simp: set_koltuk_listesi)
  qed
qed (simp add: atama_yap_rr_def)

theorem atama_yap_rr_koltuk_gecerli_witness:
  "list_all (\<lambda>(og, r, s, c). \<exists>dl \<in> set [ornek_rr_oda_2, ornek_rr_oda_4]. derslik_id dl = r \<and>
       1 \<le> s \<and> s \<le> boyuna dl \<and> 1 \<le> c \<and> c \<le> enine dl)
     (fst (atama_yap_rr [10, 11, 12] [ornek_rr_oda_2, ornek_rr_oda_4]))"
  using atama_yap_rr_koltuk_gecerli [of "[10, 11, 12]" "[ornek_rr_oda_2, ornek_rr_oda_4]"]
  by (simp add: list_all_iff)

text \<open>C23: With distinct room ids the round-robin engine seats exactly
  \<open>min(students, generated seats)\<close> students: it stops only when every student is seated or
  every room is full.\<close>

theorem atama_yap_rr_tamamlanir:
  assumes "distinct (map derslik_id derslikler)"
  shows "length (fst (atama_yap_rr ogrenciler derslikler)) = min (length ogrenciler) (toplam_kapasite derslikler)"
proof (cases "ogrenciler = []")
  case False
  show ?thesis using rr_son_index [OF assms False] by simp
qed (simp add: atama_yap_rr_def)

theorem atama_yap_rr_tamamlanir_witness:
  "distinct (map derslik_id [ornek_rr_oda_2, ornek_rr_oda_4]) \<and>
   length (fst (atama_yap_rr [10, 11, 12, 13, 14, 15, 16] [ornek_rr_oda_2, ornek_rr_oda_4])) = 6"
  using atama_yap_rr_tamamlanir [of "[ornek_rr_oda_2, ornek_rr_oda_4]" "[10, 11, 12, 13, 14, 15, 16]"]
  by (simp add: oturma_simps)

text \<open>C24: The \<open>while\<close> loop of the round-robin engine ends on every input: every
  iteration either seats a student or drops a full room, so the literal loop returns, with
  the state \<open>rr_dongu\<close> computes.\<close>

theorem rr_dongu_p_biter: "rr_dongu_p m ogrenciler st = Some (rr_dongu m ogrenciler st)"
proof (induction m ogrenciler st rule: rr_dongu.induct)
  case (1 m ogrenciler st)
  show ?case
    by (subst rr_dongu_p.simps, subst rr_dongu.simps) (auto simp: 1 Let_def)
qed

text \<open>C25: With distinct room ids the round-robin engine's warnings are exactly: the
  no-student warning for an empty roster; otherwise a capacity warning when the declared
  capacities add up to fewer than the students, followed by the number of students left
  when the generated seats are fewer.  The two tests use different capacities: a room
  declared at 40 seats with a 2 x 2 grid leaves two of six students unseated with no capacity
  warning.\<close>

theorem atama_yap_rr_uyarilar:
  assumes "distinct (map derslik_id derslikler)"
  shows "snd (atama_yap_rr ogrenciler derslikler) =
     (if ogrenciler = [] then [OgrenciYok]
      else (if sum_list (map (\<lambda>dl. max 0 (kapasite dl)) derslikler) < int (length ogrenciler)
            then [KapasiteYetersiz (length ogrenciler) (nat (sum_list (map (\<lambda>dl. max 0 (kapasite dl)) derslikler)))]
            else []) @
           (if toplam_kapasite derslikler < length ogrenciler
            then [Yerlesemedi (length ogrenciler - toplam_kapasite derslikler)] else []))"
proof (cases "ogrenciler = []")
  case False
  show ?thesis using rr_son_index(1) [OF assms False] False by (simp add: atama_yap_rr_def Let_def)
qed (simp add: atama_yap_rr_def)

theorem atama_yap_rr_uyarilar_witness:
  "distinct (map derslik_id [ornek_rr_oda_beyan]) \<and>
   snd (atama_yap_rr [10, 11, 12, 13, 14, 15] [ornek_rr_oda_beyan]) = [Yerlesemedi 2]"
  using atama_yap_rr_uyarilar [of "[ornek_rr_oda_beyan]" "[10, 11, 12, 13, 14, 15]"]
  by (simp add: oturma_simps)

text \<open>The students the round-robin engine seats are a prefix of the roster, in roster
  order.\<close>

theorem atama_yap_rr_sira:
  "map fst (fst (atama_yap_rr ogrenciler derslikler)) = take (length (fst (atama_yap_rr ogrenciler derslikler))) ogrenciler"
proof (cases "ogrenciler = []")
  case False
  note i = atama_yap_rr_inv [OF False]
  let ?A = "fst (atama_yap_rr ogrenciler derslikler)"
  let ?S = "rr_dongu (koltuk_haritasi_rr (sort_key (\<lambda>dl. - kapasite dl) derslikler)) ogrenciler
              (rr_baslangic (sort_key (\<lambda>dl. - kapasite dl) derslikler))"
  have m: "map fst ?A = take (rr_ogrenci_index ?S) ogrenciler" and le: "rr_ogrenci_index ?S \<le> length ogrenciler"
    using i(2) by (simp_all add: i(1) rr_inv_def)
  have "length (map fst ?A) = rr_ogrenci_index ?S" using le by (simp only: m length_take min_def) simp
  then have "length ?A = rr_ogrenci_index ?S" by simp
  with m show ?thesis by simp
qed (simp add: atama_yap_rr_def)

text \<open>C26: On a single room the round-robin engine and the sequential engine of
  \<open>oturma_atayici.py\<close> give the same assignments.\<close>

theorem atama_yap_tek_derslik_denk:
  "fst (atama_yap_rr ogrenciler [dl]) = fst (atama_yap ogrenciler [dl])"
proof (cases "ogrenciler = []")
  case False
  let ?S = "sort_key (\<lambda>dl. - kapasite dl) [dl]"
  let ?m = "koltuk_haritasi_rr ?S"
  let ?st = "rr_dongu ?m ogrenciler (rr_baslangic ?S)"
  let ?as = "rr_atamalar ?st"
  let ?K = "derslik_koltuklari_of dl"
  have d: "distinct (map derslik_id [dl])" by simp
  note q = rr_son_inv [OF d, of ogrenciler]
  note i = rr_son_index [OF d False]
  have K: "rr_koltuklar ?m (derslik_id dl) = ?K" using rr_koltuklar_esit [OF d] by simp
  have T: "toplam_kapasite [dl] = length ?K" by (simp add: toplam_kapasite_def)
  have oda: "\<forall>a \<in> set ?as. fst (snd a) = derslik_id dl" using q by (simp add: rr_inv_def)
  have f: "map fst ?as = take (min (length ogrenciler) (length ?K)) ogrenciler"
    using q i(1) T by (simp add: rr_inv_def)
  have dol: "rr_doluluk ?st (derslik_id dl) = min (length ogrenciler) (length ?K)"
    using q i(1) T by (simp add: rr_tam_def)
  have at: "atanan ?as (derslik_id dl) = take (min (length ogrenciler) (length ?K)) ?K"
    using q dol K by (simp add: rr_inv_def)
  have "?as = map (\<lambda>(og, s, c). (og, derslik_id dl, s, c))
                (zip (take (min (length ogrenciler) (length ?K)) ogrenciler) (take (min (length ogrenciler) (length ?K)) ?K))"
    using tek_oda_zip [OF oda] f at by simp
  also have "\<dots> = map (\<lambda>(og, s, c). (og, derslik_id dl, s, c)) (zip ogrenciler ?K)"
    by (simp add: take_zip [symmetric])
  also have "\<dots> = zip ogrenciler (map (\<lambda>(s, c). (derslik_id dl, s, c)) ?K)"
    by (simp add: zip_map2 split_def)
  finally have rr: "fst (atama_yap_rr ogrenciler [dl]) = zip ogrenciler (map (\<lambda>(s, c). (derslik_id dl, s, c)) ?K)"
    using atama_yap_rr_inv(1) [OF False] by simp
  have "koltuklar_bul (derslik_koltuk_haritasi [dl]) dl = ?K" using koltuklar_bul_haritasi [OF d] by simp
  then have "fst (atama_yap ogrenciler [dl]) = zip ogrenciler (map (\<lambda>(s, c). (derslik_id dl, s, c)) ?K)"
    using False by (simp add: atama_yap_def derslik_doldur_zip koltuk_dizisi_def Let_def split: prod.splits)
  with rr show ?thesis by simp
qed (simp add: atama_yap_rr_def atama_yap_def)

text \<open>The round-robin engine deals the students out alternately over a 2 x 1 and a
  2 x 2 room (the larger declared capacity first), continues in the 2 x 2 room once the
  other is full, and reports the one student left.\<close>

theorem atama_yap_rr_sirayla:
  "atama_yap_rr [10, 11, 12, 13, 14, 15, 16] [ornek_rr_oda_2, ornek_rr_oda_4] =
     ([(10, 11, 1, 1), (11, 12, 1, 1), (12, 11, 1, 2), (13, 12, 1, 2), (14, 11, 2, 1), (15, 11, 2, 2)],
      [KapasiteYetersiz 7 6, Yerlesemedi 1])"
  by (simp add: atama_yap_rr_def ornek_rr_oda_4_def ornek_rr_oda_2_def koltuk_haritasi_rr_def rr_baslangic_def
      koltuk_listesi_ka_def rr_dongu_ata rr_dongu_cikar rr_dongu_bitti rr_secili_def rr_ata_def rr_cikar_def rr_koltuklar_def Let_def upto_rec1 mod_Suc)

end
