(* ===== verification/Yonetim.thy ===== *)
theory Yonetim
  imports Veri_Modeli "HOL-Library.List_Lexorder" "HOL-Library.Char_ord"
begin

text \<open>
  User, department and room administration of \<open>src/veri_deposu.py\<close> (lines 54--178) over
  the tables \<open>bolumler\<close>, \<open>kullanicilar\<close> and \<open>derslikler\<close> of \<open>src/veritabani.py\<close>, and
  the bootstrap \<open>varsayilan_veri_yukle\<close>.  The database is the record \<open>yvt\<close> of row lists
  with the two \<open>AUTOINCREMENT\<close> counters; every writer returns \<open>yonetim_hata + yvt\<close>, an
  \<open>Inl\<close> being the exception the \<open>with baglanti()\<close> block raises after rolling back.  The
  errors keep Python's three classes apart: \<open>PermissionError\<close> for a caller of the wrong
  role, \<open>ValueError\<close> for a rejected request, \<open>sqlite3.IntegrityError\<close> for a violated
  table constraint.  Connections are opened by \<open>baglanti()\<close> without
  \<open>PRAGMA foreign_keys=ON\<close>, so no foreign key is checked on these writes.

  The writers are gathered in the operation type \<open>yonetim_islem\<close> and its step function
  \<open>yonetim_adim\<close>; \<open>erisilebilir\<close> is the set of databases reachable from the bootstrap by
  such steps, and \<open>eszamanli\<close> the same system where the two transactions of
  \<open>yetkili_kullanici_ekle\<close> (the check of \<open>_bolumde_koordinator_var_mi\<close>, then the insert)
  of several sessions interleave.
\<close>

subsection \<open>Tables and errors\<close>

datatype islem_turu = KullaniciEkleme | DerslikEkleme | DerslikGuncelleme | DerslikSilme

datatype yonetim_hata =
    YetkiYok islem_turu
  | RolGecersiz
  | BolumSecilmedi
  | KoordinatorVar
  | EpostaKayitli
  | RolKisiti
  | DerslikKoduKayitli
  | BolumBos

datatype hata_sinifi = PermissionError | ValueError | IntegrityError

fun sinifi :: "yonetim_hata \<Rightarrow> hata_sinifi" where
  "sinifi (YetkiYok _) = PermissionError"
| "sinifi RolGecersiz = ValueError"
| "sinifi BolumSecilmedi = ValueError"
| "sinifi KoordinatorVar = ValueError"
| "sinifi EpostaKayitli = IntegrityError"
| "sinifi RolKisiti = IntegrityError"
| "sinifi DerslikKoduKayitli = IntegrityError"
| "sinifi BolumBos = IntegrityError"

record bolum_satir =
  bolum_no :: kimlik
  bolum_ad :: string

record kullanici_satir =
  ku_id :: kimlik
  ku_eposta :: string
  ku_sifre_hash :: string
  ku_rol :: string
  ku_bolum_id :: "kimlik option"

record derslik_satir =
  ds_id :: kimlik
  ds_bolum_id :: kimlik
  ds_kodu :: string
  ds_adi :: string
  ds_kapasite :: int
  ds_enine :: int
  ds_boyuna :: int
  ds_sira_yapisi :: int

record yvt =
  yv_bolumler :: "bolum_satir list"
  yv_bo_sayac :: kimlik
  yv_kullanicilar :: "kullanici_satir list"
  yv_ku_sayac :: kimlik
  yv_derslikler :: "derslik_satir list"
  yv_ds_sayac :: kimlik

text \<open>The id SQLite gives a new row of an \<open>AUTOINCREMENT\<close> table: one more than both the
  largest id ever used (the \<open>sqlite_sequence\<close> counter) and the largest id present.\<close>

definition autoincrement :: "kimlik \<Rightarrow> kimlik list \<Rightarrow> kimlik" where
  "autoincrement sayac ids = max sayac (fold max ids 0) + 1"

text \<open>A room row as the planner and the seat engines read it (\<open>derslik\<close> of
  \<open>Veri_Modeli\<close>).\<close>

definition derslik_kaydi :: "derslik_satir \<Rightarrow> derslik" where
  "derslik_kaydi d = \<lparr>derslik_id = ds_id d, kapasite = ds_kapasite d, enine = ds_enine d,
     boyuna = ds_boyuna d, sira_yapisi = ds_sira_yapisi d\<rparr>"

subsection \<open>Users and departments\<close>

definition kullanici_bul :: "yvt \<Rightarrow> string \<Rightarrow> kullanici_satir option" where
  "kullanici_bul v e = find (\<lambda>k. ku_eposta k = e) (yv_kullanicilar v)"

definition bolumde_koordinator_var_mi :: "yvt \<Rightarrow> kimlik \<Rightarrow> bool" where
  "bolumde_koordinator_var_mi v b =
     (0 < length (filter (\<lambda>k. ku_rol k = ''koordinator'' \<and> ku_bolum_id k = Some b) (yv_kullanicilar v)))"

text \<open>The \<open>INSERT INTO kullanicilar\<close> statement with the table's constraints: the
  \<open>CHECK\<close> on the role and the \<open>UNIQUE\<close> e-mail.\<close>

definition kullanici_ekle_sql ::
  "yvt \<Rightarrow> string \<Rightarrow> string \<Rightarrow> string \<Rightarrow> kimlik option \<Rightarrow> yonetim_hata + yvt" where
  "kullanici_ekle_sql v e h r b =
     (if r \<noteq> ''admin'' \<and> r \<noteq> ''koordinator'' then Inl RolKisiti
      else if list_ex (\<lambda>k. ku_eposta k = e) (yv_kullanicilar v) then Inl EpostaKayitli
      else let i = autoincrement (yv_ku_sayac v) (map ku_id (yv_kullanicilar v))
           in Inr (v\<lparr>yv_kullanicilar := yv_kullanicilar v @
                       [\<lparr>ku_id = i, ku_eposta = e, ku_sifre_hash = h, ku_rol = r, ku_bolum_id = b\<rparr>],
                     yv_ku_sayac := i\<rparr>))"

text \<open>The guards of \<open>yetkili_kullanici_ekle\<close> (lines 67--76), run before its insert; on
  success they give the department id the insert stores (\<open>None\<close> for an admin).\<close>

definition kullanici_ekle_kontrol ::
  "kullanici_satir \<Rightarrow> string \<Rightarrow> kimlik option \<Rightarrow> yvt \<Rightarrow> yonetim_hata + kimlik option" where
  "kullanici_ekle_kontrol giris_yapan r b v =
     (if ku_rol giris_yapan \<noteq> ''admin'' then Inl (YetkiYok KullaniciEkleme)
      else if r \<noteq> ''admin'' \<and> r \<noteq> ''koordinator'' then Inl RolGecersiz
      else if r = ''koordinator'' then
        (case b of
           None \<Rightarrow> Inl BolumSecilmedi
         | Some bid \<Rightarrow>
             if bid = 0 then Inl BolumSecilmedi
             else if bolumde_koordinator_var_mi v bid then Inl KoordinatorVar
             else Inr b)
      else Inr None)"

definition yetkili_kullanici_ekle ::
  "kullanici_satir \<Rightarrow> string \<Rightarrow> string \<Rightarrow> string \<Rightarrow> kimlik option \<Rightarrow> yvt \<Rightarrow> yonetim_hata + yvt" where
  "yetkili_kullanici_ekle giris_yapan e h r b v =
     (case kullanici_ekle_kontrol giris_yapan r b v of
        Inl err \<Rightarrow> Inl err
      | Inr b' \<Rightarrow> kullanici_ekle_sql v e h r b')"

definition tum_bolumleri_getir :: "yvt \<Rightarrow> bolum_satir list" where
  "tum_bolumleri_getir v = sort_key bolum_ad (yv_bolumler v)"

definition kullaniciya_gorunecek_bolumler :: "kullanici_satir \<Rightarrow> yvt \<Rightarrow> bolum_satir list" where
  "kullaniciya_gorunecek_bolumler k v =
     (if ku_rol k = ''admin'' \<or> ku_bolum_id k = None then sort_key bolum_ad (yv_bolumler v)
      else filter (\<lambda>b. Some (bolum_no b) = ku_bolum_id k) (yv_bolumler v))"

definition bolum_getir :: "yvt \<Rightarrow> kimlik \<Rightarrow> bolum_satir option" where
  "bolum_getir v b = find (\<lambda>r. bolum_no r = b) (yv_bolumler v)"

subsection \<open>Rooms\<close>

text \<open>The \<open>WHERE bolum_id=?\<close> of the room statements, with the caller's department
  (\<open>NULL\<close> matches no row).\<close>

definition bolumun :: "kullanici_satir \<Rightarrow> derslik_satir \<Rightarrow> bool" where
  "bolumun k d = (Some (ds_bolum_id d) = ku_bolum_id k)"

definition derslik_listele :: "kullanici_satir \<Rightarrow> yvt \<Rightarrow> derslik_satir list" where
  "derslik_listele k v =
     (if ku_rol k \<noteq> ''koordinator'' then []
      else sort_key ds_kodu (filter (bolumun k) (yv_derslikler v)))"

definition derslik_sayisi :: "kullanici_satir \<Rightarrow> yvt \<Rightarrow> nat" where
  "derslik_sayisi k v =
     (if ku_rol k \<noteq> ''koordinator'' then 0 else length (filter (bolumun k) (yv_derslikler v)))"

definition derslik_ekle ::
  "kullanici_satir \<Rightarrow> string \<Rightarrow> string \<Rightarrow> int \<Rightarrow> int \<Rightarrow> int \<Rightarrow> int \<Rightarrow> yvt \<Rightarrow> yonetim_hata + yvt" where
  "derslik_ekle k kodu adi kap en boy sira v =
     (if ku_rol k \<noteq> ''koordinator'' then Inl (YetkiYok DerslikEkleme)
      else case ku_bolum_id k of
        None \<Rightarrow> Inl BolumBos
      | Some b \<Rightarrow>
          if list_ex (\<lambda>d. ds_bolum_id d = b \<and> ds_kodu d = kodu) (yv_derslikler v) then Inl DerslikKoduKayitli
          else let i = autoincrement (yv_ds_sayac v) (map ds_id (yv_derslikler v))
               in Inr (v\<lparr>yv_derslikler := yv_derslikler v @
                           [\<lparr>ds_id = i, ds_bolum_id = b, ds_kodu = kodu, ds_adi = adi, ds_kapasite = kap,
                             ds_enine = en, ds_boyuna = boy, ds_sira_yapisi = sira\<rparr>],
                         yv_ds_sayac := i\<rparr>))"

text \<open>\<open>UPDATE derslikler ... WHERE id=? AND bolum_id=?\<close>: no row matched is no error; the
  \<open>UNIQUE(bolum_id, derslik_kodu)\<close> index rejects a code another room of the department
  has.\<close>

definition derslik_guncelle ::
  "kullanici_satir \<Rightarrow> kimlik \<Rightarrow> string \<Rightarrow> string \<Rightarrow> int \<Rightarrow> int \<Rightarrow> int \<Rightarrow> int \<Rightarrow> yvt \<Rightarrow> yonetim_hata + yvt" where
  "derslik_guncelle k did kodu adi kap en boy sira v =
     (if ku_rol k \<noteq> ''koordinator'' then Inl (YetkiYok DerslikGuncelleme)
      else let hedef = (\<lambda>d. ds_id d = did \<and> bolumun k d)
           in if list_ex hedef (yv_derslikler v) \<and>
                 list_ex (\<lambda>d. \<not> hedef d \<and> bolumun k d \<and> ds_kodu d = kodu) (yv_derslikler v)
              then Inl DerslikKoduKayitli
              else Inr (v\<lparr>yv_derslikler := map (\<lambda>d. if hedef d then d\<lparr>ds_kodu := kodu, ds_adi := adi,
                          ds_kapasite := kap, ds_enine := en, ds_boyuna := boy, ds_sira_yapisi := sira\<rparr> else d)
                          (yv_derslikler v)\<rparr>))"

definition derslik_sil :: "kullanici_satir \<Rightarrow> kimlik \<Rightarrow> yvt \<Rightarrow> yonetim_hata + yvt" where
  "derslik_sil k did v =
     (if ku_rol k \<noteq> ''koordinator'' then Inl (YetkiYok DerslikSilme)
      else Inr (v\<lparr>yv_derslikler := filter (\<lambda>d. \<not> (ds_id d = did \<and> bolumun k d)) (yv_derslikler v)\<rparr>))"

definition derslik_ara_id :: "kullanici_satir \<Rightarrow> kimlik \<Rightarrow> yvt \<Rightarrow> derslik_satir option" where
  "derslik_ara_id k sid v =
     (if ku_rol k \<noteq> ''koordinator'' then None
      else find (\<lambda>d. ds_id d = sid \<and> bolumun k d) (yv_derslikler v))"

text \<open>\<open>derslikler_kapasite_listesi\<close> (lines 459--466): the room supply of the planner, by
  descending capacity.\<close>

definition derslikler_kapasite_listesi :: "kimlik \<Rightarrow> yvt \<Rightarrow> derslik list" where
  "derslikler_kapasite_listesi b v =
     map derslik_kaydi (sort_key (\<lambda>d. - ds_kapasite d) (filter (\<lambda>d. ds_bolum_id d = b) (yv_derslikler v)))"

subsection \<open>Bootstrap\<close>

text \<open>\<open>varsayilan_veri_yukle\<close> of \<open>src/veritabani.py\<close>: \<open>INSERT OR IGNORE\<close> of the
  department names (skipped when the name exists) and of the admin \<open>admin@uni.edu\<close>
  (skipped when the e-mail exists).  The five department names of the source are
  non-ASCII strings and are a parameter here.\<close>

definition bolum_ekle_yoksa :: "string \<Rightarrow> yvt \<Rightarrow> yvt" where
  "bolum_ekle_yoksa ad v =
     (if list_ex (\<lambda>b. bolum_ad b = ad) (yv_bolumler v) then v
      else let i = autoincrement (yv_bo_sayac v) (map bolum_no (yv_bolumler v))
           in v\<lparr>yv_bolumler := yv_bolumler v @ [\<lparr>bolum_no = i, bolum_ad = ad\<rparr>], yv_bo_sayac := i\<rparr>)"

definition varsayilan_veri_yukle :: "string list \<Rightarrow> string \<Rightarrow> yvt \<Rightarrow> yvt" where
  "varsayilan_veri_yukle adlar admin_sifre_hash v =
     (let v1 = fold bolum_ekle_yoksa adlar v
      in case kullanici_ekle_sql v1 ''admin@uni.edu'' admin_sifre_hash ''admin'' None of
           Inl _ \<Rightarrow> v1
         | Inr v2 \<Rightarrow> v2)"

definition yvt_bos :: yvt where
  "yvt_bos = \<lparr>yv_bolumler = [], yv_bo_sayac = 0, yv_kullanicilar = [], yv_ku_sayac = 0,
              yv_derslikler = [], yv_ds_sayac = 0\<rparr>"

subsection \<open>The operations as one step function\<close>

datatype yonetim_islem =
    KullaniciEkle kullanici_satir string string string "kimlik option"
  | DerslikEkle kullanici_satir string string int int int int
  | DerslikGuncelle kullanici_satir kimlik string string int int int int
  | DerslikSil kullanici_satir kimlik

fun yonetim_adim :: "yonetim_islem \<Rightarrow> yvt \<Rightarrow> yonetim_hata + yvt" where
  "yonetim_adim (KullaniciEkle g e h r b) v = yetkili_kullanici_ekle g e h r b v"
| "yonetim_adim (DerslikEkle k kodu adi kap en boy sira) v = derslik_ekle k kodu adi kap en boy sira v"
| "yonetim_adim (DerslikGuncelle k did kodu adi kap en boy sira) v = derslik_guncelle k did kodu adi kap en boy sira v"
| "yonetim_adim (DerslikSil k did) v = derslik_sil k did v"

text \<open>The caller of an operation and the role its first guard asks for.\<close>

fun islem_yapan :: "yonetim_islem \<Rightarrow> kullanici_satir" where
  "islem_yapan (KullaniciEkle g _ _ _ _) = g"
| "islem_yapan (DerslikEkle k _ _ _ _ _ _) = k"
| "islem_yapan (DerslikGuncelle k _ _ _ _ _ _ _) = k"
| "islem_yapan (DerslikSil k _) = k"

fun gereken_rol :: "yonetim_islem \<Rightarrow> string" where
  "gereken_rol (KullaniciEkle _ _ _ _ _) = ''admin''"
| "gereken_rol (DerslikEkle _ _ _ _ _ _ _) = ''koordinator''"
| "gereken_rol (DerslikGuncelle _ _ _ _ _ _ _ _) = ''koordinator''"
| "gereken_rol (DerslikSil _ _) = ''koordinator''"

text \<open>Databases reachable from the bootstrap, each operation one transaction.\<close>

inductive erisilebilir :: "yvt \<Rightarrow> bool" where
  baslangic: "erisilebilir (varsayilan_veri_yukle adlar h yvt_bos)"
| adim: "erisilebilir v \<Longrightarrow> yonetim_adim op v = Inr v' \<Longrightarrow> erisilebilir v'"

text \<open>Several application sessions on one database file.  A session adding a user runs
  the guards of \<open>yetkili_kullanici_ekle\<close> (their query is a transaction of its own) and is
  then \<open>Bekliyor\<close> (waiting) with the row to insert; the insert is a later step, and other
  sessions' steps may come in between.\<close>

datatype oturum = Bosta | Bekliyor string string string "kimlik option"

inductive eszamanli :: "yvt \<Rightarrow> oturum list \<Rightarrow> bool" where
  baslangic: "eszamanli (varsayilan_veri_yukle adlar h yvt_bos) (replicate n Bosta)"
| kontrol: "eszamanli v os \<Longrightarrow> i < length os \<Longrightarrow> os ! i = Bosta \<Longrightarrow>
    kullanici_ekle_kontrol g r b v = Inr b' \<Longrightarrow> eszamanli v (os[i := Bekliyor e h r b'])"
| yaz: "eszamanli v os \<Longrightarrow> i < length os \<Longrightarrow> os ! i = Bekliyor e h r b \<Longrightarrow>
    kullanici_ekle_sql v e h r b = Inr v' \<Longrightarrow> eszamanli v' (os[i := Bosta])"
| yaz_hata: "eszamanli v os \<Longrightarrow> i < length os \<Longrightarrow> os ! i = Bekliyor e h r b \<Longrightarrow>
    kullanici_ekle_sql v e h r b = Inl err \<Longrightarrow> eszamanli v (os[i := Bosta])"
| adim: "eszamanli v os \<Longrightarrow> yonetim_adim op v = Inr v' \<Longrightarrow> eszamanli v' os"

subsection \<open>The invariant of the administration tables\<close>

definition koordinatorler :: "kullanici_satir list \<Rightarrow> kullanici_satir list" where
  "koordinatorler us = filter (\<lambda>k. ku_rol k = ''koordinator'') us"

definition kullanici_inv :: "kullanici_satir list \<Rightarrow> bool" where
  "kullanici_inv us =
     (distinct (map ku_id us) \<and> distinct (map ku_eposta us) \<and>
      list_all (\<lambda>k. ku_rol k = ''admin'' \<or> ku_rol k = ''koordinator'') us \<and>
      list_all (\<lambda>k. ku_bolum_id k = None) (filter (\<lambda>k. ku_rol k = ''admin'') us) \<and>
      list_all (\<lambda>k. ku_bolum_id k \<noteq> None \<and> ku_bolum_id k \<noteq> Some 0) (koordinatorler us) \<and>
      distinct (map ku_bolum_id (koordinatorler us)))"

definition derslik_inv :: "derslik_satir list \<Rightarrow> bool" where
  "derslik_inv ds = (distinct (map ds_id ds) \<and> distinct (map (\<lambda>d. (ds_bolum_id d, ds_kodu d)) ds))"

definition bolum_inv :: "bolum_satir list \<Rightarrow> bool" where
  "bolum_inv bs = (distinct (map bolum_no bs) \<and> distinct (map bolum_ad bs))"

definition yonetim_inv :: "yvt \<Rightarrow> bool" where
  "yonetim_inv v = (bolum_inv (yv_bolumler v) \<and> kullanici_inv (yv_kullanicilar v) \<and> derslik_inv (yv_derslikler v))"

definition admin_ornek :: kullanici_satir where
  "admin_ornek = \<lparr>ku_id = 1, ku_eposta = ''admin@uni.edu'', ku_sifre_hash = ''h'', ku_rol = ''admin'', ku_bolum_id = None\<rparr>"

definition yvt_ornek :: yvt where
  "yvt_ornek = varsayilan_veri_yukle [''BM'', ''YM''] ''h'' yvt_bos"

definition koordinator_ornek :: kullanici_satir where
  "koordinator_ornek = \<lparr>ku_id = 2, ku_eposta = ''bm@uni.edu'', ku_sifre_hash = ''h'', ku_rol = ''koordinator'', ku_bolum_id = Some 1\<rparr>"

definition yvt_ornek_d :: yvt where
  "yvt_ornek_d = yvt_ornek\<lparr>yv_derslikler :=
     [\<lparr>ds_id = 1, ds_bolum_id = 1, ds_kodu = ''D1'', ds_adi = ''Amfi'', ds_kapasite = 40, ds_enine = 8,
        ds_boyuna = 5, ds_sira_yapisi = 2\<rparr>,
      \<lparr>ds_id = 2, ds_bolum_id = 2, ds_kodu = ''D1'', ds_adi = ''Lab'', ds_kapasite = 30, ds_enine = 6,
        ds_boyuna = 5, ds_sira_yapisi = 3\<rparr>], yv_ds_sayac := 2\<rparr>"


subsection \<open>Fresh ids and the invariant of each writer\<close>

lemma fold_max_ge: "(a::int) \<le> fold max xs a"
  by (induction xs arbitrary: a) (auto intro: order_trans [OF max.cobounded2])

lemma fold_max_mem: "(x::int) \<in> set xs \<Longrightarrow> x \<le> fold max xs a"
  by (induction xs arbitrary: a) (auto intro: order_trans [OF max.cobounded1 fold_max_ge])

lemma autoincrement_taze: "autoincrement s ids \<notin> set ids"
  using fold_max_mem [of _ ids 0] by (force simp: autoincrement_def)

lemma autoincrement_artar: "s < autoincrement s ids"
  by (simp add: autoincrement_def)

lemma kullanici_inv_snoc:
  "kullanici_inv (us @ [k]) \<longleftrightarrow>
     kullanici_inv us \<and> ku_id k \<notin> set (map ku_id us) \<and> ku_eposta k \<notin> set (map ku_eposta us) \<and>
     (ku_rol k = ''admin'' \<and> ku_bolum_id k = None \<or>
      ku_rol k = ''koordinator'' \<and> ku_bolum_id k \<noteq> None \<and> ku_bolum_id k \<noteq> Some 0 \<and>
        ku_bolum_id k \<notin> set (map ku_bolum_id (koordinatorler us)))"
  by (auto simp: kullanici_inv_def koordinatorler_def)

lemma koordinator_yok:
  "\<not> bolumde_koordinator_var_mi v b \<Longrightarrow> Some b \<notin> set (map ku_bolum_id (koordinatorler (yv_kullanicilar v)))"
  by (auto simp: bolumde_koordinator_var_mi_def koordinatorler_def filter_empty_conv)

lemma kullanici_ekle_sql_Inr:
  "kullanici_ekle_sql v e h r b = Inr v' \<Longrightarrow>
     (r = ''admin'' \<or> r = ''koordinator'') \<and> e \<notin> set (map ku_eposta (yv_kullanicilar v)) \<and>
     v' = v\<lparr>yv_kullanicilar := yv_kullanicilar v @
              [\<lparr>ku_id = autoincrement (yv_ku_sayac v) (map ku_id (yv_kullanicilar v)), ku_eposta = e,
                ku_sifre_hash = h, ku_rol = r, ku_bolum_id = b\<rparr>],
            yv_ku_sayac := autoincrement (yv_ku_sayac v) (map ku_id (yv_kullanicilar v))\<rparr>"
  by (auto simp: kullanici_ekle_sql_def list_ex_iff Let_def split: if_splits)

lemma kullanici_ekle_kontrol_Inr:
  "kullanici_ekle_kontrol g r b v = Inr b' \<Longrightarrow>
     ku_rol g = ''admin'' \<and>
     (r = ''admin'' \<and> b' = None \<or>
      r = ''koordinator'' \<and> b' = b \<and> (\<exists>bid. b = Some bid \<and> bid \<noteq> 0 \<and> \<not> bolumde_koordinator_var_mi v bid))"
  by (auto simp: kullanici_ekle_kontrol_def split: if_splits option.splits)

lemma yetkili_kullanici_ekle_inv:
  assumes "kullanici_inv (yv_kullanicilar v)" "yetkili_kullanici_ekle g e h r b v = Inr v'"
  shows "kullanici_inv (yv_kullanicilar v')" "yv_derslikler v' = yv_derslikler v" "yv_bolumler v' = yv_bolumler v"
proof -
  obtain b' where k: "kullanici_ekle_kontrol g r b v = Inr b'" and s: "kullanici_ekle_sql v e h r b' = Inr v'"
    using assms(2) by (auto simp: yetkili_kullanici_ekle_def split: sum.splits)
  note K = kullanici_ekle_kontrol_Inr [OF k] and S = kullanici_ekle_sql_Inr [OF s]
  show "kullanici_inv (yv_kullanicilar v')"
    using K S assms(1) autoincrement_taze [of "yv_ku_sayac v" "map ku_id (yv_kullanicilar v)"] koordinator_yok [of v]
    by (auto simp: kullanici_inv_snoc)
  show "yv_derslikler v' = yv_derslikler v" "yv_bolumler v' = yv_bolumler v" by (simp_all add: S)
qed

lemma derslik_ekle_Inr:
  "derslik_ekle k kodu adi kap en boy sira v = Inr v' \<Longrightarrow>
     \<exists>b. ku_rol k = ''koordinator'' \<and> ku_bolum_id k = Some b \<and>
       (b, kodu) \<notin> set (map (\<lambda>d. (ds_bolum_id d, ds_kodu d)) (yv_derslikler v)) \<and>
       v' = v\<lparr>yv_derslikler := yv_derslikler v @
              [\<lparr>ds_id = autoincrement (yv_ds_sayac v) (map ds_id (yv_derslikler v)), ds_bolum_id = b,
                ds_kodu = kodu, ds_adi = adi, ds_kapasite = kap, ds_enine = en, ds_boyuna = boy, ds_sira_yapisi = sira\<rparr>],
            yv_ds_sayac := autoincrement (yv_ds_sayac v) (map ds_id (yv_derslikler v))\<rparr>"
  by (auto simp: derslik_ekle_def list_ex_iff Let_def split: if_splits option.splits)

text \<open>The update of \<open>derslik_guncelle\<close> keeps the pairs (department, code) distinct when
  no other room of the department has the new code.\<close>

lemma distinct_map_tek_degisim:
  assumes "distinct (map p xs)"
    and "\<forall>x \<in> set xs. \<forall>y \<in> set xs. H x \<longrightarrow> H y \<longrightarrow> x = y"
    and "\<forall>x \<in> set xs. \<forall>y \<in> set xs. H x \<longrightarrow> \<not> H y \<longrightarrow> p (f x) \<noteq> p y"
  shows "distinct (map (\<lambda>x. p (if H x then f x else x)) xs)"
  using assms
proof (induction xs)
  case (Cons x xs)
  let ?g = "\<lambda>z. if H z then f z else z"
  have "p (?g x) \<notin> (\<lambda>z. p (?g z)) ` set xs"
  proof
    assume "p (?g x) \<in> (\<lambda>z. p (?g z)) ` set xs"
    then obtain y where y: "y \<in> set xs" and eq: "p (?g x) = p (?g y)" by blast
    have xy: "p x \<noteq> p y" using Cons.prems(1) y by auto
    have tek: "H x \<Longrightarrow> H y \<Longrightarrow> x = y" and
      d1: "H x \<Longrightarrow> \<not> H y \<Longrightarrow> p (f x) \<noteq> p y" and d2: "H y \<Longrightarrow> \<not> H x \<Longrightarrow> p (f y) \<noteq> p x"
      using Cons.prems(2,3) y by simp_all
    show False using eq xy tek d1 d2 by (cases "H x"; cases "H y") auto
  qed
  moreover have "distinct (map (\<lambda>z. p (?g z)) xs)" using Cons.prems by (intro Cons.IH) simp_all
  ultimately show ?case by simp
qed simp

text \<open>The update of \<open>derslik_guncelle\<close> keeps the pairs (department, code) distinct when
  no other room of the department has the new code.\<close>

lemma distinct_guncelle:
  assumes "distinct (map (\<lambda>d. (ds_bolum_id d, ds_kodu d)) xs)" "distinct (map ds_id xs)"
    and "\<forall>d \<in> set xs. bolumun k d \<and> ds_kodu d = kodu \<longrightarrow> ds_id d = did"
  shows "distinct (map (\<lambda>d. (ds_bolum_id d, ds_kodu d))
           (map (\<lambda>d. if ds_id d = did \<and> bolumun k d then d\<lparr>ds_kodu := kodu, ds_adi := adi,
              ds_kapasite := kap, ds_enine := en, ds_boyuna := boy, ds_sira_yapisi := sira\<rparr> else d) xs))"
proof -
  have tek: "\<forall>x \<in> set xs. \<forall>y \<in> set xs. ds_id x = did \<and> bolumun k x \<longrightarrow> ds_id y = did \<and> bolumun k y \<longrightarrow> x = y"
    using assms(2) by (auto dest: inj_onD [OF distinct_map [THEN iffD1, THEN conjunct2]])
  have "\<forall>x \<in> set xs. \<forall>y \<in> set xs. ds_id x = did \<and> bolumun k x \<longrightarrow> \<not> (ds_id y = did \<and> bolumun k y) \<longrightarrow>
          (ds_bolum_id x, kodu) \<noteq> (ds_bolum_id y, ds_kodu y)"
    using assms(3) by (auto simp: bolumun_def)
  then show ?thesis
    using distinct_map_tek_degisim [OF assms(1) tek, of "\<lambda>d. d\<lparr>ds_kodu := kodu, ds_adi := adi,
      ds_kapasite := kap, ds_enine := en, ds_boyuna := boy, ds_sira_yapisi := sira\<rparr>"]
    by (simp add: comp_def)
qed

lemma derslik_guncelle_Inr:
  assumes "derslik_guncelle k did kodu adi kap en boy sira v = Inr v'"
  shows "ku_rol k = ''koordinator''"
    "yv_derslikler v' = map (\<lambda>d. if ds_id d = did \<and> bolumun k d then d\<lparr>ds_kodu := kodu, ds_adi := adi,
              ds_kapasite := kap, ds_enine := en, ds_boyuna := boy, ds_sira_yapisi := sira\<rparr> else d) (yv_derslikler v)"
    "yv_kullanicilar v' = yv_kullanicilar v" "yv_bolumler v' = yv_bolumler v"
    "list_ex (\<lambda>d. ds_id d = did \<and> bolumun k d) (yv_derslikler v) \<Longrightarrow>
       \<forall>d \<in> set (yv_derslikler v). bolumun k d \<and> ds_kodu d = kodu \<longrightarrow> ds_id d = did"
  using assms by (auto simp: derslik_guncelle_def Let_def list_ex_iff split: if_splits)

lemma map_guncelle_ds_id:
  "map ds_id (map (\<lambda>d. if H d then d\<lparr>ds_kodu := kodu, ds_adi := adi, ds_kapasite := kap, ds_enine := en,
     ds_boyuna := boy, ds_sira_yapisi := sira\<rparr> else d) xs) = map ds_id xs"
  by (induction xs) auto

lemma map_guncelle_id:
  "\<not> list_ex H xs \<Longrightarrow> map (\<lambda>d. if H d then f d else d) xs = xs"
  by (induction xs) auto

lemma derslik_guncelle_inv:
  assumes "derslik_inv (yv_derslikler v)" "derslik_guncelle k did kodu adi kap en boy sira v = Inr v'"
  shows "derslik_inv (yv_derslikler v')"
proof (cases "list_ex (\<lambda>d. ds_id d = did \<and> bolumun k d) (yv_derslikler v)")
  case True
  then show ?thesis using assms distinct_guncelle [of "yv_derslikler v" k kodu did]
    derslik_guncelle_Inr [OF assms(2)] by (simp add: derslik_inv_def map_guncelle_ds_id del: map_map)
next
  case False
  then show ?thesis using assms derslik_guncelle_Inr(2) [OF assms(2)] by (simp add: map_guncelle_id)
qed

lemma derslik_ekle_inv:
  assumes "derslik_inv (yv_derslikler v)" "derslik_ekle k kodu adi kap en boy sira v = Inr v'"
  shows "derslik_inv (yv_derslikler v')" "yv_kullanicilar v' = yv_kullanicilar v" "yv_bolumler v' = yv_bolumler v"
  using derslik_ekle_Inr [OF assms(2)] assms(1) autoincrement_taze [of "yv_ds_sayac v" "map ds_id (yv_derslikler v)"]
  by (auto simp: derslik_inv_def)

lemma derslik_sil_inv:
  assumes "derslik_inv (yv_derslikler v)" "derslik_sil k did v = Inr v'"
  shows "derslik_inv (yv_derslikler v')" "yv_kullanicilar v' = yv_kullanicilar v" "yv_bolumler v' = yv_bolumler v"
  using assms by (auto simp: derslik_sil_def derslik_inv_def distinct_map_filter split: if_splits)

lemma yonetim_adim_inv: "yonetim_inv v \<Longrightarrow> yonetim_adim op v = Inr v' \<Longrightarrow> yonetim_inv v'"
proof (cases op)
  case (KullaniciEkle g e h r b)
  then show "yonetim_inv v \<Longrightarrow> yonetim_adim op v = Inr v' \<Longrightarrow> yonetim_inv v'"
    using yetkili_kullanici_ekle_inv [of v g e h r b v'] by (auto simp: yonetim_inv_def)
next
  case (DerslikEkle k kodu adi kap en boy sira)
  then show "yonetim_inv v \<Longrightarrow> yonetim_adim op v = Inr v' \<Longrightarrow> yonetim_inv v'"
    using derslik_ekle_inv [of v k kodu adi kap en boy sira v'] by (auto simp: yonetim_inv_def)
next
  case (DerslikGuncelle k did kodu adi kap en boy sira)
  then show "yonetim_inv v \<Longrightarrow> yonetim_adim op v = Inr v' \<Longrightarrow> yonetim_inv v'"
    using derslik_guncelle_inv [of v k did kodu adi kap en boy sira v']
      derslik_guncelle_Inr(3,4) [of k did kodu adi kap en boy sira v v'] by (auto simp: yonetim_inv_def)
next
  case (DerslikSil k did)
  then show "yonetim_inv v \<Longrightarrow> yonetim_adim op v = Inr v' \<Longrightarrow> yonetim_inv v'"
    using derslik_sil_inv [of v k did v'] by (auto simp: yonetim_inv_def)
qed

lemma bolum_ekle_yoksa_inv:
  "bolum_inv (yv_bolumler v) \<Longrightarrow> bolum_inv (yv_bolumler (bolum_ekle_yoksa ad v)) \<and>
     yv_kullanicilar (bolum_ekle_yoksa ad v) = yv_kullanicilar v \<and> yv_derslikler (bolum_ekle_yoksa ad v) = yv_derslikler v"
  using autoincrement_taze [of "yv_bo_sayac v" "map bolum_no (yv_bolumler v)"]
  by (auto simp: bolum_ekle_yoksa_def bolum_inv_def Let_def list_ex_iff)

lemma fold_bolum_ekle_inv:
  "bolum_inv (yv_bolumler v) \<Longrightarrow> bolum_inv (yv_bolumler (fold bolum_ekle_yoksa adlar v)) \<and>
     yv_kullanicilar (fold bolum_ekle_yoksa adlar v) = yv_kullanicilar v \<and>
     yv_derslikler (fold bolum_ekle_yoksa adlar v) = yv_derslikler v"
proof (induction adlar arbitrary: v)
  case (Cons a adlar)
  show ?case using bolum_ekle_yoksa_inv [OF Cons.prems] Cons.IH [of "bolum_ekle_yoksa a v"] by simp
qed simp

lemma varsayilan_veri_yukle_inv: "yonetim_inv (varsayilan_veri_yukle adlar h yvt_bos)"
proof -
  let ?v1 = "fold bolum_ekle_yoksa adlar yvt_bos"
  have f: "bolum_inv (yv_bolumler ?v1)" "yv_kullanicilar ?v1 = []" "yv_derslikler ?v1 = []"
    using fold_bolum_ekle_inv [of yvt_bos adlar] by (simp_all add: yvt_bos_def bolum_inv_def)
  show ?thesis
  proof (cases "kullanici_ekle_sql ?v1 ''admin@uni.edu'' h ''admin'' None")
    case (Inl err)
    then show ?thesis using f by (simp add: varsayilan_veri_yukle_def yonetim_inv_def kullanici_inv_def derslik_inv_def koordinatorler_def)
  next
    case (Inr v2)
    then show ?thesis using f kullanici_ekle_sql_Inr [OF Inr]
      by (simp add: varsayilan_veri_yukle_def yonetim_inv_def kullanici_inv_def derslik_inv_def koordinatorler_def Let_def)
  qed
qed


subsection \<open>Properties of the administration layer\<close>

lemmas yonetim_simps = varsayilan_veri_yukle_def bolum_ekle_yoksa_def kullanici_ekle_sql_def autoincrement_def
  yvt_bos_def yvt_ornek_def admin_ornek_def koordinator_ornek_def kullanici_ekle_kontrol_def
  bolumde_koordinator_var_mi_def yetkili_kullanici_ekle_def derslik_ekle_def derslik_guncelle_def
  derslik_sil_def derslik_ara_id_def bolumun_def Let_def

lemma find_snoc_taze:
  "x \<notin> set (map ds_id xs) \<Longrightarrow> find (\<lambda>d. ds_id d = x \<and> P d) (xs @ [y]) = (if ds_id y = x \<and> P y then Some y else None)"
  by (induction xs) auto

lemma yetkili_kullanici_ekle_derslikler:
  "yetkili_kullanici_ekle g e h r b v = Inr v' \<Longrightarrow> yv_derslikler v' = yv_derslikler v"
  by (auto simp: yetkili_kullanici_ekle_def kullanici_ekle_sql_def Let_def split: sum.splits if_splits)

lemma filter_guncelle:
  "filter (\<lambda>d. \<not> bolumun k d) (map (\<lambda>d. if ds_id d = did \<and> bolumun k d then d\<lparr>ds_kodu := kodu, ds_adi := adi,
     ds_kapasite := kap, ds_enine := en, ds_boyuna := boy, ds_sira_yapisi := sira\<rparr> else d) xs) =
   filter (\<lambda>d. \<not> bolumun k d) xs"
  by (induction xs) (auto simp: bolumun_def)

lemma kontrol_hata_sinifi:
  "kullanici_ekle_kontrol g r b v = Inl err \<Longrightarrow> sinifi err = PermissionError \<longleftrightarrow> ku_rol g \<noteq> ''admin''"
  unfolding kullanici_ekle_kontrol_def by (auto split: if_splits option.splits)

lemma sql_hata_sinifi: "kullanici_ekle_sql v e h r b = Inl err \<Longrightarrow> sinifi err \<noteq> PermissionError"
  unfolding kullanici_ekle_sql_def Let_def by (auto split: if_splits)

lemma yetkisiz_kontrol: "ku_rol g \<noteq> ''admin'' \<Longrightarrow> kullanici_ekle_kontrol g r b v = Inl (YetkiYok KullaniciEkleme)"
  by (simp add: kullanici_ekle_kontrol_def)

lemma derslik_ekle_hata_sinifi:
  "derslik_ekle k kodu adi kap en boy sira v = Inl err \<Longrightarrow> sinifi err = PermissionError \<longleftrightarrow> ku_rol k \<noteq> ''koordinator''"
  unfolding derslik_ekle_def Let_def by (auto split: if_splits option.splits)

lemma derslik_guncelle_hata_sinifi:
  "derslik_guncelle k did kodu adi kap en boy sira v = Inl err \<Longrightarrow> sinifi err = PermissionError \<longleftrightarrow> ku_rol k \<noteq> ''koordinator''"
  unfolding derslik_guncelle_def Let_def by (auto split: if_splits)

lemma derslik_sil_hata_sinifi:
  "derslik_sil k did v = Inl err \<Longrightarrow> sinifi err = PermissionError \<longleftrightarrow> ku_rol k \<noteq> ''koordinator''"
  unfolding derslik_sil_def by (auto split: if_splits)

lemma kullanici_ekle_yetki:
  "(\<exists>err. yetkili_kullanici_ekle g e h r b v = Inl err \<and> sinifi err = PermissionError) \<longleftrightarrow> ku_rol g \<noteq> ''admin''"
proof (cases "kullanici_ekle_kontrol g r b v")
  case (Inl err)
  then show ?thesis using kontrol_hata_sinifi [OF Inl] by (simp add: yetkili_kullanici_ekle_def)
next
  case (Inr b')
  have "ku_rol g = ''admin''" using Inr yetkisiz_kontrol [of g r b v] by auto
  then show ?thesis using Inr sql_hata_sinifi [of v e h r b'] by (simp add: yetkili_kullanici_ekle_def)
qed

text \<open>C28: An administration operation fails with a \<open>PermissionError\<close> exactly when its
  caller lacks the role the operation asks for (admin to add users, coordinator for rooms);
  every other failure is a \<open>ValueError\<close> or an integrity error, so authorization
  errors are signalled distinctly from validation errors.\<close>

theorem yetki_hatasi_ayrik:
  "(\<exists>err. yonetim_adim op v = Inl err \<and> sinifi err = PermissionError) \<longleftrightarrow> ku_rol (islem_yapan op) \<noteq> gereken_rol op"
proof (cases op)
  case (KullaniciEkle g e h r b)
  then show ?thesis using kullanici_ekle_yetki by simp
next
  case (DerslikEkle k kodu adi kap en boy sira)
  then show ?thesis using derslik_ekle_hata_sinifi [of k kodu adi kap en boy sira v]
    by (cases "derslik_ekle k kodu adi kap en boy sira v") (auto dest: derslik_ekle_Inr)
next
  case (DerslikGuncelle k did kodu adi kap en boy sira)
  then show ?thesis using derslik_guncelle_hata_sinifi [of k did kodu adi kap en boy sira v]
    by (cases "derslik_guncelle k did kodu adi kap en boy sira v") (auto dest: derslik_guncelle_Inr(1))
next
  case (DerslikSil k did)
  then show ?thesis using derslik_sil_hata_sinifi [of k did v]
    by (cases "derslik_sil k did v") (auto simp: derslik_sil_def split: if_splits)
qed

text \<open>C29: No successful administration operation changes, adds or removes a room of a department
  other than its caller's.\<close>

theorem derslik_bolum_yalitimi:
  assumes "yonetim_adim op v = Inr v'"
  shows "filter (\<lambda>d. \<not> bolumun (islem_yapan op) d) (yv_derslikler v') =
         filter (\<lambda>d. \<not> bolumun (islem_yapan op) d) (yv_derslikler v)"
proof (cases op)
  case (KullaniciEkle g e h r b)
  then show ?thesis using assms yetkili_kullanici_ekle_derslikler [of g e h r b v v'] by simp
next
  case (DerslikEkle k kodu adi kap en boy sira)
  then show ?thesis using assms derslik_ekle_Inr [of k kodu adi kap en boy sira v v'] by (auto simp: bolumun_def)
next
  case (DerslikGuncelle k did kodu adi kap en boy sira)
  then show ?thesis using assms derslik_guncelle_Inr(2) [of k did kodu adi kap en boy sira v v'] by (simp add: filter_guncelle)
next
  case (DerslikSil k did)
  then show ?thesis using assms by (auto simp: derslik_sil_def filter_filter split: if_splits intro: filter_cong)
qed

text \<open>A room added by \<open>derslik_ekle\<close> is found by \<open>derslik_ara_id\<close>
  under the id the table gave it, with the department of the coordinator and the fields given.\<close>

theorem derslik_ekle_ara_id:
  assumes "derslik_ekle k kodu adi kap en boy sira v = Inr v'"
  shows "\<exists>b. ku_bolum_id k = Some b \<and>
    derslik_ara_id k (yv_ds_sayac v') v' = Some \<lparr>ds_id = yv_ds_sayac v', ds_bolum_id = b, ds_kodu = kodu,
      ds_adi = adi, ds_kapasite = kap, ds_enine = en, ds_boyuna = boy, ds_sira_yapisi = sira\<rparr>"
proof -
  obtain b where r: "ku_rol k = ''koordinator''" and b: "ku_bolum_id k = Some b"
    and v': "v' = v\<lparr>yv_derslikler := yv_derslikler v @
              [\<lparr>ds_id = autoincrement (yv_ds_sayac v) (map ds_id (yv_derslikler v)), ds_bolum_id = b,
                ds_kodu = kodu, ds_adi = adi, ds_kapasite = kap, ds_enine = en, ds_boyuna = boy, ds_sira_yapisi = sira\<rparr>],
            yv_ds_sayac := autoincrement (yv_ds_sayac v) (map ds_id (yv_derslikler v))\<rparr>"
    using derslik_ekle_Inr [OF assms] by blast
  show ?thesis using autoincrement_taze [of "yv_ds_sayac v" "map ds_id (yv_derslikler v)"] r b
    by (simp add: v' derslik_ara_id_def find_snoc_taze bolumun_def)
qed

text \<open>C27: Every database reachable from the bootstrap \<open>varsayilan_veri_yukle\<close> by the
  administration operations, each one transaction, satisfies the table invariant: user ids,
  e-mails, department ids and names, room ids and (department, room code) pairs are unique,
  every user is an admin without department or a coordinator with a nonzero department, and no
  department has two coordinators.\<close>

theorem erisilebilir_yonetim_inv: "erisilebilir v \<Longrightarrow> yonetim_inv v"
  by (induction rule: erisilebilir.induct) (auto intro: varsayilan_veri_yukle_inv yonetim_adim_inv)



lemmas yonetim_ornek_simps = yonetim_simps yvt_ornek_d_def

theorem yetki_hatasi_ayrik_witness:
  "\<exists>err. yonetim_adim (DerslikEkle admin_ornek ''D9'' ''Amfi'' 40 8 5 2) yvt_ornek = Inl err \<and> sinifi err = PermissionError"
  using yetki_hatasi_ayrik [of "DerslikEkle admin_ornek ''D9'' ''Amfi'' 40 8 5 2" yvt_ornek]
  by (simp add: admin_ornek_def)

theorem derslik_bolum_yalitimi_witness:
  "yonetim_adim (DerslikGuncelle koordinator_ornek 1 ''D2'' ''Amfi'' 40 8 5 2) yvt_ornek_d =
     Inr (projr (yonetim_adim (DerslikGuncelle koordinator_ornek 1 ''D2'' ''Amfi'' 40 8 5 2) yvt_ornek_d)) \<and>
   filter (\<lambda>d. \<not> bolumun koordinator_ornek d)
     (yv_derslikler (projr (yonetim_adim (DerslikGuncelle koordinator_ornek 1 ''D2'' ''Amfi'' 40 8 5 2) yvt_ornek_d))) =
   filter (\<lambda>d. \<not> bolumun koordinator_ornek d) (yv_derslikler yvt_ornek_d)"
proof -
  have e: "yonetim_adim (DerslikGuncelle koordinator_ornek 1 ''D2'' ''Amfi'' 40 8 5 2) yvt_ornek_d =
     Inr (projr (yonetim_adim (DerslikGuncelle koordinator_ornek 1 ''D2'' ''Amfi'' 40 8 5 2) yvt_ornek_d))"
    by (simp add: yonetim_ornek_simps)
  show ?thesis using derslik_bolum_yalitimi [OF e] e by simp
qed

theorem derslik_ekle_ara_id_witness:
  "derslik_ekle koordinator_ornek ''D9'' ''Amfi'' 40 8 5 2 yvt_ornek_d =
     Inr (projr (derslik_ekle koordinator_ornek ''D9'' ''Amfi'' 40 8 5 2 yvt_ornek_d)) \<and>
   derslik_ara_id koordinator_ornek 3 (projr (derslik_ekle koordinator_ornek ''D9'' ''Amfi'' 40 8 5 2 yvt_ornek_d)) =
     Some \<lparr>ds_id = 3, ds_bolum_id = 1, ds_kodu = ''D9'', ds_adi = ''Amfi'', ds_kapasite = 40, ds_enine = 8,
       ds_boyuna = 5, ds_sira_yapisi = 2\<rparr>"
proof -
  have e: "derslik_ekle koordinator_ornek ''D9'' ''Amfi'' 40 8 5 2 yvt_ornek_d =
     Inr (projr (derslik_ekle koordinator_ornek ''D9'' ''Amfi'' 40 8 5 2 yvt_ornek_d))"
    and s: "yv_ds_sayac (projr (derslik_ekle koordinator_ornek ''D9'' ''Amfi'' 40 8 5 2 yvt_ornek_d)) = 3"
    by (simp_all add: yonetim_ornek_simps)
  show ?thesis using derslik_ekle_ara_id [OF e] e s by (simp add: koordinator_ornek_def)
qed

theorem erisilebilir_yonetim_inv_witness:
  "erisilebilir (projr (yonetim_adim (KullaniciEkle admin_ornek ''bm@uni.edu'' ''h'' ''koordinator'' (Some 1)) yvt_ornek)) \<and>
   yonetim_inv (projr (yonetim_adim (KullaniciEkle admin_ornek ''bm@uni.edu'' ''h'' ''koordinator'' (Some 1)) yvt_ornek))"
proof -
  have e: "yonetim_adim (KullaniciEkle admin_ornek ''bm@uni.edu'' ''h'' ''koordinator'' (Some 1)) yvt_ornek =
     Inr (projr (yonetim_adim (KullaniciEkle admin_ornek ''bm@uni.edu'' ''h'' ''koordinator'' (Some 1)) yvt_ornek))"
    by (simp add: yonetim_ornek_simps)
  have r: "erisilebilir (projr (yonetim_adim (KullaniciEkle admin_ornek ''bm@uni.edu'' ''h'' ''koordinator'' (Some 1)) yvt_ornek))"
    using erisilebilir.baslangic [of "[''BM'', ''YM'']" "''h''"] by (intro erisilebilir.adim [OF _ e]) (simp add: yvt_ornek_def)
  show ?thesis using erisilebilir_yonetim_inv [OF r] r by simp
qed

text \<open>C30: When two sessions add a coordinator to the same department, the check of
  \<open>_bolumde_koordinator_var_mi\<close> and the insert being separate transactions, an
  interleaving of two sessions reaches a database with two coordinators of one department,
  which whole operations never reach (the invariant above).\<close>

theorem eszamanli_iki_koordinator:
  "\<exists>v os. eszamanli v os \<and>
     length (filter (\<lambda>k. ku_rol k = ''koordinator'' \<and> ku_bolum_id k = Some 1) (yv_kullanicilar v)) = 2"
proof -
  let ?a = "Bekliyor ''a@uni.edu'' ''h'' ''koordinator'' (Some 1)"
  let ?b = "Bekliyor ''b@uni.edu'' ''h'' ''koordinator'' (Some 1)"
  have k: "kullanici_ekle_kontrol admin_ornek ''koordinator'' (Some 1) yvt_ornek = Inr (Some 1)"
    by (simp add: yonetim_simps)
  have s0: "eszamanli yvt_ornek [Bosta, Bosta]"
    using eszamanli.baslangic [of "[''BM'', ''YM'']" "''h''" 2] by (simp add: yvt_ornek_def numeral_2_eq_2)
  have s1: "eszamanli yvt_ornek [?a, Bosta]"
    using eszamanli.kontrol [OF s0 _ _ k, of 0 "''a@uni.edu''" "''h''"] by simp
  have s2: "eszamanli yvt_ornek [?a, ?b]"
    using eszamanli.kontrol [OF s1 _ _ k, of 1 "''b@uni.edu''" "''h''"] by simp
  define v1 where "v1 = projr (kullanici_ekle_sql yvt_ornek ''a@uni.edu'' ''h'' ''koordinator'' (Some 1))"
  have w1: "kullanici_ekle_sql yvt_ornek ''a@uni.edu'' ''h'' ''koordinator'' (Some 1) = Inr v1"
    by (simp add: v1_def yonetim_simps)
  have s3: "eszamanli v1 [Bosta, ?b]" using eszamanli.yaz [OF s2 _ _ w1, of 0] by simp
  define v2 where "v2 = projr (kullanici_ekle_sql v1 ''b@uni.edu'' ''h'' ''koordinator'' (Some 1))"
  have w2: "kullanici_ekle_sql v1 ''b@uni.edu'' ''h'' ''koordinator'' (Some 1) = Inr v2"
    by (simp add: v2_def v1_def yonetim_simps)
  have s4: "eszamanli v2 [Bosta, Bosta]" using eszamanli.yaz [OF s3 _ _ w2, of 1] by simp
  have "length (filter (\<lambda>k. ku_rol k = ''koordinator'' \<and> ku_bolum_id k = Some 1) (yv_kullanicilar v2)) = 2"
    by (simp add: v2_def v1_def yonetim_simps)
  with s4 show ?thesis by blast
qed

text \<open>No foreign key is checked: a coordinator can be added for a department id that is not in
  \<open>bolumler\<close>.\<close>

theorem koordinator_olmayan_bolum:
  "yetkili_kullanici_ekle admin_ornek ''x@uni.edu'' ''h'' ''koordinator'' (Some 99) yvt_ornek =
     Inr (projr (yetkili_kullanici_ekle admin_ornek ''x@uni.edu'' ''h'' ''koordinator'' (Some 99) yvt_ornek)) \<and>
   bolum_getir (projr (yetkili_kullanici_ekle admin_ornek ''x@uni.edu'' ''h'' ''koordinator'' (Some 99) yvt_ornek)) 99 = None"
  by (simp add: yonetim_simps bolum_getir_def)

end
