(* ===== verification/Python_Yerlesik.thy ===== *)
theory Python_Yerlesik
  imports Prelude
begin

text \<open>
  The Python built-ins the sources apply to user input: \<open>str.strip\<close>, \<open>int(s)\<close> on a
  string and \<open>str(n)\<close> on an integer.  Strings are lists of code points below 256 (an
  Isabelle \<^typ>\<open>char\<close> per code point); on these \<open>py_bosluk\<close> is exactly
  \<open>str.isspace\<close>.  \<open>py_int\<close> follows the grammar of \<open>int()\<close> in base 10: outer blanks,
  an optional sign, digits with single underscores between them.  The lemmas show that
  \<open>int(str(i)) = i\<close> and that \<open>str\<close> is injective.
\<close>

subsection \<open>Python's \<open>str.strip\<close>, \<open>int\<close> and \<open>str\<close> on decimal integers\<close>

definition py_bosluk :: "char \<Rightarrow> bool" where
  "py_bosluk c = (of_char c \<in> ({9..13} \<union> {28..32} \<union> {133, 160} :: nat set))"

definition py_strip :: "string \<Rightarrow> string" where
  "py_strip s = rev (dropWhile py_bosluk (rev (dropWhile py_bosluk s)))"

definition rakam_mi :: "char \<Rightarrow> bool" where
  "rakam_mi c = (48 \<le> (of_char c :: nat) \<and> (of_char c :: nat) \<le> 57)"

definition rakam_degeri :: "char \<Rightarrow> nat" where
  "rakam_degeri c = of_char c - 48"

definition rakamlar_degeri :: "string \<Rightarrow> nat" where
  "rakamlar_degeri ds = foldl (\<lambda>n c. 10 * n + rakam_degeri c) 0 ds"

text \<open>The digits of \<open>int()\<close>: at least one digit, and single underscores only between
  digits.\<close>

fun alt_cizgi_duzgun :: "string \<Rightarrow> bool" where
  "alt_cizgi_duzgun [] = True"
| "alt_cizgi_duzgun [c] = rakam_mi c"
| "alt_cizgi_duzgun (c # d # cs) =
     (if c = CHR ''_'' then rakam_mi d \<and> alt_cizgi_duzgun (d # cs)
      else rakam_mi c \<and> alt_cizgi_duzgun (d # cs))"

definition rakam_dizisi :: "string \<Rightarrow> nat option" where
  "rakam_dizisi ds =
     (if ds \<noteq> [] \<and> rakam_mi (hd ds) \<and> alt_cizgi_duzgun ds
      then Some (rakamlar_degeri (filter (\<lambda>c. c \<noteq> CHR ''_'') ds)) else None)"

definition py_int :: "string \<Rightarrow> int option" where
  "py_int s =
     (case py_strip s of
        [] \<Rightarrow> None
      | c # cs \<Rightarrow>
          if c = CHR ''-'' then map_option (\<lambda>n. - int n) (rakam_dizisi cs)
          else if c = CHR ''+'' then map_option int (rakam_dizisi cs)
          else map_option int (rakam_dizisi (c # cs)))"

fun ondalik :: "nat \<Rightarrow> string" where
  "ondalik n = (if n < 10 then [char_of (48 + n)] else ondalik (n div 10) @ [char_of (48 + n mod 10)])"

declare ondalik.simps [simp del]

definition py_str :: "int \<Rightarrow> string" where
  "py_str i = (if i < 0 then CHR ''-'' # ondalik (nat (- i)) else ondalik (nat i))"


subsection \<open>Python values\<close>

text \<open>The values that reach the planner through its loosely typed constraint object or
  dictionary: \<open>None\<close>, booleans, integers, strings, dates (as day ordinals), times (as minutes
  after midnight), sequences (lists, tuples and sets alike, a set in its iteration order) and
  dictionaries (as association lists with distinct keys).\<close>

datatype pdeger =
    PNone
  | PBool bool
  | PInt int
  | PStr string
  | PTarih int
  | PZaman nat
  | PListe "pdeger list"
  | PSozluk "(pdeger \<times> pdeger) list"

datatype girdi_hatasi = TipHatasi | DegerHatasi | AnahtarHatasi string

text \<open>Truth value (\<open>bool(x)\<close>, \<open>if x:\<close>, \<open>x or y\<close>); a date or time is always true.\<close>

fun py_bool :: "pdeger \<Rightarrow> bool" where
  "py_bool PNone = False"
| "py_bool (PBool b) = b"
| "py_bool (PInt i) = (i \<noteq> 0)"
| "py_bool (PStr s) = (s \<noteq> [])"
| "py_bool (PTarih _) = True"
| "py_bool (PZaman _) = True"
| "py_bool (PListe xs) = (xs \<noteq> [])"
| "py_bool (PSozluk ps) = (ps \<noteq> [])"

text \<open>\<open>int(x)\<close>: a \<open>ValueError\<close> for a string that is not a decimal integer, a
  \<open>TypeError\<close> for \<open>None\<close>, a date, a time or a container; \<open>bool\<close> is a subclass of
  \<open>int\<close>.\<close>

fun py_int_deger :: "pdeger \<Rightarrow> girdi_hatasi + int" where
  "py_int_deger (PInt i) = Inr i"
| "py_int_deger (PBool b) = Inr (if b then 1 else 0)"
| "py_int_deger (PStr s) = (case py_int s of Some i \<Rightarrow> Inr i | None \<Rightarrow> Inl DegerHatasi)"
| "py_int_deger _ = Inl TipHatasi"

text \<open>\<open>for x in v\<close>: a string yields its characters, a dictionary its keys; anything
  else that is not a sequence raises \<open>TypeError\<close>.\<close>

fun py_iter :: "pdeger \<Rightarrow> pdeger list option" where
  "py_iter (PListe xs) = Some xs"
| "py_iter (PStr s) = Some (map (\<lambda>c. PStr [c]) s)"
| "py_iter (PSozluk ps) = Some (map fst ps)"
| "py_iter _ = None"

text \<open>\<open>s.split(c)\<close> for a one-character separator.\<close>

fun py_bol :: "char \<Rightarrow> string \<Rightarrow> string list" where
  "py_bol c [] = [[]]"
| "py_bol c (x # xs) =
     (if x = c then [] # py_bol c xs
      else (case py_bol c xs of p # ps \<Rightarrow> (x # p) # ps | [] \<Rightarrow> [[x]]))"

text \<open>\<open>str.lower\<close> and \<open>str.isdigit\<close> on code points below 256 (the superscripts two,
  three and one are digits for \<open>isdigit\<close>, but not for \<open>int()\<close>).\<close>

definition py_kucuk :: "char \<Rightarrow> char" where
  "py_kucuk c = (let n = (of_char c :: nat) in
     if (65 \<le> n \<and> n \<le> 90) \<or> (192 \<le> n \<and> n \<le> 222 \<and> n \<noteq> 215) then char_of (n + 32) else c)"

definition py_lower :: "string \<Rightarrow> string" where
  "py_lower s = map py_kucuk s"

definition py_isdigit :: "string \<Rightarrow> bool" where
  "py_isdigit s = (s \<noteq> [] \<and> list_all (\<lambda>c. rakam_mi c \<or> (of_char c :: nat) \<in> {178, 179, 185}) s)"

text \<open>A dictionary: \<open>d.get(k)\<close> is \<^const>\<open>map_of\<close>; \<open>d[k] = v\<close> replaces the value of an
  existing key in place and appends a new key.\<close>

fun py_dict_set :: "'k \<Rightarrow> 'v \<Rightarrow> ('k \<times> 'v) list \<Rightarrow> ('k \<times> 'v) list" where
  "py_dict_set k v [] = [(k, v)]"
| "py_dict_set k v ((k', v') # ps) = (if k = k' then (k, v) # ps else (k', v') # py_dict_set k v ps)"

definition py_get :: "('k \<times> 'v) list \<Rightarrow> 'k \<Rightarrow> 'v \<Rightarrow> 'v" where
  "py_get d k varsayilan = (case map_of d k of Some v \<Rightarrow> v | None \<Rightarrow> varsayilan)"

text \<open>Sequencing of computations that may raise.\<close>

definition sbind :: "'e + 'a \<Rightarrow> ('a \<Rightarrow> 'e + 'b) \<Rightarrow> 'e + 'b" where
  "sbind x f = (case x of Inl e \<Rightarrow> Inl e | Inr a \<Rightarrow> f a)"

subsection \<open>\<open>int(str(i)) = i\<close>\<close>

lemma of_char_rakam [simp]: "n < 10 \<Longrightarrow> (of_char (char_of (48 + n)) :: nat) = 48 + n"
  by (simp add: of_char_of)

lemma ondalik_rakam: "list_all rakam_mi (ondalik n)"
  unfolding rakam_mi_def by (induction n rule: ondalik.induct) (subst ondalik.simps, auto)

lemma ondalik_bos_degil [simp]: "ondalik n \<noteq> []"
  by (subst ondalik.simps) simp

lemma rakamlar_degeri_snoc: "rakamlar_degeri (xs @ [c]) = 10 * rakamlar_degeri xs + rakam_degeri c"
  by (simp add: rakamlar_degeri_def)

lemma rakamlar_degeri_ondalik: "rakamlar_degeri (ondalik n) = n"
proof (induction n rule: ondalik.induct)
  case (1 n)
  show ?case
  proof (cases "n < 10")
    case True
    then show ?thesis by (subst ondalik.simps) (simp add: rakamlar_degeri_def rakam_degeri_def)
  next
    case False
    then have "rakamlar_degeri (ondalik n) = 10 * (n div 10) + n mod 10"
      using 1 by (subst ondalik.simps) (simp add: rakamlar_degeri_snoc rakam_degeri_def)
    then show ?thesis by simp
  qed
qed

lemma alt_cizgi_rakamlar: "list_all rakam_mi cs \<Longrightarrow> alt_cizgi_duzgun cs"
  by (induction cs rule: alt_cizgi_duzgun.induct) (auto simp: rakam_mi_def)

lemma rakam_alt_cizgi_degil: "rakam_mi c \<Longrightarrow> c \<noteq> CHR ''_''"
  by (auto simp: rakam_mi_def)

lemma rakam_bosluk_degil: "rakam_mi c \<Longrightarrow> \<not> py_bosluk c"
  by (auto simp: rakam_mi_def py_bosluk_def)

lemma rakam_dizisi_ondalik: "rakam_dizisi (ondalik n) = Some n"
proof -
  have r: "list_all rakam_mi (ondalik n)" by (rule ondalik_rakam)
  then have "filter (\<lambda>c. c \<noteq> CHR ''_'') (ondalik n) = ondalik n"
    by (auto simp: list_all_iff rakam_alt_cizgi_degil intro: filter_True)
  moreover have "rakam_mi (hd (ondalik n))" using r by (cases "ondalik n") auto
  ultimately show ?thesis using r alt_cizgi_rakamlar [OF r] by (simp add: rakam_dizisi_def rakamlar_degeri_ondalik)
qed

lemma py_strip_kenar:
  assumes "s \<noteq> []" "\<not> py_bosluk (hd s)" "\<not> py_bosluk (last s)"
  shows "py_strip s = s"
proof -
  have "dropWhile py_bosluk s = s" using assms(1,2) by (cases s) auto
  moreover have "dropWhile py_bosluk (rev s) = rev s" using assms(1,3) by (cases "rev s") (auto simp: last_rev [symmetric])
  ultimately show ?thesis by (simp add: py_strip_def)
qed

lemma ondalik_kenar: "\<not> py_bosluk (hd (ondalik n)) \<and> \<not> py_bosluk (last (ondalik n)) \<and>
    hd (ondalik n) \<noteq> CHR ''-'' \<and> hd (ondalik n) \<noteq> CHR ''+''"
proof -
  have r: "list_all rakam_mi (ondalik n)" by (rule ondalik_rakam)
  have "rakam_mi (hd (ondalik n))" "rakam_mi (last (ondalik n))"
    using r by (auto simp: list_all_iff)
  then show ?thesis by (auto simp: rakam_bosluk_degil rakam_mi_def)
qed

lemma py_str_geri_okunur: "py_int (py_str i) = Some i"
proof (cases "i < 0")
  case True
  have "py_strip (py_str i) = CHR ''-'' # ondalik (nat (- i))"
    using True ondalik_kenar [of "nat (- i)"] by (simp add: py_str_def py_strip_kenar py_bosluk_def)
  then show ?thesis using True by (simp add: py_int_def rakam_dizisi_ondalik)
next
  case False
  have "py_strip (py_str i) = ondalik (nat i)"
    using False ondalik_kenar [of "nat i"] by (simp add: py_str_def py_strip_kenar)
  moreover obtain c cs where "ondalik (nat i) = c # cs" by (cases "ondalik (nat i)") auto
  ultimately show ?thesis using False ondalik_kenar [of "nat i"] rakam_dizisi_ondalik [of "nat i"]
    by (simp add: py_int_def)
qed


lemma py_str_inj: "inj py_str"
  by (rule inj_on_inverseI [where g = "\<lambda>s. the (py_int s)"]) (simp add: py_str_geri_okunur)

text \<open>Python's \<open>int()\<close> reads back what \<open>str()\<close> prints: for every integer \<open>i\<close>,
  \<open>int(str(i)) == i\<close>.  The screen relies on it for the iids of the tree and the numbers
  copied into the form.\<close>

theorem py_int_py_str: "py_int (py_str i) = Some i"
  by (rule py_str_geri_okunur)

end
