(* ===== verification/DerslikEkrani.thy ===== *)
theory DerslikEkrani
  imports Yonetim Python_Yerlesik
begin

text \<open>
  The room management screen \<open>DerslikPenceresi\<close> of \<open>src/arayuz/derslik_penceresi.py\<close>:
  its form validation \<open>_int_or_error\<close>, the handlers \<open>_yenile\<close>, \<open>_liste_secildi\<close>,
  \<open>_ekle\<close>, \<open>_guncelle\<close>, \<open>_sil\<close> and \<open>_ara_goster\<close>, each a function from the screen
  state and the database to the new pair, over the writers of theory \<open>Yonetim\<close>.  The
  widgets are the record \<open>derslik_ekrani\<close>: the six form fields, the rows of the tree, the
  selected row's iid, the last message box shown, the room last drawn and the number of times
  the callback \<open>on_derslik_eklendi\<close> has run.  Python's \<open>int(s)\<close>, \<open>str(n)\<close> and
  \<open>str.strip\<close> are those of theory \<open>Python_Yerlesik\<close>.  The canvas drawing of
  \<open>_ciz_oturma_duzeni\<close> is output only: the model records the dimensions it draws.
\<close>

subsection \<open>The screen\<close>

datatype alan = Kapasite | Enine | Boyuna | SiraYapisi

datatype hata_nedeni = ZorunluAlan | AlanGecersiz alan | DepoHatasi yonetim_hata | GecersizSayi

datatype mesaj =
    Bilgi_DerslikEklendi | Bilgi_DerslikGuncellendi | Bilgi_DerslikSilindi
  | Uyari_SatirSecin | Uyari_DerslikBulunamadi
  | Hata hata_nedeni

record derslik_formu =
  f_kodu :: string
  f_adi :: string
  f_kapasite :: string
  f_enine :: string
  f_boyuna :: string
  f_sira :: string

record derslik_ekrani =
  de_koordinator :: kullanici_satir
  de_form :: derslik_formu
  de_liste :: "(string \<times> derslik_satir) list"
  de_secili :: "string option"
  de_mesaj :: "mesaj option"
  de_cizim :: "(int \<times> int \<times> int) option"
  de_geri_cagri :: bool
  de_import_acildi :: nat

definition bos_form :: derslik_formu where
  "bos_form = \<lparr>f_kodu = [], f_adi = [], f_kapasite = [], f_enine = [], f_boyuna = [], f_sira = []\<rparr>"

text \<open>\<open>_int_or_error\<close>: \<open>int(s)\<close>, and a value \<open><= 0\<close> rejected except in the desk
  structure field.\<close>

definition int_or_error :: "string \<Rightarrow> alan \<Rightarrow> hata_nedeni + int" where
  "int_or_error s a =
     (case py_int s of
        None \<Rightarrow> Inl (AlanGecersiz a)
      | Some x \<Rightarrow> if x \<le> 0 \<and> a \<noteq> SiraYapisi then Inl (AlanGecersiz a) else Inr x)"

text \<open>\<open>_yenile\<close>: the tree is refilled from \<open>derslik_listele\<close>, each row under the iid
  \<open>str(row["id"])\<close>.\<close>

definition yenile :: "yvt \<Rightarrow> derslik_ekrani \<Rightarrow> derslik_ekrani" where
  "yenile v e = e\<lparr>de_liste := map (\<lambda>d. (py_str (ds_id d), d)) (derslik_listele (de_koordinator e) v)\<rparr>"

text \<open>\<open>_liste_secildi\<close>: the selected row's values, each through \<open>str\<close>, fill the form.\<close>

definition liste_secildi :: "string \<Rightarrow> derslik_ekrani \<Rightarrow> derslik_ekrani" where
  "liste_secildi iid e =
     (case map_of (de_liste e) iid of
        None \<Rightarrow> e
      | Some d \<Rightarrow> e\<lparr>de_secili := Some iid,
          de_form := \<lparr>f_kodu = ds_kodu d, f_adi = ds_adi d, f_kapasite = py_str (ds_kapasite d),
                      f_enine = py_str (ds_enine d), f_boyuna = py_str (ds_boyuna d),
                      f_sira = py_str (ds_sira_yapisi d)\<rparr>\<rparr>)"

text \<open>The validation shared by \<open>_ekle\<close> and \<open>_guncelle\<close>: required code and name, then the
  four numbers in the order of the source, the first failure winning.\<close>

definition form_oku :: "derslik_formu \<Rightarrow> hata_nedeni + (string \<times> string \<times> int \<times> int \<times> int \<times> int)" where
  "form_oku f =
     (let kodu = py_strip (f_kodu f); adi = py_strip (f_adi f) in
      if kodu = [] \<or> adi = [] then Inl ZorunluAlan
      else case int_or_error (f_kapasite f) Kapasite of Inl h \<Rightarrow> Inl h | Inr kap \<Rightarrow>
           case int_or_error (f_enine f) Enine of Inl h \<Rightarrow> Inl h | Inr en \<Rightarrow>
           case int_or_error (f_boyuna f) Boyuna of Inl h \<Rightarrow> Inl h | Inr boy \<Rightarrow>
           case int_or_error (f_sira f) SiraYapisi of Inl h \<Rightarrow> Inl h | Inr sira \<Rightarrow>
           Inr (kodu, adi, kap, en, boy, sira))"

definition ekle :: "derslik_ekrani \<Rightarrow> yvt \<Rightarrow> derslik_ekrani \<times> yvt" where
  "ekle e v =
     (case form_oku (de_form e) of
        Inl h \<Rightarrow> (e\<lparr>de_mesaj := Some (Hata h)\<rparr>, v)
      | Inr (kodu, adi, kap, en, boy, sira) \<Rightarrow>
          (case derslik_ekle (de_koordinator e) kodu adi kap en boy sira v of
             Inl err \<Rightarrow> (e\<lparr>de_mesaj := Some (Hata (DepoHatasi err))\<rparr>, v)
           | Inr v' \<Rightarrow>
               let e1 = (yenile v' (e\<lparr>de_mesaj := Some Bilgi_DerslikEklendi\<rparr>))\<lparr>de_form := bos_form\<rparr>
               in (if de_geri_cagri e \<and> 0 < derslik_sayisi (de_koordinator e) v'
                   then e1\<lparr>de_import_acildi := Suc (de_import_acildi e1)\<rparr> else e1, v')))"

text \<open>\<open>_guncelle\<close> and \<open>_sil\<close> parse the selected iid with \<open>int()\<close> outside their
  \<open>try\<close>: a failure there escapes the handler (\<open>None\<close>).\<close>

definition guncelle :: "derslik_ekrani \<Rightarrow> yvt \<Rightarrow> (derslik_ekrani \<times> yvt) option" where
  "guncelle e v =
     (case de_secili e of
        None \<Rightarrow> Some (e\<lparr>de_mesaj := Some Uyari_SatirSecin\<rparr>, v)
      | Some iid \<Rightarrow>
          (case py_int iid of
             None \<Rightarrow> None
           | Some did \<Rightarrow>
               (case form_oku (de_form e) of
                  Inl h \<Rightarrow> Some (e\<lparr>de_mesaj := Some (Hata h)\<rparr>, v)
                | Inr (kodu, adi, kap, en, boy, sira) \<Rightarrow>
                    (case derslik_guncelle (de_koordinator e) did kodu adi kap en boy sira v of
                       Inl err \<Rightarrow> Some (e\<lparr>de_mesaj := Some (Hata (DepoHatasi err))\<rparr>, v)
                     | Inr v' \<Rightarrow> Some (yenile v' (e\<lparr>de_mesaj := Some Bilgi_DerslikGuncellendi\<rparr>), v')))))"

definition sil :: "bool \<Rightarrow> derslik_ekrani \<Rightarrow> yvt \<Rightarrow> (derslik_ekrani \<times> yvt) option" where
  "sil onay e v =
     (case de_secili e of
        None \<Rightarrow> Some (e\<lparr>de_mesaj := Some Uyari_SatirSecin\<rparr>, v)
      | Some iid \<Rightarrow>
          (case py_int iid of
             None \<Rightarrow> None
           | Some did \<Rightarrow>
               if \<not> onay then Some (e, v)
               else (case derslik_sil (de_koordinator e) did v of
                       Inl err \<Rightarrow> Some (e\<lparr>de_mesaj := Some (Hata (DepoHatasi err))\<rparr>, v)
                     | Inr v' \<Rightarrow> Some ((yenile v' (e\<lparr>de_mesaj := Some Bilgi_DerslikSilindi\<rparr>))\<lparr>de_form := bos_form\<rparr>, v'))))"

definition ara_goster :: "string \<Rightarrow> derslik_ekrani \<Rightarrow> yvt \<Rightarrow> derslik_ekrani" where
  "ara_goster arama e v =
     (case py_int arama of
        None \<Rightarrow> e\<lparr>de_mesaj := Some (Hata GecersizSayi)\<rparr>
      | Some sid \<Rightarrow>
          (case derslik_ara_id (de_koordinator e) sid v of
             None \<Rightarrow> e\<lparr>de_mesaj := Some Uyari_DerslikBulunamadi\<rparr>
           | Some d \<Rightarrow> e\<lparr>de_cizim := Some (ds_enine d, ds_boyuna d, ds_sira_yapisi d)\<rparr>))"

definition oda_ornek_1 :: derslik_satir where
  "oda_ornek_1 = \<lparr>ds_id = 1, ds_bolum_id = 1, ds_kodu = ''D1'', ds_adi = ''Amfi'', ds_kapasite = 40, ds_enine = 8,
        ds_boyuna = 5, ds_sira_yapisi = 2\<rparr>"

definition ekran_ornek :: derslik_ekrani where
  "ekran_ornek = \<lparr>de_koordinator = koordinator_ornek, de_form = bos_form, de_liste = [], de_secili = None,
     de_mesaj = None, de_cizim = None, de_geri_cagri = True, de_import_acildi = 0\<rparr>"

definition form_sira_negatif :: derslik_formu where
  "form_sira_negatif = \<lparr>f_kodu = '' D7 '', f_adi = ''Lab 2'', f_kapasite = ''30'', f_enine = ''6'',
     f_boyuna = ''5'', f_sira = ''-3''\<rparr>"


subsection \<open>The handlers\<close>

lemma derslik_listele_satir:
  assumes "d \<in> set (derslik_listele k v)"
  shows "d \<in> set (yv_derslikler v)" "bolumun k d" "ku_rol k = ''koordinator''"
  using assms by (auto simp: derslik_listele_def split: if_splits)

lemma derslik_listele_distinct:
  "derslik_inv (yv_derslikler v) \<Longrightarrow> distinct (map ds_id (derslik_listele k v))"
  by (simp add: derslik_listele_def derslik_inv_def distinct_map_sort_key distinct_map_filter)

lemma yenile_secim:
  assumes "derslik_inv (yv_derslikler v)" "d \<in> set (derslik_listele (de_koordinator e) v)"
  shows "map_of (de_liste (yenile v e)) (py_str (ds_id d)) = Some d"
proof -
  have "distinct (map (\<lambda>d. py_str (ds_id d)) (derslik_listele (de_koordinator e) v))"
    using derslik_listele_distinct [OF assms(1)] py_str_inj
    by (simp add: distinct_map inj_on_def)
  then show ?thesis using assms(2)
    by (intro map_of_is_SomeI) (auto simp: yenile_def comp_def)
qed

lemma int_or_error_py_str: "0 < x \<or> a = SiraYapisi \<Longrightarrow> int_or_error (py_str x) a = Inr x"
  by (auto simp: int_or_error_def py_str_geri_okunur)

lemma form_oku_satir:
  assumes "py_strip (ds_kodu d) = ds_kodu d" "ds_kodu d \<noteq> []" "py_strip (ds_adi d) = ds_adi d" "ds_adi d \<noteq> []"
    and "0 < ds_kapasite d" "0 < ds_enine d" "0 < ds_boyuna d"
  shows "form_oku \<lparr>f_kodu = ds_kodu d, f_adi = ds_adi d, f_kapasite = py_str (ds_kapasite d),
      f_enine = py_str (ds_enine d), f_boyuna = py_str (ds_boyuna d), f_sira = py_str (ds_sira_yapisi d)\<rparr> =
    Inr (ds_kodu d, ds_adi d, ds_kapasite d, ds_enine d, ds_boyuna d, ds_sira_yapisi d)"
  using assms by (simp add: form_oku_def int_or_error_py_str)

lemma derslik_guncelle_ayni:
  assumes "derslik_inv (yv_derslikler v)" "d \<in> set (yv_derslikler v)" "bolumun k d" "ku_rol k = ''koordinator''"
  shows "derslik_guncelle k (ds_id d) (ds_kodu d) (ds_adi d) (ds_kapasite d) (ds_enine d) (ds_boyuna d)
           (ds_sira_yapisi d) v = Inr v"
proof -
  have idler: "inj_on ds_id (set (yv_derslikler v))" and ciftler: "inj_on (\<lambda>d. (ds_bolum_id d, ds_kodu d)) (set (yv_derslikler v))"
    using assms(1) by (simp_all add: derslik_inv_def distinct_map)
  have ayni: "x = d" if "x \<in> set (yv_derslikler v)" "ds_id x = ds_id d" for x
    using inj_onD [OF idler] that assms(2) by blast
  have baska_yok: "\<not> (\<not> (ds_id y = ds_id d \<and> bolumun k y) \<and> bolumun k y \<and> ds_kodu y = ds_kodu d)"
    if "y \<in> set (yv_derslikler v)" for y
  proof
    assume a: "\<not> (ds_id y = ds_id d \<and> bolumun k y) \<and> bolumun k y \<and> ds_kodu y = ds_kodu d"
    then have "ds_bolum_id y = ds_bolum_id d" using assms(3) unfolding bolumun_def by (metis option.inject)
    then have "y = d" using inj_onD [OF ciftler] a that assms(2) by auto
    then show False using a by simp
  qed
  have "map (\<lambda>x. if ds_id x = ds_id d \<and> bolumun k x then x\<lparr>ds_kodu := ds_kodu d, ds_adi := ds_adi d,
          ds_kapasite := ds_kapasite d, ds_enine := ds_enine d, ds_boyuna := ds_boyuna d,
          ds_sira_yapisi := ds_sira_yapisi d\<rparr> else x) (yv_derslikler v) = yv_derslikler v"
    by (rule map_idI) (auto dest: ayni)
  then show ?thesis using baska_yok assms(4) by (auto simp: derslik_guncelle_def Let_def list_ex_iff)
qed

text \<open>Selecting a room in the list (\<open>_liste_secildi\<close> after \<open>_yenile\<close>) and pressing
  Guncelle (update) without editing the form writes the room back unchanged: the database is the same and
  the screen shows the success message, for every room whose code and name carry no outer blanks
  and whose capacity and dimensions are positive, as the screen's own checks ensure.\<close>

theorem secili_satir_guncelle:
  assumes "derslik_inv (yv_derslikler v)" "d \<in> set (derslik_listele (de_koordinator e) v)"
    and "py_strip (ds_kodu d) = ds_kodu d" "ds_kodu d \<noteq> []" "py_strip (ds_adi d) = ds_adi d" "ds_adi d \<noteq> []"
    and "0 < ds_kapasite d" "0 < ds_enine d" "0 < ds_boyuna d"
  shows "guncelle (liste_secildi (py_str (ds_id d)) (yenile v e)) v =
     Some (yenile v ((liste_secildi (py_str (ds_id d)) (yenile v e))\<lparr>de_mesaj := Some Bilgi_DerslikGuncellendi\<rparr>), v)"
proof -
  note s = derslik_listele_satir [OF assms(2)]
  have "liste_secildi (py_str (ds_id d)) (yenile v e) = (yenile v e)\<lparr>de_secili := Some (py_str (ds_id d)),
          de_form := \<lparr>f_kodu = ds_kodu d, f_adi = ds_adi d, f_kapasite = py_str (ds_kapasite d),
                      f_enine = py_str (ds_enine d), f_boyuna = py_str (ds_boyuna d),
                      f_sira = py_str (ds_sira_yapisi d)\<rparr>\<rparr>"
    using yenile_secim [OF assms(1,2)] by (simp add: liste_secildi_def)
  then show ?thesis
    using form_oku_satir [OF assms(3-9)] derslik_guncelle_ayni [OF assms(1) s(1,2,3)]
    by (simp add: guncelle_def py_str_geri_okunur yenile_def)
qed

text \<open>The add handler \<open>_ekle\<close> never lets an error escape: either the database is unchanged
  and an error box is shown (a missing field, an invalid number, or the error of
  \<open>derslik_ekle\<close>), or \<open>derslik_ekle\<close> succeeded with the validated form, the success box is
  shown, the form is cleared and the list shows the department's rooms of the new database.\<close>

theorem ekle_sonucu:
  assumes "ekle e v = (e', v')"
  shows "(v' = v \<and> (\<exists>h. de_mesaj e' = Some (Hata h))) \<or>
    (\<exists>kodu adi kap en boy sira. form_oku (de_form e) = Inr (kodu, adi, kap, en, boy, sira) \<and>
       derslik_ekle (de_koordinator e) kodu adi kap en boy sira v = Inr v' \<and>
       de_mesaj e' = Some Bilgi_DerslikEklendi \<and> de_form e' = bos_form \<and>
       map snd (de_liste e') = derslik_listele (de_koordinator e) v')"
  using assms by (auto simp: ekle_def yenile_def comp_def Let_def split: sum.splits prod.splits if_splits)

lemmas ekran_simps = yonetim_ornek_simps oda_ornek_1_def ekran_ornek_def form_sira_negatif_def bos_form_def
  derslik_inv_def derslik_listele_def yenile_def liste_secildi_def

theorem secili_satir_guncelle_witness:
  "derslik_inv (yv_derslikler yvt_ornek_d) \<and> oda_ornek_1 \<in> set (derslik_listele (de_koordinator ekran_ornek) yvt_ornek_d) \<and>
   guncelle (liste_secildi (py_str 1) (yenile yvt_ornek_d ekran_ornek)) yvt_ornek_d =
     Some (yenile yvt_ornek_d ((liste_secildi (py_str 1) (yenile yvt_ornek_d ekran_ornek))\<lparr>de_mesaj := Some Bilgi_DerslikGuncellendi\<rparr>), yvt_ornek_d)"
proof -
  have i: "derslik_inv (yv_derslikler yvt_ornek_d)" and m: "oda_ornek_1 \<in> set (derslik_listele (de_koordinator ekran_ornek) yvt_ornek_d)"
    by (simp_all add: ekran_simps)
  have k: "py_strip (ds_kodu oda_ornek_1) = ds_kodu oda_ornek_1" "py_strip (ds_adi oda_ornek_1) = ds_adi oda_ornek_1"
    by (simp_all add: oda_ornek_1_def py_strip_def py_bosluk_def)
  show ?thesis using secili_satir_guncelle [OF i m k(1) _ k(2)] i m by (simp add: oda_ornek_1_def)
qed

theorem ekle_sonucu_witness:
  "(snd (ekle (ekran_ornek\<lparr>de_form := form_sira_negatif\<rparr>) yvt_ornek_d) = yvt_ornek_d \<and>
      (\<exists>h. de_mesaj (fst (ekle (ekran_ornek\<lparr>de_form := form_sira_negatif\<rparr>) yvt_ornek_d)) = Some (Hata h))) \<or>
   (\<exists>kodu adi kap en boy sira. form_oku form_sira_negatif = Inr (kodu, adi, kap, en, boy, sira) \<and>
       derslik_ekle koordinator_ornek kodu adi kap en boy sira yvt_ornek_d = Inr (snd (ekle (ekran_ornek\<lparr>de_form := form_sira_negatif\<rparr>) yvt_ornek_d)) \<and>
       de_mesaj (fst (ekle (ekran_ornek\<lparr>de_form := form_sira_negatif\<rparr>) yvt_ornek_d)) = Some Bilgi_DerslikEklendi \<and>
       de_form (fst (ekle (ekran_ornek\<lparr>de_form := form_sira_negatif\<rparr>) yvt_ornek_d)) = bos_form \<and>
       map snd (de_liste (fst (ekle (ekran_ornek\<lparr>de_form := form_sira_negatif\<rparr>) yvt_ornek_d))) =
         derslik_listele koordinator_ornek (snd (ekle (ekran_ornek\<lparr>de_form := form_sira_negatif\<rparr>) yvt_ornek_d)))"
  using ekle_sonucu [of "ekran_ornek\<lparr>de_form := form_sira_negatif\<rparr>" yvt_ornek_d
      "fst (ekle (ekran_ornek\<lparr>de_form := form_sira_negatif\<rparr>) yvt_ornek_d)" "snd (ekle (ekran_ornek\<lparr>de_form := form_sira_negatif\<rparr>) yvt_ornek_d)"]
  by (simp add: ekran_ornek_def)

text \<open>The desk structure field is exempt from the positivity check of \<open>_int_or_error\<close>:
  the form stores a room with desk structure \<open>-3\<close>, although the field is labelled 2/3/4 and the
  specification knows only groups of 2 or 3.\<close>

theorem ekle_sira_yapisi_negatif:
  "derslik_ara_id koordinator_ornek 3 (snd (ekle (ekran_ornek\<lparr>de_form := form_sira_negatif\<rparr>) yvt_ornek_d)) =
     Some \<lparr>ds_id = 3, ds_bolum_id = 1, ds_kodu = ''D7'', ds_adi = ''Lab 2'', ds_kapasite = 30, ds_enine = 6,
       ds_boyuna = 5, ds_sira_yapisi = -3\<rparr>"
  by (simp add: ekran_simps ekle_def form_oku_def int_or_error_def py_int_def py_strip_def py_bosluk_def
      rakam_dizisi_def rakam_mi_def rakamlar_degeri_def rakam_degeri_def derslik_sayisi_def)

end
