(* ===== verification/PlanGirdisi.thy ===== *)
theory PlanGirdisi
  imports Planlayici Python_Yerlesik
begin

text \<open>
  The input layer of \<open>src/planner.py\<close>: the helpers \<open>_normalize_gun_disi\<close>,
  \<open>_to_time\<close> and \<open>_normalize_ders_sureleri\<close>, the dataclass \<open>PlanKisit\<close> with its
  \<open>__post_init__\<close>, and the first part of \<open>planla\<close> (lines 219--295), which turns either a
  \<open>PlanKisit\<close> or a dictionary with alias keys into the settings \<open>plan_ayar\<close> that the loops
  of theory \<open>Planlayici\<close> run on.  Inputs are Python values (\<open>pdeger\<close> of theory
  \<open>Python_Yerlesik\<close>); every \<open>int()\<close>, iteration or key lookup that can raise is an
  \<open>Inl\<close> branch.  The entry point \<open>planla_py\<close> composes this layer with
  \<open>planla_ayar\<close>.  Two representation choices: a weekday name is a string of code points
  below 256, so the three spellings of \<open>_TR_TO_WEEKDAY\<close> with a dotless i or an s-cedilla
  (letters above 255) are outside the model, while their ASCII spellings are in it; the planning dates must be dates (\<open>PTarih\<close>), a \<open>TypeError\<close> otherwise, where
  Python would fail at their first use in the day loop.
\<close>

subsection \<open>The helpers\<close>

definition gun_adlari :: "(string \<times> int) list" where
  "gun_adlari = [(''pazartesi'', 0), (''sali'', 1), (''carsamba'', 2), (''persembe'', 3),
                 (''cuma'', 4), (''cumartesi'', 5), (''pazar'', 6)]"

text \<open>One element of the excluded days: an \<open>int\<close> (or \<open>bool\<close>) in 0..6, a digit string
  in 0..6, or a weekday name; anything else is skipped.  \<open>int()\<close> of a string that
  \<open>isdigit\<close> accepts can still fail (a superscript digit) and raises.\<close>

definition gun_ogesi :: "pdeger \<Rightarrow> girdi_hatasi + int list" where
  "gun_ogesi it =
     (case it of
        PBool b \<Rightarrow> Inr (if b then [1] else [0])
      | PInt n \<Rightarrow> Inr (if 0 \<le> n \<and> n \<le> 6 then [n] else [])
      | PStr s \<Rightarrow>
          (let t = py_lower (py_strip s);
               ad = (case map_of gun_adlari t of Some n \<Rightarrow> [n] | None \<Rightarrow> [])
           in if py_isdigit t then
                (case py_int t of
                   None \<Rightarrow> Inl DegerHatasi
                 | Some n \<Rightarrow> Inr (if 0 \<le> n \<and> n \<le> 6 then [n] else ad))
              else Inr ad)
      | _ \<Rightarrow> Inr [])"

fun gunler_dongusu :: "pdeger list \<Rightarrow> girdi_hatasi + int list" where
  "gunler_dongusu [] = Inr []"
| "gunler_dongusu (it # its) = sbind (gun_ogesi it) (\<lambda>ns. sbind (gunler_dongusu its) (\<lambda>ms. Inr (ns @ ms)))"

definition normalize_gun_disi_py :: "pdeger \<Rightarrow> girdi_hatasi + int list" where
  "normalize_gun_disi_py v =
     (if \<not> py_bool v then Inr []
      else case py_iter v of None \<Rightarrow> Inl TipHatasi | Some its \<Rightarrow> gunler_dongusu its)"

text \<open>\<open>_to_time\<close>: a time is kept; otherwise \<open>str(x).strip()\<close> split at \<open>":"\<close> must give
  two integers forming a valid \<open>time(hh, mm)\<close>, and every failure gives \<open>None\<close>.  Only a
  string can pass: \<open>str()\<close> of an integer, boolean, date or \<open>None\<close> has no colon, and that of a
  container starts with a bracket, which \<open>int()\<close> rejects.\<close>

definition saat_coz :: "string \<Rightarrow> nat option" where
  "saat_coz s =
     (case py_bol CHR '':'' (py_strip s) of
        [hh, mm] \<Rightarrow>
          (case (py_int hh, py_int mm) of
             (Some h, Some m) \<Rightarrow> if 0 \<le> h \<and> h \<le> 23 \<and> 0 \<le> m \<and> m \<le> 59 then Some (nat (h * 60 + m)) else None
           | _ \<Rightarrow> None)
      | _ \<Rightarrow> None)"

definition to_time :: "pdeger \<Rightarrow> nat option" where
  "to_time x = (case x of PZaman t \<Rightarrow> Some t | PStr s \<Rightarrow> saat_coz s | _ \<Rightarrow> None)"

text \<open>\<open>_normalize_ders_sureleri\<close>: per-course durations from a dictionary, a list of pairs or
  a list of dictionaries with the keys \<open>ders_id\<close>/\<open>id\<close> and \<open>sure\<close>/\<open>dk\<close>; an entry whose
  \<open>int()\<close> fails is skipped.  The result is a Python dictionary of integers.\<close>

definition sure_koy :: "pdeger \<Rightarrow> pdeger \<Rightarrow> (int \<times> int) list \<Rightarrow> (int \<times> int) list" where
  "sure_koy k v out =
     (case (py_int_deger k, py_int_deger v) of (Inr a, Inr b) \<Rightarrow> py_dict_set a b out | _ \<Rightarrow> out)"

definition sure_ogesi :: "(int \<times> int) list \<Rightarrow> pdeger \<Rightarrow> (int \<times> int) list" where
  "sure_ogesi out it =
     (case it of
        PListe (a # b # _) \<Rightarrow> sure_koy a b out
      | PSozluk ps \<Rightarrow>
          (let cid = py_get ps (PStr ''ders_id'') (py_get ps (PStr ''id'') PNone);
               dk = py_get ps (PStr ''sure'') (py_get ps (PStr ''dk'') PNone)
           in if cid \<noteq> PNone \<and> dk \<noteq> PNone then sure_koy cid dk out else out)
      | _ \<Rightarrow> out)"

definition normalize_ders_sureleri :: "pdeger \<Rightarrow> (int \<times> int) list" where
  "normalize_ders_sureleri v =
     (if \<not> py_bool v then []
      else case v of
        PSozluk ps \<Rightarrow> fold (\<lambda>(k, val) out. sure_koy k val out) ps []
      | PListe its \<Rightarrow> fold (\<lambda>it out. sure_ogesi out it) its []
      | _ \<Rightarrow> [])"

definition sure_sozlugu :: "(int \<times> int) list \<Rightarrow> pdeger" where
  "sure_sozlugu ds = PSozluk (map (\<lambda>(a, b). (PInt a, PInt b)) ds)"

subsection \<open>\<open>PlanKisit\<close>\<close>

text \<open>The dataclass: every field as given to the constructor, and the two fields
  \<open>_slotlar\<close> and \<open>_ders_sure_map\<close> that \<open>__post_init__\<close> fills.\<close>

record plan_kisit_py =
  pk_tarih_bas :: pdeger
  pk_tarih_bit :: pdeger
  pk_slot_saatleri :: pdeger
  pk_gunluk_slot_saatleri :: pdeger
  pk_varsayilan_sure_dk :: pdeger
  pk_default_sure :: pdeger
  pk_sure_dk :: pdeger
  pk_vars_sure_dk :: pdeger
  pk_bekleme_dk :: pdeger
  pk_bekleme :: pdeger
  pk_bekleme_suresi_dk :: pdeger
  pk_sinav_turu :: pdeger
  pk_tek_seans :: pdeger
  pk_paralel_yasak :: pdeger
  pk_tek_oturum :: pdeger
  pk_dahil_ders_ids :: pdeger
  pk_gun_disi :: pdeger
  pk_ders_istisna_sure :: pdeger
  pk_ders_sureleri :: pdeger
  pk_ders_ozel_sureleri :: pdeger
  pk_per_ders_sure :: pdeger
  pk_slotlar :: "nat list"
  pk_ders_sure_map :: "(int \<times> int) list"

definition plan_kisit_kur :: "pdeger \<Rightarrow> pdeger \<Rightarrow> plan_kisit_py" where
  "plan_kisit_kur t1 t2 = \<lparr>pk_tarih_bas = t1, pk_tarih_bit = t2, pk_slot_saatleri = PNone,
     pk_gunluk_slot_saatleri = PNone, pk_varsayilan_sure_dk = PNone, pk_default_sure = PNone, pk_sure_dk = PNone,
     pk_vars_sure_dk = PNone, pk_bekleme_dk = PNone, pk_bekleme = PNone, pk_bekleme_suresi_dk = PNone,
     pk_sinav_turu = PStr ''vize'', pk_tek_seans = PNone, pk_paralel_yasak = PNone, pk_tek_oturum = PNone,
     pk_dahil_ders_ids = PNone, pk_gun_disi = PNone, pk_ders_istisna_sure = PNone, pk_ders_sureleri = PNone,
     pk_ders_ozel_sureleri = PNone, pk_per_ders_sure = PNone, pk_slotlar = [], pk_ders_sure_map = []\<rparr>"

text \<open>\<open>next((int(x) for x in xs if x is not None), d)\<close>, and the same without \<open>int\<close>.\<close>

fun ilk_int :: "pdeger list \<Rightarrow> int \<Rightarrow> girdi_hatasi + int" where
  "ilk_int [] d = Inr d"
| "ilk_int (x # xs) d = (if x = PNone then ilk_int xs d else py_int_deger x)"

fun ilk_deger :: "pdeger list \<Rightarrow> pdeger \<Rightarrow> pdeger" where
  "ilk_deger [] d = d"
| "ilk_deger (x # xs) d = (if x = PNone then ilk_deger xs d else x)"

text \<open>\<open>a or b or c or d\<close>: the first true operand, else the last.\<close>

fun py_or :: "pdeger list \<Rightarrow> pdeger" where
  "py_or [] = PNone"
| "py_or [x] = x"
| "py_or (x # xs) = (if py_bool x then x else py_or xs)"

definition slotlari_topla :: "pdeger \<Rightarrow> girdi_hatasi + nat list" where
  "slotlari_topla raw =
     (if \<not> py_bool raw then Inr []
      else case py_iter raw of
        None \<Rightarrow> Inl TipHatasi
      | Some xs \<Rightarrow> Inr (List.map_filter to_time xs))"

definition post_init :: "plan_kisit_py \<Rightarrow> girdi_hatasi + plan_kisit_py" where
  "post_init p =
     sbind (slotlari_topla (if pk_slot_saatleri p \<noteq> PNone then pk_slot_saatleri p else pk_gunluk_slot_saatleri p))
       (\<lambda>slotlar.
     sbind (ilk_int [pk_varsayilan_sure_dk p, pk_default_sure p, pk_sure_dk p, pk_vars_sure_dk p] 75)
       (\<lambda>sure.
     sbind (ilk_int [pk_bekleme_dk p, pk_bekleme p, pk_bekleme_suresi_dk p] 0)
       (\<lambda>bekleme.
     Inr (p\<lparr>pk_slotlar := slotlar, pk_varsayilan_sure_dk := PInt sure, pk_bekleme_dk := PInt bekleme,
            pk_tek_seans := PBool (py_bool (ilk_deger [pk_tek_seans p, pk_paralel_yasak p, pk_tek_oturum p] (PBool False))),
            pk_ders_sure_map := normalize_ders_sureleri (py_or [pk_ders_istisna_sure p, pk_ders_sureleri p,
                                  pk_ders_ozel_sureleri p, pk_per_ders_sure p])\<rparr>))))"

subsection \<open>\<open>planla\<close> up to its loops\<close>

text \<open>A \<open>PlanKisit\<close> becomes the dictionary of lines 219--231.\<close>

definition nesne_sozlugu :: "plan_kisit_py \<Rightarrow> (string \<times> pdeger) list" where
  "nesne_sozlugu p =
     [(''tarih_bas'', pk_tarih_bas p), (''tarih_bit'', pk_tarih_bit p),
      (''slot_saatleri'', PListe (map PZaman (pk_slotlar p))),
      (''varsayilan_sure_dk'', pk_varsayilan_sure_dk p), (''bekleme_dk'', pk_bekleme_dk p),
      (''sinav_turu'', pk_sinav_turu p), (''tek_seans'', pk_tek_seans p),
      (''dahil_ders_ids'', pk_dahil_ders_ids p), (''gun_disi'', pk_gun_disi p),
      (''ders_istisna_sure'', sure_sozlugu (pk_ders_sure_map p))]"

text \<open>The first alias present with a value other than \<open>None\<close> (a true value for the
  per-course durations).\<close>

fun ilk_alias :: "(pdeger \<Rightarrow> bool) \<Rightarrow> (string \<times> pdeger) list \<Rightarrow> string list \<Rightarrow> pdeger option" where
  "ilk_alias P k [] = None"
| "ilk_alias P k (a # as) = (case map_of k a of Some x \<Rightarrow> if P x then Some x else ilk_alias P k as | None \<Rightarrow> ilk_alias P k as)"

definition anahtar_var :: "(string \<times> pdeger) list \<Rightarrow> string \<Rightarrow> bool" where
  "anahtar_var k a = (map_of k a \<noteq> None)"

text \<open>The alias resolution of a dictionary (lines 233--270).\<close>

definition sozluk_aliaslari :: "(string \<times> pdeger) list \<Rightarrow> girdi_hatasi + (string \<times> pdeger) list" where
  "sozluk_aliaslari k0 =
     (let k1 = (if \<not> anahtar_var k0 ''slot_saatleri'' \<and> anahtar_var k0 ''gunluk_slot_saatleri''
                then py_dict_set ''slot_saatleri''
                       (let g = py_get k0 ''gunluk_slot_saatleri'' PNone in if py_bool g then g else PListe []) k0
                else k0)
      in sbind (if anahtar_var k1 ''varsayilan_sure_dk'' then Inr k1
                else case ilk_alias (\<lambda>x. x \<noteq> PNone) k1 [''default_sure'', ''sure_dk'', ''vars_sure_dk''] of
                       None \<Rightarrow> Inr k1
                     | Some x \<Rightarrow> sbind (py_int_deger x) (\<lambda>n. Inr (py_dict_set ''varsayilan_sure_dk'' (PInt n) k1)))
       (\<lambda>k2. sbind (if anahtar_var k2 ''bekleme_dk'' then Inr k2
                else case ilk_alias (\<lambda>x. x \<noteq> PNone) k2 [''bekleme'', ''bekleme_suresi_dk''] of
                       None \<Rightarrow> Inr k2
                     | Some x \<Rightarrow> sbind (py_int_deger x) (\<lambda>n. Inr (py_dict_set ''bekleme_dk'' (PInt n) k2)))
       (\<lambda>k3. let k4 = (if anahtar_var k3 ''tek_seans'' then k3
                       else case ilk_alias (\<lambda>x. x \<noteq> PNone) k3 [''paralel_yasak'', ''tek_oturum''] of
                              None \<Rightarrow> k3
                            | Some x \<Rightarrow> py_dict_set ''tek_seans'' (PBool (py_bool x)) k3);
                 k5 = (if anahtar_var k4 ''ders_istisna_sure''
                       then py_dict_set ''ders_istisna_sure''
                              (sure_sozlugu (normalize_ders_sureleri (py_get k4 ''ders_istisna_sure'' PNone))) k4
                       else case ilk_alias py_bool k4 [''ders_sureleri'', ''ders_ozel_sureleri'', ''per_ders_sure''] of
                              None \<Rightarrow> k4
                            | Some x \<Rightarrow> py_dict_set ''ders_istisna_sure'' (sure_sozlugu (normalize_ders_sureleri x)) k4)
             in Inr k5)))"

text \<open>The per-course durations as read by line 344 (\<open>ders_sure_map.get(ders_id)\<close>): the
  dictionary is one built by \<open>sure_sozlugu\<close>.\<close>

definition sure_haritasi :: "pdeger \<Rightarrow> kimlik \<rightharpoonup> int" where
  "sure_haritasi v = (\<lambda>i. case v of
     PSozluk ps \<Rightarrow> (case map_of ps (PInt i) of Some (PInt s) \<Rightarrow> Some s | _ \<Rightarrow> None)
   | _ \<Rightarrow> None)"

definition tarih_oku :: "(string \<times> pdeger) list \<Rightarrow> string \<Rightarrow> girdi_hatasi + int" where
  "tarih_oku k a =
     (case map_of k a of None \<Rightarrow> Inl (AnahtarHatasi a) | Some (PTarih g) \<Rightarrow> Inr g | Some _ \<Rightarrow> Inl TipHatasi)"

fun int_listesi :: "pdeger list \<Rightarrow> girdi_hatasi + int list" where
  "int_listesi [] = Inr []"
| "int_listesi (x # xs) = sbind (py_int_deger x) (\<lambda>n. sbind (int_listesi xs) (\<lambda>ns. Inr (n # ns)))"

text \<open>Lines 272--295: the settings read from the dictionary, and the course filter
  \<open>{int(i) for i in dahil_ders_ids}\<close>, in the order the source evaluates them.\<close>

definition kisit_oku :: "(string \<times> pdeger) list \<Rightarrow> girdi_hatasi + plan_ayar" where
  "kisit_oku k =
     sbind (case py_iter (py_get k ''slot_saatleri'' (PListe [])) of
              None \<Rightarrow> Inl TipHatasi | Some xs \<Rightarrow> Inr (List.map_filter to_time xs)) (\<lambda>slotlar.
     sbind (tarih_oku k ''tarih_bas'') (\<lambda>t1.
     sbind (tarih_oku k ''tarih_bit'') (\<lambda>t2.
     sbind (let v = py_get k ''varsayilan_sure_dk'' (PInt 75) in if py_bool v then py_int_deger v else Inr 75) (\<lambda>sure.
     sbind (let v = py_get k ''bekleme_dk'' (PInt 0) in if py_bool v then py_int_deger v else Inr 0) (\<lambda>bekleme.
     sbind (normalize_gun_disi_py (py_get k ''gun_disi'' PNone)) (\<lambda>gd.
     sbind (let v = py_get k ''dahil_ders_ids'' PNone in
            if py_bool v then (case py_iter v of None \<Rightarrow> Inl TipHatasi | Some xs \<Rightarrow> int_listesi xs) else Inr []) (\<lambda>dahil.
     Inr \<lparr>slot_saatleri = slotlar, tarih_bas = t1, tarih_bit = t2, default_sure_dk = sure, bekleme_dk = bekleme,
          tek_seans = py_bool (py_get k ''tek_seans'' (PBool False)), dahil_ders_ids = dahil, gun_disi = gd,
          ders_sure_map = sure_haritasi (let v = py_get k ''ders_istisna_sure'' PNone in
                                         if py_bool v then v else PSozluk [])\<rparr>)))))))"

datatype kisit_girdisi = Nesne plan_kisit_py | Sozluk "(string \<times> pdeger) list"

definition planla_py ::
  "kisit_girdisi \<Rightarrow> ders list \<Rightarrow> derslik list \<Rightarrow> girdi_hatasi + (yerlestirme list \<times> plan_uyari list \<times> bool)" where
  "planla_py g dersler derslikler =
     sbind (case g of Nesne p \<Rightarrow> Inr (nesne_sozlugu p) | Sozluk d \<Rightarrow> sozluk_aliaslari d) (\<lambda>k.
     sbind (kisit_oku k) (\<lambda>a.
     (let st = planla_ayar a dersler derslikler in Inr (yerlestirmeler st, uyarilar st, False))))"

subsection \<open>The constraint built by the exam schedule screen\<close>

text \<open>The \<open>PlanKisit(...)\<close> call of \<open>_olustur\<close> in
  \<open>src/arayuz/sinav_programi_penceresi.py\<close>, with the dates, the slot times, the exam type,
  the default duration, the buffer, the no-parallel flag, the excluded weekdays and the
  selected course ids the screen has read, and the typed constraint of theory
  \<open>Planlayici\<close> with the same values.\<close>

definition arayuz_kisiti ::
  "int \<Rightarrow> int \<Rightarrow> nat list \<Rightarrow> string \<Rightarrow> int \<Rightarrow> int \<Rightarrow> bool \<Rightarrow> int list \<Rightarrow> kimlik list \<Rightarrow> plan_kisit_py" where
  "arayuz_kisiti t1 t2 saatler tur sure bekleme nopar gd dahil =
     (plan_kisit_kur (PTarih t1) (PTarih t2))\<lparr>pk_dahil_ders_ids := PListe (map PInt dahil),
        pk_gun_disi := PListe (map PInt gd), pk_gunluk_slot_saatleri := PListe (map PZaman saatler),
        pk_sinav_turu := PStr tur, pk_default_sure := PInt sure, pk_ders_istisna_sure := PSozluk [],
        pk_bekleme_dk := PInt bekleme, pk_paralel_yasak := PBool nopar\<rparr>"

definition arayuz_plan_kisit ::
  "int \<Rightarrow> int \<Rightarrow> nat list \<Rightarrow> string \<Rightarrow> int \<Rightarrow> int \<Rightarrow> bool \<Rightarrow> int list \<Rightarrow> kimlik list \<Rightarrow> plan_kisit" where
  "arayuz_plan_kisit t1 t2 saatler tur sure bekleme nopar gd dahil =
     \<lparr>k_tarih_bas = t1, k_tarih_bit = t2, k_slotlar = saatler, k_varsayilan_sure_dk = sure,
      k_bekleme_dk = bekleme, k_sinav_turu = tur, k_tek_seans = nopar, k_dahil_ders_ids = Some dahil,
      k_gun_disi = gd, k_ders_sure_map = Map.empty\<rparr>"

subsection \<open>The screen's constraint reaches the typed planner\<close>

lemma map_filter_zaman: "List.map_filter to_time (map PZaman xs) = xs"
  by (induction xs) (simp_all add: List.map_filter_simps to_time_def)

lemma gunler_dongusu_int: "gunler_dongusu (map PInt g) = Inr (filter (\<lambda>n. 0 \<le> n \<and> n \<le> 6) g)"
proof (induction g)
  case (Cons a g)
  then show ?case by (simp add: gun_ogesi_def sbind_def)
qed simp

lemma int_listesi_int: "int_listesi (map PInt xs) = Inr xs"
  by (induction xs) (simp_all add: sbind_def)

lemma post_init_arayuz:
  "post_init (arayuz_kisiti t1 t2 saatler tur sure bekleme nopar gd dahil) =
     Inr ((arayuz_kisiti t1 t2 saatler tur sure bekleme nopar gd dahil)\<lparr>pk_slotlar := saatler,
        pk_varsayilan_sure_dk := PInt sure, pk_bekleme_dk := PInt bekleme, pk_tek_seans := PBool nopar,
        pk_ders_sure_map := []\<rparr>)"
  by (simp add: post_init_def arayuz_kisiti_def plan_kisit_kur_def slotlari_topla_def sbind_def map_filter_zaman
      normalize_ders_sureleri_def)

lemma kisit_oku_arayuz:
  "kisit_oku (nesne_sozlugu ((arayuz_kisiti t1 t2 saatler tur sure bekleme nopar gd dahil)\<lparr>pk_slotlar := saatler,
        pk_varsayilan_sure_dk := PInt sure, pk_bekleme_dk := PInt bekleme, pk_tek_seans := PBool nopar,
        pk_ders_sure_map := []\<rparr>)) =
   Inr (plan_ayari (arayuz_plan_kisit t1 t2 saatler tur sure bekleme nopar gd dahil))"
proof -
  have g: "normalize_gun_disi_py (PListe (map PInt gd)) = Inr (normalize_gun_disi gd)"
    using gunler_dongusu_int [of gd] by (cases gd) (simp_all add: normalize_gun_disi_py_def normalize_gun_disi_def del: gunler_dongusu.simps)
  have d: "(if py_bool (PListe (map PInt dahil)) then (case py_iter (PListe (map PInt dahil)) of None \<Rightarrow> Inl TipHatasi
            | Some xs \<Rightarrow> int_listesi xs) else Inr []) = Inr dahil"
    using int_listesi_int [of dahil] by (cases dahil) (simp_all del: int_listesi.simps)
  have s: "sure_haritasi (PSozluk []) = Map.empty" by (simp add: sure_haritasi_def fun_eq_iff)
  show ?thesis
    using g d s by (simp add: kisit_oku_def nesne_sozlugu_def arayuz_kisiti_def plan_kisit_kur_def arayuz_plan_kisit_def
        plan_ayari_def py_get_def tarih_oku_def sbind_def map_filter_zaman sure_sozlugu_def Let_def)
qed

text \<open>C31: The constraint object the exam schedule screen builds, passed through
  \<open>PlanKisit.__post_init__\<close> and the input layer of \<open>planla\<close>, yields exactly the result of
  the typed planner of theory \<open>Planlayici\<close> on the same values, so its properties (C1--C4)
  hold for the program's real entry point.\<close>

theorem arayuz_planla_aritma:
  "\<exists>p. post_init (arayuz_kisiti t1 t2 saatler tur sure bekleme nopar gd dahil) = Inr p \<and>
       planla_py (Nesne p) dersler derslikler =
         Inr (planla (arayuz_plan_kisit t1 t2 saatler tur sure bekleme nopar gd dahil) dersler derslikler)"
  using post_init_arayuz kisit_oku_arayuz
  by (simp add: planla_py_def sbind_def planla_def planla_durum_def Let_def)

subsection \<open>Where the two input forms differ\<close>

text \<open>The docstring of \<open>PlanKisit\<close> presents \<open>sure_dk\<close> as an alias of
  \<open>varsayilan_sure_dk\<close>.  A \<open>PlanKisit\<close> whose \<open>varsayilan_sure_dk\<close> is \<open>None\<close> takes the
  alias, a dictionary that holds the key with the value \<open>None\<close> ignores it and plans with 75
  minutes.\<close>

theorem sozluk_nesne_sure_ayrisir:
  "sbind (post_init ((plan_kisit_kur (PTarih 739257) (PTarih 739257))\<lparr>pk_sure_dk := PInt 90\<rparr>))
      (\<lambda>p. kisit_oku (nesne_sozlugu p)) =
     Inr \<lparr>slot_saatleri = [], tarih_bas = 739257, tarih_bit = 739257, default_sure_dk = 90, bekleme_dk = 0,
          tek_seans = False, dahil_ders_ids = [], gun_disi = [], ders_sure_map = Map.empty\<rparr> \<and>
   sbind (sozluk_aliaslari [(''tarih_bas'', PTarih 739257), (''tarih_bit'', PTarih 739257),
      (''varsayilan_sure_dk'', PNone), (''sure_dk'', PInt 90)]) kisit_oku =
     Inr \<lparr>slot_saatleri = [], tarih_bas = 739257, tarih_bit = 739257, default_sure_dk = 75, bekleme_dk = 0,
          tek_seans = False, dahil_ders_ids = [], gun_disi = [], ders_sure_map = Map.empty\<rparr>"
  by (simp add: post_init_def plan_kisit_kur_def slotlari_topla_def sbind_def normalize_ders_sureleri_def
      kisit_oku_def nesne_sozlugu_def sozluk_aliaslari_def anahtar_var_def py_get_def tarih_oku_def
      normalize_gun_disi_py_def sure_sozlugu_def sure_haritasi_def fun_eq_iff Let_def)

text \<open>A dictionary whose \<open>slot_saatleri\<close> is \<open>None\<close> makes \<open>planla\<close> raise a
  \<open>TypeError\<close> (it iterates the value), while the same \<open>None\<close> in a \<open>PlanKisit\<close> means no
  slots.\<close>

theorem sozluk_slot_none_hatasi:
  "planla_py (Sozluk [(''tarih_bas'', PTarih 739257), (''tarih_bit'', PTarih 739257), (''slot_saatleri'', PNone)]) [] [] =
     Inl TipHatasi \<and>
   (\<exists>p. post_init (plan_kisit_kur (PTarih 739257) (PTarih 739257)) = Inr p \<and>
        planla_py (Nesne p) [] [] = Inr ([], [], False))"
  by (simp add: planla_py_def sozluk_aliaslari_def anahtar_var_def py_get_def kisit_oku_def sbind_def Let_def
      post_init_def plan_kisit_kur_def slotlari_topla_def normalize_ders_sureleri_def nesne_sozlugu_def
      tarih_oku_def normalize_gun_disi_py_def sure_sozlugu_def planla_ayar_def dahil_filtre_def bos_durum_def
      gun_dongusu.simps)

end
