(* ===== verification/DersKaynagi.thy ===== *)
theory DersKaynagi
  imports Yonetim Python_Yerlesik
begin

text \<open>
  The course source of the planner in \<open>src/veri_deposu.py\<close>: the tables \<open>dersler\<close>,
  \<open>ogrenciler\<close> and \<open>ogrenci_ders\<close> of \<open>src/veritabani.py\<close> (the record \<open>dvt\<close>), the
  student import \<open>ogrencileri_toplu_yaz_ve_kayitla\<close> with the course code pattern
  \<open>RE_DERSKODU\<close>, the queries \<open>ogrenci_ara_ve_dersleri_getir\<close> and
  \<open>derse_kayitli_ogrenciler\<close>, and the two copies of the course list that feed the planner,
  \<open>dersler_ogrsay_ve_alanlar_detayli\<close> and \<open>plan_kaynagini_hazirla\<close>.  A course row becomes
  the \<open>ders\<close> record of theory \<open>Veri_Modeli\<close> (the name and teacher columns, which the
  planner does not read, are dropped); its students are the set of enrolled ids, here a list
  without repetitions.  The class column holds integers or \<open>NULL\<close>.  The import is one
  transaction: a \<open>NULL\<close> student number or name violates \<open>NOT NULL\<close> and rolls it back.
\<close>

subsection \<open>Tables\<close>

record ders_satir =
  dr_id :: kimlik
  dr_bolum_id :: kimlik
  dr_kod :: string
  dr_ad :: string
  dr_hoca :: "string option"
  dr_sinif :: "int option"
  dr_tur :: "string option"

record ogrenci_satir =
  og_id :: kimlik
  og_bolum_id :: kimlik
  og_no :: string
  og_adsoyad :: string
  og_sinif :: "int option"

record dvt =
  dv_dersler :: "ders_satir list"
  dv_d_sayac :: kimlik
  dv_ogrenciler :: "ogrenci_satir list"
  dv_o_sayac :: kimlik
  dv_ogrenci_ders :: "(kimlik \<times> kimlik) list"

text \<open>\<open>RE_DERSKODU = ^[A-Za-z]{1,6}[-/]?\d{1,4}[A-Za-z0-9\-]*$\<close> with \<open>re.match\<close>.  The letter
  run must be the whole leading run of letters, since the next character is a separator or
  a digit; the digit group and the tail together are a digit followed by tail characters; and
  \<open>$\<close> also matches before a final newline.\<close>

definition ascii_harf :: "char \<Rightarrow> bool" where
  "ascii_harf c = (let n = (of_char c :: nat) in (65 \<le> n \<and> n \<le> 90) \<or> (97 \<le> n \<and> n \<le> 122))"

definition kod_kuyrugu :: "char \<Rightarrow> bool" where
  "kod_kuyrugu c = (ascii_harf c \<or> rakam_mi c \<or> c = CHR ''-'')"

definition re_derskodu :: "string \<Rightarrow> bool" where
  "re_derskodu s =
     (let s' = (if s \<noteq> [] \<and> last s = CHR 0x0A then butlast s else s);
          k = length (takeWhile ascii_harf s');
          r = drop k s';
          r' = (case r of c # cs \<Rightarrow> if c = CHR ''-'' \<or> c = CHR ''/'' then cs else r | [] \<Rightarrow> [])
      in 1 \<le> k \<and> k \<le> 6 \<and> r' \<noteq> [] \<and> rakam_mi (hd r') \<and> list_all kod_kuyrugu (tl r'))"

subsection \<open>The student import\<close>

record ogrenci_girdisi =
  oi_no :: "string option"
  oi_adsoyad :: "string option"
  oi_sinif :: "int option"

text \<open>\<open>INSERT ... ON CONFLICT(bolum_id, ogr_no) DO UPDATE SET adsoyad=excluded.adsoyad,
  sinif=COALESCE(excluded.sinif, ogrenciler.sinif)\<close>.\<close>

definition ogrenci_upsert :: "kimlik \<Rightarrow> ogrenci_girdisi \<Rightarrow> dvt \<Rightarrow> unit + dvt" where
  "ogrenci_upsert b oi v =
     (case (oi_no oi, oi_adsoyad oi) of
        (Some no, Some ad) \<Rightarrow>
          if list_ex (\<lambda>r. og_bolum_id r = b \<and> og_no r = no) (dv_ogrenciler v)
          then Inr (v\<lparr>dv_ogrenciler := map (\<lambda>r. if og_bolum_id r = b \<and> og_no r = no
                      then r\<lparr>og_adsoyad := ad, og_sinif := (case oi_sinif oi of Some s \<Rightarrow> Some s | None \<Rightarrow> og_sinif r)\<rparr>
                      else r) (dv_ogrenciler v)\<rparr>)
          else let i = autoincrement (dv_o_sayac v) (map og_id (dv_ogrenciler v))
               in Inr (v\<lparr>dv_ogrenciler := dv_ogrenciler v @
                           [\<lparr>og_id = i, og_bolum_id = b, og_no = no, og_adsoyad = ad, og_sinif = oi_sinif oi\<rparr>],
                         dv_o_sayac := i\<rparr>)
      | _ \<Rightarrow> Inl ())"

fun ogrenciler_upsert :: "kimlik \<Rightarrow> ogrenci_girdisi list \<Rightarrow> dvt \<Rightarrow> unit + dvt" where
  "ogrenciler_upsert b [] v = Inr v"
| "ogrenciler_upsert b (oi # ois) v = sbind (ogrenci_upsert b oi v) (ogrenciler_upsert b ois)"

text \<open>The maps \<open>{ogr_no: id}\<close> and \<open>{kod: id}\<close> of the department (a later row wins, as in
  the dictionary comprehension), and one enrollment \<open>INSERT OR IGNORE\<close>.\<close>

definition ogr_haritasi :: "kimlik \<Rightarrow> dvt \<Rightarrow> string \<rightharpoonup> kimlik" where
  "ogr_haritasi b v = fold (\<lambda>r m. m(og_no r \<mapsto> og_id r)) (filter (\<lambda>r. og_bolum_id r = b) (dv_ogrenciler v)) Map.empty"

definition ders_haritasi :: "kimlik \<Rightarrow> dvt \<Rightarrow> string \<rightharpoonup> kimlik" where
  "ders_haritasi b v = fold (\<lambda>r m. m(dr_kod r \<mapsto> dr_id r)) (filter (\<lambda>r. dr_bolum_id r = b) (dv_dersler v)) Map.empty"

definition kayit_ekle :: "(string \<rightharpoonup> kimlik) \<Rightarrow> (string \<rightharpoonup> kimlik) \<Rightarrow> string \<times> string \<Rightarrow> dvt \<Rightarrow> dvt" where
  "kayit_ekle om dm kd v =
     (let (no, kod) = kd in
      if \<not> re_derskodu kod then v
      else case (om no, dm kod) of
        (Some oid, Some did) \<Rightarrow>
          if oid \<noteq> 0 \<and> did \<noteq> 0 \<and> (oid, did) \<notin> set (dv_ogrenci_ders v)
          then v\<lparr>dv_ogrenci_ders := dv_ogrenci_ders v @ [(oid, did)]\<rparr> else v
      | _ \<Rightarrow> v)"

definition ogrencileri_toplu_yaz_ve_kayitla ::
  "kimlik \<Rightarrow> ogrenci_girdisi list \<Rightarrow> (string \<times> string) list \<Rightarrow> dvt \<Rightarrow> unit + dvt" where
  "ogrencileri_toplu_yaz_ve_kayitla b ogrenciler kayitlar v =
     sbind (ogrenciler_upsert b ogrenciler v) (\<lambda>v1.
       Inr (fold (kayit_ekle (ogr_haritasi b v1) (ders_haritasi b v1)) kayitlar v1))"

subsection \<open>The course lists\<close>

definition ders_ogrencileri_db :: "dvt \<Rightarrow> kimlik \<Rightarrow> kimlik list" where
  "ders_ogrencileri_db v did = remdups (map fst (filter (\<lambda>(oid, d). d = did) (dv_ogrenci_ders v)))"

text \<open>The most frequent class of the students, the smaller class on a tie
  (\<open>sorted(frek.items(), key=lambda x: (-x[1], x[0]))[0][0]\<close>); \<open>None\<close> when no student
  has a class.\<close>

definition sinif_modu :: "int list \<Rightarrow> int option" where
  "sinif_modu ss =
     (case sort_key (\<lambda>s. (- int (count_list ss s), s)) (remdups ss) of [] \<Rightarrow> None | s # _ \<Rightarrow> Some s)"

definition ders_kaydi :: "dvt \<Rightarrow> ders_satir \<Rightarrow> ders" where
  "ders_kaydi v d =
     (let ids = ders_ogrencileri_db v (dr_id d);
          sinif = (case dr_sinif d of
                     Some s \<Rightarrow> Some s
                   | None \<Rightarrow> if ids = [] then None
                             else sinif_modu (List.map_filter og_sinif
                                    (filter (\<lambda>r. og_id r \<in> set ids) (dv_ogrenciler v))))
      in \<lparr>ders_id = dr_id d, kod = dr_kod d, sinif = sinif, ogr_say = int (length ids), ogr_ids = ids\<rparr>)"

definition dersler_ogrsay_ve_alanlar_detayli :: "kimlik \<Rightarrow> dvt \<Rightarrow> ders list" where
  "dersler_ogrsay_ve_alanlar_detayli b v =
     map (ders_kaydi v) (sort_key dr_kod (filter (\<lambda>d. dr_bolum_id d = b) (dv_dersler v)))"

definition plan_kaynagini_hazirla :: "kimlik \<Rightarrow> dvt \<Rightarrow> yvt \<Rightarrow> ders list \<times> derslik_satir list" where
  "plan_kaynagini_hazirla b v yv =
     (map (ders_kaydi v) (sort_key dr_kod (filter (\<lambda>d. dr_bolum_id d = b) (dv_dersler v))),
      sort_key (\<lambda>d. - ds_kapasite d) (filter (\<lambda>d. ds_bolum_id d = b) (yv_derslikler yv)))"

definition derse_kayitli_ogrenciler :: "kimlik \<Rightarrow> dvt \<Rightarrow> ogrenci_satir list" where
  "derse_kayitli_ogrenciler did v =
     sort_key og_no (concat (map (\<lambda>(oid, d). filter (\<lambda>r. og_id r = oid) (dv_ogrenciler v))
                              (filter (\<lambda>(oid, d). d = did) (dv_ogrenci_ders v))))"

definition ogrenci_ara_ve_dersleri_getir :: "kimlik \<Rightarrow> string \<Rightarrow> dvt \<Rightarrow> ogrenci_satir option \<times> string list" where
  "ogrenci_ara_ve_dersleri_getir b no v =
     (case find (\<lambda>r. og_bolum_id r = b \<and> og_no r = no) (dv_ogrenciler v) of
        None \<Rightarrow> (None, [])
      | Some r \<Rightarrow> (Some r, sort (concat (map (\<lambda>(oi, di). map dr_kod (filter (\<lambda>d. dr_id d = di) (dv_dersler v)))
                                          (filter (\<lambda>(oi, di). oi = og_id r) (dv_ogrenci_ders v))))))"

definition dvt_inv :: "dvt \<Rightarrow> bool" where
  "dvt_inv v =
     (distinct (map dr_id (dv_dersler v)) \<and> distinct (map (\<lambda>d. (dr_bolum_id d, dr_kod d)) (dv_dersler v)) \<and>
      distinct (map (\<lambda>r. (og_bolum_id r, og_no r)) (dv_ogrenciler v)) \<and> distinct (map og_id (dv_ogrenciler v)) \<and>
      distinct (dv_ogrenci_ders v))"

definition dvt_ornek :: dvt where
  "dvt_ornek = \<lparr>dv_dersler = [\<lparr>dr_id = 7, dr_bolum_id = 1, dr_kod = ''BIL101'', dr_ad = ''Programlama'', dr_hoca = None,
       dr_sinif = None, dr_tur = None\<rparr>], dv_d_sayac = 7,
     dv_ogrenciler = [\<lparr>og_id = 1, og_bolum_id = 1, og_no = ''100'', og_adsoyad = ''Ada'', og_sinif = Some 2\<rparr>],
     dv_o_sayac = 1, dv_ogrenci_ders = []\<rparr>"

subsection \<open>The import\<close>

lemma kayit_ekle_tablolar [simp]:
  "dv_ogrenciler (kayit_ekle om dm kx v) = dv_ogrenciler v" "dv_dersler (kayit_ekle om dm kx v) = dv_dersler v"
  "dv_o_sayac (kayit_ekle om dm kx v) = dv_o_sayac v"
  by (simp_all add: kayit_ekle_def split: prod.splits option.splits)

lemma kayit_ekle_artar: "set (dv_ogrenci_ders v) \<subseteq> set (dv_ogrenci_ders (kayit_ekle om dm kx v))"
  by (auto simp: kayit_ekle_def split: prod.splits option.splits)

lemma fold_kayit_tablolar [simp]:
  "dv_ogrenciler (fold (kayit_ekle om dm) ks v) = dv_ogrenciler v" "dv_dersler (fold (kayit_ekle om dm) ks v) = dv_dersler v"
  "dv_o_sayac (fold (kayit_ekle om dm) ks v) = dv_o_sayac v"
  by (induction ks arbitrary: v) simp_all

lemma fold_kayit_artar: "set (dv_ogrenci_ders v) \<subseteq> set (dv_ogrenci_ders (fold (kayit_ekle om dm) ks v))"
  by (induction ks arbitrary: v) (auto dest: subsetD [OF kayit_ekle_artar])

lemma kayit_ekle_ekler:
  "re_derskodu kk \<Longrightarrow> om no = Some oid \<Longrightarrow> dm kk = Some did \<Longrightarrow> oid \<noteq> 0 \<Longrightarrow> did \<noteq> 0 \<Longrightarrow>
     (oid, did) \<in> set (dv_ogrenci_ders (kayit_ekle om dm (no, kk) v))"
  by (auto simp: kayit_ekle_def)

lemma fold_kayit_ekler:
  assumes "(no, kk) \<in> set ks" "re_derskodu kk" "om no = Some oid" "dm kk = Some did" "oid \<noteq> 0" "did \<noteq> 0"
  shows "(oid, did) \<in> set (dv_ogrenci_ders (fold (kayit_ekle om dm) ks v))"
  using assms(1)
proof (induction ks arbitrary: v)
  case (Cons k ks)
  show ?case
  proof (cases "k = (no, kk)")
    case True
    then show ?thesis using kayit_ekle_ekler [of kk om no oid dm did v, OF assms(2-6)] fold_kayit_artar [of "kayit_ekle om dm k v" om dm ks]
      by auto
  next
    case False
    then show ?thesis using Cons by simp
  qed
qed simp

lemma fold_haritasi_kaynak:
  "fold (\<lambda>r m. m(f r \<mapsto> g r)) xs m0 x = Some y \<Longrightarrow> (\<exists>r \<in> set xs. f r = x \<and> g r = y) \<or> m0 x = Some y"
proof (induction xs arbitrary: m0)
  case (Cons a xs)
  from Cons.IH [of "m0(f a \<mapsto> g a)"] Cons.prems show ?case by (auto split: if_splits)
qed simp

lemma ders_haritasi_satir:
  "ders_haritasi b v kk = Some did \<Longrightarrow> \<exists>d \<in> set (dv_dersler v). dr_bolum_id d = b \<and> dr_kod d = kk \<and> dr_id d = did"
  unfolding ders_haritasi_def by (drule fold_haritasi_kaynak) auto

lemma haritalar_kayit:
  "ogr_haritasi b (fold (kayit_ekle om dm) ks v) = ogr_haritasi b v"
  "ders_haritasi b (fold (kayit_ekle om dm) ks v) = ders_haritasi b v"
  by (simp_all add: ogr_haritasi_def ders_haritasi_def)

text \<open>C18: An enrollment row of a successful student import, whose course code matches
  \<open>RE_DERSKODU\<close> and whose student number and course code resolve to (nonzero) ids of the
  department, shows up in the course list the planner reads: the course's entry lists the
  student among its \<open>ogr_ids\<close>.\<close>

theorem kayit_ders_listesinde:
  assumes "ogrencileri_toplu_yaz_ve_kayitla b ogrs kayitlar v = Inr v'" "(no, kk) \<in> set kayitlar" "re_derskodu kk"
    and "ogr_haritasi b v' no = Some oid" "ders_haritasi b v' kk = Some did" "oid \<noteq> 0" "did \<noteq> 0"
  shows "\<exists>dk \<in> set (dersler_ogrsay_ve_alanlar_detayli b v'). ders_id dk = did \<and> oid \<in> set (ogr_ids dk)"
proof -
  obtain v1 where v1: "ogrenciler_upsert b ogrs v = Inr v1"
    and v': "v' = fold (kayit_ekle (ogr_haritasi b v1) (ders_haritasi b v1)) kayitlar v1"
    using assms(1) by (auto simp: ogrencileri_toplu_yaz_ve_kayitla_def sbind_def split: sum.splits)
  have h: "ogr_haritasi b v1 no = Some oid" "ders_haritasi b v1 kk = Some did"
    using assms(4,5) by (simp_all add: v' haritalar_kayit)
  have e: "(oid, did) \<in> set (dv_ogrenci_ders v')"
    unfolding v' by (rule fold_kayit_ekler [of no kk kayitlar "ogr_haritasi b v1" oid "ders_haritasi b v1" did, OF assms(2,3) h assms(6,7)])
  obtain d where d: "d \<in> set (dv_dersler v')" "dr_bolum_id d = b" "dr_id d = did"
    using ders_haritasi_satir [OF assms(5)] by blast
  have "ders_kaydi v' d \<in> set (dersler_ogrsay_ve_alanlar_detayli b v')"
    using d by (simp add: dersler_ogrsay_ve_alanlar_detayli_def)
  moreover have "ders_id (ders_kaydi v' d) = did" "ogr_ids (ders_kaydi v' d) = ders_ogrencileri_db v' did"
    using d by (simp_all add: ders_kaydi_def Let_def)
  moreover have "oid \<in> set (ders_ogrencileri_db v' did)"
    using e by (force simp: ders_ogrencileri_db_def)
  ultimately show ?thesis by metis
qed

subsection \<open>The class fallback\<close>

lemma sort_key_ilk_en_kucuk:
  assumes "sort_key f xs = y # ys" "x \<in> set xs"
  shows "f y \<le> f x"
proof -
  have "sorted (map f (y # ys))" using assms(1) by (metis sorted_sort_key)
  moreover have "x \<in> set (y # ys)" using assms by (metis set_sort)
  ultimately show ?thesis by auto
qed

text \<open>The class the course list falls back to is the most frequent class among the
  students, the smallest one on a tie.\<close>

theorem sinif_modu_en_sik:
  assumes "sinif_modu ss = Some s"
  shows "s \<in> set ss \<and> (\<forall>t \<in> set ss. count_list ss t < count_list ss s \<or>
                          (count_list ss t = count_list ss s \<and> s \<le> t))"
proof -
  obtain rest where r: "sort_key (\<lambda>s. (- int (count_list ss s), s)) (remdups ss) = s # rest"
    using assms by (auto simp: sinif_modu_def split: list.splits)
  have "s \<in> set ss" using r by (metis list.set_intros(1) set_remdups set_sort)
  moreover have "(- int (count_list ss s), s) \<le> (- int (count_list ss t), t)" if "t \<in> set ss" for t
    using sort_key_ilk_en_kucuk [OF r] that by simp
  ultimately show ?thesis by (force simp: less_eq_prod_def)
qed

subsection \<open>Table keys and errors\<close>

lemma ogrenci_upsert_inv:
  assumes "ogrenci_upsert b oi v = Inr v1" "dvt_inv v"
  shows "dvt_inv v1"
proof -
  obtain no ad where g: "oi_no oi = Some no" "oi_adsoyad oi = Some ad"
    using assms(1) by (auto simp: ogrenci_upsert_def split: option.splits)
  let ?P = "\<lambda>r. og_bolum_id r = b \<and> og_no r = no"
  show ?thesis
  proof (cases "list_ex ?P (dv_ogrenciler v)")
    case True
    let ?g = "\<lambda>r. if ?P r then r\<lparr>og_adsoyad := ad, og_sinif := (case oi_sinif oi of Some s \<Rightarrow> Some s | None \<Rightarrow> og_sinif r)\<rparr> else r"
    have v1: "v1 = v\<lparr>dv_ogrenciler := map ?g (dv_ogrenciler v)\<rparr>"
      using assms(1) g True by (simp add: ogrenci_upsert_def)
    have k: "map (\<lambda>r. (og_bolum_id r, og_no r)) (map ?g xs) = map (\<lambda>r. (og_bolum_id r, og_no r)) xs"
      "map og_id (map ?g xs) = map og_id xs" for xs
      by (induction xs) simp_all
    have sel: "dv_ogrenciler v1 = map ?g (dv_ogrenciler v)" "dv_ogrenci_ders v1 = dv_ogrenci_ders v"
      "dv_dersler v1 = dv_dersler v"
      by (simp_all add: v1)
    show ?thesis using assms(2) unfolding dvt_inv_def sel k .
  next
    case False
    define i where "i = autoincrement (dv_o_sayac v) (map og_id (dv_ogrenciler v))"
    have v1: "v1 = v\<lparr>dv_ogrenciler := dv_ogrenciler v @
                 [\<lparr>og_id = i, og_bolum_id = b, og_no = no, og_adsoyad = ad, og_sinif = oi_sinif oi\<rparr>], dv_o_sayac := i\<rparr>"
      using assms(1) g False by (simp add: ogrenci_upsert_def i_def Let_def)
    have "(b, no) \<notin> set (map (\<lambda>r. (og_bolum_id r, og_no r)) (dv_ogrenciler v))"
      using False by (auto simp: list_ex_iff)
    moreover have "i \<notin> set (map og_id (dv_ogrenciler v))"
      unfolding i_def by (rule autoincrement_taze)
    ultimately show ?thesis using assms(2) by (simp add: v1 dvt_inv_def)
  qed
qed

lemma ogrenciler_upsert_inv:
  "ogrenciler_upsert b ois v = Inr v1 \<Longrightarrow> dvt_inv v \<Longrightarrow> dvt_inv v1"
  by (induction b ois v rule: ogrenciler_upsert.induct)
     (auto simp: sbind_def split: sum.splits dest: ogrenci_upsert_inv)

lemma kayit_ekle_inv: "dvt_inv v \<Longrightarrow> dvt_inv (kayit_ekle om dm kx v)"
  by (auto simp: kayit_ekle_def dvt_inv_def split: prod.splits option.splits)

lemma fold_kayit_inv: "dvt_inv v \<Longrightarrow> dvt_inv (fold (kayit_ekle om dm) ks v)"
  by (induction ks arbitrary: v) (simp_all add: kayit_ekle_inv)

text \<open>The student import keeps the keys of the tables: course ids, the (department, student
  number) key and student ids are unique and no enrollment is stored twice.\<close>

theorem ogrenci_aktarimi_korur:
  assumes "ogrencileri_toplu_yaz_ve_kayitla b ogrs kayitlar v = Inr v'" "dvt_inv v"
  shows "dvt_inv v'"
proof -
  obtain v1 where "ogrenciler_upsert b ogrs v = Inr v1"
    and "v' = fold (kayit_ekle (ogr_haritasi b v1) (ders_haritasi b v1)) kayitlar v1"
    using assms(1) by (auto simp: ogrencileri_toplu_yaz_ve_kayitla_def sbind_def split: sum.splits)
  then show ?thesis using assms(2) by (simp add: fold_kayit_inv ogrenciler_upsert_inv)
qed

lemma ogrenci_upsert_hata:
  "ogrenci_upsert b oi v = Inl () \<longleftrightarrow> oi_no oi = None \<or> oi_adsoyad oi = None"
  by (auto simp: ogrenci_upsert_def Let_def split: option.splits)

lemma ogrenciler_upsert_hata:
  "(\<exists>e. ogrenciler_upsert b ois v = Inl e) \<longleftrightarrow> (\<exists>oi \<in> set ois. oi_no oi = None \<or> oi_adsoyad oi = None)"
proof (induction b ois v rule: ogrenciler_upsert.induct)
  case (2 b oi ois v)
  show ?case
  proof (cases "ogrenci_upsert b oi v")
    case (Inl e)
    then show ?thesis using ogrenci_upsert_hata [of b oi v] by (simp add: sbind_def)
  next
    case (Inr v1)
    have "\<not> (oi_no oi = None \<or> oi_adsoyad oi = None)"
      using Inr ogrenci_upsert_hata [of b oi v] by auto
    moreover have "(\<exists>e. ogrenciler_upsert b ois v1 = Inl e) \<longleftrightarrow> (\<exists>oi \<in> set ois. oi_no oi = None \<or> oi_adsoyad oi = None)"
      by (rule "2.IH")
    ultimately show ?thesis using Inr by (auto simp: sbind_def)
  qed
qed simp

subsection \<open>The course list as planner input\<close>

lemma ders_listesi_kimlikleri:
  "distinct (map dr_id (dv_dersler v)) \<Longrightarrow> distinct (map ders_id (dersler_ogrsay_ve_alanlar_detayli b v))"
proof -
  assume "distinct (map dr_id (dv_dersler v))"
  then have "distinct (map dr_id (sort_key dr_kod (filter (\<lambda>d. dr_bolum_id d = b) (dv_dersler v))))"
    by (simp add: distinct_map_sort_key distinct_map_filter)
  moreover have "map ders_id (map (ders_kaydi v) xs) = map dr_id xs" for xs
    by (induction xs) (simp_all add: ders_kaydi_def Let_def)
  ultimately show ?thesis by (simp only: dersler_ogrsay_ve_alanlar_detayli_def)
qed

lemma ders_kaydi_ogrenciler:
  "distinct (ogr_ids (ders_kaydi v d)) \<and> ogr_say (ders_kaydi v d) = int (length (ogr_ids (ders_kaydi v d)))"
  by (simp add: ders_kaydi_def ders_ogrencileri_db_def Let_def)

subsection \<open>Examples\<close>

theorem kayit_ders_listesinde_witness:
  "ogrencileri_toplu_yaz_ve_kayitla 1 [\<lparr>oi_no = Some ''100'', oi_adsoyad = Some ''Ada'', oi_sinif = None\<rparr>]
      [(''100'', ''BIL101'')] dvt_ornek = Inr (dvt_ornek\<lparr>dv_ogrenci_ders := [(1, 7)]\<rparr>) \<and>
   (\<exists>dk \<in> set (dersler_ogrsay_ve_alanlar_detayli 1 (dvt_ornek\<lparr>dv_ogrenci_ders := [(1, 7)]\<rparr>)).
      ders_id dk = 7 \<and> 1 \<in> set (ogr_ids dk))"
proof -
  have r: "ogrencileri_toplu_yaz_ve_kayitla 1 [\<lparr>oi_no = Some ''100'', oi_adsoyad = Some ''Ada'', oi_sinif = None\<rparr>]
      [(''100'', ''BIL101'')] dvt_ornek = Inr (dvt_ornek\<lparr>dv_ogrenci_ders := [(1, 7)]\<rparr>)"
    by (simp add: ogrencileri_toplu_yaz_ve_kayitla_def ogrenci_upsert_def sbind_def dvt_ornek_def kayit_ekle_def
        ogr_haritasi_def ders_haritasi_def re_derskodu_def ascii_harf_def kod_kuyrugu_def rakam_mi_def)
  have k: "re_derskodu ''BIL101''" by (simp add: re_derskodu_def ascii_harf_def kod_kuyrugu_def rakam_mi_def)
  have o: "ogr_haritasi 1 (dvt_ornek\<lparr>dv_ogrenci_ders := [(1, 7)]\<rparr>) ''100'' = Some 1"
    "ders_haritasi 1 (dvt_ornek\<lparr>dv_ogrenci_ders := [(1, 7)]\<rparr>) ''BIL101'' = Some 7"
    by (simp_all add: ogr_haritasi_def ders_haritasi_def dvt_ornek_def)
  show ?thesis using r kayit_ders_listesinde [OF r _ k o] by simp
qed

theorem sinif_modu_en_sik_witness:
  "sinif_modu [2, 3, 3, 2, 1::int] = Some 2 \<and> (2::int) \<in> set [2, 3, 3, 2, 1::int] \<and>
   list_all (\<lambda>t. count_list [2, 3, 3, 2, 1::int] t < count_list [2, 3, 3, 2, 1::int] (2::int) \<or>
                  (count_list [2, 3, 3, 2, 1::int] t = count_list [2, 3, 3, 2, 1::int] (2::int) \<and> 2 \<le> t)) [2, 3, 3, 2, 1::int]"
proof -
  have m: "sinif_modu [2, 3, 3, 2, 1::int] = Some 2" by (simp add: sinif_modu_def)
  show ?thesis using m sinif_modu_en_sik [OF m] by (simp add: list_all_iff)
qed

end
