(* ===== verification/Excel_Yardimci.thy ===== *)
theory Excel_Yardimci
  imports Complex_Main DersKaynagi
begin

text \<open>
  The cell-level helpers of the spreadsheet import: \<open>_norm\<close>, \<open>_clean_headingish\<close>,
  \<open>_safe_str\<close>, \<open>_as_int_or_none\<close>, the patterns \<open>RE_KOD\<close>, \<open>RE_OGRNO\<close>,
  \<open>RE_TEXTY\<close>, the word lists \<open>HEADING_LIKE\<close> and \<open>TITLE_TOKENS\<close>, the guesses
  \<open>_looks_like_person\<close>, \<open>_looks_like_course\<close>, \<open>_infer_sinif_from_kod\<close> and the column
  scores of \<open>src/excel_parser.py\<close>, with the copies of \<open>_clean_headingish\<close> and
  \<open>_is_heading_like\<close> in \<open>src/veri_deposu.py\<close>.  A cell of a sheet read by pandas with
  \<open>dtype=object\<close> is empty (\<open>None\<close> or \<open>NaN\<close>), a string, an integer or a boolean
  (\<open>hucre\<close>); strings are code points below 256 as in theory \<open>Python_Yerlesik\<close>, so the
  Turkish letters dotless i, s-cedilla and g-breve, which \<open>_norm\<close> folds to ASCII, do not
  occur.  Scores are exact rationals where Python computes in binary floating point, and
  \<open>int(float(t))\<close> is the exact truncation of the decimal \<open>t\<close>, where Python rounds it
  to 53 bits first; both agree on every value the scores and the class column produce in
  practice (small counts and class numbers).
\<close>

subsection \<open>Cells\<close>

datatype hucre = Bos | HMetin string | HTam int | HMantik bool

text \<open>\<open>str(v)\<close> of a non-empty cell.\<close>

fun hucre_str :: "hucre \<Rightarrow> string" where
  "hucre_str Bos = ''nan''"
| "hucre_str (HMetin s) = s"
| "hucre_str (HTam i) = py_str i"
| "hucre_str (HMantik b) = (if b then ''True'' else ''False'')"

definition safe_str :: "hucre \<Rightarrow> string option" where
  "safe_str v = (case v of Bos \<Rightarrow> None
                 | _ \<Rightarrow> let s = py_strip (hucre_str v) in if s = [] then None else Some s)"

text \<open>\<open>float(t)\<close> on a stripped string: an optional sign, digits with an optional fraction
  (at least one digit in all), an optional exponent; single underscores between digits.
  \<open>int()\<close> of the value truncates towards zero; \<open>inf\<close> and \<open>nan\<close> make \<open>int()\<close>
  raise, as does a value beyond the largest double.\<close>

definition isaretli :: "string \<Rightarrow> bool \<times> string" where
  "isaretli s = (case s of c # cs \<Rightarrow> if c = CHR ''-'' then (True, cs) else if c = CHR ''+'' then (False, cs) else (False, s)
                 | [] \<Rightarrow> (False, []))"

definition us_coz :: "string \<Rightarrow> int option" where
  "us_coz s = (let (n, ds) = isaretli s in map_option (\<lambda>k. if n then - int k else int k) (rakam_dizisi ds))"

definition ondalik_kesir :: "string \<Rightarrow> (nat \<times> nat) option" where
  "ondalik_kesir m =
     (let ip = takeWhile (\<lambda>c. c \<noteq> CHR ''.'') m; r = dropWhile (\<lambda>c. c \<noteq> CHR ''.'') m;
          fp = drop 1 r
      in if ip = [] \<and> fp = [] then None
         else if (ip \<noteq> [] \<and> rakam_dizisi ip = None) \<or> (fp \<noteq> [] \<and> rakam_dizisi fp = None) then None
         else let fd = filter rakam_mi fp
              in Some (rakamlar_degeri (filter rakam_mi ip @ fd), length fd))"

definition float_tam :: "string \<Rightarrow> int option" where
  "float_tam t =
     (let (neg, g) = isaretli t;
          m = takeWhile (\<lambda>c. c \<notin> set ''eE'') g; e = dropWhile (\<lambda>c. c \<notin> set ''eE'') g
      in case ondalik_kesir m of
           None \<Rightarrow> None
         | Some (n, k) \<Rightarrow>
             (case (if e = [] then Some 0 else us_coz (tl e)) of
                None \<Rightarrow> None
              | Some x \<Rightarrow>
                  let v = (if 0 \<le> x - int k then int n * 10 ^ nat (x - int k) else int n div 10 ^ nat (int k - x))
                  in if (if 0 \<le> x - int k then v \<ge> 2 ^ 1024 - 2 ^ 970
                      else int n \<ge> (2 ^ 1024 - 2 ^ 970) * 10 ^ nat (int k - x)) then None
                     else Some (if neg then - v else v)))"

definition as_int_or_none :: "hucre \<Rightarrow> int option" where
  "as_int_or_none v = (case v of Bos \<Rightarrow> None
                        | _ \<Rightarrow> let t = py_strip (hucre_str v) in if t = [] then None else float_tam t)"

subsection \<open>Normalisation\<close>

text \<open>\<open>_norm\<close>: strip, lower-case, then fold the Turkish letters that are code points
  below 256 (o-umlaut, u-umlaut, c-cedilla) to ASCII.\<close>

definition turkce_katla :: "char \<Rightarrow> char" where
  "turkce_katla c = (if c = CHR 0xF6 then CHR ''o'' else if c = CHR 0xFC then CHR ''u''
                     else if c = CHR 0xE7 then CHR ''c'' else c)"

definition py_norm :: "string \<Rightarrow> string" where
  "py_norm s = map turkce_katla (py_lower (py_strip s))"

text \<open>\<open>re.sub(r"[.:;,\-_/]+", " ", s)\<close>: every run of separators becomes one blank.\<close>

definition ayrac :: "char \<Rightarrow> bool" where
  "ayrac c = (c \<in> set ''.:;,-_/'')"

function ayrac_sil :: "string \<Rightarrow> string" where
  "ayrac_sil [] = []"
| "ayrac_sil (c # cs) = (if ayrac c then CHR '' '' # ayrac_sil (dropWhile ayrac cs) else c # ayrac_sil cs)"
  by pat_completeness auto
termination
  by (relation "measure length") (auto simp: le_imp_less_Suc length_dropWhile_le)

text \<open>\<open>_clean_headingish\<close> of \<open>src/excel_parser.py\<close> strips the result of \<open>_norm\<close> once
  more; the copy in \<open>src/veri_deposu.py\<close> does not.\<close>

definition clean_headingish :: "string \<Rightarrow> string" where
  "clean_headingish s = py_strip (py_norm (ayrac_sil s))"

definition clean_headingish_vd :: "string \<Rightarrow> string" where
  "clean_headingish_vd s = py_norm (ayrac_sil s)"

subsection \<open>Patterns\<close>

text \<open>\<open>RE_KOD = ^[A-Za-z]{1,6}\s*[-/]?\s*\d{1,4}[A-Za-z0-9\-]*$\<close>: as \<open>RE_DERSKODU\<close>,
  but blanks may surround the separator.\<close>

definition re_kod :: "string \<Rightarrow> bool" where
  "re_kod s =
     (let s' = (if s \<noteq> [] \<and> last s = CHR 0x0A then butlast s else s);
          k = length (takeWhile ascii_harf s');
          r = dropWhile py_bosluk (drop k s');
          r' = (case r of c # cs \<Rightarrow> if c = CHR ''-'' \<or> c = CHR ''/'' then dropWhile py_bosluk cs else r | [] \<Rightarrow> [])
      in 1 \<le> k \<and> k \<le> 6 \<and> r' \<noteq> [] \<and> rakam_mi (hd r') \<and> list_all kod_kuyrugu (tl r'))"

text \<open>\<open>RE_OGRNO = ^\d{5,}$\<close>.\<close>

definition re_ogrno :: "string \<Rightarrow> bool" where
  "re_ogrno s =
     (let s' = (if s \<noteq> [] \<and> last s = CHR 0x0A then butlast s else s) in 5 \<le> length s' \<and> list_all rakam_mi s')"

text \<open>\<open>RE_TEXTY.search\<close>: an ASCII letter or one of the Turkish letters below 256
  (U-umlaut, u-umlaut, O-umlaut, o-umlaut, C-cedilla, c-cedilla).\<close>

definition re_texty :: "string \<Rightarrow> bool" where
  "re_texty s = list_ex (\<lambda>c. ascii_harf c \<or> c \<in> set [CHR 0xDC, CHR 0xFC, CHR 0xD6, CHR 0xF6, CHR 0xC7, CHR 0xE7]) s"

subsection \<open>Word lists and guesses\<close>

definition heading_like :: "string list" where
  "heading_like = [''ders kodu'', ''dersin adi'', ''ders adi'', ''ders ismi'', ''kod'', ''ad'', ''adi'',
     ''secimli ders'', ''secimlik ders'', ''secmeli ders'', ''secmelik ders'', ''secmeli'', ''secimlik'',
     ''1 sinif'', ''2 sinif'', ''3 sinif'', ''4 sinif'', ''1. sinif'', ''2. sinif'', ''3. sinif'', ''4. sinif'',
     ''ogretim elemani'', ''ogretim uyesi'', ''ogretim gorevlisi'', ''ders'', ''bolum'', ''sinif'']"

text \<open>\<open>TITLE_TOKENS\<close> without \<open>"ar\<c>"\<close> (s-cedilla is above 255); \<open>"do\<c>"\<close> and
  \<open>"\<o>gr"\<close> stay, although they never occur in a string \<open>_norm\<close> has folded.\<close>

definition title_tokens :: "string list" where
  "title_tokens = [''prof'', ''doc'', [CHR ''d'', CHR ''o'', CHR 0xE7], ''dr'', ''ogr'', [CHR 0xF6, CHR ''g'', CHR ''r''],
     ''yard'', ''yrd'', ''ars'']"

text \<open>\<open>tok in s\<close>: \<open>t\<close> occurs in \<open>s\<close> as a contiguous substring.\<close>

fun icerir :: "string \<Rightarrow> string \<Rightarrow> bool" where
  "icerir t [] = (t = [])"
| "icerir t (c # cs) = (take (length t) (c # cs) = t \<or> icerir t cs)"

definition looks_like_person :: "string option \<Rightarrow> bool" where
  "looks_like_person s = (case s of None \<Rightarrow> False | Some x \<Rightarrow>
     x \<noteq> [] \<and> list_ex (\<lambda>tok. icerir tok (py_norm x)) title_tokens)"

definition looks_like_course :: "string option \<Rightarrow> bool" where
  "looks_like_course s = (case s of None \<Rightarrow> False | Some x \<Rightarrow>
     x \<noteq> [] \<and> \<not> list_ex (\<lambda>tok. icerir tok (py_norm x)) title_tokens \<and>
     5 \<le> length (py_strip x) \<and> (CHR '' '' \<in> set x \<or> 8 \<le> length x))"

text \<open>\<open>_infer_sinif_from_kod\<close>: the first digit of the code, when it is 1 to 4.\<close>

definition infer_sinif_from_kod :: "string option \<Rightarrow> int option" where
  "infer_sinif_from_kod kodu = (case kodu of None \<Rightarrow> None | Some s \<Rightarrow>
     (case filter rakam_mi s of [] \<Rightarrow> None
      | c # _ \<Rightarrow> let d = int (rakam_degeri c) in if 1 \<le> d \<and> d \<le> 4 then Some d else None))"

text \<open>\<open>_is_heading_like\<close> of \<open>src/veri_deposu.py\<close>: a heading word, or
  \<open>^\s*\d+\s*\.?\s*sinif\s*$\<close>.\<close>

definition sinif_basligi :: "string \<Rightarrow> bool" where
  "sinif_basligi s =
     (let s' = (if s \<noteq> [] \<and> last s = CHR 0x0A then butlast s else s);
          a = dropWhile py_bosluk s'; d = takeWhile rakam_mi a;
          b = dropWhile py_bosluk (drop (length d) a);
          b' = (case b of c # cs \<Rightarrow> if c = CHR ''.'' then dropWhile py_bosluk cs else b | [] \<Rightarrow> []);
          r = drop 5 b'
      in d \<noteq> [] \<and> take 5 b' = ''sinif'' \<and> list_all py_bosluk r)"

definition is_heading_like :: "string option \<Rightarrow> bool" where
  "is_heading_like s = (case s of None \<Rightarrow> False | Some x \<Rightarrow>
     x \<noteq> [] \<and> (clean_headingish_vd x \<in> set heading_like \<or> sinif_basligi (clean_headingish_vd x)))"

subsection \<open>Column scores\<close>

text \<open>\<open>series.dropna().astype(str).map(str.strip)\<close>.\<close>

definition dolu_metinler :: "hucre list \<Rightarrow> string list" where
  "dolu_metinler vs = map (\<lambda>v. py_strip (hucre_str v)) (filter (\<lambda>v. v \<noteq> Bos) vs)"

definition oran :: "('a \<Rightarrow> bool) \<Rightarrow> 'a list \<Rightarrow> rat" where
  "oran P xs = (if xs = [] then 0 else of_nat (length (filter P xs)) / of_nat (length xs))"

definition score_code_col :: "hucre list \<Rightarrow> rat" where
  "score_code_col vs = oran re_kod (dolu_metinler vs)"

definition ad_puani :: "string \<Rightarrow> rat" where
  "ad_puani x = (if clean_headingish x \<in> set heading_like then 0
                 else (if re_texty x then 3 / 2 else 0) + of_nat (min (count_list x (CHR '' '')) 3) * 3 / 5
                      + (if 4 \<le> length x then 1 else 0))"

definition score_name_col :: "hucre list \<Rightarrow> rat" where
  "score_name_col vs = (let xs = dolu_metinler vs in
     if xs = [] then 0 else sum_list (map ad_puani xs) / of_nat (length xs))"

definition score_ogrno_col :: "hucre list \<Rightarrow> rat" where
  "score_ogrno_col vs = oran re_ogrno (dolu_metinler vs)"

definition score_grade_col :: "hucre list \<Rightarrow> rat" where
  "score_grade_col vs = oran (\<lambda>v. case as_int_or_none v of Some i \<Rightarrow> 0 \<le> i \<and> i \<le> 8 | None \<Rightarrow> False)
                          (filter (\<lambda>v. v \<noteq> Bos) vs)"

subsection \<open>Sheets\<close>

text \<open>A sheet as pandas reads it: the column labels (the first row of the sheet) and the
  data rows, one cell per column.  \<open>row.get(c)\<close> and \<open>df[c]\<close> take the first column
  labelled \<open>c\<close>; two columns with one label are outside the model (pandas would return a
  frame there).\<close>

record sayfa =
  sy_ad :: string
  sy_sutunlar :: "string list"
  sy_satirlar :: "hucre list list"

definition hucre_al :: "hucre list \<Rightarrow> nat \<Rightarrow> hucre" where
  "hucre_al row j = (if j < length row then row ! j else Bos)"

definition sutun_no :: "string list \<Rightarrow> string \<Rightarrow> nat" where
  "sutun_no cols c = length (takeWhile (\<lambda>x. x \<noteq> c) cols)"

definition satir_get :: "string list \<Rightarrow> hucre list \<Rightarrow> string \<Rightarrow> hucre" where
  "satir_get cols row c = hucre_al row (sutun_no cols c)"

definition sutun :: "string list \<Rightarrow> hucre list list \<Rightarrow> string \<Rightarrow> hucre list" where
  "sutun cols rows c = map (\<lambda>row. satir_get cols row c) rows"

definition first_nonempty_row_idx :: "hucre list list \<Rightarrow> nat" where
  "first_nonempty_row_idx rows =
     (case find (\<lambda>i. list_ex (\<lambda>v. safe_str v \<noteq> None) (rows ! i)) [0..<min (length rows) 60] of
        Some i \<Rightarrow> i | None \<Rightarrow> 0)"

text \<open>The first element of largest key (Python's \<open>max\<close>, and the head of a stable sort
  with \<open>reverse=True\<close>).\<close>

definition azalan :: "('a \<Rightarrow> rat) \<Rightarrow> 'a list \<Rightarrow> 'a list" where
  "azalan f xs = sort_key (\<lambda>x. - f x) xs"

definition temiz :: "string \<Rightarrow> bool" where
  "temiz x = (x \<noteq> [] \<and> py_strip x = x)"

text \<open>Evaluation rules of the cell helpers (\<^const>\<open>char_of\<close> on a numeral computes through
  its bits).\<close>

lemmas hucre_simps = safe_str_def as_int_or_none_def py_str_def ondalik.simps py_strip_def py_bosluk_def
  float_tam_def isaretli_def ondalik_kesir_def rakam_dizisi_def rakam_mi_def rakamlar_degeri_def rakam_degeri_def
  us_coz_def py_norm_def turkce_katla_def py_lower_def py_kucuk_def ayrac_def clean_headingish_def re_kod_def
  ascii_harf_def kod_kuyrugu_def re_ogrno_def dolu_metinler_def oran_def score_ogrno_col_def score_grade_col_def
  score_name_col_def score_code_col_def ad_puani_def re_texty_def heading_like_def char_of_def bit_0 Let_def

subsection \<open>\<open>strip\<close> and the cleaned cell\<close>

lemma py_strip_idem: "py_strip (py_strip s) = py_strip s"
proof -
  define u where "u = dropWhile py_bosluk s"
  define w where "w = dropWhile py_bosluk (rev u)"
  have u: "dropWhile py_bosluk u = u" by (simp add: u_def)
  have w: "dropWhile py_bosluk w = w" by (simp add: w_def)
  obtain pre where "rev u = pre @ w" by (metis takeWhile_dropWhile_id w_def)
  then have uw: "u = rev w @ rev pre" by (metis rev_append rev_rev_ident)
  have "dropWhile py_bosluk (rev w) = rev w"
  proof (cases "rev w")
    case (Cons c cs)
    then have "\<not> py_bosluk c" using u uw by (metis append_Cons dropWhile_eq_Cons_conv list.distinct(1) dropWhile.simps(2) list.inject)
    then show ?thesis using Cons by simp
  qed simp
  then show ?thesis by (simp add: py_strip_def u_def [symmetric] w_def [symmetric] w)
qed

lemma safe_str_Some: "safe_str v = Some x \<Longrightarrow> x \<noteq> [] \<and> py_strip x = x"
  by (cases v) (auto simp: safe_str_def Let_def py_strip_idem split: if_splits)

subsection \<open>The range of \<open>int(float(t))\<close>\<close>

lemma kesme_sinir:
  fixes n :: nat and B :: int
  assumes "\<not> (if 0 \<le> x - int k then int n * 10 ^ nat (x - int k) \<ge> B else int n \<ge> B * 10 ^ nat (int k - x))"
  shows "\<bar>if neg then - (if 0 \<le> x - int k then int n * 10 ^ nat (x - int k) else int n div 10 ^ nat (int k - x))
            else (if 0 \<le> x - int k then int n * 10 ^ nat (x - int k) else int n div 10 ^ nat (int k - x))\<bar> < B"
proof -
  define v where "v = (if 0 \<le> x - int k then int n * 10 ^ nat (x - int k) else int n div 10 ^ nat (int k - x))"
  have "0 \<le> v" by (simp add: v_def pos_imp_zdiv_nonneg_iff)
  moreover have "v < B"
  proof (cases "0 \<le> x - int k")
    case False
    define c :: int where "c = 10 ^ nat (int k - x)"
    have c: "0 < c" by (simp add: c_def)
    have "int n < B * c" using assms False by (simp add: c_def)
    moreover have "int n div c * c \<le> int n"
      using div_mult_mod_eq [of "int n" c] pos_mod_sign [OF c, of "int n"] by linarith
    ultimately have "int n div c * c < B * c" by linarith
    then have "int n div c < B" using c by (simp add: mult_less_cancel_right)
    then show ?thesis using False by (simp add: v_def c_def)
  qed (use assms v_def in simp)
  ultimately have "\<bar>if neg then - v else v\<bar> < B" by simp
  then show ?thesis unfolding v_def .
qed

lemma float_tam_sinir: "float_tam t = Some i \<Longrightarrow> \<bar>i\<bar> < 2 ^ 1024"
proof -
  assume h: "float_tam t = Some i"
  obtain neg g where ng: "isaretli t = (neg, g)" by (cases "isaretli t")
  obtain n k where o: "ondalik_kesir (takeWhile (\<lambda>c. c \<notin> set ''eE'') g) = Some (n, k)"
    using h by (cases "ondalik_kesir (takeWhile (\<lambda>c. c \<notin> set ''eE'') g)") (auto simp: float_tam_def ng)
  obtain x where x: "(let e = dropWhile (\<lambda>c. c \<notin> set ''eE'') g in if e = [] then Some 0 else us_coz (tl e)) = Some x"
    using h o by (cases "let e = dropWhile (\<lambda>c. c \<notin> set ''eE'') g in if e = [] then Some 0 else us_coz (tl e)")
      (auto simp: float_tam_def ng Let_def)
  have "\<not> (if 0 \<le> x - int k then int n * 10 ^ nat (x - int k) \<ge> 2 ^ 1024 - 2 ^ 970
          else int n \<ge> (2 ^ 1024 - 2 ^ 970) * 10 ^ nat (int k - x))
        \<and> i = (if neg then - (if 0 \<le> x - int k then int n * 10 ^ nat (x - int k) else int n div 10 ^ nat (int k - x))
               else (if 0 \<le> x - int k then int n * 10 ^ nat (x - int k) else int n div 10 ^ nat (int k - x)))"
    using h o x by (simp add: float_tam_def ng Let_def split: if_splits)
  then have "\<bar>i\<bar> < 2 ^ 1024 - 2 ^ 970" using kesme_sinir [where x = x and k = k and n = n and B = "2 ^ 1024 - 2 ^ 970" and neg = neg] by simp
  then show ?thesis by simp
qed

text \<open>\<open>_as_int_or_none\<close> returns only integers of magnitude below \<open>2^1024\<close>:
  a decimal beyond the largest double makes \<open>int(float(t))\<close> raise \<open>OverflowError\<close>,
  which the function turns into \<open>None\<close>.\<close>

theorem as_int_or_none_sinir:
  assumes "as_int_or_none v = Some i"
  shows "\<bar>i\<bar> < 2 ^ 1024"
  using assms float_tam_sinir by (cases v) (auto simp: as_int_or_none_def Let_def split: if_splits)

theorem as_int_or_none_sinir_witness:
  "as_int_or_none (HMetin '' 2.5e3 '') = Some 2500 \<and> \<bar>2500::int\<bar> < 2 ^ 1024"
proof -
  have h: "as_int_or_none (HMetin '' 2.5e3 '') = Some 2500" by (simp add: hucre_simps)
  show ?thesis using h as_int_or_none_sinir [OF h] by simp
qed

subsection \<open>The two copies of \<open>_clean_headingish\<close>\<close>

lemma katla_bosluk: "py_bosluk (turkce_katla (py_kucuk c)) = py_bosluk c"
  by (auto simp: py_bosluk_def turkce_katla_def py_kucuk_def Let_def)

lemma strip_map:
  assumes "\<And>c. py_bosluk (f c) = py_bosluk c"
  shows "py_strip (map f s) = map f (py_strip s)"
proof -
  have "dropWhile py_bosluk (map f xs) = map f (dropWhile py_bosluk xs)" for xs
    using assms by (induction xs) simp_all
  then show ?thesis by (simp add: py_strip_def rev_map)
qed

text \<open>The copy of \<open>_clean_headingish\<close> in \<open>src/veri_deposu.py\<close>, which does not
  strip its result, agrees with the one in \<open>src/excel_parser.py\<close> on every string: the
  course writer and the readers recognise the same headings.\<close>

theorem clean_headingish_kopyalar: "clean_headingish s = clean_headingish_vd s"
proof -
  have "py_norm x = map (turkce_katla \<circ> py_kucuk) (py_strip x)" for x
    by (simp add: py_norm_def py_lower_def)
  moreover have "py_strip (map (turkce_katla \<circ> py_kucuk) t) = map (turkce_katla \<circ> py_kucuk) (py_strip t)" for t
    by (rule strip_map) (simp add: katla_bosluk)
  ultimately show ?thesis by (simp add: clean_headingish_def clean_headingish_vd_def py_strip_idem)
qed

end
