(* ===== verification/ExcelAktarim.thy ===== *)
theory ExcelAktarim
  imports Excel_Yardimci
begin

text \<open>
  The two readers of \<open>src/excel_parser.py\<close>, \<open>ogrenci_excel_parse\<close> and
  \<open>ders_excel_parse\<close>, over a workbook that pandas has read into sheets (\<open>None\<close>
  when the file does not open, a sheet \<open>None\<close> when \<open>xls.parse\<close> raises), the course
  upsert \<open>dersleri_toplu_yaz\<close> of \<open>src/veri_deposu.py\<close>, and the two handlers of the
  import screen \<open>src/arayuz/import_penceresi.py\<close> that chain a reader and a writer.
  Dictionaries keyed by student number or course code are association lists in insertion
  order, as Python's \<open>dict\<close>; the error messages are values of \<open>aktarim_hatasi\<close>.
\<close>

datatype aktarim_hatasi = ExcelAcilamadi | SayfaOkunamadi string | OgrNoBos string nat

type_synonym kitap = "(string \<times> sayfa option) list"

subsection \<open>Students\<close>

definition ogrno_keys :: "string list" where
  "ogrno_keys = [''ogr_no'', ''ogrenci no'', ''ogrenci_no'', ''ogrenci numarasi'', ''ogrencino'', ''numara'',
                 ''student id'', ''ogrenci id'']"

definition adsoyad_keys :: "string list" where
  "adsoyad_keys = [''adsoyad'', ''ad soyad'', ''adi soyadi'', ''isim'', ''name'']"

definition sinif_keys :: "string list" where
  "sinif_keys = [''sinif'', ''grade'', ''year'', ''sinifi'']"

definition ders_sutun_adlari :: "string list" where
  "ders_sutun_adlari = [''ders_kodu'', ''ders kodu'', ''kod'', ''course code'', ''code'', ''course'']"

text \<open>\<open>list(dict.fromkeys(xs))\<close>: the first occurrence of each element.\<close>

definition ilk_kopyalar :: "'a list \<Rightarrow> 'a list" where
  "ilk_kopyalar xs = rev (remdups (rev xs))"

text \<open>The columns of a student sheet after \<open>df.columns = cols_norm\<close>: number, name and
  class column by name, else by the best score (number and class only when the best score
  is positive), and the course columns by name, else the (at most six) columns of best code
  score at least 0.2.\<close>

record ogr_sutunlari =
  os_no :: "string option"
  os_adsoyad :: "string option"
  os_sinif :: "string option"
  os_dersler :: "string list"

definition en_iyi_sutun :: "(hucre list \<Rightarrow> rat) \<Rightarrow> bool \<Rightarrow> string list \<Rightarrow> hucre list list \<Rightarrow> string option" where
  "en_iyi_sutun f pozitif cols rows =
     (case azalan snd (map (\<lambda>c. (c, f (sutun cols rows c))) cols) of
        [] \<Rightarrow> None
      | (c, p) # _ \<Rightarrow> if pozitif \<and> \<not> 0 < p then None else Some c)"

definition ogr_sutunlari_bul :: "string list \<Rightarrow> hucre list list \<Rightarrow> ogr_sutunlari" where
  "ogr_sutunlari_bul cols rows =
     (let no = find (\<lambda>c. c \<in> set ogrno_keys) cols;
          ad = find (\<lambda>c. c \<in> set adsoyad_keys) cols;
          sn = find (\<lambda>c. c \<in> set sinif_keys) cols;
          ds = ilk_kopyalar (filter (\<lambda>c. take 4 c = ''ders'') cols @ filter (\<lambda>c. c \<in> set ders_sutun_adlari) cols)
      in \<lparr>os_no = (case no of None \<Rightarrow> en_iyi_sutun score_ogrno_col True cols rows | _ \<Rightarrow> no),
          os_adsoyad = (case ad of None \<Rightarrow> en_iyi_sutun score_name_col False cols rows | _ \<Rightarrow> ad),
          os_sinif = (case sn of None \<Rightarrow> en_iyi_sutun score_grade_col True cols rows | _ \<Rightarrow> sn),
          os_dersler = (if ds \<noteq> [] then ds
                        else map fst (take 6 (azalan snd (filter (\<lambda>(c, p). 1 / 5 \<le> p)
                               (map (\<lambda>c. (c, score_code_col (sutun cols rows c))) cols)))))\<rparr>)"

text \<open>The accumulators of the reader: students by number, the enrollment pairs seen and
  the error list.\<close>

record ogr_birikim =
  ob_ogrenciler :: "ogrenci_girdisi list"
  ob_kayitlar :: "(string \<times> string) list"
  ob_hatalar :: "aktarim_hatasi list"

definition ogrenci_birlestir :: "string \<Rightarrow> string option \<Rightarrow> int option \<Rightarrow> ogrenci_girdisi list \<Rightarrow> ogrenci_girdisi list" where
  "ogrenci_birlestir key ad sn os =
     (if list_ex (\<lambda>o'. oi_no o' = Some key) os
      then map (\<lambda>o'. if oi_no o' = Some key
                      then o'\<lparr>oi_adsoyad := (case ad of Some a \<Rightarrow> Some a | None \<Rightarrow> oi_adsoyad o'),
                               oi_sinif := (case sn of Some s \<Rightarrow> Some s | None \<Rightarrow> oi_sinif o')\<rparr>
                      else o') os
      else os @ [\<lparr>oi_no = Some key, oi_adsoyad = ad, oi_sinif = sn\<rparr>])"

text \<open>One row of a student sheet.  A column is used only when its (cleaned) label is
  non-empty, as \<open>if col_ogrno\<close> tests the label's truth value.\<close>

definition ogr_satiri :: "string \<Rightarrow> string list \<Rightarrow> ogr_sutunlari \<Rightarrow> nat \<times> hucre list \<Rightarrow> ogr_birikim \<Rightarrow> ogr_birikim" where
  "ogr_satiri ad cols sc ir b =
     (let (ridx, row) = ir;
          get = (\<lambda>c. satir_get cols row c);
          ogr_no = (case os_no sc of Some c \<Rightarrow> if c \<noteq> [] then safe_str (get c) else None | None \<Rightarrow> None);
          adsoyad = (case os_adsoyad sc of Some c \<Rightarrow> if c \<noteq> [] then safe_str (get c) else None | None \<Rightarrow> None);
          sn = (case os_sinif sc of Some c \<Rightarrow> if c \<noteq> [] then as_int_or_none (get c) else None | None \<Rightarrow> None)
      in case ogr_no of
           None \<Rightarrow> b\<lparr>ob_hatalar := ob_hatalar b @ [OgrNoBos ad (ridx + 1)]\<rparr>
         | Some key \<Rightarrow>
             b\<lparr>ob_ogrenciler := ogrenci_birlestir key adsoyad sn (ob_ogrenciler b),
               ob_kayitlar := ob_kayitlar b @
                 [(key, v). v \<leftarrow> List.map_filter (\<lambda>c. safe_str (get c)) (os_dersler sc), re_kod v]\<rparr>)"

definition ogr_sayfasi :: "string \<times> sayfa option \<Rightarrow> ogr_birikim \<Rightarrow> ogr_birikim" where
  "ogr_sayfasi s b =
     (case s of
        (ad, None) \<Rightarrow> b\<lparr>ob_hatalar := ob_hatalar b @ [SayfaOkunamadi ad]\<rparr>
      | (ad, Some sy) \<Rightarrow>
          if sy_satirlar sy = [] \<or> sy_sutunlar sy = [] then b
          else let rows = drop (first_nonempty_row_idx (sy_satirlar sy)) (sy_satirlar sy);
                   cols = map clean_headingish (sy_sutunlar sy);
                   sc = ogr_sutunlari_bul cols rows
               in fold (ogr_satiri ad cols sc) (enumerate 0 rows) b)"

definition ogrenci_excel_parse ::
  "kitap option \<Rightarrow> ogrenci_girdisi list \<times> (string \<times> string) list \<times> aktarim_hatasi list" where
  "ogrenci_excel_parse k =
     (case k of
        None \<Rightarrow> ([], [], [ExcelAcilamadi])
      | Some sayfalar \<Rightarrow>
          let b = fold ogr_sayfasi sayfalar \<lparr>ob_ogrenciler = [], ob_kayitlar = [], ob_hatalar = []\<rparr>
          in (ob_ogrenciler b, sort (remdups (ob_kayitlar b)), ob_hatalar b))"

subsection \<open>Courses\<close>

record ders_girdisi =
  dg_kod :: string
  dg_ad :: "string option"
  dg_hoca :: "string option"
  dg_sinif :: "int option"
  dg_tur :: "string option"

definition kod_keys :: "string list" where
  "kod_keys = [''ders kodu'', ''kod'', ''kodu'', ''course code'', ''code'', ''ders'']"

definition ad_keys :: "string list" where
  "ad_keys = [''dersin adi'', ''ders adi'', ''ders ismi'', ''ad'', ''adi'', ''course'', ''name'']"

definition hoca_keys :: "string list" where
  "hoca_keys = [''hoca'', ''ogretim uyesi'', ''instructor'', ''ogretim gorevlisi'', ''ogretim elemani'']"

definition tur_keys :: "string list" where
  "tur_keys = [''tur'', ''type'', ''zorunlu'', ''zorunlu/secmeli'', ''z/s'']"

definition baslikta :: "string \<Rightarrow> bool" where
  "baslikta x = (clean_headingish x \<in> set heading_like)"

text \<open>The tail shared by both branches: the strong swap of name and teacher (the name is
  non-empty here, so the swap always happens when its condition holds), the class guessed
  from the code, and \<open>dersler_map[kod] = ...\<close>.\<close>

definition ders_kaydet ::
  "string \<Rightarrow> string \<Rightarrow> string option \<Rightarrow> int option \<Rightarrow> string option \<Rightarrow> (string \<times> ders_girdisi) list \<Rightarrow> (string \<times> ders_girdisi) list" where
  "ders_kaydet kodu adi hoca sn tur m =
     (let (ad', hoca') = (if looks_like_person (Some adi) \<or> (\<not> looks_like_course (Some adi) \<and> looks_like_course hoca)
                          then (hoca, Some adi) else (Some adi, hoca));
          sn' = (case sn of None \<Rightarrow> infer_sinif_from_kod (Some kodu) | _ \<Rightarrow> sn)
      in py_dict_set kodu \<lparr>dg_kod = kodu, dg_ad = ad', dg_hoca = hoca', dg_sinif = sn', dg_tur = tur\<rparr> m)"

text \<open>The header branch: the first of the first 25 rows whose cleaned cells name a code
  and a name column; its rows after it.\<close>

definition ilk_sutun :: "string list \<Rightarrow> string list \<Rightarrow> nat option" where
  "ilk_sutun keys nrm = find (\<lambda>j. nrm ! j \<in> set keys) [0..<length nrm]"

record ders_sutunlari =
  dc_kod :: nat
  dc_ad :: nat
  dc_hoca :: "nat option"
  dc_sinif :: "nat option"
  dc_tur :: "nat option"

definition baslik_sutunlari :: "hucre list \<Rightarrow> ders_sutunlari option" where
  "baslik_sutunlari row =
     (let nrm = map (\<lambda>v. clean_headingish (case safe_str v of Some x \<Rightarrow> x | None \<Rightarrow> [])) row
      in case (ilk_sutun kod_keys nrm, ilk_sutun ad_keys nrm) of
           (Some k, Some a) \<Rightarrow> Some \<lparr>dc_kod = k, dc_ad = a, dc_hoca = ilk_sutun hoca_keys nrm,
                                     dc_sinif = ilk_sutun sinif_keys nrm, dc_tur = ilk_sutun tur_keys nrm\<rparr>
         | _ \<Rightarrow> None)"

definition baslikli_satir :: "ders_sutunlari \<Rightarrow> hucre list \<Rightarrow> (string \<times> ders_girdisi) list \<Rightarrow> (string \<times> ders_girdisi) list" where
  "baslikli_satir dc row m =
     (let kodu = safe_str (hucre_al row (dc_kod dc)); adi = safe_str (hucre_al row (dc_ad dc));
          hoca = (case dc_hoca dc of Some j \<Rightarrow> safe_str (hucre_al row j) | None \<Rightarrow> None);
          sn = (case dc_sinif dc of Some j \<Rightarrow> as_int_or_none (hucre_al row j) | None \<Rightarrow> None);
          tur = (case dc_tur dc of Some j \<Rightarrow> safe_str (hucre_al row j) | None \<Rightarrow> None)
      in case (kodu, adi) of
           (Some k, Some a) \<Rightarrow>
             if baslikta k \<or> baslikta a \<or> (case hoca of Some h \<Rightarrow> baslikta h | None \<Rightarrow> False) \<or> \<not> re_kod k then m
             else ders_kaydet k a hoca sn tur m
         | _ \<Rightarrow> m)"

definition baslik_ara :: "hucre list list \<Rightarrow> (nat \<times> ders_sutunlari) option" where
  "baslik_ara rows =
     (case find (\<lambda>hi. baslik_sutunlari (rows ! hi) \<noteq> None) [0..<min (length rows) 25] of
        None \<Rightarrow> None
      | Some hi \<Rightarrow> map_option (\<lambda>dc. (hi, dc)) (baslik_sutunlari (rows ! hi)))"

text \<open>The automatic branch: the usable columns (at least \<open>max(3, len(df) // 10)\<close> non-empty
  cells, else the first two), the code column of best code score at least 0.6, the name column
  of best name score among the others, and the first fitting teacher, class and type
  columns.\<close>

definition ders_oto_sutunlar ::
  "string list \<Rightarrow> hucre list list \<Rightarrow> (string \<times> string \<times> string option \<times> string option \<times> string option) option" where
  "ders_oto_sutunlar cols rows =
     (let dolu = (\<lambda>c. length (filter (\<lambda>v. safe_str v \<noteq> None) (sutun cols rows c)));
          usable0 = filter (\<lambda>c. max 3 (length rows div 10) \<le> dolu c) cols;
          usable = (if length usable0 < 2 then take 2 cols else usable0);
          scores = map (\<lambda>c. (c, score_code_col (sutun cols rows c), score_name_col (sutun cols rows c),
                             score_grade_col (sutun cols rows c))) usable;
          cand = filter (\<lambda>(c, k, a, g). 3 / 5 \<le> k) scores
      in if scores = [] \<or> cand = [] then None
         else let kc = fst (hd (azalan (\<lambda>(c, k, a, g). k) cand));
                  digerleri = filter (\<lambda>(c, k, a, g). c \<noteq> kc) scores;
                  ac = (if digerleri = [] then fst (hd scores) else fst (hd (azalan (\<lambda>(c, k, a, g). a) digerleri)));
                  hc = map_option fst (find (\<lambda>(c, k, a, g). c \<notin> {kc, ac} \<and> 6 / 5 \<le> a \<and> k < 1 / 5) scores);
                  sc = map_option fst (find (\<lambda>(c, k, a, g). c \<notin> {kc, ac} \<and> 1 / 2 \<le> g) scores);
                  tc = map_option fst (find (\<lambda>(c, k, a, g). c \<notin> {kc, ac} \<and> Some c \<noteq> hc \<and> Some c \<noteq> sc \<and>
                          (let vs = dolu_metinler (sutun cols rows c)
                           in vs \<noteq> [] \<and> sum_list (map (\<lambda>v. of_nat (length v)) vs) / of_nat (length vs) \<le> (12 :: rat))) scores)
              in Some (kc, ac, hc, sc, tc))"

definition oto_satir ::
  "string list \<Rightarrow> string \<times> string \<times> string option \<times> string option \<times> string option \<Rightarrow> hucre list \<Rightarrow>
   (string \<times> ders_girdisi) list \<Rightarrow> (string \<times> ders_girdisi) list" where
  "oto_satir cols sc row m =
     (let (kc, ac, hc, snc, tc) = sc; get = (\<lambda>c. satir_get cols row c);
          kodu = safe_str (get kc); adi = safe_str (get ac)
      in case (kodu, adi) of
           (Some k, Some a) \<Rightarrow>
             if baslikta k \<or> baslikta a \<or> \<not> re_kod k then m
             else let h0 = (case hc of Some c \<Rightarrow> safe_str (get c) | None \<Rightarrow> None);
                      hoca = (case h0 of Some h \<Rightarrow> if baslikta h then None else h0 | None \<Rightarrow> None);
                      sn = (case snc of Some c \<Rightarrow> as_int_or_none (get c) | None \<Rightarrow> None);
                      tur = (case tc of Some c \<Rightarrow> safe_str (get c) | None \<Rightarrow> None)
                  in ders_kaydet k a hoca sn tur m
         | _ \<Rightarrow> m)"

definition ders_sayfasi :: "string \<times> sayfa option \<Rightarrow> (string \<times> ders_girdisi) list \<times> aktarim_hatasi list \<Rightarrow>
                             (string \<times> ders_girdisi) list \<times> aktarim_hatasi list" where
  "ders_sayfasi s acc =
     (let (m, hs) = acc in
      case s of
        (ad, None) \<Rightarrow> (m, hs @ [SayfaOkunamadi ad])
      | (ad, Some sy) \<Rightarrow>
          if sy_satirlar sy = [] \<or> sy_sutunlar sy = [] then (m, hs)
          else let rows = drop (first_nonempty_row_idx (sy_satirlar sy)) (sy_satirlar sy); cols = sy_sutunlar sy
               in case baslik_ara rows of
                    Some (hi, dc) \<Rightarrow> (fold (baslikli_satir dc) (drop (Suc hi) rows) m, hs)
                  | None \<Rightarrow> (case ders_oto_sutunlar cols rows of
                               None \<Rightarrow> (m, hs)
                             | Some sc \<Rightarrow> (fold (oto_satir cols sc) rows m, hs)))"

text \<open>The errors of unreadable sheets are collected and then dropped: the function returns
  \<open>list(dersler_map.values()), []\<close>.\<close>

definition ders_excel_parse :: "kitap option \<Rightarrow> ders_girdisi list \<times> aktarim_hatasi list" where
  "ders_excel_parse k =
     (case k of
        None \<Rightarrow> ([], [ExcelAcilamadi])
      | Some sayfalar \<Rightarrow> let (m, hs) = fold ders_sayfasi sayfalar ([], []) in (map snd m, []))"

subsection \<open>Writing the courses\<close>

text \<open>\<open>dersleri_toplu_yaz\<close>: one transaction; a row without code or name, with a heading
  word in code, name or teacher, or with a code that \<open>RE_DERSKODU\<close> rejects is skipped;
  the strong swap once more; then \<open>INSERT ... ON CONFLICT(bolum_id, kod) DO UPDATE\<close> with
  \<open>COALESCE\<close> for teacher, class and type.  A swap that leaves no name violates
  \<open>NOT NULL\<close> and rolls the transaction back.\<close>

definition ders_upsert :: "kimlik \<Rightarrow> ders_girdisi \<Rightarrow> dvt \<Rightarrow> unit + dvt" where
  "ders_upsert b d v =
     (let kodu = py_strip (dg_kod d); adi = py_strip (case dg_ad d of Some a \<Rightarrow> a | None \<Rightarrow> []);
          hoca = (case dg_hoca d of Some [] \<Rightarrow> None | h \<Rightarrow> h)
      in if kodu = [] \<or> adi = [] then Inr v
         else if is_heading_like (Some kodu) \<or> is_heading_like (Some adi) \<or> is_heading_like hoca then Inr v
         else if \<not> re_derskodu kodu then Inr v
         else let (ad', hoca') = (if looks_like_person (Some adi) \<or> (\<not> looks_like_course (Some adi) \<and> looks_like_course hoca)
                                  then (hoca, Some adi) else (Some adi, hoca))
              in case ad' of
                   None \<Rightarrow> Inl ()
                 | Some a \<Rightarrow>
                     if list_ex (\<lambda>r. dr_bolum_id r = b \<and> dr_kod r = kodu) (dv_dersler v)
                     then Inr (v\<lparr>dv_dersler := map (\<lambda>r. if dr_bolum_id r = b \<and> dr_kod r = kodu
                              then r\<lparr>dr_ad := a, dr_hoca := (case hoca' of Some h \<Rightarrow> Some h | None \<Rightarrow> dr_hoca r),
                                     dr_sinif := (case dg_sinif d of Some x \<Rightarrow> Some x | None \<Rightarrow> dr_sinif r),
                                     dr_tur := (case dg_tur d of Some x \<Rightarrow> Some x | None \<Rightarrow> dr_tur r)\<rparr>
                              else r) (dv_dersler v)\<rparr>)
                     else let i = autoincrement (dv_d_sayac v) (map dr_id (dv_dersler v))
                          in Inr (v\<lparr>dv_dersler := dv_dersler v @ [\<lparr>dr_id = i, dr_bolum_id = b, dr_kod = kodu, dr_ad = a,
                                     dr_hoca = hoca', dr_sinif = dg_sinif d, dr_tur = dg_tur d\<rparr>],
                                   dv_d_sayac := i\<rparr>))"

fun dersleri_toplu_yaz :: "kimlik \<Rightarrow> ders_girdisi list \<Rightarrow> dvt \<Rightarrow> unit + dvt" where
  "dersleri_toplu_yaz b [] v = Inr v"
| "dersleri_toplu_yaz b (d # ds) v = sbind (ders_upsert b d v) (dersleri_toplu_yaz b ds)"

subsection \<open>The import screen\<close>

text \<open>The handlers \<open>_ders_yukle\<close> and \<open>_ogrenci_yukle\<close>: no import before the department
  has a room; \<open>None\<close> for a cancelled file dialog; the writer only when the reader
  returned rows; then the info message and the notice about skipped rows (red when nothing
  was read).  An exception of the writer ends the handler before its messages, with the
  database rolled back.  The log files are output only and not modelled.  A coordinator with
  a room has a department, so the last branch is not reached.\<close>

datatype aktarim_mesaji = DerslikGerekli | DersIslendi nat | OgrenciIslendi nat nat | SatirAtlandi bool

definition ders_yukle ::
  "kullanici_satir \<Rightarrow> yvt \<Rightarrow> kitap option option \<Rightarrow> dvt \<Rightarrow> (unit + dvt) \<times> aktarim_mesaji list" where
  "ders_yukle k yv secim v =
     (if derslik_sayisi k yv = 0 then (Inr v, [DerslikGerekli])
      else case (secim, ku_bolum_id k) of
        (Some kt, Some b) \<Rightarrow>
          let (ds, hs) = ders_excel_parse kt;
              r = (if ds \<noteq> [] then dersleri_toplu_yaz b ds v else Inr v)
          in (r, case r of Inl _ \<Rightarrow> []
                 | Inr _ \<Rightarrow> (if ds \<noteq> [] then [DersIslendi (length ds)] else []) @
                           (if hs \<noteq> [] then [SatirAtlandi (ds = [])] else []))
      | _ \<Rightarrow> (Inr v, []))"

definition ogrenci_yukle ::
  "kullanici_satir \<Rightarrow> yvt \<Rightarrow> kitap option option \<Rightarrow> dvt \<Rightarrow> (unit + dvt) \<times> aktarim_mesaji list" where
  "ogrenci_yukle k yv secim v =
     (if derslik_sayisi k yv = 0 then (Inr v, [DerslikGerekli])
      else case (secim, ku_bolum_id k) of
        (Some kt, Some b) \<Rightarrow>
          let (os, ks, hs) = ogrenci_excel_parse kt;
              r = (if os \<noteq> [] then ogrencileri_toplu_yaz_ve_kayitla b os ks v else Inr v)
          in (r, case r of Inl _ \<Rightarrow> []
                 | Inr _ \<Rightarrow> (if os \<noteq> [] then [OgrenciIslendi (length os) (length ks)] else []) @
                           (if hs \<noteq> [] then [SatirAtlandi (os = [])] else []))
      | _ \<Rightarrow> (Inr v, []))"

subsection \<open>The reader's invariant\<close>

text \<open>Every student has a cleaned number, numbers are unique, and every enrollment pair has
  a cleaned course code that \<open>RE_KOD\<close> accepts and a known student.\<close>

definition ob_inv :: "ogr_birikim \<Rightarrow> bool" where
  "ob_inv b = ((\<forall>o' \<in> set (ob_ogrenciler b). \<exists>n. oi_no o' = Some n \<and> temiz n) \<and>
               distinct (map oi_no (ob_ogrenciler b)) \<and>
               (\<forall>(n, c) \<in> set (ob_kayitlar b). re_kod c \<and> temiz c \<and> Some n \<in> oi_no ` set (ob_ogrenciler b)))"

lemma ders_upsert_atlar:
  "\<not> re_derskodu (py_strip (dg_kod d)) \<Longrightarrow> ders_upsert b d v = Inr v"
  by (simp add: ders_upsert_def Let_def)

lemma dersleri_toplu_yaz_atlar:
  "list_all (\<lambda>d. \<not> re_derskodu (py_strip (dg_kod d))) ds \<Longrightarrow> dersleri_toplu_yaz b ds v = Inr v"
  by (induction ds) (simp_all add: ders_upsert_atlar sbind_def)

subsection \<open>Examples\<close>

definition dvt_bos :: dvt where
  "dvt_bos = \<lparr>dv_dersler = [], dv_d_sayac = 0, dv_ogrenciler = [], dv_o_sayac = 0, dv_ogrenci_ders = []\<rparr>"

text \<open>A course sheet as a department exports it: an empty first row, the header row, and
  three courses, one of them without a teacher.\<close>

definition ders_sayfasi_ornek :: sayfa where
  "ders_sayfasi_ornek = \<lparr>sy_ad = ''Dersler'', sy_sutunlar = [''Unnamed: 0'', ''Unnamed: 1'', ''Unnamed: 2''],
     sy_satirlar = [[Bos, Bos, Bos], [HMetin ''Ders Kodu'', HMetin ''Dersin Adi'', HMetin ''Ogretim Uyesi''],
                    [HMetin ''BIL101'', HMetin ''Programlama'', Bos],
                    [HMetin ''MAT102'', HMetin ''Matematik II'', HMetin ''Dr. Ali''],
                    [HMetin ''FIZ 103'', HMetin ''Fizik I'', HMetin ''Prof. Veli'']]\<rparr>"

text \<open>A course sheet with one course whose code has a blank before its number.\<close>

definition ders_sayfasi_fiz :: sayfa where
  "ders_sayfasi_fiz = \<lparr>sy_ad = ''Dersler'', sy_sutunlar = [''Unnamed: 0'', ''Unnamed: 1'', ''Unnamed: 2''],
     sy_satirlar = [[HMetin ''Ders Kodu'', HMetin ''Dersin Adi'', HMetin ''Ogretim Uyesi''],
                    [HMetin ''FIZ 103'', HMetin ''Fizik I'', HMetin ''Prof. Veli'']]\<rparr>"

text \<open>A student sheet with a row whose name cell is empty.\<close>

definition ogrenci_sayfasi_ornek :: sayfa where
  "ogrenci_sayfasi_ornek = \<lparr>sy_ad = ''Ogrenciler'', sy_sutunlar = [''Ogrenci No'', ''Ad Soyad'', ''Ders'' ],
     sy_satirlar = [[HTam 20230001, HMetin ''Ada Lovelace'', HMetin ''BIL101''],
                    [HTam 20230002, Bos, HMetin ''BIL101'']]\<rparr>"

lemmas ogr_okuma_simps = ogrenci_excel_parse_def ogr_sayfasi_def first_nonempty_row_idx_def ogr_sutunlari_bul_def
  ogrno_keys_def adsoyad_keys_def sinif_keys_def ders_sutun_adlari_def ilk_kopyalar_def en_iyi_sutun_def azalan_def
  sutun_def satir_get_def sutun_no_def hucre_al_def ogr_satiri_def ogrenci_birlestir_def

lemmas ders_okuma_simps = ders_excel_parse_def ders_sayfasi_def baslik_ara_def baslik_sutunlari_def ilk_sutun_def
  kod_keys_def ad_keys_def hoca_keys_def sinif_keys_def tur_keys_def baslikli_satir_def baslikta_def ders_kaydet_def
  looks_like_person_def looks_like_course_def title_tokens_def infer_sinif_from_kod_def first_nonempty_row_idx_def
  hucre_al_def

lemmas ders_yazma_simps = ders_upsert_def is_heading_like_def clean_headingish_vd_def sinif_basligi_def re_derskodu_def
  autoincrement_def looks_like_person_def looks_like_course_def title_tokens_def

subsection \<open>The student reader keeps its invariant\<close>

lemma map_oi_no_guncelle:
  "map oi_no (map (\<lambda>o'. if oi_no o' = Some key then o'\<lparr>oi_adsoyad := A o', oi_sinif := S o'\<rparr> else o') xs) = map oi_no xs"
  by (induction xs) simp_all

lemma ogrenci_birlestir_anahtarlar:
  "map oi_no (ogrenci_birlestir key ad sn os) =
     (if Some key \<in> set (map oi_no os) then map oi_no os else map oi_no os @ [Some key])"
proof (cases "list_ex (\<lambda>o'. oi_no o' = Some key) os")
  case True
  then have "Some key \<in> set (map oi_no os)" by (force simp: list_ex_iff)
  then show ?thesis using True by (simp only: ogrenci_birlestir_def if_True map_oi_no_guncelle)
next
  case False
  then have "Some key \<notin> set (map oi_no os)" by (auto simp: list_ex_iff)
  then show ?thesis using False by (simp add: ogrenci_birlestir_def)
qed

lemma ogrenci_birlestir_kume: "oi_no ` set (ogrenci_birlestir key ad sn os) = insert (Some key) (oi_no ` set os)"
  using ogrenci_birlestir_anahtarlar [of key ad sn os] by (metis list.set_map set_append empty_set list.simps(15) Un_insert_right sup_bot.right_neutral insert_absorb)

lemma ogrenci_birlestir_inv:
  assumes "\<forall>o' \<in> set os. \<exists>n. oi_no o' = Some n \<and> temiz n" "distinct (map oi_no os)" "temiz key"
  shows "(\<forall>o' \<in> set (ogrenci_birlestir key ad sn os). \<exists>n. oi_no o' = Some n \<and> temiz n) \<and>
         distinct (map oi_no (ogrenci_birlestir key ad sn os))"
proof
  show "distinct (map oi_no (ogrenci_birlestir key ad sn os))"
    using assms(2) by (simp add: ogrenci_birlestir_anahtarlar)
  show "\<forall>o' \<in> set (ogrenci_birlestir key ad sn os). \<exists>n. oi_no o' = Some n \<and> temiz n"
    using assms(1,3) by (auto simp: ogrenci_birlestir_def)
qed

lemma ogr_satiri_inv: "ob_inv b \<Longrightarrow> ob_inv (ogr_satiri ad cols sc ir b)"
proof -
  assume i: "ob_inv b"
  obtain ridx row where ir: "ir = (ridx, row)" by (cases ir)
  show ?thesis
  proof (cases "case os_no sc of Some c \<Rightarrow> if c \<noteq> [] then safe_str (satir_get cols row c) else None | None \<Rightarrow> None")
    case None
    then show ?thesis using i by (simp add: ogr_satiri_def ir ob_inv_def)
  next
    case (Some key)
    have k: "temiz key" using Some safe_str_Some by (auto simp: temiz_def split: option.splits if_splits)
    have ks: "\<forall>v \<in> set (List.map_filter (\<lambda>c. safe_str (satir_get cols row c)) (os_dersler sc)). temiz v"
      using safe_str_Some by (auto simp: List.map_filter_def temiz_def)
    show ?thesis
      using Some i k ks ogrenci_birlestir_inv [of "ob_ogrenciler b" key] ogrenci_birlestir_kume
      by (auto simp: ogr_satiri_def ir ob_inv_def Let_def)
  qed
qed

lemma ogr_sayfasi_inv: "ob_inv b \<Longrightarrow> ob_inv (ogr_sayfasi s b)"
proof -
  assume i: "ob_inv b"
  obtain ad so where s: "s = (ad, so)" by (cases s)
  show ?thesis
  proof (cases so)
    case None
    then show ?thesis using i by (simp add: ogr_sayfasi_def s ob_inv_def)
  next
    case (Some sy)
    have "ob_inv (fold (ogr_satiri ad cols sc) xs b)" for cols sc xs
      by (rule fold_korur [where P = ob_inv and f = "ogr_satiri ad cols sc"]) (simp_all add: ogr_satiri_inv i)
    then show ?thesis using i by (simp add: ogr_sayfasi_def s Some Let_def)
  qed
qed

lemma ogrenci_excel_parse_inv:
  assumes "ogrenci_excel_parse k = (os, ks, hs)"
  shows "(\<forall>o' \<in> set os. \<exists>n. oi_no o' = Some n \<and> temiz n) \<and> distinct (map oi_no os) \<and> sorted ks \<and> distinct ks \<and>
         (\<forall>(n, c) \<in> set ks. re_kod c \<and> temiz c \<and> Some n \<in> oi_no ` set os)"
proof (cases k)
  case None
  then show ?thesis using assms by (simp add: ogrenci_excel_parse_def)
next
  case (Some sayfalar)
  let ?b = "fold ogr_sayfasi sayfalar \<lparr>ob_ogrenciler = [], ob_kayitlar = [], ob_hatalar = []\<rparr>"
  have "ob_inv ?b"
    by (rule fold_korur [where P = ob_inv], erule ogr_sayfasi_inv, simp add: ob_inv_def)
  moreover have "os = ob_ogrenciler ?b" "ks = sort (remdups (ob_kayitlar ?b))"
    using assms Some by (simp_all add: ogrenci_excel_parse_def Let_def)
  ultimately show ?thesis by (simp add: ob_inv_def)
qed

subsection \<open>Properties of the import\<close>

text \<open>C19: What the student reader returns is well formed: every student has a student
  number, non-empty and without outer blanks, numbers are unique, and the enrollment pairs
  are sorted, without repetition, and pair a known student with a cleaned course code that
  \<open>RE_KOD\<close> accepts.\<close>

theorem ogrenci_excel_parse_bicimli:
  assumes "ogrenci_excel_parse k = (os, ks, hs)"
  shows "(\<forall>o' \<in> set os. \<exists>n. oi_no o' = Some n \<and> temiz n) \<and> distinct (map oi_no os) \<and> sorted ks \<and> distinct ks \<and>
         (\<forall>(n, c) \<in> set ks. re_kod c \<and> temiz c \<and> Some n \<in> oi_no ` set os)"
  by (rule ogrenci_excel_parse_inv [OF assms])

text \<open>C20: Importing a student sheet (a department with a room, a chosen file) fails and
  rolls back the whole import, students and enrollments alike, exactly when some student the
  reader returned has no name: the reader accepts rows without a name, the \<open>NOT NULL\<close>
  column \<open>adsoyad\<close> does not.\<close>

theorem ogrenci_yukle_geri_alma:
  assumes "derslik_sayisi k yv \<noteq> 0" "ku_bolum_id k = Some b" "ogrenci_excel_parse kt = (os, ks, hs)"
  shows "(\<exists>e. fst (ogrenci_yukle k yv (Some kt) v) = Inl e) \<longleftrightarrow> (\<exists>o' \<in> set os. oi_adsoyad o' = None)"
proof -
  have no: "\<forall>o' \<in> set os. oi_no o' \<noteq> None" using ogrenci_excel_parse_inv [OF assms(3)] by auto
  have r: "fst (ogrenci_yukle k yv (Some kt) v) = (if os \<noteq> [] then ogrencileri_toplu_yaz_ve_kayitla b os ks v else Inr v)"
    using assms by (simp add: ogrenci_yukle_def Let_def)
  show ?thesis
  proof (cases "os = []")
    case False
    have "(\<exists>e. ogrencileri_toplu_yaz_ve_kayitla b os ks v = Inl e) \<longleftrightarrow> (\<exists>e. ogrenciler_upsert b os v = Inl e)"
      by (auto simp: ogrencileri_toplu_yaz_ve_kayitla_def sbind_def split: sum.splits)
    then show ?thesis using False r no ogrenciler_upsert_hata [of b os v] by auto
  qed (simp add: r)
qed

text \<open>On a course sheet with a header row and three courses with valid codes, the course
  screen reports three courses processed but stores one: the name \<open>Programlama\<close> contains
  the title token \<open>ogr\<close>, so the reader moves it into the teacher column and the writer
  skips the course for lack of a name; \<open>FIZ 103\<close> passes \<open>RE_KOD\<close> of the reader but not
  \<open>RE_DERSKODU\<close> of the writer.\<close>

lemma ders_yukle_ornegi:
  "ders_yukle koordinator_ornek yvt_ornek_d (Some (Some [(''Dersler'', Some ders_sayfasi_ornek)])) dvt_bos =
     (Inr (dvt_bos\<lparr>dv_dersler := [\<lparr>dr_id = 1, dr_bolum_id = 1, dr_kod = ''MAT102'', dr_ad = ''Matematik II'',
        dr_hoca = Some ''Dr. Ali'', dr_sinif = Some 1, dr_tur = None\<rparr>], dv_d_sayac := 1\<rparr>), [DersIslendi 3])"
proof -
  have p: "ders_excel_parse (Some [(''Dersler'', Some ders_sayfasi_ornek)]) =
    ([\<lparr>dg_kod = ''BIL101'', dg_ad = None, dg_hoca = Some ''Programlama'', dg_sinif = Some 1, dg_tur = None\<rparr>,
      \<lparr>dg_kod = ''MAT102'', dg_ad = Some ''Matematik II'', dg_hoca = Some ''Dr. Ali'', dg_sinif = Some 1, dg_tur = None\<rparr>,
      \<lparr>dg_kod = ''FIZ 103'', dg_ad = Some ''Fizik I'', dg_hoca = Some ''Prof. Veli'', dg_sinif = Some 1, dg_tur = None\<rparr>], [])"
    by (simp add: ders_sayfasi_ornek_def ders_okuma_simps hucre_simps)
  have d: "derslik_sayisi koordinator_ornek yvt_ornek_d = 1"
    by (simp add: derslik_sayisi_def yonetim_ornek_simps)
  have w: "dersleri_toplu_yaz 1
    [\<lparr>dg_kod = ''BIL101'', dg_ad = None, dg_hoca = Some ''Programlama'', dg_sinif = Some 1, dg_tur = None\<rparr>,
     \<lparr>dg_kod = ''MAT102'', dg_ad = Some ''Matematik II'', dg_hoca = Some ''Dr. Ali'', dg_sinif = Some 1, dg_tur = None\<rparr>,
     \<lparr>dg_kod = ''FIZ 103'', dg_ad = Some ''Fizik I'', dg_hoca = Some ''Prof. Veli'', dg_sinif = Some 1, dg_tur = None\<rparr>] dvt_bos =
    Inr (dvt_bos\<lparr>dv_dersler := [\<lparr>dr_id = 1, dr_bolum_id = 1, dr_kod = ''MAT102'', dr_ad = ''Matematik II'',
        dr_hoca = Some ''Dr. Ali'', dr_sinif = Some 1, dr_tur = None\<rparr>], dv_d_sayac := 1\<rparr>)"
    by (simp add: ders_yazma_simps hucre_simps sbind_def dvt_bos_def)
  show ?thesis using p d w by (simp add: ders_yukle_def koordinator_ornek_def)
qed

subsection \<open>Examples\<close>

lemma ogrenci_ornek_parse:
  "ogrenci_excel_parse (Some [(''Ogrenciler'', Some ogrenci_sayfasi_ornek)]) =
     ([\<lparr>oi_no = Some ''20230001'', oi_adsoyad = Some ''Ada Lovelace'', oi_sinif = None\<rparr>,
       \<lparr>oi_no = Some ''20230002'', oi_adsoyad = None, oi_sinif = None\<rparr>],
      [(''20230001'', ''BIL101''), (''20230002'', ''BIL101'')], [])"
  by (simp add: ogrenci_sayfasi_ornek_def ogr_okuma_simps hucre_simps)

theorem ogrenci_excel_parse_bicimli_witness:
  "ogrenci_excel_parse (Some [(''Ogrenciler'', Some ogrenci_sayfasi_ornek)]) =
     ([\<lparr>oi_no = Some ''20230001'', oi_adsoyad = Some ''Ada Lovelace'', oi_sinif = None\<rparr>,
       \<lparr>oi_no = Some ''20230002'', oi_adsoyad = None, oi_sinif = None\<rparr>],
      [(''20230001'', ''BIL101''), (''20230002'', ''BIL101'')], []) \<and>
   list_all (\<lambda>o'. \<exists>n. oi_no o' = Some n \<and> temiz n)
     [\<lparr>oi_no = Some ''20230001'', oi_adsoyad = Some ''Ada Lovelace'', oi_sinif = None\<rparr>,
      \<lparr>oi_no = Some ''20230002'', oi_adsoyad = None, oi_sinif = None\<rparr>] \<and>
   sorted [(''20230001'', ''BIL101''), (''20230002'', ''BIL101'')] \<and>
   list_all (\<lambda>(n, c). re_kod c \<and> temiz c) [(''20230001'', ''BIL101''), (''20230002'', ''BIL101'')]"
  using ogrenci_ornek_parse ogrenci_excel_parse_bicimli [OF ogrenci_ornek_parse]
  by (simp only: list_all_iff) blast

theorem ogrenci_yukle_geri_alma_witness:
  "derslik_sayisi koordinator_ornek yvt_ornek_d \<noteq> 0 \<and> ku_bolum_id koordinator_ornek = Some 1 \<and>
   (\<exists>e. fst (ogrenci_yukle koordinator_ornek yvt_ornek_d (Some (Some [(''Ogrenciler'', Some ogrenci_sayfasi_ornek)])) dvt_bos) = Inl e)"
proof -
  have d: "derslik_sayisi koordinator_ornek yvt_ornek_d \<noteq> 0" "ku_bolum_id koordinator_ornek = Some 1"
    by (simp_all add: derslik_sayisi_def yonetim_ornek_simps)
  have "\<exists>o' \<in> set [\<lparr>oi_no = Some ''20230001'', oi_adsoyad = Some ''Ada Lovelace'', oi_sinif = None\<rparr>,
       \<lparr>oi_no = Some ''20230002'', oi_adsoyad = None, oi_sinif = (None :: int option)\<rparr>]. oi_adsoyad o' = None"
    by simp
  then show ?thesis using d ogrenci_yukle_geri_alma [OF d ogrenci_ornek_parse, of dvt_bos] by blast
qed

text \<open>C21: The course screen counts what the reader returned, not what the writer stored:
  every parsed course whose code \<open>RE_DERSKODU\<close> of the writer rejects (such as
  \<open>FIZ 103\<close>, which \<open>RE_KOD\<close> of the reader accepts) is skipped without an error, so when
  the reader returns only such courses \<open>_ders_yukle\<close> reports all of them processed and
  leaves the course table as it was.\<close>

theorem ders_yukle_ders_kaybi:
  assumes "derslik_sayisi k yv \<noteq> 0" "ku_bolum_id k = Some b" "fst (ders_excel_parse kt) \<noteq> []"
    and "list_all (\<lambda>d. \<not> re_derskodu (py_strip (dg_kod d))) (fst (ders_excel_parse kt))"
  shows "ders_yukle k yv (Some kt) v =
           (Inr v, DersIslendi (length (fst (ders_excel_parse kt))) #
                   (if snd (ders_excel_parse kt) \<noteq> [] then [SatirAtlandi False] else []))"
proof -
  obtain ds hs where p: "ders_excel_parse kt = (ds, hs)" by (cases "ders_excel_parse kt")
  have "dersleri_toplu_yaz b ds v = Inr v" using assms(4) p by (simp add: dersleri_toplu_yaz_atlar)
  then show ?thesis using assms(1-3) p by (simp add: ders_yukle_def)
qed

theorem ders_yukle_ders_kaybi_witness:
  "derslik_sayisi koordinator_ornek yvt_ornek_d \<noteq> 0 \<and> ku_bolum_id koordinator_ornek = Some 1 \<and>
   fst (ders_excel_parse (Some [(''Dersler'', Some ders_sayfasi_fiz)])) \<noteq> [] \<and>
   list_all (\<lambda>d. \<not> re_derskodu (py_strip (dg_kod d))) (fst (ders_excel_parse (Some [(''Dersler'', Some ders_sayfasi_fiz)]))) \<and>
   ders_yukle koordinator_ornek yvt_ornek_d (Some (Some [(''Dersler'', Some ders_sayfasi_fiz)])) dvt_bos =
     (Inr dvt_bos, [DersIslendi 1])"
proof -
  have p: "ders_excel_parse (Some [(''Dersler'', Some ders_sayfasi_fiz)]) =
    ([\<lparr>dg_kod = ''FIZ 103'', dg_ad = Some ''Fizik I'', dg_hoca = Some ''Prof. Veli'', dg_sinif = Some 1, dg_tur = None\<rparr>], [])"
    by (simp add: ders_sayfasi_fiz_def ders_okuma_simps hucre_simps)
  have r: "\<not> re_derskodu (py_strip ''FIZ 103'')" by (simp add: ders_yazma_simps hucre_simps)
  have d: "derslik_sayisi koordinator_ornek yvt_ornek_d = 1"
    by (simp add: derslik_sayisi_def yonetim_ornek_simps)
  have b: "ku_bolum_id koordinator_ornek = Some 1" by (simp add: koordinator_ornek_def)
  from ders_yukle_ders_kaybi [of koordinator_ornek yvt_ornek_d 1 "Some [(''Dersler'', Some ders_sayfasi_fiz)]" dvt_bos]
  show ?thesis using p r d b by simp
qed

end
