(* ===== verification/ProgramEkrani.thy ===== *)
theory ProgramEkrani
  imports PlanGirdisi DersKaynagi Kayit
begin

text \<open>
  The handler \<open>_olustur\<close> of the exam schedule screen \<open>SinavProgramiPenceresi\<close>
  (\<open>src/arayuz/sinav_programi_penceresi.py\<close>) with its helpers \<open>_parse_saatler\<close> and
  \<open>_secili_ders_ids\<close>, and the writer it calls per placement, \<open>sinav_kaydet\<close> of
  \<open>src/veri_deposu.py\<close>.  The handler reads the entries, builds the \<open>PlanKisit\<close> of
  theory \<open>PlanGirdisi\<close>, runs \<open>planla\<close>, clears the exam type (one transaction) and saves
  every placement in a transaction of its own; any exception ends in an error box, with what
  was committed before it kept.  The two date entries are taken as the value of
  \<open>date.fromisoformat\<close> (\<open>None\<close> when it raises), and the text round trip of a start
  and end time through \<open>strftime("%Y-%m-%d %H:%M")\<close> and \<open>datetime.fromisoformat\<close>,
  which keeps whole minutes, as the identity.
\<close>

subsection \<open>The entries\<close>

text \<open>\<open>_parse_saatler\<close>: the comma-separated entries, stripped, empty ones skipped; each
  must split at \<open>":"\<close> into exactly two parts whose \<open>int()\<close> make a \<open>time\<close> (hour
  below 24, minute below 60), else \<open>ValueError\<close>.\<close>

definition saat_parcasi :: "string \<Rightarrow> unit + nat list" where
  "saat_parcasi p =
     (let q = py_strip p in
      if q = [] then Inr []
      else case py_bol CHR '':'' q of
             [hh, mm] \<Rightarrow> (case (py_int hh, py_int mm) of
                            (Some h, Some m) \<Rightarrow> if 0 \<le> h \<and> h < 24 \<and> 0 \<le> m \<and> m < 60
                                                then Inr [nat (60 * h + m)] else Inl ()
                          | _ \<Rightarrow> Inl ())
           | _ \<Rightarrow> Inl ())"

fun saatleri_topla :: "string list \<Rightarrow> unit + nat list" where
  "saatleri_topla [] = Inr []"
| "saatleri_topla (p # ps) = sbind (saat_parcasi p) (\<lambda>a. sbind (saatleri_topla ps) (\<lambda>b. Inr (a @ b)))"

definition parse_saatler :: "string \<Rightarrow> unit + nat list" where
  "parse_saatler metin = saatleri_topla (py_bol CHR '','' metin)"

text \<open>\<open>_secili_ders_ids\<close>: the ids of the selected rows of the course list the screen loaded
  when it was built, all of them when nothing is selected.\<close>

definition secili_ders_ids :: "ders list \<Rightarrow> nat list \<Rightarrow> kimlik list" where
  "secili_ders_ids liste secim = (if secim = [] then map ders_id liste else map (\<lambda>i. ders_id (liste ! i)) secim)"

subsection \<open>Saving the placements one by one\<close>

text \<open>\<open>sinav_kaydet\<close>: \<open>_program_satiri_yaz\<close> in a transaction of its own (its duration
  argument is not used).  The screen's loop commits each placement; the first error ends it
  with the earlier placements stored.\<close>

fun tek_tek_kaydet :: "kimlik \<Rightarrow> string \<Rightarrow> int \<Rightarrow> yerlestirme list \<Rightarrow> vt \<Rightarrow> vt \<times> kayit_hata option" where
  "tek_tek_kaydet b tur bek [] v = (v, None)"
| "tek_tek_kaydet b tur bek (y # ys) v =
     (case program_satiri_yaz v b (y_ders_id y) tur (baslangic y) (bitis y) bek (derslik_ids y) of
        Inl e \<Rightarrow> (v, Some e)
      | Inr (_, v') \<Rightarrow> tek_tek_kaydet b tur bek ys v')"

subsection \<open>The handler\<close>

datatype program_mesaji =
    ProgramUretildi nat "plan_uyari list" nat
  | GirdiHatasi
  | PlanHatasi girdi_hatasi
  | KayitHatasi kayit_hata

record program_ekrani =
  pe_bolum :: kimlik
  pe_dersler :: "ders list"
  pe_secim :: "nat list"
  pe_t1 :: "int option"
  pe_t2 :: "int option"
  pe_saatler :: string
  pe_tur :: string
  pe_sure :: string
  pe_bekleme :: string
  pe_cumartesi :: bool
  pe_pazar :: bool
  pe_paralel_yasak :: bool

definition olustur :: "program_ekrani \<Rightarrow> dvt \<Rightarrow> yvt \<Rightarrow> vt \<Rightarrow> vt \<times> program_mesaji" where
  "olustur e dv yv v =
     (case (pe_t1 e, pe_t2 e, parse_saatler (pe_saatler e), py_int (pe_sure e), py_int (pe_bekleme e)) of
        (Some t1, Some t2, Inr saatler, Some sure, Some bek) \<Rightarrow>
          let gd = (if pe_cumartesi e then [5] else []) @ (if pe_pazar e then [6] else []);
              dahil = secili_ders_ids (pe_dersler e) (pe_secim e);
              b = pe_bolum e;
              dersler = dersler_ogrsay_ve_alanlar_detayli b dv;
              derslikler = derslikler_kapasite_listesi b yv
          in (case sbind (post_init (arayuz_kisiti t1 t2 saatler (pe_tur e) sure bek (pe_paralel_yasak e) gd dahil))
                     (\<lambda>p. planla_py (Nesne p) dersler derslikler) of
                Inl err \<Rightarrow> (v, PlanHatasi err)
              | Inr (cikti, us, fatal) \<Rightarrow>
                  if fatal then (v, GirdiHatasi)
                  else let v1 = sinav_programini_temizle v b (pe_tur e);
                           (v2, hata) = tek_tek_kaydet b (pe_tur e) bek cikti v1
                       in case hata of
                            Some h \<Rightarrow> (v2, KayitHatasi h)
                          | None \<Rightarrow> (v2, ProgramUretildi 0 (take 10 us) (length us - 10)))
      | _ \<Rightarrow> (v, GirdiHatasi))"

definition program_ekrani_ornek :: program_ekrani where
  "program_ekrani_ornek = \<lparr>pe_bolum = 1, pe_dersler = [], pe_secim = [], pe_t1 = Some 739258, pe_t2 = Some 739262,
     pe_saatler = ''10:00, 13:30'', pe_tur = ''vize'', pe_sure = ''75'', pe_bekleme = ''15'',
     pe_cumartesi = True, pe_pazar = True, pe_paralel_yasak = False\<rparr>"

subsection \<open>Saving the planner's output\<close>

text \<open>Saving a plan row by row, each row committed, ends where the one-transaction writer
  \<open>sinav_programi_kaydet\<close> ends whenever that one succeeds.\<close>

lemma tek_tek_kaydet_dongu:
  "kaydet_dongusu b t bek ys v = Inr v' \<Longrightarrow> tek_tek_kaydet b t bek ys v = (v', None)"
  by (induction ys arbitrary: v) (auto split: sum.splits prod.splits)

text \<open>The planner's placements fit a department and exam type just cleared: saving them
  raises nothing and keeps the invariant (for distinct course ids).\<close>

lemma kaydet_plan_basarili:
  assumes "kayit_inv v" and "distinct (map ders_id dersler)"
  shows "\<exists>v'. sinav_programi_kaydet (sinav_programini_temizle v b t) b t (fst (planla k dersler derslikler)) bek = Inr v' \<and>
              kayit_inv v'"
  unfolding sinav_programi_kaydet_def
proof (rule kaydet_basarili [where ps = "[]"])
  show "kayit_inv (sinav_programini_temizle v b t)" by (rule temizle_korur [OF assms(1)])
  show "kayit_karsilik b t [] (sinav_programini_temizle v b t)"
    unfolding kayit_karsilik_def using temizle_bos by blast
  show "sorted_wrt oda_cakismaz ([] @ fst (planla k dersler derslikler))"
    using planla_oda_inv [of k dersler derslikler] by (simp add: planla_fst oda_inv_def)
  show "distinct (map y_ders_id ([] @ fst (planla k dersler derslikler)))"
    using planla_bir_inv [OF assms(2), of k derslikler] by (simp add: planla_fst bir_inv_def)
  show "\<forall>p \<in> set (fst (planla k dersler derslikler)). distinct (derslik_ids p)"
  proof
    fix p
    assume "p \<in> set (fst (planla k dersler derslikler))"
    then have "yerlestirme_gecerli (plan_ayari k) dersler derslikler p"
      using planla_gecerli_inv [of k dersler derslikler] by (simp add: planla_fst gecerli_inv_def)
    then show "distinct (derslik_ids p)"
      unfolding yerlestirme_gecerli_def by (elim bexE exE conjE) simp
  qed
qed

lemma arayuz_planla_py:
  "sbind (post_init (arayuz_kisiti t1 t2 saatler tur sure bek nopar gd dahil)) (\<lambda>p. planla_py (Nesne p) ds rs) =
     Inr (planla (arayuz_plan_kisit t1 t2 saatler tur sure bek nopar gd dahil) ds rs)"
  using post_init_arayuz kisit_oku_arayuz
  by (simp add: planla_py_def sbind_def planla_def planla_durum_def Let_def)

text \<open>C17: When the entries of the exam schedule screen parse, \<open>_olustur\<close> on a department
  whose course table keeps its keys runs \<open>planla\<close> on the constraint it builds from the
  entries (dates, slots, exam type, duration, buffer, the no-parallel box, the weekend boxes
  and the selected courses), clears the exam type and saves every placement of that plan: it
  ends with the info box reporting the plan's warnings and no course counted as unplaced, and
  with the exam tables exactly as the one-transaction writer \<open>sinav_programi_kaydet\<close> leaves
  them after clearing the exam type and saving the plan's placements, and the table invariant
  holds.\<close>

theorem olustur_programi_kaydeder:
  assumes "kayit_inv v" "dvt_inv dv"
    and "pe_t1 e = Some t1" "pe_t2 e = Some t2" "parse_saatler (pe_saatler e) = Inr saatler"
    and "py_int (pe_sure e) = Some sure" "py_int (pe_bekleme e) = Some bek"
  shows "\<exists>v'. sinav_programi_kaydet (sinav_programini_temizle v (pe_bolum e) (pe_tur e)) (pe_bolum e) (pe_tur e)
             (fst (planla (arayuz_plan_kisit t1 t2 saatler (pe_tur e) sure bek (pe_paralel_yasak e)
                            ((if pe_cumartesi e then [5] else []) @ (if pe_pazar e then [6] else []))
                            (secili_ders_ids (pe_dersler e) (pe_secim e)))
                          (dersler_ogrsay_ve_alanlar_detayli (pe_bolum e) dv)
                          (derslikler_kapasite_listesi (pe_bolum e) yv))) bek = Inr v' \<and>
           olustur e dv yv v =
             (v', ProgramUretildi 0
                    (take 10 (fst (snd (planla (arayuz_plan_kisit t1 t2 saatler (pe_tur e) sure bek (pe_paralel_yasak e)
                            ((if pe_cumartesi e then [5] else []) @ (if pe_pazar e then [6] else []))
                            (secili_ders_ids (pe_dersler e) (pe_secim e)))
                          (dersler_ogrsay_ve_alanlar_detayli (pe_bolum e) dv)
                          (derslikler_kapasite_listesi (pe_bolum e) yv)))))
                    (length (fst (snd (planla (arayuz_plan_kisit t1 t2 saatler (pe_tur e) sure bek (pe_paralel_yasak e)
                            ((if pe_cumartesi e then [5] else []) @ (if pe_pazar e then [6] else []))
                            (secili_ders_ids (pe_dersler e) (pe_secim e)))
                          (dersler_ogrsay_ve_alanlar_detayli (pe_bolum e) dv)
                          (derslikler_kapasite_listesi (pe_bolum e) yv)))) - 10)) \<and>
           kayit_inv v'"
proof -
  let ?ds = "dersler_ogrsay_ve_alanlar_detayli (pe_bolum e) dv"
  let ?rs = "derslikler_kapasite_listesi (pe_bolum e) yv"
  let ?gd = "(if pe_cumartesi e then [5] else []) @ (if pe_pazar e then [6] else [])"
  let ?k = "arayuz_plan_kisit t1 t2 saatler (pe_tur e) sure bek (pe_paralel_yasak e) ?gd
              (secili_ders_ids (pe_dersler e) (pe_secim e))"
  have d: "distinct (map ders_id ?ds)" using assms(2) by (simp add: dvt_inv_def ders_listesi_kimlikleri)
  obtain v' where k: "sinav_programi_kaydet (sinav_programini_temizle v (pe_bolum e) (pe_tur e)) (pe_bolum e) (pe_tur e)
                        (fst (planla ?k ?ds ?rs)) bek = Inr v'" and i: "kayit_inv v'"
    using kaydet_plan_basarili [OF assms(1) d] by blast
  have t: "tek_tek_kaydet (pe_bolum e) (pe_tur e) bek (fst (planla ?k ?ds ?rs)) (sinav_programini_temizle v (pe_bolum e) (pe_tur e))
             = (v', None)"
    using k by (simp add: sinav_programi_kaydet_def tek_tek_kaydet_dongu)
  have "olustur e dv yv v = (v', ProgramUretildi 0 (take 10 (fst (snd (planla ?k ?ds ?rs))))
                                   (length (fst (snd (planla ?k ?ds ?rs))) - 10))"
    using assms(3-7) t arayuz_planla_py
    by (simp add: olustur_def planla_def Let_def split: prod.splits)
  then show ?thesis using k i by blast
qed

theorem olustur_programi_kaydeder_witness:
  "kayit_inv vt_ornek \<and> dvt_inv dvt_ornek \<and> pe_t1 program_ekrani_ornek = Some 739258 \<and>
   pe_t2 program_ekrani_ornek = Some 739262 \<and> parse_saatler (pe_saatler program_ekrani_ornek) = Inr [600, 810] \<and>
   py_int (pe_sure program_ekrani_ornek) = Some 75 \<and> py_int (pe_bekleme program_ekrani_ornek) = Some 15 \<and>
   (\<exists>v'. sinav_programi_kaydet (sinav_programini_temizle vt_ornek 1 ''vize'') 1 ''vize''
        (fst (planla (arayuz_plan_kisit 739258 739262 [600, 810] ''vize'' 75 15 (pe_paralel_yasak program_ekrani_ornek)
                       ((if pe_cumartesi program_ekrani_ornek then [5] else []) @ (if pe_pazar program_ekrani_ornek then [6] else []))
                       (secili_ders_ids (pe_dersler program_ekrani_ornek) (pe_secim program_ekrani_ornek)))
                     (dersler_ogrsay_ve_alanlar_detayli 1 dvt_ornek) (derslikler_kapasite_listesi 1 yvt_ornek_d))) 15 = Inr v' \<and>
      fst (olustur program_ekrani_ornek dvt_ornek yvt_ornek_d vt_ornek) = v' \<and> kayit_inv v')"
proof -
  have i: "kayit_inv vt_ornek" by (simp add: kayit_inv_def vt_ornek_def sp_oda_ayrik_def)
  have d: "dvt_inv dvt_ornek" by (simp add: dvt_inv_def dvt_ornek_def)
  have g: "pe_t1 program_ekrani_ornek = Some 739258" "pe_t2 program_ekrani_ornek = Some 739262"
    by (simp_all add: program_ekrani_ornek_def)
  have s: "parse_saatler (pe_saatler program_ekrani_ornek) = Inr [600, 810]"
    by (simp add: program_ekrani_ornek_def parse_saatler_def saat_parcasi_def sbind_def py_int_def py_strip_def
        py_bosluk_def rakam_dizisi_def rakam_mi_def rakamlar_degeri_def rakam_degeri_def)
  have n: "py_int (pe_sure program_ekrani_ornek) = Some 75" "py_int (pe_bekleme program_ekrani_ornek) = Some 15"
    by (simp_all add: program_ekrani_ornek_def py_int_def py_strip_def py_bosluk_def rakam_dizisi_def rakam_mi_def
        rakamlar_degeri_def rakam_degeri_def)
  have b: "pe_bolum program_ekrani_ornek = 1" "pe_tur program_ekrani_ornek = ''vize''"
    by (simp_all add: program_ekrani_ornek_def)
  from olustur_programi_kaydeder [OF i d g s n, of yvt_ornek_d]
  show ?thesis unfolding b using i d g s n by auto
qed

end
