(* ===== verification/KullaniciEkrani.thy ===== *)
theory KullaniciEkrani
  imports DerslikEkrani
begin

text \<open>
  The login window \<open>GirisPenceresi\<close> of \<open>src/arayuz/giris_penceresi.py\<close> and the admin's
  user management tab \<open>KullaniciYonetimi\<close> of \<open>src/arayuz/kullanici_yonetimi.py\<close>, over the
  administration tables of theory \<open>Yonetim\<close>.  \<open>EMAIL_RE\<close> is decided by \<open>email_re_match\<close>,
  with Python's rule that \<open>$\<close> also matches before a final newline.  The bcrypt calls are
  parameters: \<open>hashpw\<close> is a function from the password to the stored hash (its random salt
  is part of the function), \<open>checkpw\<close> a predicate on a password and a hash.  The widgets are
  the record \<open>kullanici_ekrani\<close>: the entry texts, the two comboboxes (the department box
  with its values and whether it is enabled) and the last message box.  The databases an
  application session can reach, through this tab and the room tab of theory
  \<open>DerslikEkrani\<close>, are the inductive predicate \<open>uygulama\<close>.
\<close>

subsection \<open>The e-mail pattern\<close>

text \<open>\<open>[^@\s]\<close>: a character that is neither \<open>@\<close> nor whitespace (\<open>\s\<close> of a
  \<open>str\<close> pattern is \<open>str.isspace\<close>).\<close>

definition eposta_harfi :: "char \<Rightarrow> bool" where
  "eposta_harfi c = (c \<noteq> CHR ''@'' \<and> \<not> py_bosluk c)"

text \<open>The pattern anchored at both ends: a local part up to the first \<open>@\<close>, then a domain
  of allowed characters holding a dot with a character on each side.\<close>

definition eposta_govde :: "string \<Rightarrow> bool" where
  "eposta_govde s =
     (let yerel = takeWhile (\<lambda>c. c \<noteq> CHR ''@'') s; kalan = dropWhile (\<lambda>c. c \<noteq> CHR ''@'') s in
      yerel \<noteq> [] \<and> list_all eposta_harfi yerel \<and>
      (case kalan of
         [] \<Rightarrow> False
       | _ # alan \<Rightarrow> list_all eposta_harfi alan \<and> CHR ''.'' \<in> set (butlast (tl alan))))"

definition email_re_match :: "string \<Rightarrow> bool" where
  "email_re_match s = (eposta_govde s \<or> (s \<noteq> [] \<and> last s = CHR 0x0A \<and> eposta_govde (butlast s)))"

subsection \<open>The user management tab\<close>

datatype kullanici_mesaj =
    Hata_ZorunluAlanlar | Hata_GecersizEposta | Hata_KisaSifre | Hata_BolumSeciniz
  | Hata_BolumGecersiz | Hata_Kayit yonetim_hata | Bilgi_KullaniciEklendi

record kullanici_ekrani =
  ky_admin :: kullanici_satir
  ky_eposta :: string
  ky_sifre :: string
  ky_rol :: string
  ky_bolum :: string
  ky_bolum_acik :: bool
  ky_bolum_degerleri :: "string list"
  ky_mesaj :: "kullanici_mesaj option"

text \<open>A department as the combobox shows it, \<open>f"{bid} - {ad}"\<close> with \<open>bid = str(b["id"])\<close>.\<close>

definition bolum_secenegi :: "bolum_satir \<Rightarrow> string" where
  "bolum_secenegi b = py_str (bolum_no b) @ '' - '' @ bolum_ad b"

definition kullanici_ekrani_kur :: "kullanici_satir \<Rightarrow> yvt \<Rightarrow> kullanici_ekrani" where
  "kullanici_ekrani_kur a v =
     \<lparr>ky_admin = a, ky_eposta = [], ky_sifre = [], ky_rol = [], ky_bolum = [], ky_bolum_acik = False,
      ky_bolum_degerleri = map bolum_secenegi (tum_bolumleri_getir v), ky_mesaj = None\<rparr>"

definition rol_degisti :: "kullanici_ekrani \<Rightarrow> kullanici_ekrani" where
  "rol_degisti e =
     (if ky_rol e = ''koordinator'' then e\<lparr>ky_bolum_acik := True\<rparr>
      else e\<lparr>ky_bolum := [], ky_bolum_acik := False\<rparr>)"

text \<open>Choosing a value of a \<open>readonly\<close> combobox: the role box offers \<open>admin\<close> and
  \<open>koordinator\<close> and fires \<open>_rol_degisti\<close>; the department box takes one of its values
  while it is enabled.\<close>

definition rol_sec :: "string \<Rightarrow> kullanici_ekrani \<Rightarrow> kullanici_ekrani" where
  "rol_sec r e = (if r = ''admin'' \<or> r = ''koordinator'' then rol_degisti (e\<lparr>ky_rol := r\<rparr>) else e)"

definition bolum_sec :: "nat \<Rightarrow> kullanici_ekrani \<Rightarrow> kullanici_ekrani" where
  "bolum_sec i e =
     (if ky_bolum_acik e \<and> i < length (ky_bolum_degerleri e) then e\<lparr>ky_bolum := ky_bolum_degerleri e ! i\<rparr> else e)"

definition temizle :: "kullanici_ekrani \<Rightarrow> kullanici_ekrani" where
  "temizle e = e\<lparr>ky_eposta := [], ky_sifre := [], ky_rol := [], ky_bolum := [], ky_bolum_acik := False\<rparr>"

text \<open>\<open>str.split(sep, 1)[0]\<close>: the text before the first occurrence of \<open>sep\<close>.\<close>

fun bol_ilk :: "string \<Rightarrow> string \<Rightarrow> string" where
  "bol_ilk sep [] = []"
| "bol_ilk sep (c # cs) = (if take (length sep) (c # cs) = sep then [] else c # bol_ilk sep cs)"

text \<open>The department of a coordinator (lines 94--104), \<open>None\<close> for an admin.\<close>

definition bolum_secimi :: "string \<Rightarrow> string \<Rightarrow> kullanici_mesaj + kimlik option" where
  "bolum_secimi rol kutu =
     (if rol = ''koordinator'' then
        (let secim = py_strip kutu in
         if secim = [] then Inl Hata_BolumSeciniz
         else case py_int (bol_ilk '' - '' secim) of
                None \<Rightarrow> Inl Hata_BolumGecersiz
              | Some bid \<Rightarrow> Inr (Some bid))
      else Inr None)"

definition kullanici_ekle_ekrani ::
  "(string \<Rightarrow> string) \<Rightarrow> kullanici_ekrani \<Rightarrow> yvt \<Rightarrow> kullanici_ekrani \<times> yvt" where
  "kullanici_ekle_ekrani hashpw e v =
     (let eposta = py_strip (ky_eposta e); sifre = py_strip (ky_sifre e); rol = py_strip (ky_rol e) in
      if eposta = [] \<or> sifre = [] \<or> rol = [] then (e\<lparr>ky_mesaj := Some Hata_ZorunluAlanlar\<rparr>, v)
      else if \<not> email_re_match eposta then (e\<lparr>ky_mesaj := Some Hata_GecersizEposta\<rparr>, v)
      else if length sifre < 6 then (e\<lparr>ky_mesaj := Some Hata_KisaSifre\<rparr>, v)
      else case bolum_secimi rol (ky_bolum e) of
             Inl m \<Rightarrow> (e\<lparr>ky_mesaj := Some m\<rparr>, v)
           | Inr bid \<Rightarrow>
               (case yetkili_kullanici_ekle (ky_admin e) eposta (hashpw sifre) rol bid v of
                  Inl err \<Rightarrow> (e\<lparr>ky_mesaj := Some (Hata_Kayit err)\<rparr>, v)
                | Inr v' \<Rightarrow> (temizle (e\<lparr>ky_mesaj := Some Bilgi_KullaniciEklendi\<rparr>), v')))"

subsection \<open>The login window\<close>

datatype giris_hatasi = KullaniciBulunamadi | SifreHatali

definition giris_yap ::
  "(string \<Rightarrow> string \<Rightarrow> bool) \<Rightarrow> yvt \<Rightarrow> string \<Rightarrow> string \<Rightarrow> giris_hatasi + kullanici_satir" where
  "giris_yap checkpw v eposta sifre =
     (case kullanici_bul v (py_strip eposta) of
        None \<Rightarrow> Inl KullaniciBulunamadi
      | Some k \<Rightarrow> if checkpw (py_strip sifre) (ku_sifre_hash k) then Inr k else Inl SifreHatali)"

subsection \<open>Databases an application session reaches\<close>

text \<open>From an empty database (what \<open>main.py\<close> leaves on a first start, see theory
  \<open>Uygulama\<close>) or from the default data of \<open>varsayilan_veri_yukle\<close>, users are added only
  through the admin's tab and rooms are changed only through the coordinator's room tab.\<close>

inductive uygulama :: "yvt \<Rightarrow> bool" where
  bos: "uygulama yvt_bos"
| kurulum: "uygulama (varsayilan_veri_yukle adlar h yvt_bos)"
| kullanici_ekle: "uygulama v \<Longrightarrow> kullanici_ekle_ekrani hashpw e v = (e', v') \<Longrightarrow> uygulama v'"
| derslik_ekle: "uygulama v \<Longrightarrow> ekle d v = (d', v') \<Longrightarrow> uygulama v'"
| derslik_guncelle: "uygulama v \<Longrightarrow> guncelle d v = Some (d', v') \<Longrightarrow> uygulama v'"
| derslik_sil: "uygulama v \<Longrightarrow> sil onay d v = Some (d', v') \<Longrightarrow> uygulama v'"

subsection \<open>An example form\<close>

definition kullanici_formu_ornek :: kullanici_ekrani where
  "kullanici_formu_ornek =
     \<lparr>ky_admin = admin_ornek, ky_eposta = '' ali@uni.edu'', ky_sifre = ''gizli123 '', ky_rol = ''koordinator'',
      ky_bolum = ''2 - YM'', ky_bolum_acik = True, ky_bolum_degerleri = [''1 - BM'', ''2 - YM''], ky_mesaj = None\<rparr>"



subsection \<open>The language of \<open>EMAIL_RE\<close>\<close>

lemma eposta_harfi_nokta [simp]: "eposta_harfi CHR ''.''"
  by (simp add: eposta_harfi_def py_bosluk_def)

lemma eposta_harfi_at [simp]: "\<not> eposta_harfi CHR ''@''"
  by (simp add: eposta_harfi_def)

lemma takeWhile_harf:
  "list_all eposta_harfi a \<Longrightarrow> takeWhile (\<lambda>c. c \<noteq> CHR ''@'') (a @ CHR ''@'' # r) = a \<and>
     dropWhile (\<lambda>c. c \<noteq> CHR ''@'') (a @ CHR ''@'' # r) = CHR ''@'' # r"
  by (induction a) (auto simp: eposta_harfi_def)

lemma eposta_govde_desen:
  "eposta_govde s \<longleftrightarrow>
     (\<exists>a b c. s = a @ CHR ''@'' # b @ CHR ''.'' # c \<and> a \<noteq> [] \<and> b \<noteq> [] \<and> c \<noteq> [] \<and>
              list_all eposta_harfi (a @ b @ c))"
proof
  assume g: "eposta_govde s"
  define a where "a = takeWhile (\<lambda>c. c \<noteq> CHR ''@'') s"
  obtain alan where k: "dropWhile (\<lambda>c. c \<noteq> CHR ''@'') s = CHR ''@'' # alan"
    using g hd_dropWhile [of "\<lambda>c. c \<noteq> CHR ''@''" s]
    by (cases "dropWhile (\<lambda>c. c \<noteq> CHR ''@'') s") (auto simp: eposta_govde_def Let_def)
  have a: "a \<noteq> []" "list_all eposta_harfi a" and al: "list_all eposta_harfi alan"
    and n: "CHR ''.'' \<in> set (butlast (tl alan))"
    using g k by (auto simp: eposta_govde_def a_def Let_def)
  obtain p q where pq: "butlast (tl alan) = p @ CHR ''.'' # q" using n split_list by metis
  then have "tl alan \<noteq> []" by auto
  then have t: "tl alan = p @ CHR ''.'' # q @ [last (tl alan)]"
    using pq append_butlast_last_id [of "tl alan"] by (metis append.assoc append_Cons append_Nil)
  then have "alan \<noteq> []" by auto
  then have al2: "alan = (hd alan # p) @ CHR ''.'' # (q @ [last (tl alan)])" using t by (cases alan) auto
  have s: "s = a @ CHR ''@'' # alan" using k takeWhile_dropWhile_id [of "\<lambda>c. c \<noteq> CHR ''@''" s] by (simp add: a_def)
  show "\<exists>a b c. s = a @ CHR ''@'' # b @ CHR ''.'' # c \<and> a \<noteq> [] \<and> b \<noteq> [] \<and> c \<noteq> [] \<and>
              list_all eposta_harfi (a @ b @ c)"
  proof (intro exI conjI)
    show "s = a @ CHR ''@'' # (hd alan # p) @ CHR ''.'' # (q @ [last (tl alan)])" using s al2 by simp
    show "list_all eposta_harfi (a @ (hd alan # p) @ q @ [last (tl alan)])"
      using a(2) al al2 by (metis list_all_append list.pred_inject(2))
  qed (use a in auto)
next
  assume "\<exists>a b c. s = a @ CHR ''@'' # b @ CHR ''.'' # c \<and> a \<noteq> [] \<and> b \<noteq> [] \<and> c \<noteq> [] \<and>
              list_all eposta_harfi (a @ b @ c)"
  then obtain a b c where s: "s = a @ CHR ''@'' # b @ CHR ''.'' # c" and ne: "a \<noteq> []" "b \<noteq> []" "c \<noteq> []"
    and h: "list_all eposta_harfi a" "list_all eposta_harfi b" "list_all eposta_harfi c" by auto
  have "CHR ''.'' \<in> set (butlast (tl (b @ CHR ''.'' # c)))"
    using ne(2,3) by (cases b) (auto simp: butlast_append)
  then show "eposta_govde s"
    using takeWhile_harf [OF h(1), of "b @ CHR ''.'' # c"] ne h by (simp add: s eposta_govde_def)
qed

text \<open>\<open>EMAIL_RE.match\<close> decides the language of the pattern: a string matches exactly
  when it is \<open>a@b.c\<close>, optionally followed by one newline (Python's \<open>$\<close>), with \<open>a\<close>,
  \<open>b\<close>, \<open>c\<close> non-empty and free of \<open>@\<close> and whitespace; the domain splits at any of its
  dots.\<close>

theorem email_re_match_desen:
  "email_re_match s \<longleftrightarrow>
     (\<exists>a b c. (s = a @ CHR ''@'' # b @ CHR ''.'' # c \<or> s = a @ CHR ''@'' # b @ CHR ''.'' # c @ [CHR 0x0A]) \<and>
              a \<noteq> [] \<and> b \<noteq> [] \<and> c \<noteq> [] \<and> list_all eposta_harfi (a @ b @ c))"
proof -
  have n: "(s \<noteq> [] \<and> last s = CHR 0x0A \<and> eposta_govde (butlast s)) \<longleftrightarrow>
           (\<exists>t. s = t @ [CHR 0x0A] \<and> eposta_govde t)"
    by (metis append_butlast_last_id butlast_snoc last_snoc snoc_eq_iff_butlast)
  let ?P = "\<lambda>a b c. a \<noteq> [] \<and> b \<noteq> [] \<and> c \<noteq> [] \<and> list_all eposta_harfi (a @ b @ c)"
  have "email_re_match s \<longleftrightarrow>
          (\<exists>a b c. s = a @ CHR ''@'' # b @ CHR ''.'' # c \<and> ?P a b c) \<or>
          (\<exists>t. s = t @ [CHR 0x0A] \<and> (\<exists>a b c. t = a @ CHR ''@'' # b @ CHR ''.'' # c \<and> ?P a b c))"
    using n unfolding email_re_match_def eposta_govde_desen by (simp only:)
  also have "\<dots> \<longleftrightarrow> (\<exists>a b c. (s = a @ CHR ''@'' # b @ CHR ''.'' # c \<or>
                                  s = a @ CHR ''@'' # b @ CHR ''.'' # c @ [CHR 0x0A]) \<and> ?P a b c)"
  proof
    assume h: "(\<exists>a b c. s = a @ CHR ''@'' # b @ CHR ''.'' # c \<and> ?P a b c) \<or>
          (\<exists>t. s = t @ [CHR 0x0A] \<and> (\<exists>a b c. t = a @ CHR ''@'' # b @ CHR ''.'' # c \<and> ?P a b c))"
    show "\<exists>a b c. (s = a @ CHR ''@'' # b @ CHR ''.'' # c \<or>
                        s = a @ CHR ''@'' # b @ CHR ''.'' # c @ [CHR 0x0A]) \<and> ?P a b c"
    proof (cases "\<exists>a b c. s = a @ CHR ''@'' # b @ CHR ''.'' # c \<and> ?P a b c")
      case False
      then obtain t a b c where "s = t @ [CHR 0x0A]" "t = a @ CHR ''@'' # b @ CHR ''.'' # c" "?P a b c"
        using h by blast
      then show ?thesis by (intro exI [of _ a] exI [of _ b] exI [of _ c]) simp
    qed blast
  next
    assume "\<exists>a b c. (s = a @ CHR ''@'' # b @ CHR ''.'' # c \<or>
                      s = a @ CHR ''@'' # b @ CHR ''.'' # c @ [CHR 0x0A]) \<and> ?P a b c"
    then obtain a b c where "s = a @ CHR ''@'' # b @ CHR ''.'' # c \<or>
                      s = a @ CHR ''@'' # b @ CHR ''.'' # c @ [CHR 0x0A]" "?P a b c" by blast
    then show "(\<exists>a b c. s = a @ CHR ''@'' # b @ CHR ''.'' # c \<and> ?P a b c) \<or>
          (\<exists>t. s = t @ [CHR 0x0A] \<and> (\<exists>a b c. t = a @ CHR ''@'' # b @ CHR ''.'' # c \<and> ?P a b c))"
    proof (elim disjE)
      assume "s = a @ CHR ''@'' # b @ CHR ''.'' # c @ [CHR 0x0A]" "?P a b c"
      then show ?thesis by (intro disjI2 exI [of _ "a @ CHR ''@'' # b @ CHR ''.'' # c"]) auto
    qed blast
  qed
  finally show ?thesis .
qed

subsection \<open>Adding a user, then logging in\<close>

lemma find_snoc_yeni: "\<not> list_ex P xs \<Longrightarrow> P y \<Longrightarrow> find P (xs @ [y]) = Some y"
  by (induction xs) auto

lemma bolum_secimi_hata: "bolum_secimi r s = Inl m \<Longrightarrow> m \<noteq> Bilgi_KullaniciEklendi"
  by (auto simp: bolum_secimi_def Let_def split: if_splits option.splits)

lemma kullanici_ekle_ekrani_basari:
  assumes "kullanici_ekle_ekrani hashpw e v = (e', v')" "ky_mesaj e' = Some Bilgi_KullaniciEklendi"
  shows "\<exists>bid. email_re_match (py_strip (ky_eposta e)) \<and> 6 \<le> length (py_strip (ky_sifre e)) \<and>
           bolum_secimi (py_strip (ky_rol e)) (ky_bolum e) = Inr bid \<and>
           yetkili_kullanici_ekle (ky_admin e) (py_strip (ky_eposta e)) (hashpw (py_strip (ky_sifre e)))
             (py_strip (ky_rol e)) bid v = Inr v'"
  using assms bolum_secimi_hata unfolding kullanici_ekle_ekrani_def Let_def temizle_def
  by (auto split: if_splits sum.splits)

lemma kullanici_ekle_ekrani_hata:
  "kullanici_ekle_ekrani hashpw e v = (e', v') \<Longrightarrow> ky_mesaj e' \<noteq> Some Bilgi_KullaniciEklendi \<Longrightarrow> v' = v"
  unfolding kullanici_ekle_ekrani_def Let_def temizle_def by (auto split: if_splits sum.splits)

text \<open>The row \<open>yetkili_kullanici_ekle\<close> appends on success.\<close>

lemma yetkili_kullanici_ekle_satir:
  assumes "yetkili_kullanici_ekle g e h r b v = Inr v'"
  shows "\<exists>k. yv_kullanicilar v' = yv_kullanicilar v @ [k] \<and> ku_eposta k = e \<and> ku_sifre_hash k = h \<and>
             ku_rol k = r \<and> e \<notin> set (map ku_eposta (yv_kullanicilar v)) \<and>
             yv_derslikler v' = yv_derslikler v \<and> yv_bolumler v' = yv_bolumler v"
proof -
  obtain b' where "kullanici_ekle_sql v e h r b' = Inr v'"
    using assms by (auto simp: yetkili_kullanici_ekle_def split: sum.splits)
  from kullanici_ekle_sql_Inr [OF this] show ?thesis by auto
qed

text \<open>C33: A user the admin adds through the tab can log in: after \<open>_ekle\<close> shows its
  success box, \<open>_giris_yap\<close> with the same e-mail and password (up to outer blanks, which
  both windows strip) finds the new row and accepts the password, provided bcrypt's
  \<open>checkpw\<close> accepts the hash \<open>hashpw\<close> produced; the row carries the e-mail and the role
  of the form.\<close>

theorem eklenen_kullanici_giris_yapar:
  assumes "kullanici_ekle_ekrani hashpw e v = (e', v')" "ky_mesaj e' = Some Bilgi_KullaniciEklendi"
    and "py_strip ep = py_strip (ky_eposta e)" "py_strip sp = py_strip (ky_sifre e)"
    and "checkpw (py_strip (ky_sifre e)) (hashpw (py_strip (ky_sifre e)))"
  shows "\<exists>k. giris_yap checkpw v' ep sp = Inr k \<and> ku_eposta k = py_strip (ky_eposta e) \<and>
             ku_rol k = py_strip (ky_rol e)"
proof -
  obtain bid where y: "yetkili_kullanici_ekle (ky_admin e) (py_strip (ky_eposta e)) (hashpw (py_strip (ky_sifre e)))
             (py_strip (ky_rol e)) bid v = Inr v'"
    using kullanici_ekle_ekrani_basari [OF assms(1,2)] by blast
  obtain k where k: "yv_kullanicilar v' = yv_kullanicilar v @ [k]" "ku_eposta k = py_strip (ky_eposta e)"
    "ku_sifre_hash k = hashpw (py_strip (ky_sifre e))" "ku_rol k = py_strip (ky_rol e)"
    "py_strip (ky_eposta e) \<notin> set (map ku_eposta (yv_kullanicilar v))"
    using yetkili_kullanici_ekle_satir [OF y] by blast
  have "\<not> list_ex (\<lambda>u. ku_eposta u = py_strip ep) (yv_kullanicilar v)"
    using k(5) assms(3) by (force simp: list_ex_iff)
  then have "kullanici_bul v' (py_strip ep) = Some k"
    using k(1,2) assms(3) find_snoc_yeni by (simp add: kullanici_bul_def)
  then show ?thesis using k assms(4,5) by (simp add: giris_yap_def)
qed

subsection \<open>The department box\<close>

lemma bol_ilk_once: "CHR '' '' \<notin> set a \<Longrightarrow> bol_ilk (CHR '' '' # r) (a @ CHR '' '' # r @ t) = a"
  by (induction a) auto

lemma py_str_bosluksuz: "CHR '' '' \<notin> set (py_str i)"
  using ondalik_rakam [of "nat (- i)"] ondalik_rakam [of "nat i"]
  by (auto simp: py_str_def list_all_iff rakam_mi_def)

lemma py_str_kenar: "py_str i \<noteq> [] \<and> \<not> py_bosluk (hd (py_str i))"
  using ondalik_kenar [of "nat (- i)"] ondalik_kenar [of "nat i"] by (simp add: py_str_def py_bosluk_def)

lemma py_strip_sag:
  assumes "x \<noteq> []" "\<not> py_bosluk (hd x)" "list_ex (\<lambda>c. \<not> py_bosluk c) y"
  shows "py_strip (x @ y) = x @ rev (dropWhile py_bosluk (rev y))"
proof -
  have "dropWhile py_bosluk (x @ y) = x @ y" using assms(1,2) by (cases x) auto
  moreover obtain c where "c \<in> set (rev y)" "\<not> py_bosluk c" using assms(3) by (auto simp: list_ex_iff)
  then have "dropWhile py_bosluk (rev y @ rev x) = dropWhile py_bosluk (rev y) @ rev x"
    by (rule dropWhile_append1)
  ultimately show ?thesis by (simp add: py_strip_def)
qed

lemma bolum_secenegi_oku:
  assumes "list_ex (\<lambda>c. \<not> py_bosluk c) (bolum_ad b)"
  shows "bolum_secimi ''koordinator'' (bolum_secenegi b) = Inr (Some (bolum_no b))"
proof -
  have "py_strip (bolum_secenegi b) = py_str (bolum_no b) @ '' - '' @ rev (dropWhile py_bosluk (rev (bolum_ad b)))"
    using py_strip_sag [of "py_str (bolum_no b)" "'' - '' @ bolum_ad b"] py_str_kenar [of "bolum_no b"] assms
    by (simp add: bolum_secenegi_def rev_append dropWhile_append list_ex_iff)
  then show ?thesis
    using bol_ilk_once [OF py_str_bosluksuz [of "bolum_no b"], of "''- ''"] py_str_kenar [of "bolum_no b"]
    by (auto simp: bolum_secimi_def py_str_geri_okunur)
qed

text \<open>The department box gives back the department it shows: on the tab built over a
  database, choosing the role \<open>koordinator\<close> and then entry \<open>i\<close> of the department box makes
  \<open>_ekle\<close> read the id of the \<open>i\<close>-th department of \<open>tum_bolumleri_getir\<close>, for every
  department whose name is not blank.\<close>

theorem bolum_kutusu_secimi:
  assumes "i < length (tum_bolumleri_getir v)" "list_ex (\<lambda>c. \<not> py_bosluk c) (bolum_ad (tum_bolumleri_getir v ! i))"
  shows "bolum_secimi ''koordinator'' (ky_bolum (bolum_sec i (rol_sec ''koordinator'' (kullanici_ekrani_kur a v)))) =
           Inr (Some (bolum_no (tum_bolumleri_getir v ! i)))"
  using assms bolum_secenegi_oku
  by (simp add: bolum_sec_def rol_sec_def rol_degisti_def kullanici_ekrani_kur_def)

subsection \<open>Stored e-mails\<close>

lemma py_strip_son:
  assumes "py_strip s \<noteq> []"
  shows "\<not> py_bosluk (last (py_strip s))"
proof -
  let ?r = "rev (dropWhile py_bosluk s)"
  have "dropWhile py_bosluk ?r \<noteq> []" using assms by (simp add: py_strip_def)
  then have "\<not> py_bosluk (hd (dropWhile py_bosluk ?r))" by (rule hd_dropWhile)
  then show ?thesis by (simp add: py_strip_def last_rev)
qed

lemma email_re_match_strip: "email_re_match (py_strip s) \<Longrightarrow> eposta_govde (py_strip s)"
  using py_strip_son [of s] by (auto simp: email_re_match_def py_bosluk_def)

lemma bolum_ekle_yoksa_kullanicilar [simp]: "yv_kullanicilar (fold bolum_ekle_yoksa adlar v) = yv_kullanicilar v"
  by (induction adlar arbitrary: v) (simp_all add: bolum_ekle_yoksa_def Let_def)

lemma kurulum_epostalar:
  "list_all (\<lambda>k. eposta_govde (ku_eposta k)) (yv_kullanicilar (varsayilan_veri_yukle adlar h yvt_bos))"
proof -
  have g: "eposta_govde ''admin@uni.edu''" by (simp add: eposta_govde_def eposta_harfi_def py_bosluk_def)
  show ?thesis
  proof (cases "kullanici_ekle_sql (fold bolum_ekle_yoksa adlar yvt_bos) ''admin@uni.edu'' h ''admin'' None")
    case (Inr v2)
    have "yv_kullanicilar (fold bolum_ekle_yoksa adlar yvt_bos) = []" by (simp add: yvt_bos_def)
    then show ?thesis using kullanici_ekle_sql_Inr [OF Inr] Inr g by (simp add: varsayilan_veri_yukle_def Let_def)
  qed (simp add: varsayilan_veri_yukle_def yvt_bos_def)
qed

lemma oda_ekrani_kullanicilar:
  "ekle d v = (d', v') \<Longrightarrow> yv_kullanicilar v' = yv_kullanicilar v"
  "guncelle d v = Some (d', v') \<Longrightarrow> yv_kullanicilar v' = yv_kullanicilar v"
  "sil onay d v = Some (d', v') \<Longrightarrow> yv_kullanicilar v' = yv_kullanicilar v"
  by (auto simp: ekle_def guncelle_def sil_def Let_def derslik_sil_def
      dest!: derslik_ekle_Inr derslik_guncelle_Inr(3) split: sum.splits prod.splits option.splits if_splits)

text \<open>C34: Every user row of a database the application reaches (an empty database or the
  default data of \<open>varsayilan_veri_yukle\<close>, then any sequence of the admin's \<open>_ekle\<close> and
  the coordinators' room handlers) holds an e-mail of the form \<open>a@b.c\<close> of \<open>EMAIL_RE\<close>, without outer blanks or a
  final newline.\<close>

theorem uygulama_epostalari:
  "uygulama v \<Longrightarrow> list_all (\<lambda>k. eposta_govde (ku_eposta k)) (yv_kullanicilar v)"
proof (induction rule: uygulama.induct)
  case (kullanici_ekle v hashpw e e' v')
  show ?case
  proof (cases "ky_mesaj e' = Some Bilgi_KullaniciEklendi")
    case True
    obtain bid where b: "email_re_match (py_strip (ky_eposta e))"
      "yetkili_kullanici_ekle (ky_admin e) (py_strip (ky_eposta e)) (hashpw (py_strip (ky_sifre e)))
             (py_strip (ky_rol e)) bid v = Inr v'"
      using kullanici_ekle_ekrani_basari [OF kullanici_ekle.hyps(2) True] by blast
    then show ?thesis using yetkili_kullanici_ekle_satir [OF b(2)] email_re_match_strip [OF b(1)] kullanici_ekle.IH
      by auto
  qed (use kullanici_ekle_ekrani_hata [OF kullanici_ekle.hyps(2)] kullanici_ekle.IH in simp)
next
  case bos
  then show ?case by (simp add: yvt_bos_def)
qed (simp_all add: kurulum_epostalar oda_ekrani_kullanicilar)

subsection \<open>Examples\<close>

lemma ornek_ekle:
  "kullanici_ekle_ekrani id kullanici_formu_ornek yvt_ornek =
     (temizle (kullanici_formu_ornek\<lparr>ky_mesaj := Some Bilgi_KullaniciEklendi\<rparr>),
      yvt_ornek\<lparr>yv_kullanicilar := yv_kullanicilar yvt_ornek @
        [\<lparr>ku_id = 2, ku_eposta = ''ali@uni.edu'', ku_sifre_hash = ''gizli123'', ku_rol = ''koordinator'',
          ku_bolum_id = Some 2\<rparr>], yv_ku_sayac := 2\<rparr>)"
  by (simp add: kullanici_ekle_ekrani_def kullanici_formu_ornek_def py_strip_def py_bosluk_def
      email_re_match_def eposta_govde_def eposta_harfi_def bolum_secimi_def py_int_def rakam_dizisi_def
      rakam_mi_def rakamlar_degeri_def rakam_degeri_def yonetim_simps)

theorem eklenen_kullanici_giris_yapar_witness:
  "kullanici_ekle_ekrani id kullanici_formu_ornek yvt_ornek =
     (fst (kullanici_ekle_ekrani id kullanici_formu_ornek yvt_ornek), snd (kullanici_ekle_ekrani id kullanici_formu_ornek yvt_ornek)) \<and>
   ky_mesaj (fst (kullanici_ekle_ekrani id kullanici_formu_ornek yvt_ornek)) = Some Bilgi_KullaniciEklendi \<and>
   py_strip ''ali@uni.edu'' = py_strip (ky_eposta kullanici_formu_ornek) \<and>
   py_strip ''gizli123'' = py_strip (ky_sifre kullanici_formu_ornek) \<and>
   (py_strip (ky_sifre kullanici_formu_ornek) = id (py_strip (ky_sifre kullanici_formu_ornek))) \<and>
   (\<exists>k. giris_yap (=) (snd (kullanici_ekle_ekrani id kullanici_formu_ornek yvt_ornek)) ''ali@uni.edu'' ''gizli123'' = Inr k \<and>
        ku_eposta k = ''ali@uni.edu'' \<and> ku_rol k = ''koordinator'')"
proof -
  have h0: "ky_mesaj (fst (kullanici_ekle_ekrani id kullanici_formu_ornek yvt_ornek)) = Some Bilgi_KullaniciEklendi"
    by (simp add: ornek_ekle temizle_def)
  have h: "py_strip ''ali@uni.edu'' = py_strip (ky_eposta kullanici_formu_ornek)"
    "py_strip ''gizli123'' = py_strip (ky_sifre kullanici_formu_ornek)"
    "py_strip (ky_eposta kullanici_formu_ornek) = ''ali@uni.edu''" "py_strip (ky_rol kullanici_formu_ornek) = ''koordinator''"
    by (simp_all add: ornek_ekle temizle_def kullanici_formu_ornek_def py_strip_def py_bosluk_def)
  show ?thesis
    using eklenen_kullanici_giris_yapar [of id kullanici_formu_ornek yvt_ornek
        "fst (kullanici_ekle_ekrani id kullanici_formu_ornek yvt_ornek)"
        "snd (kullanici_ekle_ekrani id kullanici_formu_ornek yvt_ornek)" "''ali@uni.edu''" "''gizli123''" "(=)"] h0 h
    by simp
qed

theorem bolum_kutusu_secimi_witness:
  "1 < length (tum_bolumleri_getir yvt_ornek) \<and> list_ex (\<lambda>c. \<not> py_bosluk c) (bolum_ad (tum_bolumleri_getir yvt_ornek ! 1)) \<and>
   bolum_secimi ''koordinator'' (ky_bolum (bolum_sec 1 (rol_sec ''koordinator'' (kullanici_ekrani_kur admin_ornek yvt_ornek)))) =
     Inr (Some 2)"
proof -
  have t: "tum_bolumleri_getir yvt_ornek = [\<lparr>bolum_no = 1, bolum_ad = ''BM''\<rparr>, \<lparr>bolum_no = 2, bolum_ad = ''YM''\<rparr>]"
    by (simp add: tum_bolumleri_getir_def yonetim_simps)
  have "1 < length (tum_bolumleri_getir yvt_ornek) \<and> list_ex (\<lambda>c. \<not> py_bosluk c) (bolum_ad (tum_bolumleri_getir yvt_ornek ! 1))"
    by (simp add: t py_bosluk_def)
  then show ?thesis using bolum_kutusu_secimi [of 1 yvt_ornek admin_ornek] by (simp add: t)
qed

theorem uygulama_epostalari_witness:
  "uygulama (snd (kullanici_ekle_ekrani id kullanici_formu_ornek yvt_ornek)) \<and>
   list_all (\<lambda>k. eposta_govde (ku_eposta k)) (yv_kullanicilar (snd (kullanici_ekle_ekrani id kullanici_formu_ornek yvt_ornek)))"
proof -
  have u: "uygulama (snd (kullanici_ekle_ekrani id kullanici_formu_ornek yvt_ornek))"
    using uygulama.kullanici_ekle [OF uygulama.kurulum [of "[''BM'', ''YM'']" "''h''"], of id kullanici_formu_ornek
        "fst (kullanici_ekle_ekrani id kullanici_formu_ornek yvt_ornek)" "snd (kullanici_ekle_ekrani id kullanici_formu_ornek yvt_ornek)"]
    by (simp add: yvt_ornek_def)
  show ?thesis using u uygulama_epostalari [OF u] by simp
qed

end
