(* ===== verification/AnaPencere.thy ===== *)
theory AnaPencere
  imports DerslikEkrani ExcelAktarim
begin

text \<open>
  The main window \<open>AnaPencere\<close> of \<open>src/arayuz/ana_pencere.py\<close>: its notebook of tabs, the
  two timers its \<open>_build\<close> starts, and the callbacks the room tab and the import tab call,
  composed with those tabs (theories \<open>DerslikEkrani\<close> and \<open>ExcelAktarim\<close>) and the two parts
  of the database into the coordinator's session \<open>koordinator_oturumu\<close>.  A tab is its kind,
  whether its state is \<open>normal\<close> (else \<open>disabled\<close>) and whether its title carries the note
  \<open>(Once derslik girin)\<close> of \<open>_bilgilendir_kilit\<close>; the titles are constants of the source,
  and the Excel tab's is the only one that starts with \<open>Excel Aktar\<close>.  Tk's \<open>after\<close>
  queue holds the callbacks not yet run, in the order they fall due (100 ms before 400 ms);
  user events may come between them.  The frames of the other tabs keep their own state and
  appear here only as tabs.  A user can select an enabled tab only, and uses the widgets of
  the selected tab only.
\<close>

subsection \<open>The notebook\<close>

datatype sekme =
    Derslikler | ExcelAktar | OturmaPlani | SinavProgrami | OgrenciListesi | DersListesi
  | KullaniciYonetimi | Genel

record sekme_kaydi =
  sk_sekme :: sekme
  sk_acik :: bool
  sk_not :: bool

datatype zamanlayici = VeriSekmeleri | KilitNotu nat

record ana_pencere =
  ap_kullanici :: kullanici_satir
  ap_sekmeler :: "sekme_kaydi list"
  ap_refs :: "sekme list"
  ap_secili :: nat
  ap_zamanlayicilar :: "zamanlayici list"
  ap_gorunen :: "string list"

definition sekme_yeni :: "sekme \<Rightarrow> bool \<Rightarrow> sekme_kaydi" where
  "sekme_yeni s a = \<lparr>sk_sekme = s, sk_acik = a, sk_not = False\<rparr>"

text \<open>\<open>_build\<close>: for a coordinator the room, import and seating tabs, the import tab disabled
  while the department has no room, and the timers of \<open>_bilgilendir_kilit\<close> (400 ms, only
  then) and \<open>_ensure_data_tabs\<close> (100 ms); for an admin the user management tab and the
  general tab listing the departments the admin sees.\<close>

definition pencere_kur :: "kullanici_satir \<Rightarrow> yvt \<Rightarrow> ana_pencere" where
  "pencere_kur k v =
     (if ku_rol k = ''koordinator'' then
        (let kilit = (derslik_sayisi k v = 0) in
         \<lparr>ap_kullanici = k,
          ap_sekmeler = [sekme_yeni Derslikler True, sekme_yeni ExcelAktar (\<not> kilit), sekme_yeni OturmaPlani True],
          ap_refs = [OturmaPlani], ap_secili = 0,
          ap_zamanlayicilar = (if kilit then [VeriSekmeleri, KilitNotu 1] else [VeriSekmeleri]),
          ap_gorunen = []\<rparr>)
      else
        \<lparr>ap_kullanici = k, ap_sekmeler = [sekme_yeni KullaniciYonetimi True, sekme_yeni Genel True],
         ap_refs = [], ap_secili = 0, ap_zamanlayicilar = [],
         ap_gorunen = map bolum_ad (kullaniciya_gorunecek_bolumler k v)\<rparr>)"

text \<open>\<open>_bilgilendir_kilit\<close>: the note is appended to the title of tab \<open>idx\<close>.\<close>

definition bilgilendir_kilit :: "nat \<Rightarrow> ana_pencere \<Rightarrow> ana_pencere" where
  "bilgilendir_kilit idx w =
     (if idx < length (ap_sekmeler w)
      then w\<lparr>ap_sekmeler := (ap_sekmeler w)[idx := (ap_sekmeler w ! idx)\<lparr>sk_not := True\<rparr>]\<rparr> else w)"

text \<open>\<open>_on_first_derslik_added\<close>: the first tab whose title starts with \<open>Excel Aktar\<close> is
  set to \<open>normal\<close>; its title is left as it is.\<close>

fun excel_ac :: "sekme_kaydi list \<Rightarrow> sekme_kaydi list" where
  "excel_ac [] = []"
| "excel_ac (t # ts) = (if sk_sekme t = ExcelAktar then t\<lparr>sk_acik := True\<rparr> # ts else t # excel_ac ts)"

definition ilk_derslik_eklendi :: "ana_pencere \<Rightarrow> ana_pencere" where
  "ilk_derslik_eklendi w = w\<lparr>ap_sekmeler := excel_ac (ap_sekmeler w)\<rparr>"

text \<open>\<open>_ensure_data_tabs\<close>: each data tab is added (enabled) unless \<open>_tab_refs\<close> has it.\<close>

definition sekme_ekle_yoksa :: "sekme \<Rightarrow> ana_pencere \<Rightarrow> ana_pencere" where
  "sekme_ekle_yoksa s w =
     (if s \<in> set (ap_refs w) then w
      else w\<lparr>ap_sekmeler := ap_sekmeler w @ [sekme_yeni s True], ap_refs := ap_refs w @ [s]\<rparr>)"

definition ensure_data_tabs :: "ana_pencere \<Rightarrow> ana_pencere" where
  "ensure_data_tabs w = sekme_ekle_yoksa DersListesi (sekme_ekle_yoksa OgrenciListesi (sekme_ekle_yoksa SinavProgrami w))"

text \<open>\<open>_focus_tab\<close>: the tab of \<open>_tab_refs[key]\<close> is selected, nothing when the key is absent.\<close>

definition focus_tab :: "sekme \<Rightarrow> ana_pencere \<Rightarrow> ana_pencere" where
  "focus_tab s w =
     (if s \<notin> set (ap_refs w) then w
      else let i = length (takeWhile (\<lambda>t. sk_sekme t \<noteq> s) (ap_sekmeler w)) in
           if i < length (ap_sekmeler w) then w\<lparr>ap_secili := i\<rparr> else w)"

definition on_after_import :: "string \<Rightarrow> ana_pencere \<Rightarrow> ana_pencere" where
  "on_after_import tip w =
     (let w1 = ensure_data_tabs w in
      if tip = ''ders'' then focus_tab SinavProgrami w1 else focus_tab OgrenciListesi w1)"

text \<open>The callback the Tk event loop runs when a timer falls due.\<close>

fun zamanlayici_calistir :: "zamanlayici \<Rightarrow> ana_pencere \<Rightarrow> ana_pencere" where
  "zamanlayici_calistir VeriSekmeleri w = ensure_data_tabs w"
| "zamanlayici_calistir (KilitNotu idx) w = bilgilendir_kilit idx w"

text \<open>A click on tab \<open>i\<close>: Tk selects it when it is enabled.\<close>

definition sekme_sec :: "nat \<Rightarrow> ana_pencere \<Rightarrow> ana_pencere" where
  "sekme_sec i w = (if i < length (ap_sekmeler w) \<and> sk_acik (ap_sekmeler w ! i) then w\<lparr>ap_secili := i\<rparr> else w)"

definition secili_sekme :: "ana_pencere \<Rightarrow> sekme option" where
  "secili_sekme w = (if ap_secili w < length (ap_sekmeler w) then Some (sk_sekme (ap_sekmeler w ! ap_secili w)) else None)"

definition excel_kilitli :: "ana_pencere \<Rightarrow> bool" where
  "excel_kilitli w = list_ex (\<lambda>t. sk_sekme t = ExcelAktar \<and> \<not> sk_acik t) (ap_sekmeler w)"

subsection \<open>The coordinator's session\<close>

text \<open>The room tab as \<open>DerslikPenceresi.__init__\<close> builds it for the window: the window's
  user, the callback passed, and the list filled by \<open>_yenile\<close>.\<close>

definition derslik_sekmesi_kur :: "kullanici_satir \<Rightarrow> yvt \<Rightarrow> derslik_ekrani" where
  "derslik_sekmesi_kur k v =
     yenile v \<lparr>de_koordinator = k, de_form = bos_form, de_liste = [], de_secili = None, de_mesaj = None,
               de_cizim = None, de_geri_cagri = True, de_import_acildi = 0\<rparr>"

record koordinator_oturumu =
  ko_pencere :: ana_pencere
  ko_derslik :: derslik_ekrani
  ko_yv :: yvt
  ko_dv :: dvt

text \<open>The room tab's \<open>_ekle\<close>, then the window's callback when the tab called it.\<close>

definition oda_ekle_olayi :: "koordinator_oturumu \<Rightarrow> koordinator_oturumu" where
  "oda_ekle_olayi s =
     (let (d', v') = ekle (ko_derslik s) (ko_yv s);
          w = ko_pencere s
      in s\<lparr>ko_pencere := (if de_import_acildi d' \<noteq> de_import_acildi (ko_derslik s) then ilk_derslik_eklendi w else w),
           ko_derslik := d', ko_yv := v'\<rparr>)"

text \<open>The import tab's handlers, then \<open>on_after_import\<close> when they reached it (rows were
  read and written).\<close>

definition aktarim_bildirdi :: "aktarim_mesaji list \<Rightarrow> bool" where
  "aktarim_bildirdi ms = list_ex (\<lambda>m. case m of DersIslendi _ \<Rightarrow> True | OgrenciIslendi _ _ \<Rightarrow> True | _ \<Rightarrow> False) ms"

definition aktarim_olayi ::
  "string \<Rightarrow> ((unit + dvt) \<times> aktarim_mesaji list) \<Rightarrow> koordinator_oturumu \<Rightarrow> koordinator_oturumu" where
  "aktarim_olayi tip sonuc s =
     (let (r, ms) = sonuc
      in s\<lparr>ko_dv := (case r of Inr v' \<Rightarrow> v' | Inl _ \<Rightarrow> ko_dv s),
           ko_pencere := (if aktarim_bildirdi ms then on_after_import tip (ko_pencere s) else ko_pencere s)\<rparr>)"

inductive koordinator_uygulamasi :: "koordinator_oturumu \<Rightarrow> bool" where
  giris: "ku_rol k = ''koordinator'' \<Longrightarrow>
    koordinator_uygulamasi \<lparr>ko_pencere = pencere_kur k yv, ko_derslik = derslik_sekmesi_kur k yv, ko_yv = yv, ko_dv = dv\<rparr>"
| zaman: "koordinator_uygulamasi s \<Longrightarrow> ap_zamanlayicilar (ko_pencere s) = z # zs \<Longrightarrow>
    koordinator_uygulamasi (s\<lparr>ko_pencere := zamanlayici_calistir z ((ko_pencere s)\<lparr>ap_zamanlayicilar := zs\<rparr>)\<rparr>)"
| sekme: "koordinator_uygulamasi s \<Longrightarrow> koordinator_uygulamasi (s\<lparr>ko_pencere := sekme_sec i (ko_pencere s)\<rparr>)"
| oda_formu: "koordinator_uygulamasi s \<Longrightarrow> secili_sekme (ko_pencere s) = Some Derslikler \<Longrightarrow>
    koordinator_uygulamasi (s\<lparr>ko_derslik := (ko_derslik s)\<lparr>de_form := f\<rparr>\<rparr>)"
| oda_sec: "koordinator_uygulamasi s \<Longrightarrow> secili_sekme (ko_pencere s) = Some Derslikler \<Longrightarrow>
    koordinator_uygulamasi (s\<lparr>ko_derslik := liste_secildi iid (ko_derslik s)\<rparr>)"
| oda_ekle: "koordinator_uygulamasi s \<Longrightarrow> secili_sekme (ko_pencere s) = Some Derslikler \<Longrightarrow>
    koordinator_uygulamasi (oda_ekle_olayi s)"
| oda_guncelle: "koordinator_uygulamasi s \<Longrightarrow> secili_sekme (ko_pencere s) = Some Derslikler \<Longrightarrow>
    guncelle (ko_derslik s) (ko_yv s) = Some (d', v') \<Longrightarrow> koordinator_uygulamasi (s\<lparr>ko_derslik := d', ko_yv := v'\<rparr>)"
| oda_sil: "koordinator_uygulamasi s \<Longrightarrow> secili_sekme (ko_pencere s) = Some Derslikler \<Longrightarrow>
    sil onay (ko_derslik s) (ko_yv s) = Some (d', v') \<Longrightarrow> koordinator_uygulamasi (s\<lparr>ko_derslik := d', ko_yv := v'\<rparr>)"
| ders_aktar: "koordinator_uygulamasi s \<Longrightarrow> secili_sekme (ko_pencere s) = Some ExcelAktar \<Longrightarrow>
    koordinator_uygulamasi (aktarim_olayi ''ders'' (ders_yukle (ap_kullanici (ko_pencere s)) (ko_yv s) secim (ko_dv s)) s)"
| ogrenci_aktar: "koordinator_uygulamasi s \<Longrightarrow> secili_sekme (ko_pencere s) = Some ExcelAktar \<Longrightarrow>
    koordinator_uygulamasi (aktarim_olayi ''ogrenci'' (ogrenci_yukle (ap_kullanici (ko_pencere s)) (ko_yv s) secim (ko_dv s)) s)"

subsection \<open>The invariant of the session\<close>

definition pencere_inv :: "ana_pencere \<Rightarrow> bool" where
  "pencere_inv w =
     (distinct (map sk_sekme (ap_sekmeler w)) \<and>
      set (ap_refs w) = set (map sk_sekme (ap_sekmeler w)) - {Derslikler, ExcelAktar} \<and>
      list_all (\<lambda>t. sk_sekme t = ExcelAktar \<or> sk_acik t) (ap_sekmeler w) \<and>
      ap_secili w < length (ap_sekmeler w) \<and> sk_acik (ap_sekmeler w ! ap_secili w))"

definition oturum_inv :: "koordinator_oturumu \<Rightarrow> bool" where
  "oturum_inv s =
     (pencere_inv (ko_pencere s) \<and> ku_rol (ap_kullanici (ko_pencere s)) = ''koordinator'' \<and>
      de_koordinator (ko_derslik s) = ap_kullanici (ko_pencere s) \<and> de_geri_cagri (ko_derslik s) \<and>
      (excel_kilitli (ko_pencere s) \<longrightarrow> derslik_sayisi (ap_kullanici (ko_pencere s)) (ko_yv s) = 0))"


subsection \<open>An example session\<close>

definition oda_formu_ornek :: derslik_formu where
  "oda_formu_ornek = \<lparr>f_kodu = ''D1'', f_adi = ''Amfi'', f_kapasite = ''40'', f_enine = ''8'', f_boyuna = ''5'', f_sira = ''2''\<rparr>"

definition oturum_kur_ornek :: koordinator_oturumu where
  "oturum_kur_ornek = \<lparr>ko_pencere = pencere_kur koordinator_ornek yvt_ornek,
     ko_derslik = derslik_sekmesi_kur koordinator_ornek yvt_ornek, ko_yv = yvt_ornek, ko_dv = dvt_bos\<rparr>"

subsection \<open>Window operations\<close>


lemma sekme_ekle_yoksa_inv:
  assumes "pencere_inv w" "s \<noteq> Derslikler" "s \<noteq> ExcelAktar"
  shows "pencere_inv (sekme_ekle_yoksa s w) \<and> excel_kilitli (sekme_ekle_yoksa s w) = excel_kilitli w \<and>
         ap_kullanici (sekme_ekle_yoksa s w) = ap_kullanici w \<and> s \<in> set (ap_refs (sekme_ekle_yoksa s w))"
  using assms by (auto simp: pencere_inv_def sekme_ekle_yoksa_def excel_kilitli_def sekme_yeni_def nth_append)

lemma sekme_ekle_yoksa_refs: "set (ap_refs w) \<subseteq> set (ap_refs (sekme_ekle_yoksa s w))"
  by (auto simp: sekme_ekle_yoksa_def)

lemma ensure_data_tabs_inv:
  assumes "pencere_inv w"
  shows "pencere_inv (ensure_data_tabs w) \<and> excel_kilitli (ensure_data_tabs w) = excel_kilitli w \<and>
         ap_kullanici (ensure_data_tabs w) = ap_kullanici w \<and>
         SinavProgrami \<in> set (ap_refs (ensure_data_tabs w)) \<and> OgrenciListesi \<in> set (ap_refs (ensure_data_tabs w))"
proof -
  let ?w1 = "sekme_ekle_yoksa SinavProgrami w"
  let ?w2 = "sekme_ekle_yoksa OgrenciListesi ?w1"
  have 1: "pencere_inv ?w1 \<and> excel_kilitli ?w1 = excel_kilitli w \<and> ap_kullanici ?w1 = ap_kullanici w \<and>
           SinavProgrami \<in> set (ap_refs ?w1)"
    using sekme_ekle_yoksa_inv [OF assms, of SinavProgrami] by simp
  have 2: "pencere_inv ?w2 \<and> excel_kilitli ?w2 = excel_kilitli ?w1 \<and> ap_kullanici ?w2 = ap_kullanici ?w1 \<and>
           OgrenciListesi \<in> set (ap_refs ?w2)"
    using sekme_ekle_yoksa_inv [of ?w1 OgrenciListesi] 1 by simp
  have 3: "pencere_inv (sekme_ekle_yoksa DersListesi ?w2) \<and>
           excel_kilitli (sekme_ekle_yoksa DersListesi ?w2) = excel_kilitli ?w2 \<and>
           ap_kullanici (sekme_ekle_yoksa DersListesi ?w2) = ap_kullanici ?w2"
    using sekme_ekle_yoksa_inv [of ?w2 DersListesi] 2 by simp
  have "SinavProgrami \<in> set (ap_refs (sekme_ekle_yoksa DersListesi ?w2))"
    using 1 sekme_ekle_yoksa_refs [of ?w1 OgrenciListesi] sekme_ekle_yoksa_refs [of ?w2 DersListesi] by blast
  moreover have "OgrenciListesi \<in> set (ap_refs (sekme_ekle_yoksa DersListesi ?w2))"
    using 2 sekme_ekle_yoksa_refs [of ?w2 DersListesi] by blast
  ultimately show ?thesis using 1 2 3 unfolding ensure_data_tabs_def by simp
qed

lemma focus_tab_inv:
  assumes "pencere_inv w"
  shows "pencere_inv (focus_tab s w) \<and> excel_kilitli (focus_tab s w) = excel_kilitli w \<and>
         ap_kullanici (focus_tab s w) = ap_kullanici w"
proof (cases "s \<in> set (ap_refs w)")
  case True
  let ?i = "length (takeWhile (\<lambda>t. sk_sekme t \<noteq> s) (ap_sekmeler w))"
  obtain t where t: "t \<in> set (ap_sekmeler w)" "sk_sekme t = s" and x: "s \<noteq> ExcelAktar"
    using True assms by (auto simp: pencere_inv_def)
  have i1: "?i < length (ap_sekmeler w)" using length_takeWhile_kucuk [OF t(1)] t(2) by simp
  then have i: "?i < length (ap_sekmeler w)" "sk_sekme (ap_sekmeler w ! ?i) = s"
    using nth_length_takeWhile [OF i1] by simp_all
  then have "sk_acik (ap_sekmeler w ! ?i)"
    using assms x by (auto simp: pencere_inv_def list_all_length)
  then show ?thesis using assms i True by (simp add: focus_tab_def pencere_inv_def excel_kilitli_def Let_def)
qed (use assms in \<open>simp add: focus_tab_def\<close>)

lemma on_after_import_inv:
  assumes "pencere_inv w"
  shows "pencere_inv (on_after_import tip w) \<and> excel_kilitli (on_after_import tip w) = excel_kilitli w \<and>
         ap_kullanici (on_after_import tip w) = ap_kullanici w"
proof -
  note e = ensure_data_tabs_inv [OF assms]
  then have "pencere_inv (ensure_data_tabs w)" by blast
  note f = focus_tab_inv [OF this, of SinavProgrami] focus_tab_inv [OF this, of OgrenciListesi]
  show ?thesis using e f by (cases "tip = ''ders''") (simp_all add: on_after_import_def Let_def)
qed

lemma map_guncelle_ayni: "(\<And>x. g (f x) = g x) \<Longrightarrow> map g (xs[j := f (xs ! j)]) = map g xs"
  by (induction xs arbitrary: j) (simp_all split: nat.split)

lemma map_esit_nth: "map g ys = map g xs \<Longrightarrow> i < length xs \<Longrightarrow> g (ys ! i) = g (xs ! i)"
  by (metis length_map nth_map)

lemma bilgilendir_kilit_inv:
  assumes "pencere_inv w"
  shows "pencere_inv (bilgilendir_kilit idx w) \<and> excel_kilitli (bilgilendir_kilit idx w) = excel_kilitli w \<and>
         ap_kullanici (bilgilendir_kilit idx w) = ap_kullanici w"
proof -
  let ?ts = "ap_sekmeler w" and ?ys = "(ap_sekmeler w)[idx := (ap_sekmeler w ! idx)\<lparr>sk_not := True\<rparr>]"
  have m: "map sk_sekme ?ys = map sk_sekme ?ts" "map sk_acik ?ys = map sk_acik ?ts"
    "map (\<lambda>t. (sk_sekme t, sk_acik t)) ?ys = map (\<lambda>t. (sk_sekme t, sk_acik t)) ?ts"
    by (simp_all add: map_guncelle_ayni)
  have "list_all (\<lambda>t. sk_sekme t = ExcelAktar \<or> sk_acik t) ?ys = list_all (\<lambda>t. sk_sekme t = ExcelAktar \<or> sk_acik t) ?ts"
    "list_ex (\<lambda>t. sk_sekme t = ExcelAktar \<and> \<not> sk_acik t) ?ys = list_ex (\<lambda>t. sk_sekme t = ExcelAktar \<and> \<not> sk_acik t) ?ts"
    using arg_cong [OF m(3), of "list_all (\<lambda>(s, a). s = ExcelAktar \<or> a)"]
      arg_cong [OF m(3), of "list_ex (\<lambda>(s, a). s = ExcelAktar \<and> \<not> a)"]
    by (simp_all add: list.pred_map list_ex_iff comp_def)
  moreover have "sk_sekme ` set ?ys = sk_sekme ` set ?ts" using arg_cong [OF m(1), of set] by simp
  moreover have "ap_secili w < length ?ts \<Longrightarrow> sk_acik (?ys ! ap_secili w) = sk_acik (?ts ! ap_secili w)"
    by (rule map_esit_nth [OF m(2)])
  ultimately show ?thesis using assms m(1)
    by (simp add: bilgilendir_kilit_def pencere_inv_def excel_kilitli_def)
qed

lemma zamanlayici_calistir_inv:
  "pencere_inv w \<Longrightarrow> pencere_inv (zamanlayici_calistir z w) \<and>
     excel_kilitli (zamanlayici_calistir z w) = excel_kilitli w \<and> ap_kullanici (zamanlayici_calistir z w) = ap_kullanici w"
  by (cases z) (simp_all add: ensure_data_tabs_inv bilgilendir_kilit_inv)

lemma sekme_sec_inv:
  "pencere_inv w \<Longrightarrow> pencere_inv (sekme_sec i w) \<and> excel_kilitli (sekme_sec i w) = excel_kilitli w \<and>
     ap_kullanici (sekme_sec i w) = ap_kullanici w"
  by (simp add: sekme_sec_def pencere_inv_def excel_kilitli_def)

lemma excel_ac_sekme [simp]: "map sk_sekme (excel_ac ts) = map sk_sekme ts"
  by (induction ts) simp_all

lemma excel_ac_uzunluk [simp]: "length (excel_ac ts) = length ts"
  using arg_cong [OF excel_ac_sekme, of length ts] by (simp del: excel_ac_sekme)

lemma excel_ac_acik: "i < length ts \<Longrightarrow> sk_acik (ts ! i) \<Longrightarrow> sk_acik (excel_ac ts ! i)"
proof (induction ts arbitrary: i)
  case (Cons t ts)
  show ?case
  proof (cases i)
    case 0
    then show ?thesis using Cons.prems by simp
  next
    case (Suc j)
    then show ?thesis using Cons.prems Cons.IH [of j] by simp
  qed
qed simp

lemma excel_ac_hepsi:
  assumes "list_all (\<lambda>t. sk_sekme t = ExcelAktar \<or> sk_acik t) ts"
  shows "list_all (\<lambda>t. sk_sekme t = ExcelAktar \<or> sk_acik t) (excel_ac ts)"
  unfolding list_all_length
proof (intro allI impI)
  fix i
  assume "i < length (excel_ac ts)"
  then have i: "i < length ts" by simp
  have "sk_sekme (excel_ac ts ! i) = sk_sekme (ts ! i)" by (rule map_esit_nth [OF excel_ac_sekme i])
  then show "sk_sekme (excel_ac ts ! i) = ExcelAktar \<or> sk_acik (excel_ac ts ! i)"
    using assms i excel_ac_acik [OF i] by (auto simp: list_all_length)
qed

lemma excel_ac_kilit:
  "distinct (map sk_sekme ts) \<Longrightarrow> \<not> list_ex (\<lambda>t. sk_sekme t = ExcelAktar \<and> \<not> sk_acik t) (excel_ac ts)"
proof (induction ts)
  case (Cons t ts)
  then show ?case by (cases "sk_sekme t = ExcelAktar") (auto simp: list_ex_iff image_iff)
qed simp

lemma excel_ac_not:
  "distinct (map sk_sekme ts) \<Longrightarrow> list_ex (\<lambda>t. sk_sekme t = ExcelAktar \<and> sk_not t) ts \<Longrightarrow>
     list_ex (\<lambda>t. sk_sekme t = ExcelAktar \<and> sk_acik t \<and> sk_not t) (excel_ac ts)"
proof (induction ts)
  case (Cons t ts)
  then show ?case by (cases "sk_sekme t = ExcelAktar") (auto simp: list_ex_iff image_iff)
qed simp

lemma ilk_derslik_eklendi_inv:
  assumes "pencere_inv w"
  shows "pencere_inv (ilk_derslik_eklendi w) \<and> \<not> excel_kilitli (ilk_derslik_eklendi w) \<and>
     ap_kullanici (ilk_derslik_eklendi w) = ap_kullanici w"
  using assms excel_ac_acik [of "ap_secili w" "ap_sekmeler w"] excel_ac_hepsi excel_ac_kilit
  by (simp add: ilk_derslik_eklendi_def pencere_inv_def excel_kilitli_def)

subsection \<open>The room tab's handlers and the department's room count\<close>

lemma derslik_ekle_sayisi: "derslik_ekle k kodu adi kap en boy sira v = Inr v' \<Longrightarrow> 0 < derslik_sayisi k v'"
  by (auto simp: derslik_sayisi_def bolumun_def dest!: derslik_ekle_Inr)

lemma ekle_oturum:
  assumes "ekle d v = (d', v')"
  shows "de_koordinator d' = de_koordinator d \<and> de_geri_cagri d' = de_geri_cagri d \<and>
         (v' = v \<or> 0 < derslik_sayisi (de_koordinator d) v' \<and> (de_geri_cagri d \<longrightarrow> de_import_acildi d' \<noteq> de_import_acildi d))"
proof (cases "form_oku (de_form d)")
  case (Inl h)
  then show ?thesis using assms by (auto simp: ekle_def)
next
  case (Inr r)
  obtain kodu adi kap en boy sira where r: "form_oku (de_form d) = Inr (kodu, adi, kap, en, boy, sira)"
    using Inr by (cases r) auto
  show ?thesis
  proof (cases "derslik_ekle (de_koordinator d) kodu adi kap en boy sira v")
    case (Inl err)
    then show ?thesis using assms r by (auto simp: ekle_def)
  next
    case (Inr v2)
    have "0 < derslik_sayisi (de_koordinator d) v2" by (rule derslik_ekle_sayisi [OF Inr])
    then show ?thesis using assms r Inr by (cases "de_geri_cagri d") (auto simp: ekle_def yenile_def Let_def)
  qed
qed

lemma bolumun_guncel [simp]:
  "bolumun k (d\<lparr>ds_kodu := a, ds_adi := b, ds_kapasite := c, ds_enine := e, ds_boyuna := f, ds_sira_yapisi := g\<rparr>) = bolumun k d"
  by (simp add: bolumun_def)

lemma filter_map_bolumun:
  "(\<And>d. bolumun k (f d) = bolumun k d) \<Longrightarrow> length (filter (bolumun k) (map f xs)) = length (filter (bolumun k) xs)"
  by (induction xs) auto

lemma guncelle_oturum:
  assumes "guncelle d v = Some (d', v')"
  shows "de_koordinator d' = de_koordinator d \<and> de_geri_cagri d' = de_geri_cagri d \<and> derslik_sayisi k v' = derslik_sayisi k v"
proof -
  have "derslik_sayisi k v' = derslik_sayisi k v" if "derslik_guncelle g did kodu adi kap en boy sira v = Inr v'"
    for g did kodu adi kap en boy sira
    using derslik_guncelle_Inr(2) [OF that] filter_map_bolumun [of k "\<lambda>d. if ds_id d = did \<and> bolumun g d
        then d\<lparr>ds_kodu := kodu, ds_adi := adi, ds_kapasite := kap, ds_enine := en, ds_boyuna := boy,
               ds_sira_yapisi := sira\<rparr> else d" "yv_derslikler v"]
    by (simp add: derslik_sayisi_def del: filter_map)
  then show ?thesis using assms
    by (auto simp: guncelle_def yenile_def split: option.splits sum.splits prod.splits)
qed

lemma sil_oturum:
  assumes "sil onay d v = Some (d', v')"
  shows "de_koordinator d' = de_koordinator d \<and> de_geri_cagri d' = de_geri_cagri d \<and> derslik_sayisi k v' \<le> derslik_sayisi k v"
proof -
  have "length (filter P (filter Q xs)) \<le> length (filter P xs)" for P Q and xs :: "derslik_satir list"
    by (induction xs) auto
  note F = this
  have "derslik_sayisi k v' \<le> derslik_sayisi k v" if "derslik_sil g did v = Inr v'" for g did
  proof -
    have "yv_derslikler v' = filter (\<lambda>d. \<not> (ds_id d = did \<and> bolumun g d)) (yv_derslikler v)"
      using that by (auto simp: derslik_sil_def split: if_splits)
    then show ?thesis using F by (simp only: derslik_sayisi_def) (simp del: filter_filter)
  qed
  then show ?thesis using assms
    by (auto simp: sil_def yenile_def split: option.splits sum.splits prod.splits if_splits)
qed

subsection \<open>The session keeps its invariant\<close>

lemma pencere_inv_zamanlayicilar [simp]:
  "pencere_inv (w\<lparr>ap_zamanlayicilar := zs\<rparr>) = pencere_inv w"
  "excel_kilitli (w\<lparr>ap_zamanlayicilar := zs\<rparr>) = excel_kilitli w"
  by (simp_all add: pencere_inv_def excel_kilitli_def)

lemma aktarim_olayi_inv:
  "oturum_inv s \<Longrightarrow> oturum_inv (aktarim_olayi tip sonuc s)"
  using on_after_import_inv [of "ko_pencere s" tip]
  by (auto simp: aktarim_olayi_def oturum_inv_def split: prod.splits)

lemma oda_ekle_olayi_inv:
  assumes "oturum_inv s"
  shows "oturum_inv (oda_ekle_olayi s)"
proof -
  obtain d' v' where e: "ekle (ko_derslik s) (ko_yv s) = (d', v')" by fastforce
  note E = ekle_oturum [OF e]
  show ?thesis
  proof (cases "de_import_acildi d' \<noteq> de_import_acildi (ko_derslik s)")
    case True
    then show ?thesis using assms E ilk_derslik_eklendi_inv [of "ko_pencere s"]
      by (simp add: oda_ekle_olayi_def e oturum_inv_def)
  next
    case False
    then have "v' = ko_yv s" using E assms by (auto simp: oturum_inv_def)
    then show ?thesis using assms E False by (simp add: oda_ekle_olayi_def e oturum_inv_def)
  qed
qed

lemma koordinator_uygulamasi_inv: "koordinator_uygulamasi s \<Longrightarrow> oturum_inv s"
proof (induction rule: koordinator_uygulamasi.induct)
  case (giris k yv dv)
  then show ?case
    by (simp add: oturum_inv_def pencere_inv_def pencere_kur_def excel_kilitli_def sekme_yeni_def
        derslik_sekmesi_kur_def yenile_def Let_def)
next
  case (zaman s z zs)
  then show ?case
    using zamanlayici_calistir_inv [of "(ko_pencere s)\<lparr>ap_zamanlayicilar := zs\<rparr>" z]
    by (simp add: oturum_inv_def)
next
  case (sekme s i)
  then show ?case using sekme_sec_inv [of "ko_pencere s" i] by (simp add: oturum_inv_def)
next
  case (oda_formu s f)
  then show ?case by (simp add: oturum_inv_def)
next
  case (oda_sec s iid)
  then show ?case by (simp add: oturum_inv_def liste_secildi_def split: option.splits)
next
  case (oda_ekle s)
  from oda_ekle.IH show ?case by (rule oda_ekle_olayi_inv)
next
  case (oda_guncelle s d' v')
  then show ?case using guncelle_oturum [OF oda_guncelle.hyps(3), of "ap_kullanici (ko_pencere s)"]
    by (simp add: oturum_inv_def)
next
  case (oda_sil s onay d' v')
  then show ?case using sil_oturum [OF oda_sil.hyps(3), of "ap_kullanici (ko_pencere s)"]
    by (auto simp: oturum_inv_def)
next
  case (ders_aktar s secim)
  from ders_aktar.IH show ?case by (rule aktarim_olayi_inv)
next
  case (ogrenci_aktar s secim)
  from ogrenci_aktar.IH show ?case by (rule aktarim_olayi_inv)
qed

subsection \<open>What the session guarantees\<close>

text \<open>C32: The import tab is locked only while the coordinator's department has no room: in
  every state of a coordinator's session (from the login, through the timers, the tab clicks,
  the room tab's handlers and the imports, in any interleaving) in which the Excel tab is
  disabled, \<open>derslik_sayisi\<close> of the window's user is 0.\<close>

theorem excel_kilidi_derslik_yok:
  assumes "koordinator_uygulamasi s" "excel_kilitli (ko_pencere s)"
  shows "derslik_sayisi (ap_kullanici (ko_pencere s)) (ko_yv s) = 0"
  using koordinator_uygulamasi_inv [OF assms(1)] assms(2) by (simp add: oturum_inv_def)

text \<open>In every state of a coordinator's session no tab is in the notebook twice
  (\<open>_ensure_data_tabs\<close> runs from the timer and after every import), and the selected tab
  exists and is enabled, so the widgets the user can reach are those of an enabled tab.\<close>

theorem sekmeler_tekil_secili_acik:
  assumes "koordinator_uygulamasi s"
  shows "distinct (map sk_sekme (ap_sekmeler (ko_pencere s))) \<and> secili_sekme (ko_pencere s) \<noteq> None \<and>
         sk_acik (ap_sekmeler (ko_pencere s) ! ap_secili (ko_pencere s))"
  using koordinator_uygulamasi_inv [OF assms] by (simp add: oturum_inv_def pencere_inv_def secili_sekme_def)

subsection \<open>The lock note\<close>

lemma ornek_yv_derslik_yok: "derslik_sayisi koordinator_ornek yvt_ornek = 0"
  by (simp add: derslik_sayisi_def yonetim_simps)

lemma ornek_pencere:
  "pencere_kur koordinator_ornek yvt_ornek =
     \<lparr>ap_kullanici = koordinator_ornek,
      ap_sekmeler = [sekme_yeni Derslikler True, sekme_yeni ExcelAktar False, sekme_yeni OturmaPlani True],
      ap_refs = [OturmaPlani], ap_secili = 0, ap_zamanlayicilar = [VeriSekmeleri, KilitNotu 1], ap_gorunen = []\<rparr>"
  using ornek_yv_derslik_yok by (simp add: pencere_kur_def koordinator_ornek_def)

lemma oda_ekle_olayi_pencere:
  "ko_pencere (oda_ekle_olayi s) =
     (if de_import_acildi (fst (ekle (ko_derslik s) (ko_yv s))) \<noteq> de_import_acildi (ko_derslik s)
      then ilk_derslik_eklendi (ko_pencere s) else ko_pencere s)"
  by (simp add: oda_ekle_olayi_def split: prod.split)

text \<open>C36: The note \<open>(Once derslik girin)\<close> outlives the lock: in any state of a
  coordinator's session where the Excel tab carries the note (the 400 ms timer of
  \<open>_bilgilendir_kilit\<close> has run) and the room tab is shown, adding a room through it (its
  callback \<open>_on_first_derslik_added\<close> runs after a successful add) leads to a state of the
  session where the Excel tab is enabled and its title still asks for a room, since the
  callback changes the tab's state and not its text.\<close>

theorem excel_notu_kalir:
  assumes "koordinator_uygulamasi s"
    and "list_ex (\<lambda>t. sk_sekme t = ExcelAktar \<and> sk_not t) (ap_sekmeler (ko_pencere s))"
    and "secili_sekme (ko_pencere s) = Some Derslikler"
    and "de_import_acildi (fst (ekle (ko_derslik s) (ko_yv s))) \<noteq> de_import_acildi (ko_derslik s)"
  shows "koordinator_uygulamasi (oda_ekle_olayi s) \<and> \<not> excel_kilitli (ko_pencere (oda_ekle_olayi s)) \<and>
         list_ex (\<lambda>t. sk_sekme t = ExcelAktar \<and> sk_acik t \<and> sk_not t) (ap_sekmeler (ko_pencere (oda_ekle_olayi s)))"
proof -
  have r: "koordinator_uygulamasi (oda_ekle_olayi s)" by (rule koordinator_uygulamasi.oda_ekle [OF assms(1,3)])
  have w: "ko_pencere (oda_ekle_olayi s) = ilk_derslik_eklendi (ko_pencere s)"
    using oda_ekle_olayi_pencere [of s] assms(4) by simp
  have d: "distinct (map sk_sekme (ap_sekmeler (ko_pencere s)))"
    using koordinator_uygulamasi_inv [OF assms(1)] by (simp add: oturum_inv_def pencere_inv_def)
  show ?thesis
    using r excel_ac_kilit [OF d] excel_ac_not [OF d assms(2)]
    by (simp add: w ilk_derslik_eklendi_def excel_kilitli_def)
qed

theorem excel_notu_kalir_witness:
  "\<exists>s. koordinator_uygulamasi s \<and> list_ex (\<lambda>t. sk_sekme t = ExcelAktar \<and> sk_not t) (ap_sekmeler (ko_pencere s)) \<and>
       secili_sekme (ko_pencere s) = Some Derslikler \<and>
       de_import_acildi (fst (ekle (ko_derslik s) (ko_yv s))) \<noteq> de_import_acildi (ko_derslik s) \<and>
       koordinator_uygulamasi (oda_ekle_olayi s) \<and> \<not> excel_kilitli (ko_pencere (oda_ekle_olayi s)) \<and>
       list_ex (\<lambda>t. sk_sekme t = ExcelAktar \<and> sk_acik t \<and> sk_not t) (ap_sekmeler (ko_pencere (oda_ekle_olayi s)))"
proof -
  let ?s0 = oturum_kur_ornek
  have r0: "koordinator_uygulamasi ?s0"
    unfolding oturum_kur_ornek_def by (rule koordinator_uygulamasi.giris) (simp add: koordinator_ornek_def)
  let ?s1 = "?s0\<lparr>ko_pencere := zamanlayici_calistir VeriSekmeleri ((ko_pencere ?s0)\<lparr>ap_zamanlayicilar := [KilitNotu 1]\<rparr>)\<rparr>"
  have r1: "koordinator_uygulamasi ?s1"
    by (rule koordinator_uygulamasi.zaman [OF r0]) (simp add: oturum_kur_ornek_def ornek_pencere)
  let ?s2 = "?s1\<lparr>ko_pencere := zamanlayici_calistir (KilitNotu 1) ((ko_pencere ?s1)\<lparr>ap_zamanlayicilar := []\<rparr>)\<rparr>"
  have r2: "koordinator_uygulamasi ?s2"
    by (rule koordinator_uygulamasi.zaman [OF r1])
       (simp add: oturum_kur_ornek_def ornek_pencere ensure_data_tabs_def sekme_ekle_yoksa_def)
  let ?s3 = "?s2\<lparr>ko_derslik := (ko_derslik ?s2)\<lparr>de_form := oda_formu_ornek\<rparr>\<rparr>"
  have w2: "ko_pencere ?s2 =
     \<lparr>ap_kullanici = koordinator_ornek,
      ap_sekmeler = [sekme_yeni Derslikler True, \<lparr>sk_sekme = ExcelAktar, sk_acik = False, sk_not = True\<rparr>,
        sekme_yeni OturmaPlani True, sekme_yeni SinavProgrami True, sekme_yeni OgrenciListesi True,
        sekme_yeni DersListesi True],
      ap_refs = [OturmaPlani, SinavProgrami, OgrenciListesi, DersListesi], ap_secili = 0,
      ap_zamanlayicilar = [], ap_gorunen = []\<rparr>"
    by (simp add: oturum_kur_ornek_def ornek_pencere ensure_data_tabs_def sekme_ekle_yoksa_def
        bilgilendir_kilit_def sekme_yeni_def)
  have w3: "ko_pencere ?s3 = ko_pencere ?s2" by simp
  have r3: "koordinator_uygulamasi ?s3"
    by (rule koordinator_uygulamasi.oda_formu [OF r2]) (subst w2, simp add: secili_sekme_def sekme_yeni_def)
  have n3: "list_ex (\<lambda>t. sk_sekme t = ExcelAktar \<and> sk_not t) (ap_sekmeler (ko_pencere ?s3))"
    by (subst w3, subst w2, simp add: sekme_yeni_def)
  have c3: "secili_sekme (ko_pencere ?s3) = Some Derslikler"
    by (subst w3, subst w2, simp add: secili_sekme_def sekme_yeni_def)
  have d3: "ko_derslik ?s3 = (derslik_sekmesi_kur koordinator_ornek yvt_ornek)\<lparr>de_form := oda_formu_ornek\<rparr>"
    by (simp add: oturum_kur_ornek_def)
  have y3: "ko_yv ?s3 = yvt_ornek" by (simp add: oturum_kur_ornek_def)
  have e: "de_import_acildi (fst (ekle (ko_derslik ?s3) (ko_yv ?s3))) \<noteq> de_import_acildi (ko_derslik ?s3)"
    unfolding d3 y3
    by (simp add: ekle_def oda_formu_ornek_def form_oku_def int_or_error_def py_int_def py_strip_def py_bosluk_def
        rakam_dizisi_def rakam_mi_def rakamlar_degeri_def rakam_degeri_def derslik_sayisi_def
        derslik_sekmesi_kur_def yenile_def derslik_listele_def bos_form_def yonetim_simps)
  from excel_notu_kalir [OF r3 n3 c3 e] show ?thesis using r3 n3 c3 e by blast
qed

theorem excel_kilidi_derslik_yok_witness:
  "koordinator_uygulamasi oturum_kur_ornek \<and> excel_kilitli (ko_pencere oturum_kur_ornek) \<and>
   derslik_sayisi (ap_kullanici (ko_pencere oturum_kur_ornek)) (ko_yv oturum_kur_ornek) = 0"
proof -
  have r: "koordinator_uygulamasi oturum_kur_ornek"
    unfolding oturum_kur_ornek_def by (rule koordinator_uygulamasi.giris) (simp add: koordinator_ornek_def)
  have k: "excel_kilitli (ko_pencere oturum_kur_ornek)"
    by (simp add: oturum_kur_ornek_def ornek_pencere excel_kilitli_def sekme_yeni_def)
  show ?thesis using r k excel_kilidi_derslik_yok [OF r k] by simp
qed

theorem sekmeler_tekil_secili_acik_witness:
  "koordinator_uygulamasi oturum_kur_ornek \<and> distinct (map sk_sekme (ap_sekmeler (ko_pencere oturum_kur_ornek))) \<and>
   secili_sekme (ko_pencere oturum_kur_ornek) \<noteq> None \<and>
   sk_acik (ap_sekmeler (ko_pencere oturum_kur_ornek) ! ap_secili (ko_pencere oturum_kur_ornek))"
proof -
  have r: "koordinator_uygulamasi oturum_kur_ornek"
    unfolding oturum_kur_ornek_def by (rule koordinator_uygulamasi.giris) (simp add: koordinator_ornek_def)
  show ?thesis using r sekmeler_tekil_secili_acik [OF r] by simp
qed

end
