(* ===== verification/Uygulama.thy ===== *)
theory Uygulama
  imports KullaniciEkrani AnaPencere
begin

text \<open>
  The start of the application, \<open>src/main.py\<close>: \<open>veritabani_baslat\<close> of
  \<open>src/veritabani.py\<close> runs the schema script on the database file, then the default data
  is loaded only when the file is missing or empty, and the login window opens the main window
  of the user it finds (\<open>giris_sonrasi_cb\<close>).  The file is the record \<open>vt_dosyasi\<close>: whether
  it exists, its size and the administration tables it holds.  The schema script is
  \<open>CREATE TABLE IF NOT EXISTS\<close> only, so it keeps the rows; SQLite writes at least the
  database header page when it creates a table, so the file is not empty afterwards.
\<close>

subsection \<open>Start-up and login\<close>

record vt_dosyasi =
  vd_var :: bool
  vd_boyut :: nat
  vd_yv :: yvt

text \<open>SQLite's default page size, the least a database file holding a table takes.\<close>

definition sqlite_sayfa :: nat where
  "sqlite_sayfa = 4096"

definition veritabani_baslat :: "vt_dosyasi \<Rightarrow> vt_dosyasi" where
  "veritabani_baslat f = f\<lparr>vd_var := True, vd_boyut := max (vd_boyut f) sqlite_sayfa\<rparr>"

definition main_baslat :: "string list \<Rightarrow> (string \<Rightarrow> string) \<Rightarrow> vt_dosyasi \<Rightarrow> vt_dosyasi" where
  "main_baslat adlar hashpw f =
     (let f1 = veritabani_baslat f in
      if \<not> vd_var f1 \<or> vd_boyut f1 = 0
      then f1\<lparr>vd_yv := varsayilan_veri_yukle adlar (hashpw ''admin123'') (vd_yv f1)\<rparr>
      else f1)"

text \<open>\<open>giris_sonrasi_cb\<close> after \<open>_giris_yap\<close>: the main window of the user found.\<close>

definition giris_sonrasi :: "(string \<Rightarrow> string \<Rightarrow> bool) \<Rightarrow> yvt \<Rightarrow> string \<Rightarrow> string \<Rightarrow> giris_hatasi + ana_pencere" where
  "giris_sonrasi checkpw v eposta sifre =
     (case giris_yap checkpw v eposta sifre of Inl h \<Rightarrow> Inl h | Inr k \<Rightarrow> Inr (pencere_kur k v))"

definition yeni_dosya :: vt_dosyasi where
  "yeni_dosya = \<lparr>vd_var = False, vd_boyut = 0, vd_yv = yvt_bos\<rparr>"

subsection \<open>The first start\<close>

lemma main_baslat_veri_yuklemez: "main_baslat adlar hashpw f = veritabani_baslat f"
  by (simp add: main_baslat_def veritabani_baslat_def sqlite_sayfa_def Let_def)

text \<open>C35: On a first start \<open>main.py\<close> loads no default data: \<open>veritabani_baslat\<close> has
  already created the database file when the file is tested, so \<open>varsayilan_veri_yukle\<close> is
  skipped, the tables stay empty, and logging in as the announced \<open>admin@uni.edu\<close> /
  \<open>admin123\<close> fails with \<open>Kullanici bulunamadi\<close> (user not found), whatever bcrypt answers.\<close>

theorem ilk_kurulumda_giris_yok:
  "vd_yv (main_baslat adlar hashpw yeni_dosya) = yvt_bos \<and>
   giris_sonrasi checkpw (vd_yv (main_baslat adlar hashpw yeni_dosya)) ''admin@uni.edu'' ''admin123'' =
     Inl KullaniciBulunamadi"
  by (simp add: main_baslat_veri_yuklemez veritabani_baslat_def yeni_dosya_def giris_sonrasi_def giris_yap_def
      kullanici_bul_def yvt_bos_def)

end
