(* ===== verification/OrnekProgram.thy ===== *)
theory OrnekProgram
  imports DersKaynagi Kayit
begin

text \<open>
  The optional sample schedule writer \<open>ornek_sinav_programi_olustur\<close> of
  \<open>src/veri_deposu.py\<close>: it reads the department's courses and rooms with
  \<open>plan_kaynagini_hazirla\<close> and, in one transaction, writes course \<open>i\<close> (in the order of the
  course list) with \<open>_program_satiri_yaz\<close> at day \<open>today + i div 3\<close>, \<open>9 + 2 (i mod 3)\<close> o'clock,
  for 90 minutes with a 15 minute break, in the first room of the list.  A room conflict
  (\<open>ValueError\<close>) is caught and becomes a warning; a unique-key violation
  (\<open>sqlite3.IntegrityError\<close>) escapes the loop, the transaction rolls back and the caller sees
  the exception.  Today's date, \<open>datetime.now().date()\<close>, is a parameter (a day ordinal).
\<close>

datatype ornek_uyari =
    DersVeyaDerslikYok
  | Uyari kayit_hata

definition ornek_baslangic :: "int \<Rightarrow> nat \<Rightarrow> dakika" where
  "ornek_baslangic bugun i = combine (bugun + int (i div 3)) ((9 + 2 * (i mod 3)) * 60)"

fun ornek_dongusu ::
  "kimlik \<Rightarrow> string \<Rightarrow> int \<Rightarrow> kimlik \<Rightarrow> nat \<Rightarrow> ders list \<Rightarrow> nat \<times> ornek_uyari list \<times> vt \<Rightarrow>
     kayit_hata + nat \<times> ornek_uyari list \<times> vt" where
  "ornek_dongusu bolum_id sinav_turu bugun dl i [] acc = Inr acc"
| "ornek_dongusu bolum_id sinav_turu bugun dl i (d # ds) (ekl, uy, v) =
     (let bas = ornek_baslangic bugun i; bit' = bas + 90 in
      case program_satiri_yaz v bolum_id (ders_id d) sinav_turu bas bit' 15 [dl] of
        Inr (_, v1) \<Rightarrow> ornek_dongusu bolum_id sinav_turu bugun dl (Suc i) ds (Suc ekl, uy, v1)
      | Inl (DerslikCakismasi x) \<Rightarrow>
          ornek_dongusu bolum_id sinav_turu bugun dl (Suc i) ds (ekl, uy @ [Uyari (DerslikCakismasi x)], v)
      | Inl (IntegrityError s) \<Rightarrow> Inl (IntegrityError s))"

definition ornek_sinav_programi_olustur ::
  "int \<Rightarrow> kimlik \<Rightarrow> string \<Rightarrow> dvt \<Rightarrow> yvt \<Rightarrow> vt \<Rightarrow> kayit_hata + nat \<times> ornek_uyari list \<times> vt" where
  "ornek_sinav_programi_olustur bugun bolum_id sinav_turu dv yv v =
     (case plan_kaynagini_hazirla bolum_id dv yv of (dersler, derslikler) \<Rightarrow>
        if dersler = [] \<or> derslikler = [] then Inr (0, [DersVeyaDerslikYok], v)
        else ornek_dongusu bolum_id sinav_turu bugun (ds_id (hd derslikler)) 0 dersler (0, [], v))"

text \<open>The placement the loop writes for course \<open>d\<close> at position \<open>i\<close>.\<close>

definition ornek_yer :: "int \<Rightarrow> kimlik \<Rightarrow> nat \<Rightarrow> ders \<Rightarrow> yerlestirme" where
  "ornek_yer bugun dl i d =
     \<lparr>y_ders_id = ders_id d, baslangic = ornek_baslangic bugun i, bitis = ornek_baslangic bugun i + 90,
      derslik_ids = [dl]\<rparr>"

subsection \<open>Lemmas\<close>

lemma ornek_baslangic_acik:
  "ornek_baslangic bugun i = bugun * 1440 + 540 + int (1440 * (i div 3) + 120 * (i mod 3))"
  by (simp add: ornek_baslangic_def combine_def algebra_simps)

lemma ornek_sira_artar:
  assumes "i < (j::nat)"
  shows "1440 * (i div 3) + 120 * (i mod 3) + 90 \<le> 1440 * (j div 3) + 120 * (j mod 3)"
proof -
  have di: "i div 3 * 3 + i mod 3 = i" and dj: "j div 3 * 3 + j mod 3 = j" by (rule div_mult_mod_eq)+
  have "i div 3 \<le> j div 3" using assms by (simp add: div_le_mono)
  then consider "i div 3 < j div 3" | "i div 3 = j div 3" by linarith
  then show ?thesis
  proof cases
    case 1
    moreover have "i mod 3 < 3" by simp
    ultimately show ?thesis by linarith
  next
    case 2
    then have "i mod 3 < j mod 3" using assms di dj by linarith
    with 2 show ?thesis by linarith
  qed
qed
lemma ornek_once_biter:
  "i < j \<Longrightarrow> ornek_baslangic bugun i + 90 \<le> ornek_baslangic bugun j"
proof -
  assume "i < j"
  then have "int (1440 * (i div 3) + 120 * (i mod 3)) + 90 \<le> int (1440 * (j div 3) + 120 * (j mod 3))"
    using ornek_sira_artar by (metis of_nat_add of_nat_le_iff of_nat_numeral)
  then show ?thesis unfolding ornek_baslangic_acik by linarith
qed

lemma ornek_saatleri_ayrik:
  "i \<noteq> j \<Longrightarrow> \<not> overlaps (ornek_baslangic bugun i) (ornek_baslangic bugun i + 90)
                          (ornek_baslangic bugun j) (ornek_baslangic bugun j + 90)"
  unfolding overlaps_def using ornek_once_biter [of i j bugun] ornek_once_biter [of j i bugun]
  by (cases "i < j") auto


lemma ornek_dongusu_korur:
  "kayit_inv v \<Longrightarrow> ornek_dongusu b t bugun dl i ds (n, us, v) = Inr (n', us', v') \<Longrightarrow> kayit_inv v'"
proof (induction ds arbitrary: i n us v)
  case Nil
  then show ?case by simp
next
  case (Cons d ds)
  show ?case
  proof (cases "program_satiri_yaz v b (ders_id d) t (ornek_baslangic bugun i) (ornek_baslangic bugun i + 90) 15 [dl]")
    case (Inl e)
    then show ?thesis using Cons by (cases e) (auto simp: Let_def)
  next
    case (Inr r)
    obtain sid v1 where r: "r = (sid, v1)" by (cases r)
    have "kayit_inv v1" using program_satiri_yaz_korur [OF Cons.prems(1)] Inr r by simp
    then show ?thesis using Cons Inr r by (auto simp: Let_def)
  qed
qed

lemma ornek_dongusu_sayar:
  "ornek_dongusu b t bugun dl i ds (n, us, v) = Inr (n', us', v') \<Longrightarrow> n' + length us' = n + length us + length ds"
proof (induction ds arbitrary: i n us v)
  case Nil
  then show ?case by simp
next
  case (Cons d ds)
  show ?case
  proof (cases "program_satiri_yaz v b (ders_id d) t (ornek_baslangic bugun i) (ornek_baslangic bugun i + 90) 15 [dl]")
    case (Inl e)
    then show ?thesis using Cons by (cases e) (fastforce simp: Let_def)+
  next
    case (Inr r)
    then show ?thesis using Cons by (cases r) (fastforce simp: Let_def)
  qed
qed

lemma ornek_yer_cakismaz:
  assumes "\<forall>p \<in> set ps. derslik_ids p = [dl] \<and>
             (\<exists>j < i. baslangic p = ornek_baslangic bugun j \<and> bitis p = ornek_baslangic bugun j + 90)"
  shows "\<forall>p \<in> set ps. oda_cakismaz p (ornek_yer bugun dl i d)"
proof
  fix p
  assume "p \<in> set ps"
  with assms obtain j where "j < i" "baslangic p = ornek_baslangic bugun j" "bitis p = ornek_baslangic bugun j + 90"
    by blast
  with ornek_saatleri_ayrik [of j i bugun] show "oda_cakismaz p (ornek_yer bugun dl i d)"
    by (simp add: oda_cakismaz_def ornek_yer_def)
qed

lemma ornek_dongusu_basarili:
  assumes "kayit_inv v" "kayit_karsilik b t ps v"
    and "\<forall>p \<in> set ps. derslik_ids p = [dl] \<and>
           (\<exists>j < i. baslangic p = ornek_baslangic bugun j \<and> bitis p = ornek_baslangic bugun j + 90)"
    and "distinct (map y_ders_id ps @ map ders_id ds)"
  shows "\<exists>v'. ornek_dongusu b t bugun dl i ds (n, us, v) = Inr (n + length ds, us, v') \<and> kayit_inv v'"
  using assms
proof (induction ds arbitrary: i n v ps)
  case Nil
  then show ?case by simp
next
  case (Cons d ds)
  let ?y = "ornek_yer bugun dl i d"
  have oda: "\<forall>p \<in> set ps. oda_cakismaz p ?y" by (rule ornek_yer_cakismaz [OF Cons.prems(3)])
  have yeni: "y_ders_id ?y \<notin> y_ders_id ` set ps" using Cons.prems(4) by (simp add: ornek_yer_def)
  have dd: "distinct (derslik_ids ?y)" by (simp add: ornek_yer_def)
  from satir_basarili [OF Cons.prems(1,2) oda yeni dd, of 15]
  obtain sid v1 where e: "program_satiri_yaz v b (ders_id d) t (ornek_baslangic bugun i) (ornek_baslangic bugun i + 90) 15 [dl]
                            = Inr (sid, v1)"
    and kk: "kayit_karsilik b t (ps @ [?y]) v1"
    by (auto simp: ornek_yer_def)
  have "\<exists>v'. ornek_dongusu b t bugun dl (Suc i) ds (Suc n, us, v1) = Inr (Suc n + length ds, us, v') \<and> kayit_inv v'"
  proof (rule Cons.IH)
    show "kayit_inv v1" by (rule program_satiri_yaz_korur [OF Cons.prems(1) e])
    show "kayit_karsilik b t (ps @ [?y]) v1" by (rule kk)
    show "\<forall>p \<in> set (ps @ [?y]). derslik_ids p = [dl] \<and>
            (\<exists>j < Suc i. baslangic p = ornek_baslangic bugun j \<and> bitis p = ornek_baslangic bugun j + 90)"
    proof
      fix p
      assume "p \<in> set (ps @ [?y])"
      then consider "p \<in> set ps" | "p = ?y" by auto
      then show "derslik_ids p = [dl] \<and>
                   (\<exists>j < Suc i. baslangic p = ornek_baslangic bugun j \<and> bitis p = ornek_baslangic bugun j + 90)"
      proof cases
        case 1
        with Cons.prems(3) obtain j where "derslik_ids p = [dl]" "j < i"
            "baslangic p = ornek_baslangic bugun j" "bitis p = ornek_baslangic bugun j + 90"
          by blast
        then show ?thesis using less_SucI by blast
      next
        case 2
        then show ?thesis by (auto simp: ornek_yer_def)
      qed
    qed
    show "distinct (map y_ders_id (ps @ [?y]) @ map ders_id ds)" using Cons.prems(4) by (simp add: ornek_yer_def)
  qed
  with e show ?case by (simp add: Let_def)
qed

lemma ornek_program_korur:
  assumes "kayit_inv v" "ornek_sinav_programi_olustur bugun b t dv yv v = Inr (n, us, v')"
  shows "kayit_inv v' \<and>
         (snd (plan_kaynagini_hazirla b dv yv) \<noteq> [] \<longrightarrow> n + length us = max 1 (length (fst (plan_kaynagini_hazirla b dv yv))))"
proof (cases "plan_kaynagini_hazirla b dv yv")
  case (Pair ds dls)
  show ?thesis
  proof (cases "ds = [] \<or> dls = []")
    case True
    then show ?thesis using assms Pair by (auto simp: ornek_sinav_programi_olustur_def)
  next
    case False
    then have e: "ornek_dongusu b t bugun (ds_id (hd dls)) 0 ds (0, [], v) = Inr (n, us, v')"
      using assms(2) Pair by (simp add: ornek_sinav_programi_olustur_def)
    have "kayit_inv v'" by (rule ornek_dongusu_korur [OF assms(1) e])
    moreover have "n + length us = length ds" using ornek_dongusu_sayar [OF e] by simp
    moreover have "1 \<le> length ds" using False by (cases ds) simp_all
    ultimately show ?thesis using Pair False by (simp add: max_def)
  qed
qed

lemma ders_kaydi_id [simp]: "ders_id (ders_kaydi v d) = dr_id d"
  by (simp add: ders_kaydi_def Let_def)

lemma ornek_kaynak:
  "plan_kaynagini_hazirla 1 dvt_ornek yvt_ornek_d =
     ([ders_kaydi dvt_ornek (hd (dv_dersler dvt_ornek))], [hd (yv_derslikler yvt_ornek_d)])"
  by (simp add: plan_kaynagini_hazirla_def dvt_ornek_def yvt_ornek_d_def)

lemma ornek_dongusu_sayac:
  "ornek_dongusu b t bugun dl i ds (n, us, v) = Inr (n', us', v') \<Longrightarrow> n' \<le> n + length ds"
proof (induction ds arbitrary: i n us v)
  case Nil
  then show ?case by simp
next
  case (Cons d ds)
  show ?case
  proof (cases "program_satiri_yaz v b (ders_id d) t (ornek_baslangic bugun i) (ornek_baslangic bugun i + 90) 15 [dl]")
    case (Inl e)
    then show ?thesis using Cons by (cases e) (fastforce simp: Let_def)+
  next
    case (Inr r)
    then show ?thesis using Cons by (cases r) (fastforce simp: Let_def)
  qed
qed

lemma cakisma_yazimda_kalir:
  assumes "program_satiri_yaz v b d_id t bas bit' bek dls = Inr (sid, v1)"
    and "derslikte_cakisiyor_mu v b' t' dl x y"
  shows "derslikte_cakisiyor_mu v1 b' t' dl x y"
proof -
  have "set (sinav_programi v) \<subseteq> set (sinav_programi v1) \<and> set (sinav_programi_derslik v) \<subseteq> set (sinav_programi_derslik v1)"
    using assms(1) by (auto simp: program_satiri_yaz_sonuc split: option.splits if_splits)
  with assms(2) show ?thesis unfolding derslikte_cakisiyor_mu_def list_ex_iff by blast
qed

lemma yazilan_cakisir:
  assumes "program_satiri_yaz v b d_id t bas (bas + 90) bek [dl] = Inr (sid, v1)"
  shows "derslikte_cakisiyor_mu v1 b t dl bas (bas + 90)"
proof -
  let ?r = "yeni_satir v b d_id t bas (bas + 90) bek"
  have m: "?r \<in> set (sinav_programi v1)" and l: "(sp_id ?r, dl) \<in> set (sinav_programi_derslik v1)"
    using assms by (auto simp: program_satiri_yaz_sonuc yeni_satir_def split: option.splits if_splits)
  show ?thesis unfolding derslikte_cakisiyor_mu_def list_ex_iff
    by (rule bexI [OF _ m]) (use l in \<open>simp add: yeni_satir_def\<close>)
qed

lemma ornek_dongusu_cakisma_kalir:
  "ornek_dongusu b t bugun dl i ds (n, us, v) = Inr (n', us', v') \<Longrightarrow> derslikte_cakisiyor_mu v b' t' dl' x y \<Longrightarrow>
     derslikte_cakisiyor_mu v' b' t' dl' x y"
proof (induction ds arbitrary: i n us v)
  case Nil
  then show ?case by simp
next
  case (Cons d ds)
  show ?case
  proof (cases "program_satiri_yaz v b (ders_id d) t (ornek_baslangic bugun i) (ornek_baslangic bugun i + 90) 15 [dl]")
    case (Inl e)
    then show ?thesis using Cons by (cases e) (auto simp: Let_def)
  next
    case (Inr r)
    obtain sid v1 where r: "r = (sid, v1)" by (cases r)
    have "derslikte_cakisiyor_mu v1 b' t' dl' x y" using cakisma_yazimda_kalir Inr r Cons.prems(2) by simp
    then show ?thesis using Cons Inr r by (auto simp: Let_def)
  qed
qed

text \<open>A run that writes every course leaves each course's slot busy in the room.\<close>

lemma ornek_dongusu_doldurur:
  "ornek_dongusu b t bugun dl i ds (n, us, v) = Inr (n + length ds, us, v') \<Longrightarrow>
     \<forall>k < length ds. derslikte_cakisiyor_mu v' b t dl (ornek_baslangic bugun (i + k)) (ornek_baslangic bugun (i + k) + 90)"
proof (induction ds arbitrary: i n us v)
  case Nil
  then show ?case by simp
next
  case (Cons d ds)
  show ?case
  proof (cases "program_satiri_yaz v b (ders_id d) t (ornek_baslangic bugun i) (ornek_baslangic bugun i + 90) 15 [dl]")
    case (Inl e)
    show ?thesis
    proof (cases e)
      case (DerslikCakismasi x)
      then have "ornek_dongusu b t bugun dl (Suc i) ds (n, us @ [Uyari (DerslikCakismasi x)], v) =
                   Inr (n + length (d # ds), us, v')"
        using Cons.prems Inl by (simp add: Let_def)
      from ornek_dongusu_sayac [OF this] show ?thesis by simp
    next
      case (IntegrityError s)
      then show ?thesis using Cons.prems Inl by (simp add: Let_def)
    qed
  next
    case (Inr r)
    obtain sid v1 where r: "r = (sid, v1)" by (cases r)
    have e: "ornek_dongusu b t bugun dl (Suc i) ds (Suc n, us, v1) = Inr (Suc n + length ds, us, v')"
      using Cons.prems Inr r by (simp add: Let_def)
    have ilk: "derslikte_cakisiyor_mu v' b t dl (ornek_baslangic bugun i) (ornek_baslangic bugun i + 90)"
      using ornek_dongusu_cakisma_kalir [OF e] yazilan_cakisir Inr r by simp
    have kalan: "\<forall>k < length ds. derslikte_cakisiyor_mu v' b t dl (ornek_baslangic bugun (Suc i + k))
                                    (ornek_baslangic bugun (Suc i + k) + 90)"
      by (rule Cons.IH [OF e])
    show ?thesis
    proof (intro allI impI)
      fix k
      assume "k < length (d # ds)"
      then show "derslikte_cakisiyor_mu v' b t dl (ornek_baslangic bugun (i + k)) (ornek_baslangic bugun (i + k) + 90)"
        using ilk kalan by (cases k) simp_all
    qed
  qed
qed

text \<open>A run over slots that are all busy in the room writes nothing and warns once per course.\<close>

lemma ornek_dongusu_hep_cakisir:
  "\<forall>k < length ds. derslikte_cakisiyor_mu v b t dl (ornek_baslangic bugun (i + k)) (ornek_baslangic bugun (i + k) + 90) \<Longrightarrow>
     ornek_dongusu b t bugun dl i ds (n, us, v) = Inr (n, us @ replicate (length ds) (Uyari (DerslikCakismasi dl)), v)"
proof (induction ds arbitrary: i us)
  case Nil
  then show ?case by simp
next
  case (Cons d ds)
  have c: "derslikte_cakisiyor_mu v b t dl (ornek_baslangic bugun i) (ornek_baslangic bugun i + 90)"
    using Cons.prems by (metis add.right_neutral length_greater_0_conv list.discI)
  have "\<forall>k < length ds. derslikte_cakisiyor_mu v b t dl (ornek_baslangic bugun (Suc i + k)) (ornek_baslangic bugun (Suc i + k) + 90)"
    using Cons.prems by (metis add_Suc add_Suc_right length_Cons not_less_eq)
  from Cons.IH [OF this] c show ?case
    by (simp add: Let_def program_satiri_yaz_sonuc replicate_app_Cons_same)
qed

lemma ornek_ilk_calisma:
  assumes "dvt_inv dv" "kayit_inv v"
    and "\<forall>sp \<in> set (sinav_programi v). sp_bolum_id sp = b \<longrightarrow> sp_sinav_turu sp \<noteq> t"
    and "plan_kaynagini_hazirla b dv yv = (ds, dls)" "ds \<noteq> []" "dls \<noteq> []"
  shows "\<exists>v'. ornek_dongusu b t bugun (ds_id (hd dls)) 0 ds (0, [], v) = Inr (length ds, [], v') \<and> kayit_inv v' \<and>
           ornek_sinav_programi_olustur bugun b t dv yv v = Inr (length ds, [], v')"
proof -
  have "ds = dersler_ogrsay_ve_alanlar_detayli b dv"
    using assms(4) by (simp add: plan_kaynagini_hazirla_def dersler_ogrsay_ve_alanlar_detayli_def)
  then have dd: "distinct (map y_ders_id [] @ map ders_id ds)"
    using ders_listesi_kimlikleri assms(1) by (simp add: dvt_inv_def)
  have kk: "kayit_karsilik b t [] v" using assms(3) by (auto simp: kayit_karsilik_def)
  have "\<exists>v'. ornek_dongusu b t bugun (ds_id (hd dls)) 0 ds (0, [], v) = Inr (0 + length ds, [], v') \<and> kayit_inv v'"
    by (rule ornek_dongusu_basarili [OF assms(2) kk _ dd]) simp
  then show ?thesis using assms(4-6) by (auto simp: ornek_sinav_programi_olustur_def)
qed

text \<open>C37: On a department and exam type that hold no row yet (for instance right after
  \<open>sinav_programini_temizle\<close>), with its course table keeping its keys and at least one course
  and one room, \<open>ornek_sinav_programi_olustur\<close> writes every course of the list, reports no
  warning, and keeps the database invariant.\<close>

theorem ornek_program_hepsini_yazar:
  assumes "dvt_inv dv" "kayit_inv v"
    and "\<forall>sp \<in> set (sinav_programi v). sp_bolum_id sp = b \<longrightarrow> sp_sinav_turu sp \<noteq> t"
    and "plan_kaynagini_hazirla b dv yv = (ds, dls)" "ds \<noteq> []" "dls \<noteq> []"
  shows "\<exists>v'. ornek_sinav_programi_olustur bugun b t dv yv v = Inr (length ds, [], v') \<and> kayit_inv v'"
  using ornek_ilk_calisma [OF assms] by blast

theorem ornek_program_hepsini_yazar_witness:
  "\<exists>v'. ornek_sinav_programi_olustur 739257 1 ''vize'' dvt_ornek yvt_ornek_d vt_bos = Inr (1, [], v') \<and> kayit_inv v'"
proof -
  have d: "dvt_inv dvt_ornek" by (simp add: dvt_inv_def dvt_ornek_def)
  have k: "kayit_inv vt_bos" by (simp add: kayit_inv_def vt_bos_def)
  from ornek_program_hepsini_yazar [OF d k _ ornek_kaynak, where bugun = 739257 and t = "''vize''"]
  show ?thesis by (simp add: vt_bos_def)
qed

text \<open>On the next day the same call over its own output fails: the first course's slot is
  free in the room, its insert violates the unique index on (department, course, exam type), so
  the call raises \<open>IntegrityError\<close> and the transaction rolls back.\<close>

lemma ornek_program_ertesi_gun:
  "\<exists>v1. ornek_sinav_programi_olustur 739257 1 ''vize'' dvt_ornek yvt_ornek_d vt_bos = Inr (1, [], v1) \<and>
        ornek_sinav_programi_olustur 739258 1 ''vize'' dvt_ornek yvt_ornek_d v1 = Inl (IntegrityError ''ux_sp_bolum_ders_tur'')"
  unfolding ornek_sinav_programi_olustur_def ornek_kaynak
  by (simp add: program_satiri_yaz_sonuc derslikte_cakisiyor_mu_def
      vt_bos_def yeni_satir_def ornek_baslangic_def combine_def dvt_ornek_def yvt_ornek_d_def Let_def)

text \<open>C38: Run again on the same day over its own complete output, the sample writer writes
  nothing and reports every course of the list as a room conflict (with its own earlier exam)
  in the first room, so the schedule is left as it was.\<close>

theorem ornek_program_tekrar:
  assumes "dvt_inv dv" "kayit_inv v"
    and "\<forall>sp \<in> set (sinav_programi v). sp_bolum_id sp = b \<longrightarrow> sp_sinav_turu sp \<noteq> t"
    and "plan_kaynagini_hazirla b dv yv = (ds, dls)" "ds \<noteq> []" "dls \<noteq> []"
  shows "\<exists>v'. ornek_sinav_programi_olustur bugun b t dv yv v = Inr (length ds, [], v') \<and>
             ornek_sinav_programi_olustur bugun b t dv yv v' =
               Inr (0, replicate (length ds) (Uyari (DerslikCakismasi (ds_id (hd dls)))), v')"
proof -
  obtain v' where e: "ornek_dongusu b t bugun (ds_id (hd dls)) 0 ds (0, [], v) = Inr (length ds, [], v')"
    and o: "ornek_sinav_programi_olustur bugun b t dv yv v = Inr (length ds, [], v')"
    using ornek_ilk_calisma [OF assms] by blast
  have "\<forall>k < length ds. derslikte_cakisiyor_mu v' b t (ds_id (hd dls)) (ornek_baslangic bugun (0 + k))
                          (ornek_baslangic bugun (0 + k) + 90)"
    using ornek_dongusu_doldurur [of b t bugun "ds_id (hd dls)" 0 ds 0 "[]" v v'] e by simp
  from ornek_dongusu_hep_cakisir [OF this, of 0 "[]"]
  have "ornek_sinav_programi_olustur bugun b t dv yv v' =
          Inr (0, replicate (length ds) (Uyari (DerslikCakismasi (ds_id (hd dls)))), v')"
    using assms(4-6) by (simp add: ornek_sinav_programi_olustur_def)
  with o show ?thesis by blast
qed

theorem ornek_program_tekrar_witness:
  "\<exists>v'. ornek_sinav_programi_olustur 739257 1 ''vize'' dvt_ornek yvt_ornek_d vt_bos = Inr (1, [], v') \<and>
        ornek_sinav_programi_olustur 739257 1 ''vize'' dvt_ornek yvt_ornek_d v' =
          Inr (0, [Uyari (DerslikCakismasi 1)], v')"
proof -
  have d: "dvt_inv dvt_ornek" by (simp add: dvt_inv_def dvt_ornek_def)
  have k: "kayit_inv vt_bos" by (simp add: kayit_inv_def vt_bos_def)
  have h: "ds_id (hd (snd (plan_kaynagini_hazirla 1 dvt_ornek yvt_ornek_d))) = 1"
    unfolding ornek_kaynak by (simp add: yvt_ornek_d_def)
  from ornek_program_tekrar [OF d k _ ornek_kaynak, where bugun = 739257 and t = "''vize''"] h
  show ?thesis by (simp add: vt_bos_def ornek_kaynak)
qed

end
