(* ===== verification/Listeleme.thy ===== *)
theory Listeleme
  imports ExcelAktarim Kayit
begin

text \<open>
  The read queries of \<open>src/veri_deposu.py\<close> over the exam tables and the export of an
  exam schedule: \<open>sinav_programi_listele\<close>, \<open>sinav_programi_detay\<close>,
  \<open>sinav_derslikleri\<close>, \<open>oturma_plani_listele\<close> and the payload that
  \<open>export_sinav_programi_to_excel\<close> builds before it hands it to
  \<open>programi_xlsx_yaz\<close>.  An inner join is a nested loop over the tables in their order, and
  \<open>ORDER BY\<close> is the stable \<open>sort_key\<close> on the listed keys, which fixes the order of ties
  SQLite leaves open.  Start and end are stored as \<open>isoformat(timespec="minutes")\<close>, whose
  text order is the order of the minutes for years 1000 to 9999; the model sorts by minute.
  The helpers \<open>_norm\<close>, \<open>_looks_like_person\<close> and \<open>_looks_like_course\<close> of
  \<open>veri_deposu.py\<close> are textual copies of those of \<open>excel_parser.py\<close>, modelled in
  \<open>Excel_Yardimci\<close>.
\<close>

subsection \<open>The joins\<close>

record sp_ders_satiri =
  sl_id :: kimlik
  sl_ders_id :: kimlik
  sl_kod :: string
  sl_ad :: string
  sl_hoca :: "string option"
  sl_baslangic :: dakika
  sl_bitis :: dakika

definition sp_ders_satiri_yap :: "sp_satir \<Rightarrow> ders_satir \<Rightarrow> sp_ders_satiri" where
  "sp_ders_satiri_yap sp d =
     \<lparr>sl_id = sp_id sp, sl_ders_id = dr_id d, sl_kod = dr_kod d, sl_ad = dr_ad d, sl_hoca = dr_hoca d,
      sl_baslangic = sp_baslangic sp, sl_bitis = sp_bitis sp\<rparr>"

text \<open>\<open>FROM sinav_programi sp JOIN dersler d ON d.id = sp.ders_id WHERE sp.bolum_id = ? AND
  sp.sinav_turu = ? ORDER BY sp.baslangic, d.kod\<close>.\<close>

definition sp_ders_birlesimi :: "kimlik \<Rightarrow> string \<Rightarrow> vt \<Rightarrow> dvt \<Rightarrow> sp_ders_satiri list" where
  "sp_ders_birlesimi bolum_id sinav_turu v dv =
     sort_key (\<lambda>r. (sl_baslangic r, sl_kod r))
       (concat (map (\<lambda>sp. map (sp_ders_satiri_yap sp) (filter (\<lambda>d. dr_id d = sp_ders_id sp) (dv_dersler dv)))
                    (filter (\<lambda>sp. sp_bolum_id sp = bolum_id \<and> sp_sinav_turu sp = sinav_turu) (sinav_programi v))))"

definition sinav_programi_listele :: "kimlik \<Rightarrow> string \<Rightarrow> vt \<Rightarrow> dvt \<Rightarrow> (kimlik \<times> string \<times> string \<times> dakika \<times> dakika) list" where
  "sinav_programi_listele bolum_id sinav_turu v dv =
     map (\<lambda>r. (sl_id r, sl_kod r, sl_ad r, sl_baslangic r, sl_bitis r)) (sp_ders_birlesimi bolum_id sinav_turu v dv)"

text \<open>\<open>stur = (sinav_turu or "vize").strip().lower()\<close>: \<open>None\<close> and the empty string
  become \<open>"vize"\<close>.\<close>

definition sinav_programi_detay ::
  "kimlik \<Rightarrow> string option \<Rightarrow> vt \<Rightarrow> dvt \<Rightarrow> (kimlik \<times> kimlik \<times> string \<times> string \<times> dakika \<times> dakika) list" where
  "sinav_programi_detay bolum_id sinav_turu v dv =
     (let stur = py_lower (py_strip (case sinav_turu of None \<Rightarrow> ''vize'' | Some s \<Rightarrow> if s = [] then ''vize'' else s))
      in map (\<lambda>r. (sl_id r, sl_ders_id r, sl_kod r, sl_ad r, sl_baslangic r, sl_bitis r)) (sp_ders_birlesimi bolum_id stur v dv))"

text \<open>\<open>FROM sinav_programi_derslik spd JOIN derslikler dl ON dl.id = spd.derslik_id WHERE
  spd.sinav_id = ? ORDER BY dl.kapasite DESC\<close>.\<close>

definition sinav_derslik_satirlari :: "kimlik \<Rightarrow> vt \<Rightarrow> yvt \<Rightarrow> derslik_satir list" where
  "sinav_derslik_satirlari sinav_id v yv =
     sort_key (\<lambda>dl. - ds_kapasite dl)
       (concat (map (\<lambda>(s, dl_id). filter (\<lambda>dl. ds_id dl = dl_id) (yv_derslikler yv))
                    (filter (\<lambda>(s, dl_id). s = sinav_id) (sinav_programi_derslik v))))"

definition sinav_derslikleri :: "kimlik \<Rightarrow> vt \<Rightarrow> yvt \<Rightarrow> (kimlik \<times> string \<times> int \<times> int \<times> int) list" where
  "sinav_derslikleri sinav_id v yv =
     map (\<lambda>dl. (ds_id dl, ds_kodu dl, ds_enine dl, ds_boyuna dl, ds_kapasite dl)) (sinav_derslik_satirlari sinav_id v yv)"

text \<open>\<open>FROM oturma_plani op JOIN ogrenciler o ON o.id = op.ogrenci_id JOIN derslikler dl ON
  dl.id = op.derslik_id WHERE op.sinav_id = ? ORDER BY dl.derslik_kodu, op.sira_no,
  op.sutun_no\<close>.\<close>

definition oturma_plani_listele ::
  "kimlik \<Rightarrow> vt \<Rightarrow> dvt \<Rightarrow> yvt \<Rightarrow> (kimlik \<times> string \<times> string \<times> string \<times> int \<times> int) list" where
  "oturma_plani_listele sinav_id v dv yv =
     sort_key (\<lambda>(_, _, _, k, s, c). (k, s, c))
       (concat (map (\<lambda>op. concat (map (\<lambda>o'. map (\<lambda>dl. (op_ogrenci_id op, og_adsoyad o', og_no o', ds_kodu dl,
                                                           op_sira_no op, op_sutun_no op))
                                                (filter (\<lambda>dl. ds_id dl = op_derslik_id op) (yv_derslikler yv)))
                                   (filter (\<lambda>o'. og_id o' = op_ogrenci_id op) (dv_ogrenciler dv))))
                    (filter (\<lambda>op. op_sinav_id op = sinav_id) (oturma_plani v))))"

subsection \<open>The export\<close>

text \<open>The export query adds \<open>d.hoca\<close> and \<open>JOIN bolumler b ON b.id = sp.bolum_id\<close> to the
  listing's join.\<close>

definition aktarim_sorgusu :: "kimlik \<Rightarrow> string \<Rightarrow> vt \<Rightarrow> dvt \<Rightarrow> yvt \<Rightarrow> (sp_ders_satiri \<times> string) list" where
  "aktarim_sorgusu bolum_id sinav_turu v dv yv =
     concat (map (\<lambda>r. map (\<lambda>bo. (r, bolum_ad bo)) (filter (\<lambda>bo. bolum_no bo = bolum_id) (yv_bolumler yv)))
                 (sp_ders_birlesimi bolum_id sinav_turu v dv))"

text \<open>\<open>bas.time().strftime("%H:%M")\<close> and \<open>bas.date()\<close>.\<close>

definition iki_hane :: "nat \<Rightarrow> string" where
  "iki_hane n = [char_of (48 + n div 10), char_of (48 + n mod 10)]"

definition saat_metni :: "dakika \<Rightarrow> string" where
  "saat_metni t = (let m = nat (t mod 1440) in iki_hane (m div 60) @ '':'' @ iki_hane (m mod 60))"

record aktarim_kaydi =
  ak_bolum :: string
  ak_tarih :: int
  ak_saat :: string
  ak_bas :: dakika
  ak_bit :: dakika
  ak_kod :: string
  ak_ad :: string
  ak_hoca :: "string option"
  ak_derslikler :: "string list"

text \<open>Python's truth value of an optional string.\<close>

definition dolu :: "string option \<Rightarrow> bool" where
  "dolu s = (case s of None \<Rightarrow> False | Some x \<Rightarrow> x \<noteq> [])"

text \<open>One pass of the loop over the query's rows: \<open>None\<close> is a \<open>continue\<close>.\<close>

definition aktarim_satiri :: "vt \<Rightarrow> yvt \<Rightarrow> sp_ders_satiri \<times> string \<Rightarrow> aktarim_kaydi option" where
  "aktarim_satiri v yv rb =
     (case rb of (r, bolum_adi) \<Rightarrow>
        if \<not> re_derskodu (sl_kod r) then None
        else if is_heading_like (Some (sl_ad r)) \<or> is_heading_like (sl_hoca r) then None
        else
          let (ad, hoca) = (if looks_like_person (Some (sl_ad r)) \<or>
                                 (\<not> looks_like_course (Some (sl_ad r)) \<and> looks_like_course (sl_hoca r))
                            then (if dolu (sl_hoca r) \<or> dolu (Some (sl_ad r)) then (sl_hoca r, Some (sl_ad r))
                                  else (Some (sl_ad r), sl_hoca r))
                            else (Some (sl_ad r), sl_hoca r));
              derslikler = map ds_kodu (sinav_derslik_satirlari (sl_id r) v yv)
          in case ad of
               None \<Rightarrow> None
             | Some a \<Rightarrow>
                 if a = [] then None
                 else Some \<lparr>ak_bolum = bolum_adi, ak_tarih = sl_baslangic r div 1440,
                            ak_saat = saat_metni (sl_baslangic r), ak_bas = sl_baslangic r,
                            ak_bit = sl_bitis r, ak_kod = sl_kod r, ak_ad = a, ak_hoca = hoca,
                            ak_derslikler = derslikler\<rparr>)"

definition export_sinav_programi :: "kimlik \<Rightarrow> string \<Rightarrow> vt \<Rightarrow> dvt \<Rightarrow> yvt \<Rightarrow> aktarim_kaydi list" where
  "export_sinav_programi bolum_id sinav_turu v dv yv =
     List.map_filter (aktarim_satiri v yv) (aktarim_sorgusu bolum_id sinav_turu v dv yv)"

text \<open>A course named \<open>Android Programlama\<close> (the title token \<open>dr\<close> occurs in it) with the
  lecturer \<open>h\<close>, and a department with one room.\<close>

definition dvt_android :: "string option \<Rightarrow> dvt" where
  "dvt_android h = \<lparr>dv_dersler = [\<lparr>dr_id = 7, dr_bolum_id = 1, dr_kod = ''BIL305'', dr_ad = ''Android Programlama'',
       dr_hoca = h, dr_sinif = None, dr_tur = None\<rparr>], dv_d_sayac = 7,
     dv_ogrenciler = [], dv_o_sayac = 0, dv_ogrenci_ders = []\<rparr>"

definition yvt_tek_oda :: yvt where
  "yvt_tek_oda = \<lparr>yv_bolumler = [\<lparr>bolum_no = 1, bolum_ad = ''BM''\<rparr>], yv_bo_sayac = 1, yv_kullanicilar = [],
     yv_ku_sayac = 0, yv_derslikler = [\<lparr>ds_id = 1, ds_bolum_id = 1, ds_kodu = ''D1'', ds_adi = ''Amfi'',
       ds_kapasite = 40, ds_enine = 8, ds_boyuna = 5, ds_sira_yapisi = 2\<rparr>], yv_ds_sayac = 1\<rparr>"

subsection \<open>Lemmas\<close>

lemma filter_anahtar_tek:
  "distinct (map f xs) \<Longrightarrow> x \<in> set xs \<Longrightarrow> filter (\<lambda>y. f y = f x) xs = [x]"
  by (induction xs) (auto simp: filter_empty_conv image_iff)

lemma program_satiri_yaz_yeni:
  assumes "program_satiri_yaz v b d_id t bas bit' bek dls = Inr (sid, v')"
  shows "sid = sp_sayac v + 1 \<and> sinav_programi v' = sinav_programi v @ [yeni_satir v b d_id t bas bit' bek]"
  using assms by (auto simp: program_satiri_yaz_sonuc split: option.splits if_splits)

lemma sp_ders_birlesimi_mset:
  "mset (sp_ders_birlesimi b t v dv) =
     mset (concat (map (\<lambda>sp. map (sp_ders_satiri_yap sp) (filter (\<lambda>d. dr_id d = sp_ders_id sp) (dv_dersler dv)))
                       (filter (\<lambda>sp. sp_bolum_id sp = b \<and> sp_sinav_turu sp = t) (sinav_programi v))))"
  by (simp add: sp_ders_birlesimi_def)

lemma sinav_programi_listele_sirali:
  "sorted (map (\<lambda>(i, k, a, s, e). (s, k)) (sinav_programi_listele b t v dv))"
proof -
  have "map (\<lambda>(i, k, a, s, e). (s, k)) (sinav_programi_listele b t v dv) =
        map (\<lambda>r. (sl_baslangic r, sl_kod r)) (sp_ders_birlesimi b t v dv)"
    by (simp add: sinav_programi_listele_def)
  then show ?thesis by (simp add: sp_ders_birlesimi_def)
qed

text \<open>C39: After \<open>_program_satiri_yaz\<close> writes an exam of a course of the course table, the
  listing \<open>sinav_programi_listele\<close> of its department and exam type is the listing before
  the write with exactly one row added, the new exam's id, the course's code and name and the
  interval, and it is still ordered by start and code.\<close>

theorem listele_yazilani_gosterir:
  assumes "program_satiri_yaz v b d_id t bas bit' bek dls = Inr (sid, v')"
    and "dvt_inv dv" "d \<in> set (dv_dersler dv)" "dr_id d = d_id"
  shows "mset (sinav_programi_listele b t v' dv) =
           add_mset (sid, dr_kod d, dr_ad d, bas, bit') (mset (sinav_programi_listele b t v dv)) \<and>
         sorted (map (\<lambda>(i, k, a, s, e). (s, k)) (sinav_programi_listele b t v' dv))"
proof
  from program_satiri_yaz_yeni [OF assms(1)]
  have sid: "sid = sp_sayac v + 1"
    and v': "sinav_programi v' = sinav_programi v @ [yeni_satir v b d_id t bas bit' bek]" by auto
  have "filter (\<lambda>d'. dr_id d' = dr_id d) (dv_dersler dv) = [d]"
    using assms(2,3) by (intro filter_anahtar_tek) (simp_all add: dvt_inv_def)
  then have tek: "filter (\<lambda>d'. dr_id d' = d_id) (dv_dersler dv) = [d]" using assms(4) by simp
  have yeni: "sp_ders_satiri_yap (yeni_satir v b d_id t bas bit' bek) d =
      \<lparr>sl_id = sid, sl_ders_id = d_id, sl_kod = dr_kod d, sl_ad = dr_ad d, sl_hoca = dr_hoca d,
       sl_baslangic = bas, sl_bitis = bit'\<rparr>"
    using sid assms(4) by (simp add: sp_ders_satiri_yap_def yeni_satir_def)
  show "mset (sinav_programi_listele b t v' dv) =
          add_mset (sid, dr_kod d, dr_ad d, bas, bit') (mset (sinav_programi_listele b t v dv))"
    unfolding sinav_programi_listele_def mset_map sp_ders_birlesimi_mset v'
    using tek yeni by (simp add: yeni_satir_def)
  show "sorted (map (\<lambda>(i, k, a, s, e). (s, k)) (sinav_programi_listele b t v' dv))"
    by (rule sinav_programi_listele_sirali)
qed

lemma android_kisi_gibi:
  "looks_like_person (Some ''Android Programlama'') \<and> \<not> is_heading_like (Some ''Android Programlama'') \<and>
   \<not> is_heading_like (Some ''Ali Veli'') \<and> re_derskodu ''BIL305''"
  by (simp add: ders_yazma_simps hucre_simps)

lemma android_yazilir:
  "program_satiri_yaz vt_bos 1 7 ''vize'' (combine 739257 600) (combine 739257 690) 15 [1] =
     Inr (1, vt_bos\<lparr>sinav_programi := [yeni_satir vt_bos 1 7 ''vize'' (combine 739257 600) (combine 739257 690) 15],
                    sinav_programi_derslik := [(1, 1)], sp_sayac := 1\<rparr>)"
  by (simp add: program_satiri_yaz_sonuc derslikte_cakisiyor_mu_def vt_bos_def)

theorem listele_yazilani_gosterir_witness:
  "\<exists>v. program_satiri_yaz vt_bos 1 7 ''vize'' (combine 739257 600) (combine 739257 690) 15 [1] = Inr (1, v) \<and>
       mset (sinav_programi_listele 1 ''vize'' v (dvt_android None)) =
         add_mset (1, ''BIL305'', ''Android Programlama'', combine 739257 600, combine 739257 690)
           (mset (sinav_programi_listele 1 ''vize'' vt_bos (dvt_android None))) \<and>
       sorted (map (\<lambda>(i, k, a, s, e). (s, k)) (sinav_programi_listele 1 ''vize'' v (dvt_android None)))"
proof -
  let ?d = "\<lparr>dr_id = 7, dr_bolum_id = 1, dr_kod = ''BIL305'', dr_ad = ''Android Programlama'',
             dr_hoca = None, dr_sinif = None, dr_tur = None\<rparr>"
  have i: "dvt_inv (dvt_android None)" by (simp add: dvt_inv_def dvt_android_def)
  have m: "?d \<in> set (dv_dersler (dvt_android None))" by (simp add: dvt_android_def)
  from listele_yazilani_gosterir [OF android_yazilir i m]
  show ?thesis using android_yazilir by simp
qed

text \<open>An exam of \<open>Android Programlama\<close> (which contains \<open>dr\<close>) after it is written: the
  listing shows it, the export leaves it out when the course has no lecturer, and with the
  lecturer \<open>Ali Veli\<close> exports the lecturer as the course name.\<close>

lemma export_android_ornegi:
  "\<exists>v. program_satiri_yaz vt_bos 1 7 ''vize'' (combine 739257 600) (combine 739257 690) 15 [1] = Inr (1, v) \<and>
       sinav_programi_listele 1 ''vize'' v (dvt_android None) =
         [(1, ''BIL305'', ''Android Programlama'', combine 739257 600, combine 739257 690)] \<and>
       export_sinav_programi 1 ''vize'' v (dvt_android None) yvt_tek_oda = [] \<and>
       map (\<lambda>a. (ak_ad a, ak_hoca a, ak_derslikler a)) (export_sinav_programi 1 ''vize'' v (dvt_android (Some ''Ali Veli'')) yvt_tek_oda) =
         [(''Ali Veli'', Some ''Android Programlama'', [''D1''])]"
  using android_kisi_gibi
  unfolding android_yazilir
  by (simp add: export_sinav_programi_def aktarim_sorgusu_def sinav_programi_listele_def sp_ders_birlesimi_def
      aktarim_satiri_def sp_ders_satiri_yap_def sinav_derslik_satirlari_def dvt_android_def yvt_tek_oda_def
      yeni_satir_def vt_bos_def dolu_def List.map_filter_def)



end
