(* ===== verification/ProgramTablosu.thy ===== *)
theory ProgramTablosu
  imports ProgramEkrani Listeleme
begin

text \<open>
  The remaining handlers of the exam schedule screen \<open>SinavProgramiPenceresi\<close>
  (\<open>src/arayuz/sinav_programi_penceresi.py\<close>): \<open>_listele\<close>, which fills the table from
  \<open>sinav_programi_listele\<close>, \<open>_temizle\<close>, which clears the selected exam type and lists
  again, \<open>_export_excel\<close>, which asks for a file name and hands the export payload of theory
  \<open>Listeleme\<close> to the spreadsheet writer, and the refresh at the end of a successful
  \<open>_olustur\<close>.  The table is the list of its rows (code, name, start, end); the file
  dialog's answer is an optional string.
\<close>

type_synonym program_tablosu = "(string \<times> string \<times> dakika \<times> dakika) list"

text \<open>\<open>_listele\<close>: \<open>sinav_turu = self.cmb_tur.get() or "vize"\<close>.\<close>

definition tablo_listele :: "kimlik \<Rightarrow> string \<Rightarrow> vt \<Rightarrow> dvt \<Rightarrow> program_tablosu" where
  "tablo_listele bolum_id tur v dv =
     map (\<lambda>(i, k, a, s, e). (k, a, s, e)) (sinav_programi_listele bolum_id (if tur = [] then ''vize'' else tur) v dv)"

text \<open>\<open>_olustur\<close> with its table: the table is listed again only after every placement was
  saved; an error box leaves it as it was.\<close>

definition olustur_tablolu :: "program_ekrani \<Rightarrow> dvt \<Rightarrow> yvt \<Rightarrow> vt \<Rightarrow> program_tablosu \<Rightarrow> vt \<times> program_tablosu \<times> program_mesaji" where
  "olustur_tablolu e dv yv v t =
     (case olustur e dv yv v of
        (v', ProgramUretildi n us k) \<Rightarrow> (v', tablo_listele (pe_bolum e) (pe_tur e) v' dv, ProgramUretildi n us k)
      | (v', m) \<Rightarrow> (v', t, m))"

text \<open>\<open>_temizle\<close>: \<open>sinav_programini_temizle\<close>, \<open>_listele\<close>, then the info box.\<close>

definition temizle_tablolu :: "kimlik \<Rightarrow> string \<Rightarrow> vt \<Rightarrow> dvt \<Rightarrow> vt \<times> program_tablosu" where
  "temizle_tablolu bolum_id tur v dv =
     (let v' = sinav_programini_temizle v bolum_id tur in (v', tablo_listele bolum_id tur v' dv))"

text \<open>\<open>_export_excel\<close>: nothing when the dialog is cancelled (\<open>None\<close> or the empty name),
  otherwise the file name and the payload written to it.\<close>

definition export_excel_tablolu ::
  "kimlik \<Rightarrow> string \<Rightarrow> string option \<Rightarrow> vt \<Rightarrow> dvt \<Rightarrow> yvt \<Rightarrow> (string \<times> aktarim_kaydi list) option" where
  "export_excel_tablolu bolum_id tur p v dv yv =
     (case p of
        None \<Rightarrow> None
      | Some yol \<Rightarrow> if yol = [] then None
                   else Some (yol, export_sinav_programi bolum_id (if tur = [] then ''vize'' else tur) v dv yv))"

subsection \<open>Lemmas\<close>

lemma sp_ders_birlesimi_bos:
  "\<forall>sp \<in> set (sinav_programi v). \<not> (sp_bolum_id sp = b \<and> sp_sinav_turu sp = t) \<Longrightarrow> sp_ders_birlesimi b t v dv = []"
  by (simp add: sp_ders_birlesimi_def filter_empty_conv)

text \<open>After \<open>_temizle\<close> the table of the exam type is empty.\<close>

lemma temizle_tablolu_bos:
  "tur \<noteq> [] \<Longrightarrow> snd (temizle_tablolu b tur v dv) = []"
  using temizle_bos [of _ v b tur]
  by (simp add: temizle_tablolu_def tablo_listele_def sinav_programi_listele_def sp_ders_birlesimi_bos)

end
