(* ===== verification/Spec2Isabelle.thy ===== *)
theory Spec2Isabelle
  imports Veri_Modeli Zaman Koltuk Oturma Planlayici Senaryolar Kayit KoltukAtama Yonetim DerslikEkrani Python_Yerlesik PlanGirdisi DersKaynagi ExcelAktarim ProgramEkrani KullaniciEkrani AnaPencere Uygulama OrnekProgram Listeleme ProgramTablosu
begin

text \<open>
  \<^bold>\<open>A verification development of the exam scheduling system.\<close>

  The program (\<open>src/\<close>) is a Tkinter application over an SQLite database.  Its core is two
  algorithms: the exam timetable planner \<open>planla\<close> of \<open>src/planner.py\<close>, which puts
  courses into (day, time slot, room) triples without room or student conflicts, and the
  seat assignment engine \<open>atama_yap\<close> of \<open>src/oturma_atayici.py\<close>, which seats the
  students of one exam in its rooms, following the seat order of the layout generator
  \<open>_koltuk_listesi\<close>.  The data they exchange comes from \<open>src/veri_deposu.py\<close> (courses
  with their enrolled students, rooms) and the planner's placements go back to it.  The
  theories, leaves first:

  \<^item> \<open>Prelude\<close>: the collections \<open>plan_simps\<close>, \<open>oturma_simps\<close>, \<open>kayit_simps\<close> of
    evaluation rules, the type names (\<open>kimlik\<close> a row id, \<open>dakika\<close> a minute,
    \<open>aralik\<close> a half-open interval), Python's \<open>range(a, b, s)\<close> as \<open>py_range\<close> (a
    \<^theory_text>\<open>function\<close> terminating on \<open>b - a\<close>), and list lemmas on
    \<open>sorted_wrt\<close>, \<open>find\<close>, \<open>remove1\<close>, \<open>sort_key\<close> and \<open>fold\<close> the components
    share.
  \<^item> \<open>Veri_Modeli\<close>: the records \<open>ders\<close> (course dictionary of
    \<open>plan_kaynagini_hazirla\<close>), \<open>derslik\<close> (row of the \<open>derslikler\<close> table of
    \<open>src/veritabani.py\<close>) and \<open>yerlestirme\<close> (placement dictionary of \<open>planla\<close>).
  \<^item> \<open>Zaman\<close>: \<open>_overlaps\<close> of \<open>src/planner.py\<close> and \<open>_zaman_cakisiyor_mu\<close> of
    \<open>src/veri_deposu.py\<close> (both half-open), \<open>date.weekday\<close> on day ordinals and
    \<open>datetime.combine\<close> as \<open>day * 1440 + minute\<close>: an instant is minutes since 0001-01-01.
  \<^item> \<open>Koltuk\<close>: \<open>_koltuk_listesi\<close>.  Proved: every grid cell listed once in row-major
    order (C9); also the first half of every row in odd columns and the first seats of a
    row at pairwise different desks.
  \<^item> \<open>Oturma\<close>: \<open>atama_yap\<close> of \<open>src/oturma_atayici.py\<close>; its seat loop is
    \<open>koltuk_doldur\<close>, its room loop \<open>derslik_doldur\<close>, both structural recursions.
    Proved: the loops compute the roster zipped with the seat sequence of the rooms sorted
    by declared capacity; hence with distinct room ids no seat twice (C5), every seat in
    an input room's grid (C6), the exact warning list (C7), and the seated students the
    first \<open>toplam_kapasite\<close> of the roster in order (C8).
  \<^item> \<open>Planlayici\<close>: \<open>planla\<close> from the point where its constraint object has been read
    into locals (\<open>plan_ayari\<close>), with explicit state \<open>plan_durum\<close> (room and student
    timetables, room usage counts, courses left, placements, warnings).  One attempt is
    \<open>ders_dene\<close>, the loops over courses, slots and days are \<open>slot_dongusu\<close>,
    \<open>slotlar_dongusu\<close> (structural) and \<open>gun_dongusu\<close> (terminating on the days left
    to \<open>tarih_bit\<close>; the days are finitely many, so no fuel is needed).  Each loop keeps
    whatever one attempt keeps (\<open>planla_korur\<close>).  Proved: no room double-booking (C1), no
    student conflict (C2), every placement allowed and in a large enough room (C3), no
    course placed twice (C4).
  \<^item> \<open>Senaryolar\<close>: the scenarios of the specification and the behaviours of \<open>planla\<close>
    that differ from its documentation: the buffer \<open>bekleme_dk\<close> has no effect (C10,
    with a worked example of back-to-back exams); with rooms that are large enough and at
    least as many as the courses, \<open>planla\<close> emits no warning at all, so a course left
    unplaced by a student conflict is never reported (\<open>planla_oda_yeterken_uyarisiz\<close>,
    by an invariant over all loops); examples show that the no-parallel flag allows
    overlapping exams, and a three-day example shows one course a day under the flag.
  \<^item> \<open>Kayit\<close>: the writers of \<open>src/veri_deposu.py\<close> over the exam and seat tables of
    \<open>src/veritabani.py\<close> (\<open>_derslikte_cakisiyor_mu\<close>, \<open>_program_satiri_yaz\<close>,
    \<open>sinav_programi_kaydet\<close>, \<open>sinav_programini_temizle\<close>, \<open>oturma_plani_kaydet\<close>,
    \<open>oturma_plani_temizle\<close>), the database as a record of row lists with the
    \<open>AUTOINCREMENT\<close> counter, errors as \<open>Inl\<close> values that leave the database unchanged
    (the transaction of the \<open>with\<close> block rolls back).  Proved: saving keeps the invariant
    (C11), the room-conflict guard fires (C12), the seat writer fails exactly on a student
    seated twice and never looks at the room or the seat (C13), and clearing removes
    exactly the exam type's rows and what hangs on them.
  \<^item> \<open>DersKaynagi\<close>: where the planner's courses come from.  The tables \<open>dersler\<close>,
    \<open>ogrenciler\<close>, \<open>ogrenci_ders\<close> of \<open>src/veritabani.py\<close> as the record \<open>dvt\<close>;
    the student import \<open>ogrencileri_toplu_yaz_ve_kayitla\<close> of \<open>src/veri_deposu.py\<close>
    (upsert on (department, number) with \<open>COALESCE\<close> of the class, the number and code
    maps of the department, enrollments by \<open>INSERT OR IGNORE\<close> filtered by the course code
    pattern \<open>RE_DERSKODU\<close>, a rollback as \<open>Inl\<close> when a number or name is
    \<open>NULL\<close>); the course lists \<open>dersler_ogrsay_ve_alanlar_detayli\<close> and
    \<open>plan_kaynagini_hazirla\<close> with the class fallback \<open>sinif_modu\<close>; the queries
    \<open>derse_kayitli_ogrenciler\<close> and \<open>ogrenci_ara_ve_dersleri_getir\<close>.  Proved: an
    imported enrollment shows up in the course list (C18); the fallback class is the most
    frequent, the smallest on a tie; the import keeps the tables' keys
    (\<open>dvt_inv\<close>) and fails exactly on a missing number or name.
  \<^item> \<open>Excel_Yardimci\<close> and \<open>ExcelAktarim\<close>: the spreadsheet import.  A workbook is
    modelled after pandas has read it (\<open>kitap\<close>: sheets of column labels and rows of cells
    \<open>hucre\<close>, a sheet \<open>None\<close> when reading it raised).  \<open>Excel_Yardimci\<close> holds the
    cell helpers of \<open>src/excel_parser.py\<close> (\<open>_safe_str\<close>, \<open>_as_int_or_none\<close> with
    Python's \<open>float()\<close> grammar, \<open>_norm\<close>, \<open>_clean_headingish\<close>, the patterns, the
    word lists, the guesses and the column scores, as exact rationals) and the copies in
    \<open>src/veri_deposu.py\<close>; \<open>ExcelAktarim\<close> the readers \<open>ogrenci_excel_parse\<close> and
    \<open>ders_excel_parse\<close> (both branches), the course writer \<open>dersleri_toplu_yaz\<close> and
    the handlers of \<open>src/arayuz/import_penceresi.py\<close>.  Proved: the student reader's
    output is well formed (C19); a student import fails and rolls back exactly when a
    student has no name (C20); the course screen reports as processed every course the
    reader returned, also those the writer skips for a code \<open>RE_DERSKODU\<close> rejects
    (C21); \<open>_as_int_or_none\<close> stays below \<open>2^1024\<close> (\<open>as_int_or_none_sinir\<close>); the two
    copies of \<open>_clean_headingish\<close> agree.
  \<^item> \<open>ProgramEkrani\<close>: the handler \<open>_olustur\<close> of
    \<open>src/arayuz/sinav_programi_penceresi.py\<close> (entries, \<open>_parse_saatler\<close>,
    \<open>_secili_ders_ids\<close>, the \<open>PlanKisit\<close>, \<open>planla\<close>, clearing, then one
    \<open>sinav_kaydet\<close> transaction per placement, \<open>tek_tek_kaydet\<close>).  Proved: with parsed
    entries the handler plans with the constraint built from the entries and stores exactly
    what the one-transaction writer stores for that plan, never leaves a partial program and
    always reports zero unplaced courses (C17).  \<open>ProgramTablosu\<close> adds the screen's
    table: \<open>_listele\<close>, \<open>_temizle\<close> (after which the table is empty),
    \<open>_export_excel\<close> and the refresh at the end of \<open>_olustur\<close>.
  \<^item> \<open>KoltukAtama\<close>: the second seat engine, \<open>atama_yap\<close> of \<open>src/koltuk_atama.py\<close>,
    which deals students round the rooms; its \<open>while\<close> loop is the \<^theory_text>\<open>function\<close>
    \<open>rr_dongu\<close> over the loop locals \<open>rr_durum\<close>, terminating on students left plus rooms
    left; the same loop read literally as the \<^theory_text>\<open>partial_function\<close>
    \<open>rr_dongu_p\<close> returns on every input with that result (C24).  Proved: no seat twice for
    any room ids (C22), with distinct ids exactly \<open>min(students, seats)\<close> seated (C23) and
    the exact warnings, which test declared rather than generated capacity (C25), the same
    assignments as \<open>Oturma\<close> on one room (C26); also
    every seat inside an input room's grid, the seated students a roster prefix, and the
    dealing order on an example.  No screen calls either engine.
  \<^item> \<open>Yonetim\<close>: the user, department and room administration of
    \<open>src/veri_deposu.py\<close> (\<open>yetkili_kullanici_ekle\<close>, \<open>derslik_ekle\<close>,
    \<open>derslik_guncelle\<close>, \<open>derslik_sil\<close> and their queries) over the tables
    \<open>bolumler\<close>, \<open>kullanicilar\<close>, \<open>derslikler\<close>, from the bootstrap
    \<open>varsayilan_veri_yukle\<close> of \<open>src/veritabani.py\<close>.  Errors are \<open>Inl\<close> values
    of three classes (\<open>PermissionError\<close>, \<open>ValueError\<close>, \<open>IntegrityError\<close>); the
    writers form the step function \<open>yonetim_adim\<close>, with the reachable databases
    \<open>erisilebilir\<close> (one transaction per operation) and \<open>eszamanli\<close> (sessions whose
    coordinator check and insert interleave).  Proved: the table invariant, with at most one
    coordinator per department, on every reachable database (C27); permission errors exactly
    for the wrong role (C28); no room of another department touched (C29); an added room is
    found under its new id; interleaved sessions can store two coordinators of one
    department (C30).  Foreign keys are not checked, as \<open>baglanti()\<close> never enables them.
  \<^item> \<open>DerslikEkrani\<close>: the room screen \<open>DerslikPenceresi\<close> of
    \<open>src/arayuz/derslik_penceresi.py\<close>, its handlers as functions of the screen record
    \<open>derslik_ekrani\<close> and the database of \<open>Yonetim\<close>; Python's \<open>int()\<close> and
    \<open>str()\<close> on decimal integers as \<open>py_int\<close> and \<open>py_str\<close> (strings as code points
    below 256).  Proved: \<open>int(str(i)) = i\<close>; the add handler either changes
    nothing and shows an error or stores the validated form; selecting a room and saving
    the unchanged form leaves the database as it was.
  \<^item> \<open>PlanGirdisi\<close>: the input layer of \<open>src/planner.py\<close>: \<open>_normalize_gun_disi\<close>
    (integers, digit strings and weekday names), \<open>_to_time\<close>,
    \<open>_normalize_ders_sureleri\<close>, the dataclass \<open>PlanKisit\<close> with the alias
    resolution of \<open>__post_init__\<close>, and the part of \<open>planla\<close> that reads a
    \<open>PlanKisit\<close> or an alias dictionary into \<open>plan_ayar\<close> (\<open>planla_py\<close>), every
    \<open>int()\<close>, iteration and lookup that can raise an \<open>Inl\<close> branch.  Proved: the
    constraint the exam schedule screen builds reaches the typed planner unchanged (C31), so
    C1--C4 hold for the screen's runs; examples show where the dictionary path and the
    dataclass path read a duration differently.
  \<^item> \<open>KullaniciEkrani\<close>: the login window \<open>_giris_yap\<close> of
    \<open>src/arayuz/giris_penceresi.py\<close> and the admin's tab \<open>KullaniciYonetimi\<close> of
    \<open>src/arayuz/kullanici_yonetimi.py\<close> (the record \<open>kullanici_ekrani\<close> of its
    entries and comboboxes, \<open>_rol_degisti\<close>, \<open>_temizle\<close>, \<open>_ekle\<close>), over
    \<open>yetkili_kullanici_ekle\<close> of \<open>Yonetim\<close>; \<open>EMAIL_RE.match\<close> as the executable
    \<open>email_re_match\<close>; bcrypt's \<open>hashpw\<close> and \<open>checkpw\<close> are parameters.  The
    databases the admin's tab and the room tab reach from an empty database or the default
    data are the inductive predicate \<open>uygulama\<close>.  Proved: \<open>email_re_match\<close> accepts
    exactly the language of the pattern (\<open>email_re_match_desen\<close>); a user the tab adds can log in with the same
    e-mail and password up to outer blanks (C33); every stored e-mail of a reachable
    database has the pattern's form (C34); the department box gives back the id of the entry
    chosen.
  \<^item> \<open>AnaPencere\<close>: the main window of \<open>src/arayuz/ana_pencere.py\<close>: its notebook as
    a list of tabs (kind, enabled, lock note), \<open>_build\<close> for both roles with its two
    \<open>after\<close> timers as a queue, \<open>_bilgilendir_kilit\<close>,
    \<open>_on_first_derslik_added\<close>, \<open>_ensure_data_tabs\<close>, \<open>_focus_tab\<close>,
    \<open>_on_after_import\<close>; composed with the room tab of \<open>DerslikEkrani\<close>, the import
    handlers of \<open>ExcelAktarim\<close> and both parts of the database into the inductive
    \<open>koordinator_uygulamasi\<close> (a coordinator's session: timers, tab clicks and the
    selected tab's handlers, in any interleaving), with the invariant \<open>oturum_inv\<close>
    proved by rule induction.  Proved: the Excel tab is locked only while the department has
    no room (C32); no tab appears twice and the selected tab is enabled; once the 400 ms timer
    has put the note on the Excel tab, adding a room leads to an enabled Excel tab still
    asking for a room (C36).
  \<^item> \<open>Uygulama\<close>: the start of \<open>src/main.py\<close> (\<open>veritabani_baslat\<close>, the test of
    the database file, \<open>varsayilan_veri_yukle\<close>, \<open>giris_sonrasi_cb\<close>), the file as its
    existence, size and tables.  Proved: the default data is never loaded, so on a first
    start the announced admin account does not exist and the login fails (C35).
  \<^item> \<open>OrnekProgram\<close>: the sample schedule writer \<open>ornek_sinav_programi_olustur\<close>
    of \<open>src/veri_deposu.py\<close>, over \<open>plan_kaynagini_hazirla\<close> and the writer
    \<open>program_satiri_yaz\<close> of \<open>Kayit\<close>: the loop \<open>ornek_dongusu\<close> threads the count,
    the warnings and the database, a room conflict becomes a warning and an
    \<open>IntegrityError\<close> ends the whole call with nothing written; today's date is a
    parameter.  Proved: the database invariant is kept and every course is either written or
    warned about (\<open>ornek_program_korur\<close>); on an exam type with no rows every course is
    written with no warning, because the three daily 90-minute slots two hours apart never
    overlap (C37); run again over its own output on the same day it writes nothing and
    reports every course as a conflict with itself (C38); an example shows the
    \<open>IntegrityError\<close> of a run on the next day.
  \<^item> \<open>Listeleme\<close>: the read queries \<open>sinav_programi_listele\<close>,
    \<open>sinav_programi_detay\<close>, \<open>sinav_derslikleri\<close> and \<open>oturma_plani_listele\<close>
    of \<open>src/veri_deposu.py\<close> (inner joins as nested loops over the row lists,
    \<open>ORDER BY\<close> as a stable sort) and the payload that
    \<open>export_sinav_programi_to_excel\<close> hands to the spreadsheet writer.  Proved: after a
    write the listing is the old one plus exactly the new row, still sorted (C39); the
    export's strong swap moves the lecturer into the course name of every course whose name
    contains a title token and drops the exam when there is no lecturer (C40).
  \<^item> this theory: the specification's first scenario across both algorithms; saving
    the planner's output into a cleared exam type never fails (C14); saving the seat engine's
    output never violates the seat table's key (C15); and the whole path of the exam schedule
    screen, from a student import through the course and room lists and the screen's
    \<open>PlanKisit\<close> to \<open>planla\<close>, gives a plan with no room, student or course clash
    (C16).

  Not modelled: the spreadsheet writer \<open>programi_xlsx_yaz\<close> the export calls; the reading of an \<open>.xlsx\<close>
  file into sheets, which is pandas; float and date cells and duplicate column labels of a
  sheet; the course and student list screens, which only display queries of
  \<open>DersKaynagi\<close>; the seating plan screen, whose handlers call functions
  \<open>veri_deposu\<close> does not define; the widgets, message boxes and log files of every
  screen; the reports under \<open>src/raporlar/\<close>, the SQL text of the schema with
  \<open>_migrate\<close>, and the maintenance script, which are input and output only.  Time slots
  are minutes since midnight: the \<open>datetime.time\<close> objects \<open>_to_time\<close> accepts become
  \<open>PZaman\<close> values, and its string branch is in the model.  Date overflow at
  \<open>date.max\<close> is not modelled: days are unbounded integers.  SQLite is taken to write at
  least one page when it creates a table (\<open>sqlite_sayfa\<close>).
\<close>

definition ders_40 :: ders where
  "ders_40 = \<lparr>ders_id = 40, kod = ''BIL101'', sinif = Some 1, ogr_say = 40, ogr_ids = [1001..1040]\<rparr>"

text \<open>One course of 40 students, one room of 40 seats (8 columns, 5 rows, 2-seat desks),
  one day and one slot: the planner places the course in the room, and the seat engine seats
  every student, in roster order, on the 40 seats of the room in the order of the layout
  generator, with no warning.\<close>

theorem senaryo_40_ogrenci:
  "planla ornek_kisit [ders_40] [ornek_derslik] =
     ([\<lparr>y_ders_id = 40, baslangic = combine 739257 600, bitis = combine 739257 675, derslik_ids = [7]\<rparr>], [], False) \<and>
   snd (atama_yap (ogr_ids ders_40) [ornek_derslik]) = [] \<and>
   map snd (fst (atama_yap (ogr_ids ders_40) [ornek_derslik])) = map (\<lambda>(s, c). (7, s, c)) (koltuk_listesi 8 5 2) \<and>
   map fst (fst (atama_yap (ogr_ids ders_40) [ornek_derslik])) = ogr_ids ders_40"
proof (intro conjI)
  show "planla ornek_kisit [ders_40] [ornek_derslik] =
     ([\<lparr>y_ders_id = 40, baslangic = combine 739257 600, bitis = combine 739257 675, derslik_ids = [7]\<rparr>], [], False)"
    by (simp add: plan_simps senaryo_simps ders_40_def)
  show "snd (atama_yap (ogr_ids ders_40) [ornek_derslik]) = []"
    by (simp add: atama_yap_snd ders_40_def oturma_simps ornek_derslik_def koltuk_dizisi_def
        koltuklar_bul_def derslik_koltuk_haritasi_def)
  show "map snd (fst (atama_yap (ogr_ids ders_40) [ornek_derslik])) = map (\<lambda>(s, c). (7, s, c)) (koltuk_listesi 8 5 2)"
    by (simp add: atama_yap_def derslik_doldur_zip ders_40_def oturma_simps ornek_derslik_def koltuk_dizisi_def
        koltuklar_bul_def derslik_koltuk_haritasi_def Let_def map_snd_zip_take)
  show "map fst (fst (atama_yap (ogr_ids ders_40) [ornek_derslik])) = ogr_ids ders_40"
    by (simp add: atama_yap_def derslik_doldur_zip ders_40_def oturma_simps ornek_derslik_def koltuk_dizisi_def
        koltuklar_bul_def derslik_koltuk_haritasi_def Let_def map_fst_zip_take)
qed

text \<open>C14: Saving the planner's output into a department and exam type just cleared never
  fails: no room conflict, no unique-index or link violation is raised, and the database
  invariant holds afterwards (for course ids distinct, as the primary key makes them).\<close>

theorem planla_kaydi_basarili:
  assumes "kayit_inv v" and "distinct (map ders_id dersler)"
  shows "\<exists>v'. sinav_programi_kaydet (sinav_programini_temizle v b t) b t (fst (planla k dersler derslikler)) bek = Inr v' \<and>
              kayit_inv v'"
  by (rule kaydet_plan_basarili [OF assms])

theorem planla_kaydi_basarili_witness:
  "kayit_inv vt_ornek \<and> distinct (map ders_id [ornek_ders1, ornek_ders2]) \<and>
   (\<exists>v'. sinav_programi_kaydet (sinav_programini_temizle vt_ornek 1 ''vize'') 1 ''vize''
           (fst (planla ornek_kisit [ornek_ders1, ornek_ders2] [ornek_derslik])) 15 = Inr v' \<and> kayit_inv v')"
proof -
  have i: "kayit_inv vt_ornek" by (simp add: kayit_inv_def vt_ornek_def sp_oda_ayrik_def)
  have d: "distinct (map ders_id [ornek_ders1, ornek_ders2])" by (simp add: ornek_ders1_def ornek_ders2_def)
  show ?thesis using i d planla_kaydi_basarili [OF i d] by simp
qed

text \<open>C15: Saving the seat engine's assignments for an exam whose seat plan was just cleared
  never violates the primary key of the seat table when the roster has no student twice.\<close>

theorem oturma_kaydi_basarili:
  assumes "distinct ogrenciler"
  shows "\<exists>v'. oturma_plani_kaydet (oturma_plani_temizle v sid) sid (fst (atama_yap ogrenciler derslikler)) = Inr v'"
proof -
  let ?as = "fst (atama_yap ogrenciler derslikler)"
  have "distinct (map fst ?as)"
    using assms by (simp add: atama_yap_ogrenci_onek [of ogrenciler derslikler])
  moreover have "\<not> list_ex (\<lambda>op. op_sinav_id op = sid \<and> op_ogrenci_id op = og) (oturma_plani (oturma_plani_temizle v sid))"
    for og by (auto simp: oturma_plani_temizle_def list_ex_iff)
  ultimately show ?thesis by (simp add: oturma_plani_kaydet_def oturma_ekle_sonuc)
qed

theorem oturma_kaydi_basarili_witness:
  "distinct (ogr_ids ders_40) \<and>
   (\<exists>v'. oturma_plani_kaydet (oturma_plani_temizle vt_ornek 1) 1 (fst (atama_yap (ogr_ids ders_40) [ornek_derslik])) = Inr v')"
proof -
  have d: "distinct (ogr_ids ders_40)" by (simp add: ders_40_def)
  show ?thesis using d oturma_kaydi_basarili [OF d] by simp
qed


text \<open>C16: Along the path of the exam schedule screen (a student import, the course list
  \<open>dersler_ogrsay_ve_alanlar_detayli\<close>, the room list \<open>derslikler_kapasite_listesi\<close>,
  the screen's \<open>PlanKisit\<close> through \<open>__post_init__\<close> and the input layer of
  \<open>planla\<close>), the planner succeeds and its placements have no room double-booking, no
  student conflict and no course placed twice: the import keeps course ids unique, which
  is what the planner's student and course guarantees need.\<close>

theorem ekran_plani_guvenli:
  assumes "ogrencileri_toplu_yaz_ve_kayitla b0 ogrs kayitlar v0 = Inr v" "dvt_inv v0"
  shows "\<exists>p r. post_init (arayuz_kisiti t1 t2 saatler tur sure bekleme nopar gd dahil) = Inr p \<and>
           planla_py (Nesne p) (dersler_ogrsay_ve_alanlar_detayli b v) (derslikler_kapasite_listesi b yv) = Inr r \<and>
           sorted_wrt oda_cakismaz (fst r) \<and>
           sorted_wrt (ogrenci_cakismaz (dersler_ogrsay_ve_alanlar_detayli b v)) (fst r) \<and>
           distinct (map y_ders_id (fst r))"
proof -
  let ?k = "arayuz_plan_kisit t1 t2 saatler tur sure bekleme nopar gd dahil"
  let ?ds = "dersler_ogrsay_ve_alanlar_detayli b v"
  let ?rs = "derslikler_kapasite_listesi b yv"
  have "dvt_inv v" by (rule ogrenci_aktarimi_korur [OF assms])
  then have d: "distinct (map ders_id ?ds)" by (simp add: dvt_inv_def ders_listesi_kimlikleri)
  let ?p = "(arayuz_kisiti t1 t2 saatler tur sure bekleme nopar gd dahil)\<lparr>pk_slotlar := saatler,
        pk_varsayilan_sure_dk := PInt sure, pk_bekleme_dk := PInt bekleme, pk_tek_seans := PBool nopar,
        pk_ders_sure_map := []\<rparr>"
  have py: "planla_py (Nesne ?p) ?ds ?rs = Inr (planla ?k ?ds ?rs)"
    using kisit_oku_arayuz
    by (simp add: planla_py_def sbind_def planla_def planla_durum_def Let_def)
  have "sorted_wrt oda_cakismaz (fst (planla ?k ?ds ?rs))"
    using planla_oda_inv [of ?k ?ds ?rs] by (simp add: planla_fst oda_inv_def)
  moreover have "sorted_wrt (ogrenci_cakismaz ?ds) (fst (planla ?k ?ds ?rs))"
    using planla_ogr_inv [OF d, of ?k ?rs] by (simp add: planla_fst ogr_inv_def)
  moreover have "distinct (map y_ders_id (fst (planla ?k ?ds ?rs)))"
    using planla_bir_inv [OF d, of ?k ?rs] by (simp add: planla_fst bir_inv_def)
  ultimately show ?thesis using py post_init_arayuz by blast
qed

theorem ekran_plani_guvenli_witness:
  "ogrencileri_toplu_yaz_ve_kayitla 1 [\<lparr>oi_no = Some ''100'', oi_adsoyad = Some ''Ada'', oi_sinif = None\<rparr>]
      [(''100'', ''BIL101'')] dvt_ornek = Inr (dvt_ornek\<lparr>dv_ogrenci_ders := [(1, 7)]\<rparr>) \<and> dvt_inv dvt_ornek \<and>
   (\<exists>p r. post_init (arayuz_kisiti 738000 738004 [540, 780] ''vize'' 75 15 False [5, 6] [7]) = Inr p \<and>
      planla_py (Nesne p) (dersler_ogrsay_ve_alanlar_detayli 1 (dvt_ornek\<lparr>dv_ogrenci_ders := [(1, 7)]\<rparr>))
        (derslikler_kapasite_listesi 1 yvt_ornek_d) = Inr r \<and>
      sorted_wrt oda_cakismaz (fst r) \<and>
      sorted_wrt (ogrenci_cakismaz (dersler_ogrsay_ve_alanlar_detayli 1 (dvt_ornek\<lparr>dv_ogrenci_ders := [(1, 7)]\<rparr>))) (fst r) \<and>
      distinct (map y_ders_id (fst r)))"
proof -
  have r: "ogrencileri_toplu_yaz_ve_kayitla 1 [\<lparr>oi_no = Some ''100'', oi_adsoyad = Some ''Ada'', oi_sinif = None\<rparr>]
      [(''100'', ''BIL101'')] dvt_ornek = Inr (dvt_ornek\<lparr>dv_ogrenci_ders := [(1, 7)]\<rparr>)"
    by (simp add: ogrencileri_toplu_yaz_ve_kayitla_def ogrenci_upsert_def sbind_def dvt_ornek_def kayit_ekle_def
        ogr_haritasi_def ders_haritasi_def re_derskodu_def ascii_harf_def kod_kuyrugu_def rakam_mi_def)
  have i: "dvt_inv dvt_ornek" by (simp add: dvt_inv_def dvt_ornek_def)
  show ?thesis
    using r i ekran_plani_guvenli [OF r i, of 738000 738004 "[540, 780]" "''vize''" 75 15 False "[5, 6]" "[7]" 1 yvt_ornek_d]
    by blast
qed

end
